(* ===== verification/Go_Prelude.thy ===== *)
theory Go_Prelude
  imports Main "HOL-Library.Finite_Map" "HOL-Library.Multiset" "HOL-Library.Sublist"
begin

text \<open>
  What every component of the operator shares: the effect type of a Go function, the
  rules that compute what such a function does, Go errors, Go maps with an unspecified
  iteration order, and the few functions of the Go package strings that the source uses.
\<close>

section \<open>Collections of facts\<close>

named_theorems wp_simps \<open>equations that compute the weakest precondition of a program\<close>

section \<open>Effects of a Go function\<close>

text \<open>
  A Go function that talks to a service is a function of the outside world. It returns or
  panics, it leaves a list of the calls it made with their results, and it leaves a new
  world. The world is a type variable throughout: what a call does to it is up to the
  service. The list of calls is what the source does; nothing in the source reads it.
\<close>

datatype 'a outcome = Returned 'a | Panicked

type_synonym ('w, 'e, 'a) go = "'w \<Rightarrow> 'a outcome \<times> 'e list \<times> 'w"

definition ret :: "'a \<Rightarrow> ('w, 'e, 'a) go" where
  "ret x = (\<lambda>w. (Returned x, [], w))"

definition panic :: "('w, 'e, 'a) go" where
  "panic = (\<lambda>w. (Panicked, [], w))"

text \<open>Run \<open>m\<close>, then go on with its value; a panic of \<open>m\<close> ends the whole function.\<close>

definition exec :: "('w, 'e, 'a) go \<Rightarrow> ('a \<Rightarrow> ('w, 'e, 'b) go) \<Rightarrow> ('w, 'e, 'b) go" where
  "exec m f = (\<lambda>w. case m w of (r, es, w') \<Rightarrow>
     (case r of
        Panicked \<Rightarrow> (Panicked, es, w')
      | Returned x \<Rightarrow> (case f x w' of (r', es', w'') \<Rightarrow> (r', es @ es', w''))))"

text \<open>One call of the outside world, recorded with its result.\<close>

definition call :: "('w \<Rightarrow> 'a \<times> 'w) \<Rightarrow> ('a \<Rightarrow> 'e) \<Rightarrow> ('w, 'e, 'a) go" where
  "call f ev = (\<lambda>w. case f w of (x, w') \<Rightarrow> (Returned x, [ev x], w'))"

text \<open>The value of a pure function that may panic.\<close>

definition lift_outcome :: "'a outcome \<Rightarrow> ('w, 'e, 'a) go" where
  "lift_outcome r = (\<lambda>w. (r, [], w))"

text \<open>Reading what the runtime decides (an iteration order) without changing the world.\<close>

definition asks :: "('w \<Rightarrow> 'a) \<Rightarrow> ('w, 'e, 'a) go" where
  "asks f = (\<lambda>w. (Returned (f w), [], w))"

text \<open>A range loop over a list whose body may panic.\<close>

fun fold_outcome :: "('a \<Rightarrow> 's \<Rightarrow> 's outcome) \<Rightarrow> 'a list \<Rightarrow> 's \<Rightarrow> 's outcome" where
  "fold_outcome f [] s = Returned s"
| "fold_outcome f (x # xs) s =
     (case f x s of Panicked \<Rightarrow> Panicked | Returned s' \<Rightarrow> fold_outcome f xs s')"

text \<open>Sequencing pure functions that may panic, and updating an element by its index.\<close>

definition and_then :: "'a outcome \<Rightarrow> ('a \<Rightarrow> 'b outcome) \<Rightarrow> 'b outcome" where
  "and_then r f = (case r of Panicked \<Rightarrow> Panicked | Returned x \<Rightarrow> f x)"

lemma and_then_simps [simp]:
  "and_then (Returned x) f = f x" "and_then Panicked f = Panicked"
  by (simp_all add: and_then_def)

fun at_index :: "nat \<Rightarrow> ('a \<Rightarrow> 'a outcome) \<Rightarrow> 'a list \<Rightarrow> 'a list outcome" where
  "at_index n f [] = Panicked"
| "at_index 0 f (x # xs) = and_then (f x) (\<lambda>y. Returned (y # xs))"
| "at_index (Suc n) f (x # xs) = and_then (at_index n f xs) (\<lambda>ys. Returned (x # ys))"

lemma at_index_returns:
  "n < length xs \<Longrightarrow> f (xs ! n) = Returned y \<Longrightarrow> at_index n f xs = Returned (xs[n := y])"
  by (induction n f xs rule: at_index.induct) auto

lemma at_index_eq:
  "at_index n f xs =
     (if n < length xs then and_then (f (xs ! n)) (\<lambda>y. Returned (xs[n := y])) else Panicked)"
  by (induction n f xs rule: at_index.induct) (auto simp: and_then_def split: outcome.split)

lemma fold_outcome_append:
  "fold_outcome f (xs @ ys) s =
     (case fold_outcome f xs s of Panicked \<Rightarrow> Panicked | Returned s' \<Rightarrow> fold_outcome f ys s')"
  by (induction xs arbitrary: s) (auto split: outcome.split)

lemma fold_outcome_returns:
  "(\<And>x s. x \<in> set xs \<Longrightarrow> f x s = Returned (g x s)) \<Longrightarrow>
     fold_outcome f xs s = Returned (fold g xs s)"
  by (induction xs arbitrary: s) auto

section \<open>What a program does\<close>

text \<open>\<open>wp m Q w\<close>: run from \<open>w\<close>, the outcome, the calls and the world that \<open>m\<close>
  leaves satisfy \<open>Q\<close>. It covers panics: a panic is an outcome.\<close>

definition wp ::
    "('w, 'e, 'a) go \<Rightarrow> ('a outcome \<Rightarrow> 'e list \<Rightarrow> 'w \<Rightarrow> bool) \<Rightarrow> 'w \<Rightarrow> bool" where
  "wp m Q w = (case m w of (r, es, w') \<Rightarrow> Q r es w')"

lemma wp_ret [wp_simps]: "wp (ret x) Q w = Q (Returned x) [] w"
  by (simp add: wp_def ret_def)

lemma wp_panic [wp_simps]: "wp panic Q w = Q Panicked [] w"
  by (simp add: wp_def panic_def)

lemma wp_exec [wp_simps]:
  "wp (exec m f) Q w =
     wp m (\<lambda>r es w'. case r of Panicked \<Rightarrow> Q Panicked es w'
       | Returned x \<Rightarrow> wp (f x) (\<lambda>r' es' w''. Q r' (es @ es') w'') w') w"
  by (simp add: wp_def exec_def split: prod.split outcome.split)

lemma wp_call [wp_simps]:
  "wp (call f ev) Q w = (case f w of (x, w') \<Rightarrow> Q (Returned x) [ev x] w')"
  by (simp add: wp_def call_def split: prod.split)

lemma wp_lift_outcome [wp_simps]: "wp (lift_outcome r) Q w = Q r [] w"
  by (simp add: wp_def lift_outcome_def)

lemma wp_asks [wp_simps]: "wp (asks f) Q w = Q (Returned (f w)) [] w"
  by (simp add: wp_def asks_def)

lemma wp_mono: "wp m P w \<Longrightarrow> (\<And>r es w'. P r es w' \<Longrightarrow> Q r es w') \<Longrightarrow> wp m Q w"
  by (auto simp: wp_def split: prod.splits)

lemma wp_conj: "wp m P w \<Longrightarrow> wp m Q w \<Longrightarrow> wp m (\<lambda>r es w'. P r es w' \<and> Q r es w') w"
  by (auto simp: wp_def split: prod.splits)

text \<open>The sequencing rule: what is known of the first program is all its successor may use.\<close>

lemma wp_bindI:
  assumes "wp m P w"
    and "\<And>es w'. P Panicked es w' \<Longrightarrow> Q Panicked es w'"
    and "\<And>x es w'. P (Returned x) es w' \<Longrightarrow> wp (f x) (\<lambda>r es' w''. Q r (es @ es') w'') w'"
  shows "wp (exec m f) Q w"
  unfolding wp_exec using assms(1) by (rule wp_mono) (use assms(2,3) in \<open>auto split: outcome.split\<close>)

lemma wpD: "wp m Q w \<Longrightarrow> m w = (r, es, w') \<Longrightarrow> Q r es w'"
  by (simp add: wp_def)

lemma wpI: "(\<And>r es w'. m w = (r, es, w') \<Longrightarrow> Q r es w') \<Longrightarrow> wp m Q w"
  by (simp add: wp_def split: prod.splits)

lemma wp_iff: "wp m Q w = (\<forall>r es w'. m w = (r, es, w') \<longrightarrow> Q r es w')"
  by (auto simp: wp_def split: prod.splits)

lemma exec_assoc: "exec (exec m f) g = exec m (\<lambda>x. exec (f x) g)"
  by (rule ext) (simp add: exec_def split: prod.split outcome.split)

lemma exec_ret_left [simp]: "exec (ret x) f = f x"
  by (rule ext) (simp add: exec_def ret_def)

lemma exec_ret_right [simp]: "exec m ret = m"
  by (rule ext) (simp add: exec_def ret_def split: prod.split outcome.split)

lemma exec_panic [simp]: "exec panic f = panic"
  by (rule ext) (simp add: exec_def panic_def)

text \<open>Running a program for its value on a concrete world.\<close>

lemma ret_apply: "ret x w = (Returned x, [], w)"
  by (simp add: ret_def)

lemma panic_apply: "panic w = (Panicked, [], w)"
  by (simp add: panic_def)

lemmas go_run = ret_apply panic_apply exec_def call_def lift_outcome_def asks_def

subsection \<open>Properties of the calls alone\<close>

text \<open>A program all of whose calls, in any world, satisfy \<open>P\<close>.\<close>

definition only_calls :: "('e \<Rightarrow> bool) \<Rightarrow> ('w, 'e, 'a) go \<Rightarrow> bool" where
  "only_calls P m = (\<forall>w. wp m (\<lambda>r es w'. list_all P es) w)"

lemma only_calls_wp: "only_calls P m \<Longrightarrow> wp m (\<lambda>r es w'. list_all P es) w"
  by (simp add: only_calls_def)

lemma only_calls_ret [simp]: "only_calls P (ret x)"
  by (simp add: only_calls_def wp_simps)

lemma only_calls_panic [simp]: "only_calls P panic"
  by (simp add: only_calls_def wp_simps)

lemma only_calls_asks [simp]: "only_calls P (asks f)"
  by (simp add: only_calls_def wp_simps)

lemma only_calls_lift [simp]: "only_calls P (lift_outcome r)"
  by (simp add: only_calls_def wp_simps)

lemma only_calls_call: "(\<And>x. P (ev x)) \<Longrightarrow> only_calls P (call f ev)"
  by (simp add: only_calls_def wp_simps split: prod.split)

lemma only_calls_exec:
  assumes "only_calls P m" and "\<And>x. only_calls P (f x)"
  shows "only_calls P (exec m f)"
  using assms
  by (fastforce simp: only_calls_def wp_def exec_def split: prod.splits outcome.splits)

lemma only_calls_mono: "only_calls P m \<Longrightarrow> (\<And>e. P e \<Longrightarrow> Q e) \<Longrightarrow> only_calls Q m"
  by (fastforce simp: only_calls_def wp_def list_all_iff split: prod.splits)

lemma only_callsD: "only_calls P m \<Longrightarrow> m w = (r, es, w') \<Longrightarrow> e \<in> set es \<Longrightarrow> P e"
  by (fastforce simp: only_calls_def wp_def list_all_iff split: prod.splits)

subsection \<open>What a program leaves alone\<close>

text \<open>A program that leaves a part of the world as it is.\<close>

definition leaves :: "('w \<Rightarrow> 'x) \<Rightarrow> ('w, 'e, 'a) go \<Rightarrow> bool" where
  "leaves f m = (\<forall>w. wp m (\<lambda>r es w'. f w' = f w) w)"

lemma leavesD: "leaves f m \<Longrightarrow> m w = (r, es, w') \<Longrightarrow> f w' = f w"
  by (auto simp: leaves_def intro: wpD)

lemma leaves_simps [simp]:
  "leaves f (ret x)" "leaves f panic" "leaves f (asks g)" "leaves f (lift_outcome q)"
  by (simp_all add: leaves_def wp_simps)

lemma leaves_call: "(\<And>w. f (snd (g w)) = f w) \<Longrightarrow> leaves f (call g ev)"
  by (simp add: leaves_def wp_call split_beta)

lemma leaves_exec:
  assumes "leaves f m" and "\<And>x. leaves f (k x)"
  shows "leaves f (exec m k)"
  unfolding leaves_def
proof (rule allI, rule wpI)
  fix w r es w'
  assume run: "exec m k w = (r, es, w')"
  obtain r1 es1 w1 where one: "m w = (r1, es1, w1)" by (metis prod_cases3)
  show "f w' = f w"
    using run leavesD [OF assms(1) one] leavesD [OF assms(2)]
    by (auto simp: exec_def one split: outcome.splits prod.splits)
qed

section \<open>Go errors\<close>

text \<open>
  A value of Go's type error, by the ways the source inspects it: a type assertion to
  awserr.Error, apimachinery's IsNotFound, the comparison with gstorage.ErrBucketNotExist.
  Each carries the text its method Error() returns. A result of Go type (T, error) is
  \<open>goerror + T\<close> and a result of type error is \<open>goerror option\<close>, with None for nil.
\<close>

datatype goerror =
    AwsError string string
  | StatusError string string
  | ErrBucketNotExist string
  | PlainError string

fun Error :: "goerror \<Rightarrow> string" where
  "Error (AwsError code txt) = txt"
| "Error (StatusError reason txt) = txt"
| "Error (ErrBucketNotExist txt) = txt"
| "Error (PlainError txt) = txt"

text \<open>fmt.Errorf with the verbs of its format string replaced: the parts of the message in order.\<close>

definition Errorf :: "string list \<Rightarrow> goerror" where
  "Errorf parts = PlainError (concat parts)"

text \<open>The type assertion err.(awserr.Error), with the code it gives access to.\<close>

fun aws_code :: "goerror \<Rightarrow> string option" where
  "aws_code (AwsError code txt) = Some code"
| "aws_code (StatusError reason txt) = None"
| "aws_code (ErrBucketNotExist txt) = None"
| "aws_code (PlainError txt) = None"

fun IsNotFound :: "goerror \<Rightarrow> bool" where
  "IsNotFound (StatusError reason txt) = (reason = ''NotFound'')"
| "IsNotFound (AwsError code txt) = False"
| "IsNotFound (ErrBucketNotExist txt) = False"
| "IsNotFound (PlainError txt) = False"

fun err_of :: "'e + 'a \<Rightarrow> 'e option" where
  "err_of (Inl e) = Some e"
| "err_of (Inr x) = None"

lemma err_of_None_iff [simp]: "err_of r = None \<longleftrightarrow> (\<exists>x. r = Inr x)"
  by (cases r) auto

lemma err_of_Some_iff [simp]: "err_of r = Some e \<longleftrightarrow> r = Inl e"
  by (cases r) auto

lemma map_sum_Inr_iff [simp]: "map_sum f g r = Inr v \<longleftrightarrow> (\<exists>x. r = Inr x \<and> v = g x)"
  by (cases r) auto

lemma aws_code_Some_iff: "aws_code e = Some c \<longleftrightarrow> (\<exists>t. e = AwsError c t)"
  by (cases e) auto

lemma Errorf_simps [simp]: "aws_code (Errorf parts) = None" "IsNotFound (Errorf parts) = False"
  by (simp_all add: Errorf_def)

section \<open>Go maps\<close>

text \<open>
  A Go map with string keys is a finite map; None is the nil map, which reads as empty and
  which reflect.DeepEqual tells apart from an empty one. Go leaves the order of a range
  loop over a map open, so a range loop takes the order from the runtime: a list of the
  keys, each once. The runtime's choice is a parameter, and results hold for every one.
\<close>

type_synonym 'v gomap = "(string, 'v) fmap option"
type_synonym key_order = "string fset \<Rightarrow> string list"

definition entries :: "'v gomap \<Rightarrow> (string, 'v) fmap" where
  "entries m = (case m of None \<Rightarrow> fmempty | Some f \<Rightarrow> f)"

lemma entries_simps [simp]: "entries None = fmempty" "entries (Some f) = f"
  by (simp_all add: entries_def)

definition gomap_get :: "'v gomap \<Rightarrow> string \<Rightarrow> 'v option" where
  "gomap_get m k = fmlookup (entries m) k"

lemma gomap_get_simps [simp]: "gomap_get None k = None" "gomap_get (Some f) k = fmlookup f k"
  by (simp_all add: gomap_get_def)

definition valid_order :: "key_order \<Rightarrow> bool" where
  "valid_order ord = (\<forall>S. distinct (ord S) \<and> set (ord S) = fset S)"

text \<open>The pairs a range loop over \<open>m\<close> visits.\<close>

definition range_over :: "key_order \<Rightarrow> (string, 'v) fmap \<Rightarrow> (string \<times> 'v) list" where
  "range_over ord m = map (\<lambda>k. (k, the (fmlookup m k))) (ord (fmdom m))"

lemma set_range_over:
  assumes "valid_order ord"
  shows "set (range_over ord m) = {(k, v). fmlookup m k = Some v}"
  using assms
  by (auto simp: range_over_def valid_order_def fmlookup_dom_iff image_iff)

lemma in_range_over_iff:
  "valid_order ord \<Longrightarrow> (k, v) \<in> set (range_over ord m) \<longleftrightarrow> fmlookup m k = Some v"
  by (simp add: set_range_over)

lemma keys_range_over [simp]: "map fst (range_over ord m) = ord (fmdom m)"
  by (simp add: range_over_def comp_def)

lemma distinct_range_over: "valid_order ord \<Longrightarrow> distinct (map fst (range_over ord m))"
  by (simp add: valid_order_def)

text \<open>The loop \<open>for k, v := range m { acc[k] = v }\<close> copies the map, in every order.\<close>

definition copy_entries ::
    "(string \<times> 'v) list \<Rightarrow> (string, 'v) fmap \<Rightarrow> (string, 'v) fmap" where
  "copy_entries kvs acc = fold (\<lambda>(k, v) m. fmupd k v m) kvs acc"

lemma copy_entries_simps [simp]:
  "copy_entries [] acc = acc"
  "copy_entries ((k, v) # kvs) acc = copy_entries kvs (fmupd k v acc)"
  by (simp_all add: copy_entries_def)

lemma fmlookup_copy_entries:
  "distinct (map fst kvs) \<Longrightarrow>
   fmlookup (copy_entries kvs acc) k =
     (case map_of kvs k of Some v \<Rightarrow> Some v | None \<Rightarrow> fmlookup acc k)"
proof (induction kvs arbitrary: acc)
  case (Cons kv kvs)
  obtain k' v' where kv: "kv = (k', v')" by (cases kv)
  have "k' \<notin> fst ` set kvs" using Cons.prems kv by simp
  then have "map_of kvs k' = None" by (simp add: map_of_eq_None_iff)
  then show ?case using Cons kv by (simp split: option.split)
qed simp

lemma map_of_range_over:
  assumes "valid_order ord"
  shows "map_of (range_over ord m) k = fmlookup m k"
proof (cases "fmlookup m k")
  case None
  then have "k \<notin> fst ` set (range_over ord m)"
    by (auto simp: set_range_over [OF assms])
  then have "map_of (range_over ord m) k = None" by (simp add: map_of_eq_None_iff)
  with None show ?thesis by simp
next
  case (Some v)
  then have "(k, v) \<in> set (range_over ord m)" by (simp add: in_range_over_iff [OF assms])
  then have "map_of (range_over ord m) k = Some v"
    by (rule map_of_is_SomeI [OF distinct_range_over [OF assms]])
  then show ?thesis using Some by simp
qed

lemma copy_range_over:
  assumes "valid_order ord"
  shows "copy_entries (range_over ord m) fmempty = m"
proof (rule fmap_ext)
  fix k
  show "fmlookup (copy_entries (range_over ord m) fmempty) k = fmlookup m k"
    using fmlookup_copy_entries [OF distinct_range_over [OF assms], of m fmempty k]
    by (simp add: map_of_range_over [OF assms] split: option.split)
qed

section \<open>Package strings\<close>

text \<open>
  A Go string is a list of bytes. \<open>ToLower\<close> and \<open>ToUpper\<close> are strings.ToLower and
  strings.ToUpper on ASCII strings, which is what the operator passes to them: a platform
  type, a region, an infrastructure name and constants.
\<close>

definition char_in :: "char \<Rightarrow> char \<Rightarrow> char \<Rightarrow> bool" where
  "char_in lo hi c = (of_char lo \<le> (of_char c :: nat) \<and> of_char c \<le> (of_char hi :: nat))"

definition lower_char :: "char \<Rightarrow> char" where
  "lower_char c = (if char_in CHR ''A'' CHR ''Z'' c then char_of (of_char c + 32 :: nat) else c)"

definition upper_char :: "char \<Rightarrow> char" where
  "upper_char c = (if char_in CHR ''a'' CHR ''z'' c then char_of (of_char c - 32 :: nat) else c)"

definition ToLower :: "string \<Rightarrow> string" where
  "ToLower s = map lower_char s"

definition ToUpper :: "string \<Rightarrow> string" where
  "ToUpper s = map upper_char s"

text \<open>strings.Contains\<close>

fun Contains :: "string \<Rightarrow> string \<Rightarrow> bool" where
  "Contains [] sub = (sub = [])"
| "Contains (c # cs) sub = (prefix sub (c # cs) \<or> Contains cs sub)"

lemma Contains_iff_sublist: "Contains s sub \<longleftrightarrow> sublist sub s"
  by (induction s) (auto simp: sublist_Cons_right)

lemma lower_char_idem [simp]: "lower_char (lower_char c) = lower_char c"
  by (simp add: lower_char_def char_in_def)

lemma ToLower_idem [simp]: "ToLower (ToLower s) = ToLower s"
  by (simp add: ToLower_def)

lemma length_ToLower [simp]: "length (ToLower s) = length s"
  by (simp add: ToLower_def)

end
