(* ===== verification/Kube_Types.thy ===== *)
theory Kube_Types
  imports Go_Prelude
begin

text \<open>
  The data of the operator: the custom resource of api/v1alpha2, the Kubernetes and Velero
  objects the controller writes, and the infrastructure status it reads. A Go struct is a
  record with the fields the source reads or writes; a field named \<open>..._rest\<close> stands for
  all its other fields, which the source only copies or compares with reflect.DeepEqual. A
  struct literal of the source leaves those at their zero value, \<open>''''\<close>.
\<close>

section \<open>Object metadata\<close>

record OwnerReference =
  or_APIVersion :: string
  or_BlockOwnerDeletion :: "bool option"
  or_Controller :: "bool option"
  or_Kind :: string
  or_Name :: string
  or_UID :: string

record ObjectMeta =
  om_Name :: string
  om_Namespace :: string
  om_UID :: string
  om_Labels :: "string gomap"
  om_OwnerReferences :: "OwnerReference list"
  om_rest :: string

definition object_meta :: "string \<Rightarrow> string \<Rightarrow> ObjectMeta" where
  "object_meta name namespace =
     \<lparr>om_Name = name, om_Namespace = namespace, om_UID = '''', om_Labels = None,
      om_OwnerReferences = [], om_rest = ''''\<rparr>"

record TypeMeta =
  tm_Kind :: string
  tm_APIVersion :: string

section \<open>The VeleroInstall resource (api/v1alpha2/veleroinstall\_types.go)\<close>

text \<open>
  A time is its distance in nanoseconds from Go's zero time. LastSyncTimestamp is a
  pointer, hence an option.
\<close>

type_synonym go_time = int

record StorageBucket =
  sb_Name :: string
  sb_Provisioned :: bool
  sb_LastSyncTimestamp :: "go_time option"

record VeleroInstallStatus =
  vs_StorageBucket :: StorageBucket

record VeleroInstall =
  vi_TypeMeta :: TypeMeta
  vi_ObjectMeta :: ObjectMeta
  vi_Status :: VeleroInstallStatus

record VeleroInstallList =
  vl_TypeMeta :: TypeMeta
  vl_ListMeta :: string
  vl_Items :: "VeleroInstall list"

abbreviation vi_Bucket :: "VeleroInstall \<Rightarrow> StorageBucket" where
  "vi_Bucket i \<equiv> vs_StorageBucket (vi_Status i)"

definition with_bucket :: "(StorageBucket \<Rightarrow> StorageBucket) \<Rightarrow> VeleroInstall \<Rightarrow> VeleroInstall" where
  "with_bucket f i = i\<lparr>vi_Status := (vi_Status i)\<lparr>vs_StorageBucket := f (vi_Bucket i)\<rparr>\<rparr>"

lemma with_bucket_simps [simp]:
  "vi_Bucket (with_bucket f i) = f (vi_Bucket i)"
  "vi_ObjectMeta (with_bucket f i) = vi_ObjectMeta i"
  "vi_TypeMeta (with_bucket f i) = vi_TypeMeta i"
  by (simp_all add: with_bucket_def)

section \<open>Velero objects and the credentials request\<close>

record BSLSpec =
  bsl_Provider :: string
  bsl_Bucket :: string
  bsl_Prefix :: string
  bsl_Config :: "string gomap"
  bsl_CACert :: string
  bslspec_rest :: string

record BackupStorageLocation =
  bsl_ObjectMeta :: ObjectMeta
  bsl_Spec :: BSLSpec
  bsl_rest :: string

record VSLSpec =
  vsl_Provider :: string
  vsl_Config :: "string gomap"
  vslspec_rest :: string

record VolumeSnapshotLocation =
  vsl_ObjectMeta :: ObjectMeta
  vsl_Spec :: VSLSpec
  vsl_rest :: string

record StatementEntry =
  se_Effect :: string
  se_Action :: "string list"
  se_Resource :: string

text \<open>The provider specifications the source builds, and any other a decoder may return.\<close>

datatype ProviderSpec =
    AWSProviderSpec string "StatementEntry list"
  | GCPProviderSpec string "string list" bool
  | OtherProviderSpec string

record ObjectReference =
  oref_Name :: string
  oref_Namespace :: string
  oref_rest :: string

text \<open>ProviderSpec is a pointer to a RawExtension, of which the source reads Raw.\<close>

record CredentialsRequestSpec =
  cr_SecretRef :: ObjectReference
  cr_ProviderSpec :: "string option"
  crspec_rest :: string

record CredentialsRequest =
  cr_ObjectMeta :: ObjectMeta
  cr_TypeMeta :: TypeMeta
  cr_Spec :: CredentialsRequestSpec
  cr_rest :: string

record Secret =
  sec_ObjectMeta :: ObjectMeta
  sec_Data :: "string gomap"
  sec_rest :: string

record CRDSpec =
  crd_Conversion :: "string option"
  crdspec_rest :: string

record CustomResourceDefinition =
  crd_ObjectMeta :: ObjectMeta
  crd_Spec :: CRDSpec
  crd_rest :: string

section \<open>Deployments\<close>

record EnvVarSource =
  evs_FieldRef :: "(string \<times> string) option"
  evs_rest :: string

text \<open>FieldRef is the pair of its APIVersion and FieldPath.\<close>

record EnvVar =
  ev_Name :: string
  ev_Value :: string
  ev_ValueFrom :: "EnvVarSource option"

record ContainerPort =
  cp_Name :: string
  cp_ContainerPort :: int
  cp_Protocol :: string
  cp_rest :: string

record VolumeMount =
  vm_Name :: string
  vm_MountPath :: string
  vm_ReadOnly :: bool
  vm_rest :: string

record Container =
  c_Name :: string
  c_Image :: string
  c_Ports :: "ContainerPort list"
  c_Env :: "EnvVar list"
  c_VolumeMounts :: "VolumeMount list"
  c_TerminationMessagePath :: string
  c_TerminationMessagePolicy :: string
  c_rest :: string

datatype VolumeSource =
    SecretVolume string "int option"
  | ConfigMapVolume string "int option" "(string \<times> string) list"
  | OtherVolume string

record Volume =
  vol_Name :: string
  vol_Source :: VolumeSource

record Toleration =
  tol_Key :: string
  tol_Operator :: string
  tol_Effect :: string
  tol_rest :: string

record NodeSelectorRequirement =
  nsr_Key :: string
  nsr_Operator :: string
  nsr_Values :: "string list"

text \<open>Preferred terms carry a weight; a term is the list of its match expressions.\<close>

record NodeAffinity =
  na_Preferred :: "(int \<times> NodeSelectorRequirement list) list"
  na_Required :: "NodeSelectorRequirement list list option"

record PodSpec =
  ps_Volumes :: "Volume list"
  ps_InitContainers :: "Container list"
  ps_Containers :: "Container list"
  ps_DeprecatedServiceAccount :: string
  ps_ServiceAccountName :: string
  ps_DNSPolicy :: string
  ps_SchedulerName :: string
  ps_SecurityContext :: "string option"
  ps_TerminationGracePeriodSeconds :: "int option"
  ps_Tolerations :: "Toleration list"
  ps_Affinity :: "NodeAffinity option"
  ps_rest :: string

record PodTemplateSpec =
  pt_Labels :: "string gomap"
  pt_Spec :: PodSpec
  pt_rest :: string

record DeploymentStrategy =
  ds_Type :: string
  ds_MaxUnavailable :: "string option"
  ds_MaxSurge :: "string option"

record DeploymentSpec =
  d_Replicas :: "int option"
  d_RevisionHistoryLimit :: "int option"
  d_ProgressDeadlineSeconds :: "int option"
  d_Strategy :: DeploymentStrategy
  d_Template :: PodTemplateSpec
  dspec_rest :: string

record Deployment =
  d_ObjectMeta :: ObjectMeta
  d_Spec :: DeploymentSpec
  d_rest :: string

text \<open>The options of veleroInstall.Deployment the source passes.\<close>

datatype podTemplateOption =
    WithEnvFromSecretKey string string string
  | WithPlugins "string list"
  | WithImage string

section \<open>Services and service monitors\<close>

record ServicePort =
  sp_Name :: string
  sp_Protocol :: string
  sp_Port :: int
  sp_TargetPort :: int
  sp_rest :: string

record ServiceSpec =
  ss_Ports :: "ServicePort list"
  ss_Selector :: "string gomap"
  ss_Type :: string
  ss_SessionAffinity :: string
  ss_ClusterIP :: string
  ss_ClusterIPs :: "string list"
  ss_IPFamilies :: "string list"
  ss_IPFamilyPolicy :: "string option"
  ss_InternalTrafficPolicy :: "string option"
  ss_rest :: string

record Service =
  svc_TypeMeta :: TypeMeta
  svc_ObjectMeta :: ObjectMeta
  svc_Spec :: ServiceSpec
  svc_rest :: string

text \<open>An Endpoint is built from its port name alone.\<close>

record Endpoint =
  ep_Port :: string
  ep_rest :: string

record ServiceMonitorSpec =
  sm_MatchLabels :: "string gomap"
  sm_Endpoints :: "Endpoint list"
  smspec_rest :: string

record ServiceMonitor =
  sm_ObjectMeta :: ObjectMeta
  sm_Spec :: ServiceMonitorSpec
  sm_rest :: string

section \<open>The infrastructure status\<close>

type_synonym PlatformType = string

definition AWSPlatformType :: PlatformType where "AWSPlatformType = ''AWS''"
definition GCPPlatformType :: PlatformType where "GCPPlatformType = ''GCP''"
definition NonePlatformType :: PlatformType where "NonePlatformType = ''None''"

lemmas platform_defs = AWSPlatformType_def GCPPlatformType_def NonePlatformType_def

lemma platform_types_distinct [simp]:
  "AWSPlatformType \<noteq> GCPPlatformType" "GCPPlatformType \<noteq> AWSPlatformType"
  by (simp_all add: platform_defs)

record AWSPlatformStatus =
  aws_Region :: string

record GCPPlatformStatus =
  gcp_ProjectID :: string
  gcp_Region :: string

record PlatformStatus =
  pl_Type :: PlatformType
  pl_AWS :: "AWSPlatformStatus option"
  pl_GCP :: "GCPPlatformStatus option"

record InfrastructureStatus =
  is_InfrastructureName :: string
  is_PlatformStatus :: "PlatformStatus option"

end
