(* ===== verification/Cloud_Types.thy ===== *)
theory Cloud_Types
  imports Go_Prelude
begin

text \<open>
  The requests the storage drivers send to Amazon S3 and Google Cloud Storage, as the
  source fills them in. A pointer of the AWS SDK that the source dereferences, or that a
  response may leave nil, is an option; a field the source always sets is a plain value.
\<close>

section \<open>Amazon S3\<close>

record AwsConfig =
  cfg_Region :: string
  cfg_AccessKeyID :: string
  cfg_SecretAccessKey :: string

text \<open>A session of the SDK, and the S3 client made from it, are known by their configuration.\<close>

record CreateBucketInput =
  cb_ACL :: string
  cb_Bucket :: string
  cb_LocationConstraint :: "string option"

text \<open>CreateBucketConfiguration holds the location constraint alone, and is nil if that is None.\<close>

record PutBucketEncryptionInput =
  pbe_Bucket :: string
  pbe_Rules :: "string list"

text \<open>An encryption rule is the SSEAlgorithm applied by default.\<close>

record PublicAccessBlock =
  pab_BlockPublicAcls :: bool
  pab_BlockPublicPolicy :: bool
  pab_IgnorePublicAcls :: bool
  pab_RestrictPublicBuckets :: bool

record LifecycleRule =
  lr_ID :: string
  lr_Status :: string
  lr_Prefix :: string
  lr_Days :: int

record Tag =
  t_Key :: "string option"
  t_Value :: "string option"

record Bucket =
  b_Name :: "string option"
  b_rest :: string

record ListBucketsOutput =
  lbo_Buckets :: "Bucket list"
  lbo_Owner :: string

datatype s3_request =
    ReqCreateBucket CreateBucketInput
  | ReqDeleteBucketTagging string
  | ReqHeadBucket string
  | ReqGetBucketLocation "string option"
  | ReqGetBucketTagging string
  | ReqGetPublicAccessBlock string
  | ReqListBuckets
  | ReqPutBucketEncryption PutBucketEncryptionInput
  | ReqPutBucketLifecycleConfiguration string "LifecycleRule list"
  | ReqPutBucketTagging string "Tag list"
  | ReqPutPublicAccessBlock string PublicAccessBlock

text \<open>What came back: an error, or the part of the output the source reads.\<close>

datatype s3_response =
    RespError goerror
  | RespOk
  | RespLocation "string option"
  | RespTags "Tag list"
  | RespBuckets ListBucketsOutput

section \<open>Google Cloud Storage\<close>

record BucketAttrs =
  ba_Name :: string
  ba_Location :: string
  ba_UniformBucketLevelAccess :: bool
  ba_Labels :: "string gomap"
  ba_rest :: string

text \<open>The labels SetLabel was called with on a BucketAttrsToUpdate.\<close>

type_synonym BucketAttrsToUpdate = "(string, string) fmap"

text \<open>
  A bucket iterator, as its method Next unfolds it: a bucket and the rest, or the end
  (iterator.Done), or an error. Every listing of the service is finite.
\<close>

datatype BucketIterator = IterDone | IterError goerror | IterBucket BucketAttrs BucketIterator

datatype gcs_request =
    GcsCreate string string BucketAttrs
  | GcsAttrs string
  | GcsUpdate string BucketAttrsToUpdate
  | GcsBuckets string

end
