(* ===== verification/Env.thy ===== *)
theory Env
  imports Kube_Types Cloud_Types
begin

text \<open>
  The outside world of the operator: the Kubernetes API server, the S3 and GCS services,
  the Go runtime and the imported libraries. None of it is code of the repository, so it
  is one parameter \<open>E\<close> of the definitions that use it, a record of functions. A service is
  a function of the world, which it may change; a library function is pure. Each call of a
  service is recorded as an event with its result.
\<close>

section \<open>Events\<close>

datatype kkind =
    KindVeleroInstall | KindSecret | KindBackupStorageLocation | KindVolumeSnapshotLocation
  | KindCredentialsRequest | KindDeployment | KindService | KindServiceMonitor
  | KindCustomResourceDefinition

datatype kobj =
    ObjVeleroInstall VeleroInstall
  | ObjSecret Secret
  | ObjBackupStorageLocation BackupStorageLocation
  | ObjVolumeSnapshotLocation VolumeSnapshotLocation
  | ObjCredentialsRequest CredentialsRequest
  | ObjDeployment Deployment
  | ObjService Service
  | ObjServiceMonitor ServiceMonitor
  | ObjCustomResourceDefinition CustomResourceDefinition

fun obj_meta :: "kobj \<Rightarrow> ObjectMeta" where
  "obj_meta (ObjVeleroInstall x) = vi_ObjectMeta x"
| "obj_meta (ObjSecret x) = sec_ObjectMeta x"
| "obj_meta (ObjBackupStorageLocation x) = bsl_ObjectMeta x"
| "obj_meta (ObjVolumeSnapshotLocation x) = vsl_ObjectMeta x"
| "obj_meta (ObjCredentialsRequest x) = cr_ObjectMeta x"
| "obj_meta (ObjDeployment x) = d_ObjectMeta x"
| "obj_meta (ObjService x) = svc_ObjectMeta x"
| "obj_meta (ObjServiceMonitor x) = sm_ObjectMeta x"
| "obj_meta (ObjCustomResourceDefinition x) = crd_ObjectMeta x"

text \<open>What a controller is asked to work on.\<close>

record Request =
  rq_Namespace :: string
  rq_Name :: string

text \<open>The packages that register their types in the scheme, in the order of init.\<close>

datatype api_group =
    ClientGoScheme | ManagedV1alpha2 | ConfigV1 | MonitoringV1 | MinterV1 | ApiextensionsV1 | VeleroV1

text \<open>
  schema.GroupVersion and controller-runtime's scheme.Builder, whose embedded field is
  opaque, and the objects that tell it which types to register.
\<close>

record GroupVersion =
  gv_Group :: string
  gv_Version :: string

record Builder =
  bld_GroupVersion :: GroupVersion
  bld_SchemeBuilder :: string

datatype api_object = NewVeleroInstall | NewVeleroInstallList

text \<open>ctrl.Options and the arguments of the controller builder.\<close>

record ManagerOptions =
  mo_Scheme :: "api_group list"
  mo_MetricsBindAddress :: string
  mo_Port :: int
  mo_HealthProbeBindAddress :: string
  mo_LeaderElection :: bool
  mo_LeaderElectionID :: string
  mo_Namespace :: string

record ControllerWatches =
  cw_For :: kkind
  cw_Watches :: "kkind list"
  cw_Owns :: "kkind list"

text \<open>The steps of main that set up the manager, each of which only succeeds or fails.\<close>

datatype startup_step =
    GetConfigOrDie | NewManager ManagerOptions | BecomeLeader string | GetConfig
  | NewStartupClient "api_group list" | CompleteController ControllerWatches
  | AddHealthzCheck string | AddReadyzCheck string | StartManager

datatype event =
    KGet kkind string string "goerror + kobj"
  | KCreate kobj "goerror option"
  | KUpdate kobj "goerror option"
  | KStatusUpdate VeleroInstall "goerror option"
  | AwsNewSession AwsConfig "goerror option"
  | S3Call AwsConfig s3_request s3_response
  | GcsCredentials string "goerror option"
  | GcsNewClient string "goerror option"
  | GcsCall string gcs_request "goerror option"
  | NewUUID string
  | Now go_time
  | PlatformClient "goerror option"
  | PlatformStatusRead "goerror + InfrastructureStatus"
  | Startup startup_step "goerror option"

text \<open>The events that ask the API server to change an object, and those that ask a cloud to.\<close>

fun is_kube_write :: "event \<Rightarrow> bool" where
  "is_kube_write (KCreate ob r) = True"
| "is_kube_write (KUpdate ob r) = True"
| "is_kube_write (KStatusUpdate i r) = True"
| "is_kube_write e = False"

fun s3_request_writes :: "s3_request \<Rightarrow> bool" where
  "s3_request_writes (ReqHeadBucket b) = False"
| "s3_request_writes (ReqGetBucketLocation b) = False"
| "s3_request_writes (ReqGetBucketTagging b) = False"
| "s3_request_writes (ReqGetPublicAccessBlock b) = False"
| "s3_request_writes ReqListBuckets = False"
| "s3_request_writes q = True"

fun gcs_request_writes :: "gcs_request \<Rightarrow> bool" where
  "gcs_request_writes (GcsAttrs b) = False"
| "gcs_request_writes (GcsBuckets p) = False"
| "gcs_request_writes q = True"

fun is_cloud_write :: "event \<Rightarrow> bool" where
  "is_cloud_write (S3Call c q r) = s3_request_writes q"
| "is_cloud_write (GcsCall c q r) = gcs_request_writes q"
| "is_cloud_write e = False"

fun is_status_update :: "event \<Rightarrow> bool" where
  "is_status_update (KStatusUpdate i r) = True"
| "is_status_update e = False"

text \<open>An event that asks for no change at all.\<close>

definition reads :: "event \<Rightarrow> bool" where
  "reads e = (\<not> is_kube_write e \<and> \<not> is_cloud_write e)"

text \<open>
  The calls of a cloud's services that only read. The operator never asks S3 for the block
  on public access, which the interface of its client offers.
\<close>

fun driver_request :: "s3_request \<Rightarrow> bool" where
  "driver_request (ReqGetPublicAccessBlock b) = False"
| "driver_request q = True"

fun of_a_cloud :: "event \<Rightarrow> bool" where
  "of_a_cloud (KGet k n ns r) = False"
| "of_a_cloud (S3Call c q r) = driver_request q"
| "of_a_cloud e = True"

definition cloud_reads :: "event \<Rightarrow> bool" where
  "cloud_reads e = (reads e \<and> of_a_cloud e)"

lemma cloud_reads_reads: "cloud_reads e \<Longrightarrow> reads e"
  by (simp add: cloud_reads_def)


lemma is_status_update_kube_write: "is_status_update e \<Longrightarrow> is_kube_write e"
  by (cases e) auto

definition no_kube_writes :: "event list \<Rightarrow> bool" where
  "no_kube_writes es = list_all (\<lambda>e. \<not> is_kube_write e) es"

lemma no_kube_writes_simps [simp]:
  "no_kube_writes []"
  "no_kube_writes (es @ es') = (no_kube_writes es \<and> no_kube_writes es')"
  "no_kube_writes (e # es) = (\<not> is_kube_write e \<and> no_kube_writes es)"
  by (simp_all add: no_kube_writes_def)

lemma no_kube_writes_reads: "list_all reads es \<Longrightarrow> no_kube_writes es"
  by (auto simp: no_kube_writes_def reads_def list_all_iff)

section \<open>The services\<close>

text \<open>
  One kind of object behind the client of controller-runtime. Get takes a name and a
  namespace. Create and Update return the object as the server answers with it, which is
  what the client decodes into its argument.
\<close>

record ('w, 'o) resource =
  r_Get :: "string \<Rightarrow> string \<Rightarrow> 'w \<Rightarrow> (goerror + 'o) \<times> 'w"
  r_Create :: "'o \<Rightarrow> 'w \<Rightarrow> (goerror + 'o) \<times> 'w"
  r_Update :: "'o \<Rightarrow> 'w \<Rightarrow> (goerror + 'o) \<times> 'w"

record 'w kube_api =
  k_VeleroInstall :: "('w, VeleroInstall) resource"
  k_StatusUpdate :: "VeleroInstall \<Rightarrow> 'w \<Rightarrow> (goerror + VeleroInstall) \<times> 'w"
  k_Secret :: "('w, Secret) resource"
  k_BackupStorageLocation :: "('w, BackupStorageLocation) resource"
  k_VolumeSnapshotLocation :: "('w, VolumeSnapshotLocation) resource"
  k_CredentialsRequest :: "('w, CredentialsRequest) resource"
  k_Deployment :: "('w, Deployment) resource"
  k_Service :: "('w, Service) resource"
  k_ServiceMonitor :: "('w, ServiceMonitor) resource"
  k_CustomResourceDefinition :: "('w, CustomResourceDefinition) resource"

text \<open>The operations of the SDK's S3 client, for the configuration of its session.\<close>

record 'w aws_api =
  aws_NewSession :: "AwsConfig \<Rightarrow> 'w \<Rightarrow> goerror option \<times> 'w"
  s3_CreateBucket :: "AwsConfig \<Rightarrow> CreateBucketInput \<Rightarrow> 'w \<Rightarrow> (goerror + unit) \<times> 'w"
  s3_DeleteBucketTagging :: "AwsConfig \<Rightarrow> string \<Rightarrow> 'w \<Rightarrow> (goerror + unit) \<times> 'w"
  s3_HeadBucket :: "AwsConfig \<Rightarrow> string \<Rightarrow> 'w \<Rightarrow> (goerror + unit) \<times> 'w"
  s3_GetBucketLocation :: "AwsConfig \<Rightarrow> string option \<Rightarrow> 'w \<Rightarrow> (goerror + string option) \<times> 'w"
  s3_GetBucketTagging :: "AwsConfig \<Rightarrow> string \<Rightarrow> 'w \<Rightarrow> (goerror + Tag list) \<times> 'w"
  s3_GetPublicAccessBlock :: "AwsConfig \<Rightarrow> string \<Rightarrow> 'w \<Rightarrow> (goerror + unit) \<times> 'w"
  s3_ListBuckets :: "AwsConfig \<Rightarrow> 'w \<Rightarrow> (goerror + ListBucketsOutput) \<times> 'w"
  s3_PutBucketEncryption :: "AwsConfig \<Rightarrow> PutBucketEncryptionInput \<Rightarrow> 'w \<Rightarrow> (goerror + unit) \<times> 'w"
  s3_PutBucketLifecycleConfiguration ::
    "AwsConfig \<Rightarrow> string \<Rightarrow> LifecycleRule list \<Rightarrow> 'w \<Rightarrow> (goerror + unit) \<times> 'w"
  s3_PutBucketTagging :: "AwsConfig \<Rightarrow> string \<Rightarrow> Tag list \<Rightarrow> 'w \<Rightarrow> (goerror + unit) \<times> 'w"
  s3_PutPublicAccessBlock ::
    "AwsConfig \<Rightarrow> string \<Rightarrow> PublicAccessBlock \<Rightarrow> 'w \<Rightarrow> (goerror + unit) \<times> 'w"

text \<open>GCS: credentials and a client are known by the string that identifies them.\<close>

record 'w gcs_api =
  gcs_CredentialsFromJSON :: "string \<Rightarrow> 'w \<Rightarrow> (goerror + string) \<times> 'w"
  gcs_NewClient :: "string \<Rightarrow> 'w \<Rightarrow> (goerror + string) \<times> 'w"
  gcs_Create :: "string \<Rightarrow> string \<Rightarrow> string \<Rightarrow> BucketAttrs \<Rightarrow> 'w \<Rightarrow> goerror option \<times> 'w"
  gcs_Attrs :: "string \<Rightarrow> string \<Rightarrow> 'w \<Rightarrow> (goerror + BucketAttrs) \<times> 'w"
  gcs_Update :: "string \<Rightarrow> string \<Rightarrow> BucketAttrsToUpdate \<Rightarrow> 'w \<Rightarrow> (goerror + BucketAttrs) \<times> 'w"
  gcs_Buckets :: "string \<Rightarrow> string \<Rightarrow> 'w \<Rightarrow> BucketIterator \<times> 'w"

text \<open>
  The Go runtime (clock, random identifiers, map order, environment, the arguments of the
  command line after the program's name) and platformutils.
\<close>

record 'w runtime_api =
  rt_Now :: "'w \<Rightarrow> go_time \<times> 'w"
  rt_NewUUID :: "'w \<Rightarrow> string \<times> 'w"
  rt_Order :: "'w \<Rightarrow> key_order"
  rt_PlatformClient :: "'w \<Rightarrow> goerror option \<times> 'w"
  rt_GetInfrastructureStatus :: "'w \<Rightarrow> (goerror + InfrastructureStatus) \<times> 'w"
  rt_LookupEnv :: "string \<Rightarrow> 'w \<Rightarrow> string option"
  rt_Args :: "'w \<Rightarrow> string list"
  rt_Startup :: "startup_step \<Rightarrow> 'w \<Rightarrow> goerror option \<times> 'w"

text \<open>
  Pure library functions: the request validators of the AWS SDK, endpoints, the object
  constructors of velero/pkg/install, the credentials request codec, controllerutil,
  platformutils, the constructors of operator-custom-metrics, the registrations of types,
  the requests that controller-runtime enqueues for the owner of an object, and the command
  line flags that imported packages have registered, with what their values accept.
\<close>

datatype flag_kind = BoolFlag | ValueFlag

record libraries =
  lib_Validate :: "s3_request \<Rightarrow> goerror option"
  lib_PartitionForRegion :: "string \<Rightarrow> string option"
  lib_BackupStorageLocation ::
    "string \<Rightarrow> string \<Rightarrow> string \<Rightarrow> string \<Rightarrow> string gomap \<Rightarrow> string \<Rightarrow> BackupStorageLocation"
  lib_VolumeSnapshotLocation :: "string \<Rightarrow> string \<Rightarrow> string gomap \<Rightarrow> VolumeSnapshotLocation"
  lib_Deployment :: "string \<Rightarrow> podTemplateOption list \<Rightarrow> Deployment"
  lib_AllCRDs :: "string list"
  lib_FromUnstructured :: "string \<Rightarrow> goerror + CustomResourceDefinition"
  lib_EncodeProviderSpec :: "ProviderSpec \<Rightarrow> goerror + string"
  lib_minterv1_GroupVersion :: string
  lib_corev1_GroupVersion :: string
  lib_minterAddToScheme :: "goerror option"
  lib_Decode :: "string \<Rightarrow> goerror + ProviderSpec"
  lib_SetControllerReference :: "VeleroInstall \<Rightarrow> ObjectMeta \<Rightarrow> goerror + ObjectMeta"
  lib_IsPlatformSupported :: "PlatformType \<Rightarrow> PlatformType list \<Rightarrow> bool"
  lib_opmetrics_GenerateService ::
    "int \<Rightarrow> string \<Rightarrow> string \<Rightarrow> string \<Rightarrow> string gomap \<Rightarrow> Service option \<times> goerror option"
  lib_opmetrics_GenerateServiceMonitor :: "Service \<Rightarrow> ServiceMonitor"
  lib_Register :: "api_object list \<Rightarrow> Builder \<Rightarrow> Builder"
  lib_Builder_AddToScheme :: "Builder \<Rightarrow> goerror option"
  lib_AddToScheme :: "api_group \<Rightarrow> goerror option"
  lib_OwnerRequests :: "kkind \<Rightarrow> ObjectMeta \<Rightarrow> Request list"
  lib_Flag :: "string \<Rightarrow> flag_kind option"
  lib_FlagSet :: "string \<Rightarrow> string \<Rightarrow> goerror option"

record 'w env =
  e_kube :: "'w kube_api"
  e_aws :: "'w aws_api"
  e_gcs :: "'w gcs_api"
  e_rt :: "'w runtime_api"
  e_lib :: libraries

type_synonym ('w, 'a) prog = "('w, event, 'a) go"

section \<open>The calls of the Kubernetes client\<close>

text \<open>The client's methods are generic in the object type: a handle says which one.\<close>

record ('w, 'o) handle =
  h_resource :: "'w kube_api \<Rightarrow> ('w, 'o) resource"
  h_kind :: kkind
  h_obj :: "'o \<Rightarrow> kobj"

definition VeleroInstalls :: "('w, VeleroInstall) handle" where
  "VeleroInstalls = \<lparr>h_resource = k_VeleroInstall, h_kind = KindVeleroInstall,
     h_obj = ObjVeleroInstall\<rparr>"
definition Secrets :: "('w, Secret) handle" where
  "Secrets = \<lparr>h_resource = k_Secret, h_kind = KindSecret, h_obj = ObjSecret\<rparr>"
definition BSLs :: "('w, BackupStorageLocation) handle" where
  "BSLs = \<lparr>h_resource = k_BackupStorageLocation, h_kind = KindBackupStorageLocation,
     h_obj = ObjBackupStorageLocation\<rparr>"
definition VSLs :: "('w, VolumeSnapshotLocation) handle" where
  "VSLs = \<lparr>h_resource = k_VolumeSnapshotLocation, h_kind = KindVolumeSnapshotLocation,
     h_obj = ObjVolumeSnapshotLocation\<rparr>"
definition CRs :: "('w, CredentialsRequest) handle" where
  "CRs = \<lparr>h_resource = k_CredentialsRequest, h_kind = KindCredentialsRequest,
     h_obj = ObjCredentialsRequest\<rparr>"
definition Deployments :: "('w, Deployment) handle" where
  "Deployments = \<lparr>h_resource = k_Deployment, h_kind = KindDeployment, h_obj = ObjDeployment\<rparr>"
definition Services :: "('w, Service) handle" where
  "Services = \<lparr>h_resource = k_Service, h_kind = KindService, h_obj = ObjService\<rparr>"
definition ServiceMonitors :: "('w, ServiceMonitor) handle" where
  "ServiceMonitors = \<lparr>h_resource = k_ServiceMonitor, h_kind = KindServiceMonitor,
     h_obj = ObjServiceMonitor\<rparr>"
definition CRDs :: "('w, CustomResourceDefinition) handle" where
  "CRDs = \<lparr>h_resource = k_CustomResourceDefinition, h_kind = KindCustomResourceDefinition,
     h_obj = ObjCustomResourceDefinition\<rparr>"

lemmas handle_defs [simp] = VeleroInstalls_def Secrets_def BSLs_def VSLs_def CRs_def
  Deployments_def Services_def ServiceMonitors_def CRDs_def

definition Get ::
    "('w, 'o) handle \<Rightarrow> 'w env \<Rightarrow> string \<Rightarrow> string \<Rightarrow> ('w, goerror + 'o) prog" where
  "Get h E name namespace =
     call (r_Get (h_resource h (e_kube E)) name namespace)
       (\<lambda>r. KGet (h_kind h) name namespace (map_sum id (h_obj h) r))"

definition Create :: "('w, 'o) handle \<Rightarrow> 'w env \<Rightarrow> 'o \<Rightarrow> ('w, goerror + 'o) prog" where
  "Create h E x =
     call (r_Create (h_resource h (e_kube E)) x) (\<lambda>r. KCreate (h_obj h x) (err_of r))"

definition Update :: "('w, 'o) handle \<Rightarrow> 'w env \<Rightarrow> 'o \<Rightarrow> ('w, goerror + 'o) prog" where
  "Update h E x =
     call (r_Update (h_resource h (e_kube E)) x) (\<lambda>r. KUpdate (h_obj h x) (err_of r))"

definition Status_Update :: "'w env \<Rightarrow> VeleroInstall \<Rightarrow> ('w, goerror + VeleroInstall) prog" where
  "Status_Update E i = call (k_StatusUpdate (e_kube E) i) (\<lambda>r. KStatusUpdate i (err_of r))"

section \<open>The calls of the runtime\<close>

definition time_Now :: "'w env \<Rightarrow> ('w, go_time) prog" where
  "time_Now E = call (rt_Now (e_rt E)) Now"

definition uuid_New :: "'w env \<Rightarrow> ('w, string) prog" where
  "uuid_New E = call (rt_NewUUID (e_rt E)) NewUUID"

definition current_order :: "'w env \<Rightarrow> ('w, key_order) prog" where
  "current_order E = asks (rt_Order (e_rt E))"

definition platformutils_NewClient :: "'w env \<Rightarrow> ('w, goerror option) prog" where
  "platformutils_NewClient E = call (rt_PlatformClient (e_rt E)) PlatformClient"

definition GetInfrastructureStatus :: "'w env \<Rightarrow> ('w, goerror + InfrastructureStatus) prog" where
  "GetInfrastructureStatus E =
     call (rt_GetInfrastructureStatus (e_rt E)) PlatformStatusRead"

definition LookupEnv :: "'w env \<Rightarrow> string \<Rightarrow> ('w, string option) prog" where
  "LookupEnv E var = asks (rt_LookupEnv (e_rt E) var)"

definition os_Args :: "'w env \<Rightarrow> ('w, string list) prog" where
  "os_Args E = asks (rt_Args (e_rt E))"

definition startup :: "'w env \<Rightarrow> startup_step \<Rightarrow> ('w, goerror option) prog" where
  "startup E step = call (rt_Startup (e_rt E) step) (Startup step)"

lemmas env_calls = LookupEnv_def os_Args_def startup_def Get_def Create_def Update_def Status_Update_def time_Now_def uuid_New_def
  current_order_def platformutils_NewClient_def GetInfrastructureStatus_def

text \<open>Every iteration order the runtime may choose visits each key once.\<close>

definition valid_runtime :: "'w env \<Rightarrow> bool" where
  "valid_runtime E = (\<forall>w. valid_order (rt_Order (e_rt E) w))"

text \<open>
  The documented behaviour of a status update that succeeds: the server answers with the
  object it stored, whose status is the one sent. It keeps times to the second, so this is
  promised for a status whose time is a whole second, as every time it has sent out is.
\<close>

definition whole_seconds :: "go_time option \<Rightarrow> bool" where
  "whole_seconds t = (case t of None \<Rightarrow> True | Some x \<Rightarrow> x mod 1000000000 = 0)"

definition echoes_status :: "'w env \<Rightarrow> bool" where
  "echoes_status E = (\<forall>i w i' w'. k_StatusUpdate (e_kube E) i w = (Inr i', w') \<longrightarrow>
     whole_seconds (sb_LastSyncTimestamp (vi_Bucket i)) \<longrightarrow> vi_Status i' = vi_Status i)"

end
