(* ===== verification/Ensure_Spec.thy ===== *)
theory Ensure_Spec
  imports Env
begin

text \<open>
  The contract of the blocks that put one object of the cluster in its wanted state, which
  the provisioning of a Velero installation, the installation of its resource definitions
  and the metrics of the operator repeat: the trace such a block leaves, and a locale with
  its laws. Each block of the source is an interpretation.
\<close>

section \<open>The trace of a block\<close>

fun kind_of :: "kobj \<Rightarrow> kkind" where
  "kind_of (ObjVeleroInstall x) = KindVeleroInstall"
| "kind_of (ObjSecret x) = KindSecret"
| "kind_of (ObjBackupStorageLocation x) = KindBackupStorageLocation"
| "kind_of (ObjVolumeSnapshotLocation x) = KindVolumeSnapshotLocation"
| "kind_of (ObjCredentialsRequest x) = KindCredentialsRequest"
| "kind_of (ObjDeployment x) = KindDeployment"
| "kind_of (ObjService x) = KindService"
| "kind_of (ObjServiceMonitor x) = KindServiceMonitor"
| "kind_of (ObjCustomResourceDefinition x) = KindCustomResourceDefinition"

text \<open>
  One lookup of the object's kind and key, then at most one write of that kind: a creation
  when nothing was found, an update when something was. A write's error is the block's.
\<close>

inductive block_run ::
    "kkind \<Rightarrow> string \<times> string \<Rightarrow> goerror option outcome \<Rightarrow> event list \<Rightarrow> bool" where
  up_to_date: "block_run k (n, ns) (Returned None) [KGet k n ns (Inr ob)]"
| unread: "\<not> IsNotFound err \<Longrightarrow> block_run k (n, ns) (Returned (Some err)) [KGet k n ns (Inl err)]"
| unowned: "IsNotFound err \<Longrightarrow> block_run k (n, ns) (Returned (Some err')) [KGet k n ns (Inl err)]"
| creation: "IsNotFound err \<Longrightarrow> kind_of ob = k \<Longrightarrow>
     block_run k (n, ns) (Returned res) [KGet k n ns (Inl err), KCreate ob res]"
| correction: "kind_of ob = k \<Longrightarrow>
     block_run k (n, ns) (Returned res) [KGet k n ns (Inr found), KUpdate ob res]"
| uncomparable: "block_run k (n, ns) (Returned (Some err)) [KGet k n ns (Inr found)]"
| crash: "block_run k (n, ns) Panicked [KGet k n ns (Inr found)]"

inductive_cases block_runE: "block_run k key r es"

fun error_of :: "(goerror + 'a) outcome \<Rightarrow> goerror option outcome" where
  "error_of Panicked = Panicked"
| "error_of (Returned r) = Returned (err_of r)"

text \<open>The only calls of a block: reads, and writes of the objects that \<open>C\<close> and \<open>U\<close> describe.\<close>

fun allowed :: "(kobj \<Rightarrow> bool) \<Rightarrow> (kobj \<Rightarrow> bool) \<Rightarrow> event \<Rightarrow> bool" where
  "allowed C U (KGet k n ns r) = True"
| "allowed C U (KCreate ob r) = C ob"
| "allowed C U (KUpdate ob r) = U ob"
| "allowed C U e = False"

definition meta_key :: "('o \<Rightarrow> ObjectMeta) \<Rightarrow> 'o \<Rightarrow> string \<times> string" where
  "meta_key meta x = (om_Name (meta x), om_Namespace (meta x))"

text \<open>A lookup that succeeds and leaves the cluster as it is.\<close>

definition finds :: "('w, 'o) handle \<Rightarrow> 'w env \<Rightarrow> string \<times> string \<Rightarrow> 'w \<Rightarrow> 'o \<Rightarrow> bool" where
  "finds h E k w x = (r_Get (h_resource h (e_kube E)) (fst k) (snd k) w = (Inr x, w))"

text \<open>An object's operations leave a part of the world as it is.\<close>

definition resource_leaves :: "('w \<Rightarrow> 'x) \<Rightarrow> ('w, 'o) resource \<Rightarrow> bool" where
  "resource_leaves f res =
     ((\<forall>n ns w. f (snd (r_Get res n ns w)) = f w) \<and> (\<forall>x w. f (snd (r_Create res x w)) = f w) \<and>
      (\<forall>x w. f (snd (r_Update res x w)) = f w))"

section \<open>The interface of a block\<close>

text \<open>
  What a block shares with the others: the key it looks up, how it makes the object the
  resource's own, how it compares what it found with what it wants, what it writes instead,
  and its value after each of the three ways to succeed. The laws: the block is that
  program, and what it writes is equal to what it wants in its own comparison, so that
  another run finds nothing to do.
\<close>

locale ensured_object =
  fixes op :: "'w env \<Rightarrow> 'i \<Rightarrow> 'o \<Rightarrow> ('w, goerror + 'r) prog"
    and h :: "('w, 'o) handle"
    and key :: "'o \<Rightarrow> string \<times> string"
    and attach :: "'w env \<Rightarrow> 'i \<Rightarrow> 'o \<Rightarrow> goerror + 'o"
    and differs :: "'w env \<Rightarrow> 'o \<Rightarrow> 'o \<Rightarrow> (goerror + bool) outcome"
    and corrected :: "'o \<Rightarrow> 'o \<Rightarrow> 'o"
    and created :: "'o \<Rightarrow> 'r"
    and kept :: "'o \<Rightarrow> 'o \<Rightarrow> 'r"
    and updated :: "'o \<Rightarrow> 'o \<Rightarrow> 'o \<Rightarrow> 'r"
  assumes op_eq: "op E i x =
      exec (Get h E (fst (key x)) (snd (key x))) (\<lambda>r. case r of
        Inl err \<Rightarrow>
          if IsNotFound err then
            (case attach E i x of
               Inl err \<Rightarrow> ret (Inl err)
             | Inr y \<Rightarrow> exec (Create h E y) (\<lambda>r. ret (map_sum id created r)))
          else ret (Inl err)
      | Inr found \<Rightarrow>
          exec (lift_outcome (differs E found x)) (\<lambda>r. case r of
            Inl err \<Rightarrow> ret (Inl err)
          | Inr d \<Rightarrow>
              if d then exec (Update h E (corrected found x))
                (\<lambda>r. ret (map_sum id (\<lambda>y. updated y found x) r))
              else ret (Inr (kept found x))))"
    and corrected_same: "differs E found x = Returned (Inr d) \<Longrightarrow>
      differs E (corrected found x) x = Returned (Inr False)"
    and handle_kind: "kind_of (h_obj h x) = h_kind h"
begin

abbreviation get_event :: "'o \<Rightarrow> goerror + 'o \<Rightarrow> event" where
  "get_event x r \<equiv> KGet (h_kind h) (fst (key x)) (snd (key x)) (map_sum id (h_obj h) r)"

lemma missing:
  assumes "r_Get (h_resource h (e_kube E)) (fst (key x)) (snd (key x)) w = (Inl err, w')"
    and "IsNotFound err" and "attach E i x = Inr y"
    and "r_Create (h_resource h (e_kube E)) y w' = (res, w'')"
  shows "op E i x w = (Returned (map_sum id created res),
    [get_event x (Inl err), KCreate (h_obj h y) (err_of res)], w'')"
  using assms by (simp add: op_eq env_calls go_run)

lemma found_same:
  assumes "r_Get (h_resource h (e_kube E)) (fst (key x)) (snd (key x)) w = (Inr found, w')"
    and "differs E found x = Returned (Inr False)"
  shows "op E i x w = (Returned (Inr (kept found x)), [get_event x (Inr found)], w')"
  using assms by (simp add: op_eq env_calls go_run)

lemma found_different:
  assumes "r_Get (h_resource h (e_kube E)) (fst (key x)) (snd (key x)) w = (Inr found, w')"
    and "differs E found x = Returned (Inr True)"
    and "r_Update (h_resource h (e_kube E)) (corrected found x) w' = (res, w'')"
  shows "op E i x w = (Returned (map_sum id (\<lambda>y. updated y found x) res),
    [get_event x (Inr found), KUpdate (h_obj h (corrected found x)) (err_of res)], w'')"
  using assms by (simp add: op_eq env_calls go_run)

lemma get_fails:
  assumes "r_Get (h_resource h (e_kube E)) (fst (key x)) (snd (key x)) w = (Inl err, w')"
    and "\<not> IsNotFound err"
  shows "op E i x w = (Returned (Inl err), [get_event x (Inl err)], w')"
  using assms by (simp add: op_eq env_calls go_run)

lemma op_run: "wp (op E i x) (\<lambda>r es w'. block_run (h_kind h) (key x) (error_of r) es) w"
proof -
  have err: "err_of (map_sum id f r) = err_of r" for f and r :: "goerror + 'o"
    by (cases r) simp_all
  show ?thesis
    unfolding op_eq
    by (cases "key x")
      (auto simp: env_calls wp_simps err handle_kind intro: block_run.intros
        split: prod.split sum.split outcome.split)
qed

text \<open>A value of a block tells which of its three ways to succeed it took.\<close>

lemma op_value:
  "wp (op E i x) (\<lambda>r es w'. \<forall>v. r = Returned (Inr v) \<longrightarrow>
     (\<exists>y ob err. v = created y \<and> IsNotFound err \<and>
        es = [get_event x (Inl err), KCreate (h_obj h ob) None]) \<or>
     (\<exists>found. v = kept found x) \<or> (\<exists>y found. v = updated y found x)) w"
  unfolding op_eq
  by (auto simp: env_calls wp_simps split: prod.split sum.split outcome.split)

lemma op_allowed:
  assumes "\<And>y. attach E i x = Inr y \<Longrightarrow> C (h_obj h y)"
    and "\<And>found. U (h_obj h (corrected found x))"
  shows "only_calls (allowed C U) (op E i x)"
  unfolding op_eq only_calls_def using assms
  by (auto simp: env_calls wp_simps split: prod.split sum.split outcome.split)

text \<open>A block whose comparison cannot panic does not panic.\<close>

lemma op_no_panic:
  assumes "\<And>found. differs E found x \<noteq> Panicked"
  shows "wp (op E i x) (\<lambda>r es w'. r \<noteq> Panicked) w"
  unfolding op_eq using assms
  by (auto simp: env_calls wp_simps split: prod.split sum.split outcome.split)

lemma op_leaves:
  assumes "resource_leaves f (h_resource h (e_kube E))"
  shows "leaves f (op E i x)"
  unfolding op_eq Get_def Create_def Update_def
  using assms
  by (auto simp: resource_leaves_def intro!: leaves_exec leaves_call split: sum.split)

end

end
