(* ===== verification/Constants.thy ===== *)
theory Constants
  imports Main
begin

text \<open>
  The constants of config/config.go, version/version.go and pkg/storage/constants.
\<close>

definition OperatorName :: string where "OperatorName = ''managed-velero-operator''"
definition OperatorNamespace :: string where "OperatorNamespace = ''openshift-velero''"

definition VeleroImageTag :: string where
  "VeleroImageTag = ''oadp-velero-rhel8@sha256:035f48844600bd3beebd6740bf85cf54d98a9232f01c31621d4e995ff366690a''"
definition VeleroAwsImageTag :: string where
  "VeleroAwsImageTag = ''oadp-velero-plugin-for-aws-rhel8@sha256:317149aaba6bbe1600330a381ba2f8a7c2aba36db4f7cbd68545e037cfeed9db''"
definition VeleroGcpImageTag :: string where
  "VeleroGcpImageTag = ''oadp-velero-plugin-for-gcp-rhel8@sha256:1556f9a9d3cf8920ecda5f2a568f7277d339ec2725d2fd4a844d590c483a3bd6''"

definition StorageBucketPrefix :: string where
  "StorageBucketPrefix = ''managed-velero-backups-''"
definition DefaultVeleroBackupStorageLocation :: string where
  "DefaultVeleroBackupStorageLocation = ''default''"
definition BucketTagBackupStorageLocation :: string where
  "BucketTagBackupStorageLocation = ''velero.io/backup-location''"
definition BucketTagInfrastructureName :: string where
  "BucketTagInfrastructureName = ''velero.io/infrastructureName''"

end
