(* ===== verification/Velero_Objects.thy ===== *)
theory Velero_Objects
  imports Env Constants
begin

text \<open>
  The objects that controllers/velero/velero.go builds (lines 253 to 623): the credentials
  requests of the two platforms, the deployment of Velero, the metrics service and its
  service monitor, and the comparison of two credentials requests. The constructors of
  velero/pkg/install and the codec of the credentials request are library functions, the
  argument \<open>L\<close>. An index or a pointer that the source does not check is a panic.
\<close>

section \<open>Constants\<close>

definition veleroCredsSecretIDKey :: string where
  "veleroCredsSecretIDKey = ''aws_access_key_id''"
definition veleroCredsSecretAccessKey :: string where
  "veleroCredsSecretAccessKey = ''aws_secret_access_key''"
definition veleroImageRegistry :: string where
  "veleroImageRegistry = ''registry.redhat.io/oadp''"
definition credentialsRequestName :: string where
  "credentialsRequestName = ''velero-iam-credentials''"

section \<open>Credentials requests\<close>

text \<open>The source drops the error of the encoder: a failure leaves the specification nil.\<close>

definition EncodeProviderSpec :: "libraries \<Rightarrow> ProviderSpec \<Rightarrow> string option" where
  "EncodeProviderSpec L spec = (case lib_EncodeProviderSpec L spec of Inl err \<Rightarrow> None | Inr raw \<Rightarrow> Some raw)"

definition bucket_arn :: "string \<Rightarrow> string \<Rightarrow> string" where
  "bucket_arn partitionID bucketName = ''arn:'' @ partitionID @ '':s3:::'' @ bucketName"

definition aws_statements :: "string \<Rightarrow> string \<Rightarrow> StatementEntry list" where
  "aws_statements partitionID bucketName =
     [\<lparr>se_Effect = ''Allow'',
       se_Action = [''ec2:DescribeVolumes'', ''ec2:DescribeSnapshots'', ''ec2:CreateTags'',
                    ''ec2:CreateVolume'', ''ec2:CreateSnapshot'', ''ec2:DeleteSnapshot''],
       se_Resource = ''*''\<rparr>,
      \<lparr>se_Effect = ''Allow'',
       se_Action = [''s3:GetObject'', ''s3:DeleteObject'', ''s3:PutObject'',
                    ''s3:AbortMultipartUpload'', ''s3:ListMultipartUploadParts''],
       se_Resource = bucket_arn partitionID bucketName @ ''/*''\<rparr>,
      \<lparr>se_Effect = ''Allow'',
       se_Action = [''s3:ListBucket''],
       se_Resource = bucket_arn partitionID bucketName\<rparr>]"

definition credentials_request ::
    "libraries \<Rightarrow> string \<Rightarrow> string \<Rightarrow> ProviderSpec \<Rightarrow> CredentialsRequest" where
  "credentials_request L namespace name spec =
     \<lparr>cr_ObjectMeta = object_meta name namespace,
      cr_TypeMeta = \<lparr>tm_Kind = ''CredentialsRequest'', tm_APIVersion = lib_minterv1_GroupVersion L\<rparr>,
      cr_Spec = \<lparr>cr_SecretRef = \<lparr>oref_Name = name, oref_Namespace = namespace, oref_rest = ''''\<rparr>,
                 cr_ProviderSpec = EncodeProviderSpec L spec, crspec_rest = ''''\<rparr>,
      cr_rest = ''''\<rparr>"

definition awsCredentialsRequest ::
    "libraries \<Rightarrow> string \<Rightarrow> string \<Rightarrow> string \<Rightarrow> string \<Rightarrow> CredentialsRequest" where
  "awsCredentialsRequest L namespace name partitionID bucketName =
     credentials_request L namespace name
       (AWSProviderSpec ''AWSProviderSpec'' (aws_statements partitionID bucketName))"

definition gcpCredentialsRequest :: "libraries \<Rightarrow> string \<Rightarrow> string \<Rightarrow> CredentialsRequest" where
  "gcpCredentialsRequest L namespace name =
     credentials_request L namespace name
       (GCPProviderSpec ''GCPProviderSpec''
          [''roles/compute.storageAdmin'', ''roles/iam.serviceAccountUser'',
           ''roles/cloudmigration.storageaccess''] True)"

text \<open>
  Both specifications are decoded and compared; then both are set to nil, which leaves the
  other fields to compare. A nil ProviderSpec on either side is dereferenced.
\<close>

definition credentialsRequestSpecEqual ::
    "libraries \<Rightarrow> CredentialsRequestSpec \<Rightarrow> CredentialsRequestSpec \<Rightarrow> (goerror + bool) outcome" where
  "credentialsRequestSpecEqual L x y =
     (case lib_minterAddToScheme L of
        Some err \<Rightarrow> Returned (Inl err)
      | None \<Rightarrow>
         (case cr_ProviderSpec x of
            None \<Rightarrow> Panicked
          | Some xraw \<Rightarrow>
             (case lib_Decode L xraw of
                Inl err \<Rightarrow> Returned (Inl err)
              | Inr xps \<Rightarrow>
                 (case cr_ProviderSpec y of
                    None \<Rightarrow> Panicked
                  | Some yraw \<Rightarrow>
                     (case lib_Decode L yraw of
                        Inl err \<Rightarrow> Returned (Inl err)
                      | Inr yps \<Rightarrow>
                          if xps \<noteq> yps then Returned (Inr False)
                          else if x\<lparr>cr_ProviderSpec := None\<rparr> \<noteq> y\<lparr>cr_ProviderSpec := None\<rparr>
                               then Returned (Inr False)
                          else Returned (Inr True))))))"

section \<open>The deployment of Velero\<close>

definition update_pod :: "(PodSpec \<Rightarrow> PodSpec outcome) \<Rightarrow> Deployment \<Rightarrow> Deployment outcome" where
  "update_pod f d =
     and_then (f (pt_Spec (d_Template (d_Spec d))))
       (\<lambda>p. Returned (d\<lparr>d_Spec := (d_Spec d)\<lparr>d_Template := (d_Template (d_Spec d))\<lparr>pt_Spec := p\<rparr>\<rparr>\<rparr>))"

definition update_container :: "(Container \<Rightarrow> Container outcome) \<Rightarrow> PodSpec \<Rightarrow> PodSpec outcome" where
  "update_container f p =
     and_then (at_index 0 f (ps_Containers p)) (\<lambda>cs. Returned (p\<lparr>ps_Containers := cs\<rparr>))"

definition update_init_container :: "(Container \<Rightarrow> Container outcome) \<Rightarrow> PodSpec \<Rightarrow> PodSpec outcome" where
  "update_init_container f p =
     and_then (at_index 0 f (ps_InitContainers p)) (\<lambda>cs. Returned (p\<lparr>ps_InitContainers := cs\<rparr>))"

definition append_volume :: "Volume \<Rightarrow> PodSpec \<Rightarrow> PodSpec" where
  "append_volume v p = p\<lparr>ps_Volumes := ps_Volumes p @ [v]\<rparr>"

definition append_mount :: "VolumeMount \<Rightarrow> Container \<Rightarrow> Container" where
  "append_mount m c = c\<lparr>c_VolumeMounts := c_VolumeMounts c @ [m]\<rparr>"

definition append_env :: "EnvVar \<Rightarrow> Container \<Rightarrow> Container" where
  "append_env e c = c\<lparr>c_Env := c_Env c @ [e]\<rparr>"

definition termination_log :: "Container \<Rightarrow> Container" where
  "termination_log c = c\<lparr>c_TerminationMessagePath := ''/dev/termination-log'',
     c_TerminationMessagePolicy := ''File''\<rparr>"

text \<open>The two cases of the switch: what the library makes of the platform's options, and
  the credentials volume of GCP.\<close>

definition aws_deployment :: "libraries \<Rightarrow> string \<Rightarrow> string \<Rightarrow> Deployment" where
  "aws_deployment L namespace registry =
     lib_Deployment L namespace
       [WithEnvFromSecretKey (ToUpper veleroCredsSecretIDKey) credentialsRequestName veleroCredsSecretIDKey,
        WithEnvFromSecretKey (ToUpper veleroCredsSecretAccessKey) credentialsRequestName
          veleroCredsSecretAccessKey,
        WithPlugins [registry @ ''/'' @ VeleroAwsImageTag],
        WithImage (registry @ ''/'' @ VeleroImageTag)]"

definition credentials_volume :: Volume where
  "credentials_volume = \<lparr>vol_Name = ''cloud-credentials'',
     vol_Source = SecretVolume credentialsRequestName (Some 420)\<rparr>"

definition credentials_mount :: VolumeMount where
  "credentials_mount = \<lparr>vm_Name = ''cloud-credentials'', vm_MountPath = ''/credentials'',
     vm_ReadOnly = False, vm_rest = ''''\<rparr>"

definition credentials_env :: EnvVar where
  "credentials_env = \<lparr>ev_Name = ''GOOGLE_APPLICATION_CREDENTIALS'',
     ev_Value = ''/credentials/service_account.json'', ev_ValueFrom = None\<rparr>"

definition gcp_deployment :: "libraries \<Rightarrow> string \<Rightarrow> string \<Rightarrow> Deployment outcome" where
  "gcp_deployment L namespace registry =
     update_pod
       (\<lambda>p. update_container (\<lambda>c. Returned (append_env credentials_env (append_mount credentials_mount c)))
              (append_volume credentials_volume p))
       (lib_Deployment L namespace
          [WithPlugins [registry @ ''/'' @ VeleroGcpImageTag],
           WithImage (registry @ ''/'' @ VeleroImageTag)])"

text \<open>The assignment Containers[0].Env[1].ValueFrom.FieldRef.APIVersion = v1.\<close>

definition set_field_ref :: "EnvVar \<Rightarrow> EnvVar outcome" where
  "set_field_ref e =
     (case ev_ValueFrom e of
        None \<Rightarrow> Panicked
      | Some src \<Rightarrow>
         (case evs_FieldRef src of
            None \<Rightarrow> Panicked
          | Some (version, path) \<Rightarrow>
              Returned (e\<lparr>ev_ValueFrom := Some (src\<lparr>evs_FieldRef := Some (''v1'', path)\<rparr>)\<rparr>)))"

definition set_container_env :: "Container \<Rightarrow> Container outcome" where
  "set_container_env c =
     and_then (at_index 1 set_field_ref (c_Env c)) (\<lambda>env. Returned (c\<lparr>c_Env := env\<rparr>))"

definition set_container_port :: "Container \<Rightarrow> Container outcome" where
  "set_container_port c =
     and_then (at_index 0 (\<lambda>p. Returned (p\<lparr>cp_Protocol := ''TCP''\<rparr>)) (c_Ports c))
       (\<lambda>ports. Returned (c\<lparr>c_Ports := ports\<rparr>))"

definition rolling_update :: DeploymentStrategy where
  "rolling_update = \<lparr>ds_Type = ''RollingUpdate'', ds_MaxUnavailable = Some ''25%'',
     ds_MaxSurge = Some ''25%''\<rparr>"

definition infra_toleration :: Toleration where
  "infra_toleration = \<lparr>tol_Key = ''node-role.kubernetes.io/infra'', tol_Operator = ''Exists'',
     tol_Effect = ''NoSchedule'', tol_rest = ''''\<rparr>"

definition infra_affinity :: NodeAffinity where
  "infra_affinity =
     \<lparr>na_Preferred =
        [(1, [\<lparr>nsr_Key = ''node-role.kubernetes.io/infra'', nsr_Operator = ''Exists'', nsr_Values = []\<rparr>])],
      na_Required =
        Some [[\<lparr>nsr_Key = ''beta.kubernetes.io/arch'', nsr_Operator = ''In'', nsr_Values = [''amd64'']\<rparr>]]\<rparr>"

definition ca_bundle_mount :: VolumeMount where
  "ca_bundle_mount = \<lparr>vm_Name = ''trusted-ca-bundle'', vm_MountPath = ''/etc/pki/ca-trust/extracted/pem'',
     vm_ReadOnly = True, vm_rest = ''''\<rparr>"

definition ca_bundle_volume :: Volume where
  "ca_bundle_volume = \<lparr>vol_Name = ''trusted-ca-bundle'',
     vol_Source = ConfigMapVolume ''trusted-ca-bundle'' (Some 420) [(''ca-bundle.crt'', ''tls-ca-bundle.pem'')]\<rparr>"

text \<open>The pod fields the source assigns one by one.\<close>

definition pod_defaults :: "PodSpec \<Rightarrow> PodSpec" where
  "pod_defaults p = p\<lparr>ps_DeprecatedServiceAccount := ''velero'', ps_ServiceAccountName := ''velero'',
     ps_DNSPolicy := ''ClusterFirst'', ps_SchedulerName := ''default-scheduler'',
     ps_SecurityContext := Some '''', ps_TerminationGracePeriodSeconds := Some 30,
     ps_Tolerations := [infra_toleration], ps_Affinity := Some infra_affinity\<rparr>"

definition finish_pod :: "PodSpec \<Rightarrow> PodSpec outcome" where
  "finish_pod p =
     and_then (update_init_container (\<lambda>c. Returned (termination_log c)) p) (\<lambda>p.
     and_then (update_container set_container_env p) (\<lambda>p.
     and_then (update_container set_container_port p) (\<lambda>p.
     and_then (update_container (\<lambda>c. Returned (termination_log c)) p) (\<lambda>p.
     and_then (update_container (\<lambda>c. Returned (append_mount ca_bundle_mount c)) (pod_defaults p)) (\<lambda>p.
     Returned (append_volume ca_bundle_volume p))))))"

definition finish_deployment :: "Deployment \<Rightarrow> Deployment outcome" where
  "finish_deployment d =
     update_pod finish_pod
       (d\<lparr>d_Spec := (d_Spec d)\<lparr>d_Replicas := Some 1, d_RevisionHistoryLimit := Some 2,
            d_ProgressDeadlineSeconds := Some 600, d_Strategy := rolling_update\<rparr>\<rparr>)"

text \<open>A platform the switch does not know leaves the pointer nil, which is then dereferenced.\<close>

definition veleroDeployment ::
    "libraries \<Rightarrow> string \<Rightarrow> PlatformType \<Rightarrow> string \<Rightarrow> Deployment outcome" where
  "veleroDeployment L namespace platform registry =
     and_then
       (if platform = AWSPlatformType then Returned (aws_deployment L namespace registry)
        else if platform = GCPPlatformType then gcp_deployment L namespace registry
        else Panicked)
       finish_deployment"

section \<open>The metrics service\<close>

fun metrics_ports :: "ContainerPort list \<Rightarrow> ServicePort list \<Rightarrow> ServicePort list" where
  "metrics_ports [] acc = acc"
| "metrics_ports (p # ps) acc =
     metrics_ports ps
       (if Contains (cp_Name p) ''metrics''
        then acc @ [\<lparr>sp_Name = cp_Name p, sp_Protocol = cp_Protocol p, sp_Port = cp_ContainerPort p,
                     sp_TargetPort = cp_ContainerPort p, sp_rest = ''''\<rparr>]
        else acc)"

fun service_ports :: "Container list \<Rightarrow> ServicePort list \<Rightarrow> ServicePort list" where
  "service_ports [] acc = acc"
| "service_ports (c # cs) acc = service_ports cs (metrics_ports (c_Ports c) acc)"

definition metricsServiceFromDeployment :: "libraries \<Rightarrow> key_order \<Rightarrow> Deployment \<Rightarrow> Service" where
  "metricsServiceFromDeployment L ord deployment =
     \<lparr>svc_TypeMeta = \<lparr>tm_Kind = ''Service'', tm_APIVersion = lib_corev1_GroupVersion L\<rparr>,
      svc_ObjectMeta = (object_meta (om_Name (d_ObjectMeta deployment) @ ''-metrics'')
                          (om_Namespace (d_ObjectMeta deployment)))
         \<lparr>om_Labels := Some (fmupd ''name'' (om_Name (d_ObjectMeta deployment)) fmempty)\<rparr>,
      svc_Spec =
        \<lparr>ss_Ports = service_ports (ps_Containers (pt_Spec (d_Template (d_Spec deployment)))) [],
         ss_Selector = Some (copy_entries
            (range_over ord (entries (pt_Labels (d_Template (d_Spec deployment))))) fmempty),
         ss_Type = ''ClusterIP'', ss_SessionAffinity = ''None'', ss_ClusterIP = '''',
         ss_ClusterIPs = [], ss_IPFamilies = [], ss_IPFamilyPolicy = None,
         ss_InternalTrafficPolicy = None, ss_rest = ''''\<rparr>,
      svc_rest = ''''\<rparr>"

section \<open>The service monitor\<close>

fun endpoints_from :: "ServicePort list \<Rightarrow> Endpoint list \<Rightarrow> Endpoint list" where
  "endpoints_from [] acc = acc"
| "endpoints_from (p # ps) acc = endpoints_from ps (acc @ [\<lparr>ep_Port = sp_Name p, ep_rest = ''''\<rparr>])"

definition populateEndpointsFromServicePorts :: "Service \<Rightarrow> Endpoint list" where
  "populateEndpointsFromServicePorts s = endpoints_from (ss_Ports (svc_Spec s)) []"

definition generateServiceMonitor :: "key_order \<Rightarrow> Service \<Rightarrow> ServiceMonitor" where
  "generateServiceMonitor ord s =
     (let labels = Some (copy_entries (range_over ord (entries (om_Labels (svc_ObjectMeta s)))) fmempty)
      in \<lparr>sm_ObjectMeta = (object_meta (om_Name (svc_ObjectMeta s)) (om_Namespace (svc_ObjectMeta s)))
            \<lparr>om_Labels := labels,
             om_OwnerReferences :=
               [\<lparr>or_APIVersion = ''v1'', or_BlockOwnerDeletion = Some True, or_Controller = Some True,
                 or_Kind = ''Service'', or_Name = om_Name (svc_ObjectMeta s),
                 or_UID = om_UID (svc_ObjectMeta s)\<rparr>]\<rparr>,
          sm_Spec = \<lparr>sm_MatchLabels = labels, sm_Endpoints = populateEndpointsFromServicePorts s,
                     smspec_rest = ''''\<rparr>,
          sm_rest = ''''\<rparr>)"

section \<open>What the objects hold\<close>

definition service_port :: "ContainerPort \<Rightarrow> ServicePort" where
  "service_port p = \<lparr>sp_Name = cp_Name p, sp_Protocol = cp_Protocol p, sp_Port = cp_ContainerPort p,
     sp_TargetPort = cp_ContainerPort p, sp_rest = ''''\<rparr>"

definition is_metrics_port :: "ContainerPort \<Rightarrow> bool" where
  "is_metrics_port p = sublist ''metrics'' (cp_Name p)"

lemma metrics_ports_filter:
  "metrics_ports ps acc = acc @ map service_port (filter is_metrics_port ps)"
  by (induction ps arbitrary: acc)
    (simp_all add: service_port_def is_metrics_port_def Contains_iff_sublist)

lemma service_ports_filter:
  "service_ports cs acc =
     acc @ map service_port (filter is_metrics_port (concat (map c_Ports cs)))"
  by (induction cs arbitrary: acc) (simp_all add: metrics_ports_filter)

lemma endpoints_from_map:
  "endpoints_from ps acc = acc @ map (\<lambda>p. \<lparr>ep_Port = sp_Name p, ep_rest = ''''\<rparr>) ps"
  by (induction ps arbitrary: acc) simp_all

lemma populateEndpoints_names:
  "map ep_Port (populateEndpointsFromServicePorts s) = map sp_Name (ss_Ports (svc_Spec s))"
  by (simp add: populateEndpointsFromServicePorts_def endpoints_from_map)

lemma selector_labels:
  "valid_order ord \<Longrightarrow>
   ss_Selector (svc_Spec (metricsServiceFromDeployment L ord d)) =
     Some (entries (pt_Labels (d_Template (d_Spec d))))"
  by (simp add: metricsServiceFromDeployment_def copy_range_over)

lemma monitor_labels:
  "valid_order ord \<Longrightarrow>
   sm_MatchLabels (sm_Spec (generateServiceMonitor ord s)) =
     Some (entries (om_Labels (svc_ObjectMeta s)))"
  by (simp add: generateServiceMonitor_def copy_range_over Let_def)

text \<open>The iteration order does not show in what is built.\<close>

lemma metrics_service_any_order:
  "valid_order ord \<Longrightarrow> valid_order ord' \<Longrightarrow>
   metricsServiceFromDeployment L ord d = metricsServiceFromDeployment L ord' d"
  by (simp add: metricsServiceFromDeployment_def copy_range_over)

lemma service_monitor_any_order:
  "valid_order ord \<Longrightarrow> valid_order ord' \<Longrightarrow>
   generateServiceMonitor ord s = generateServiceMonitor ord' s"
  by (simp add: generateServiceMonitor_def copy_range_over Let_def)

subsection \<open>Comparing credentials requests\<close>

definition decoded :: "libraries \<Rightarrow> CredentialsRequestSpec \<Rightarrow> ProviderSpec option" where
  "decoded L x =
     (case cr_ProviderSpec x of
        None \<Rightarrow> None
      | Some raw \<Rightarrow> (case lib_Decode L raw of Inl err \<Rightarrow> None | Inr ps \<Rightarrow> Some ps))"

lemma credentialsRequestSpecEqual_bool:
  "credentialsRequestSpecEqual L x y = Returned (Inr b) \<longleftrightarrow>
     lib_minterAddToScheme L = None \<and> decoded L x \<noteq> None \<and> decoded L y \<noteq> None \<and>
     b = (decoded L x = decoded L y \<and> x\<lparr>cr_ProviderSpec := None\<rparr> = y\<lparr>cr_ProviderSpec := None\<rparr>)"
  by (auto simp: credentialsRequestSpecEqual_def decoded_def split: option.splits sum.splits)

lemma credentialsRequestSpecEqual_self:
  "credentialsRequestSpecEqual L x y = Returned (Inr b) \<Longrightarrow>
   credentialsRequestSpecEqual L y y = Returned (Inr True)"
  by (simp add: credentialsRequestSpecEqual_bool)

subsection \<open>The deployment\<close>

definition has_field_ref :: "EnvVar \<Rightarrow> bool" where
  "has_field_ref e =
     (case ev_ValueFrom e of None \<Rightarrow> False | Some src \<Rightarrow> evs_FieldRef src \<noteq> None)"

definition pinned_env :: "EnvVar \<Rightarrow> EnvVar" where
  "pinned_env e = e\<lparr>ev_ValueFrom :=
     map_option (\<lambda>src. src\<lparr>evs_FieldRef := map_option (\<lambda>(version, path). (''v1'', path)) (evs_FieldRef src)\<rparr>)
       (ev_ValueFrom e)\<rparr>"

lemma set_field_ref_eq:
  "set_field_ref e = (if has_field_ref e then Returned (pinned_env e) else Panicked)"
  by (auto simp: set_field_ref_def has_field_ref_def pinned_env_def split: option.split)

definition container_ready :: "Container \<Rightarrow> bool" where
  "container_ready c = (1 < length (c_Env c) \<and> has_field_ref (c_Env c ! 1) \<and> c_Ports c \<noteq> [])"

definition pod_ready :: "PodSpec \<Rightarrow> bool" where
  "pod_ready p = (ps_InitContainers p \<noteq> [] \<and> ps_Containers p \<noteq> [] \<and>
     container_ready (hd (ps_Containers p)))"

definition finished_container :: "Container \<Rightarrow> Container" where
  "finished_container c =
     append_mount ca_bundle_mount (termination_log
       (c\<lparr>c_Env := (c_Env c)[1 := pinned_env (c_Env c ! 1)],
          c_Ports := (c_Ports c)[0 := (c_Ports c ! 0)\<lparr>cp_Protocol := ''TCP''\<rparr>]\<rparr>))"

definition finished_pod :: "PodSpec \<Rightarrow> PodSpec" where
  "finished_pod p =
     append_volume ca_bundle_volume (pod_defaults
       (p\<lparr>ps_InitContainers := (ps_InitContainers p)[0 := termination_log (ps_InitContainers p ! 0)],
          ps_Containers := (ps_Containers p)[0 := finished_container (ps_Containers p ! 0)]\<rparr>))"

lemma set_container_env_eq:
  "set_container_env c =
     (if 1 < length (c_Env c) \<and> has_field_ref (c_Env c ! 1)
      then Returned (c\<lparr>c_Env := (c_Env c)[1 := pinned_env (c_Env c ! 1)]\<rparr>) else Panicked)"
  by (auto simp: set_container_env_def at_index_eq set_field_ref_eq)

lemma set_container_port_eq:
  "set_container_port c =
     (if c_Ports c \<noteq> [] then Returned (c\<lparr>c_Ports := (c_Ports c)[0 := (c_Ports c ! 0)\<lparr>cp_Protocol := ''TCP''\<rparr>]\<rparr>)
      else Panicked)"
  by (auto simp: set_container_port_def at_index_eq)

lemma finish_pod_eq:
  "finish_pod p = (if pod_ready p then Returned (finished_pod p) else Panicked)"
proof (cases "ps_InitContainers p = [] \<or> ps_Containers p = []")
  case True
  then show ?thesis
    by (auto simp: finish_pod_def pod_ready_def update_init_container_def update_container_def
        at_index_eq)
next
  case False
  then obtain c cs j js where "ps_Containers p = c # cs" and "ps_InitContainers p = j # js"
    by (auto simp: neq_Nil_conv)
  then show ?thesis
    by (simp add: finish_pod_def pod_ready_def finished_pod_def finished_container_def
        container_ready_def update_init_container_def update_container_def at_index_eq
        set_container_env_eq set_container_port_eq pod_defaults_def append_volume_def
        termination_log_def append_mount_def)
qed

abbreviation pod_of :: "Deployment \<Rightarrow> PodSpec" where
  "pod_of d \<equiv> pt_Spec (d_Template (d_Spec d))"

text \<open>What the library made for the options of the platform.\<close>

definition gcp_base :: "libraries \<Rightarrow> string \<Rightarrow> string \<Rightarrow> Deployment" where
  "gcp_base L namespace registry =
     lib_Deployment L namespace [WithPlugins [registry @ ''/'' @ VeleroGcpImageTag],
       WithImage (registry @ ''/'' @ VeleroImageTag)]"

definition with_credentials :: "PodSpec \<Rightarrow> PodSpec" where
  "with_credentials p = append_volume credentials_volume
     (p\<lparr>ps_Containers := (ps_Containers p)
          [0 := append_env credentials_env (append_mount credentials_mount (ps_Containers p ! 0))]\<rparr>)"

lemma gcp_deployment_eq:
  "gcp_deployment L namespace registry =
     (if ps_Containers (pod_of (gcp_base L namespace registry)) = [] then Panicked
      else update_pod (\<lambda>p. Returned (with_credentials p)) (gcp_base L namespace registry))"
  by (auto simp: gcp_deployment_def gcp_base_def update_pod_def update_container_def
      at_index_eq append_volume_def with_credentials_def)

lemma pod_ready_credentials: "ps_Containers p \<noteq> [] \<Longrightarrow> pod_ready (with_credentials p) = pod_ready p"
  by (cases "ps_Containers p")
    (auto simp: pod_ready_def with_credentials_def append_volume_def container_ready_def
      append_env_def append_mount_def nth_append has_field_ref_def credentials_env_def less_Suc_eq)

lemma finish_deployment_eq:
  "finish_deployment d =
     (if pod_ready (pod_of d)
      then Returned (d\<lparr>d_Spec := (d_Spec d)\<lparr>d_Replicas := Some 1, d_RevisionHistoryLimit := Some 2,
             d_ProgressDeadlineSeconds := Some 600, d_Strategy := rolling_update,
             d_Template := (d_Template (d_Spec d))\<lparr>pt_Spec := finished_pod (pod_of d)\<rparr>\<rparr>\<rparr>)
      else Panicked)"
  by (simp add: finish_deployment_def update_pod_def finish_pod_eq)

text \<open>The deployment of the library, and the pod the platform turns it into.\<close>

definition base_deployment :: "libraries \<Rightarrow> string \<Rightarrow> PlatformType \<Rightarrow> string \<Rightarrow> Deployment" where
  "base_deployment L namespace platform registry =
     (if platform = GCPPlatformType then gcp_base L namespace registry
      else aws_deployment L namespace registry)"

definition platform_pod :: "PlatformType \<Rightarrow> PodSpec \<Rightarrow> PodSpec" where
  "platform_pod platform p = (if platform = GCPPlatformType then with_credentials p else p)"

definition velero_deployment :: "PlatformType \<Rightarrow> Deployment \<Rightarrow> Deployment" where
  "velero_deployment platform d =
     d\<lparr>d_Spec := (d_Spec d)\<lparr>d_Replicas := Some 1, d_RevisionHistoryLimit := Some 2,
         d_ProgressDeadlineSeconds := Some 600, d_Strategy := rolling_update,
         d_Template := (d_Template (d_Spec d))
           \<lparr>pt_Spec := finished_pod (platform_pod platform (pod_of d))\<rparr>\<rparr>\<rparr>"

lemma pod_ready_containers: "pod_ready p \<Longrightarrow> ps_Containers p \<noteq> []"
  by (simp add: pod_ready_def)

lemma veleroDeployment_eq:
  "veleroDeployment L namespace platform registry =
     (if platform \<in> {AWSPlatformType, GCPPlatformType} \<and>
         pod_ready (pod_of (base_deployment L namespace platform registry))
      then Returned (velero_deployment platform (base_deployment L namespace platform registry))
      else Panicked)"
proof (cases "platform = GCPPlatformType")
  case True
  let ?d = "gcp_base L namespace registry"
  show ?thesis
  proof (cases "ps_Containers (pod_of ?d) = []")
    case False
    then show ?thesis
      using True
      by (simp add: veleroDeployment_def gcp_deployment_eq base_deployment_def update_pod_def
          finish_deployment_eq pod_ready_credentials velero_deployment_def platform_pod_def)
  next
    case True
    then have "\<not> pod_ready (pod_of ?d)" using pod_ready_containers by blast
    then show ?thesis
      using \<open>platform = GCPPlatformType\<close> True
      by (simp add: veleroDeployment_def gcp_deployment_eq base_deployment_def)
  qed
next
  case False
  then show ?thesis
    by (auto simp: veleroDeployment_def base_deployment_def finish_deployment_eq
        velero_deployment_def platform_pod_def)
qed

end
