(* ===== verification/S3_Client.thy ===== *)
theory S3_Client
  imports Env Constants
begin

text \<open>
  pkg/storage/s3/client.go: the wrapper awsClient around the SDK's S3 client, one method
  per operation, and NewS3Client, which builds it from the operator's credentials secret.
  Names and constants come from config/config.go and version/version.go.
\<close>

section \<open>Constants\<close>

definition awsCredsSecretIDKey :: string where "awsCredsSecretIDKey = ''aws_access_key_id''"
definition awsCredsSecretAccessKey :: string where
  "awsCredsSecretAccessKey = ''aws_secret_access_key''"
definition awsCredsSecretName :: string where
  "awsCredsSecretName = OperatorName @ ''-iam-credentials''"

section \<open>The client\<close>

text \<open>s3Client is the SDK client of a session, known by the session's configuration.\<close>

record awsClient =
  s3Client :: AwsConfig
  Config :: AwsConfig

fun unit_response :: "goerror + unit \<Rightarrow> s3_response" where
  "unit_response (Inl e) = RespError e"
| "unit_response (Inr x) = RespOk"

definition GetAWSClientConfig :: "awsClient \<Rightarrow> AwsConfig" where
  "GetAWSClientConfig c = Config c"

definition api_CreateBucket ::
    "'w env \<Rightarrow> awsClient \<Rightarrow> CreateBucketInput \<Rightarrow> ('w, goerror + unit) prog" where
  "api_CreateBucket E c input = call (s3_CreateBucket (e_aws E) (s3Client c) input)
     (\<lambda>r. S3Call (s3Client c) (ReqCreateBucket input) (unit_response r))"

definition api_DeleteBucketTagging ::
    "'w env \<Rightarrow> awsClient \<Rightarrow> string \<Rightarrow> ('w, goerror + unit) prog" where
  "api_DeleteBucketTagging E c bucket =
     call (s3_DeleteBucketTagging (e_aws E) (s3Client c) bucket)
       (\<lambda>r. S3Call (s3Client c) (ReqDeleteBucketTagging bucket) (unit_response r))"

definition api_HeadBucket :: "'w env \<Rightarrow> awsClient \<Rightarrow> string \<Rightarrow> ('w, goerror + unit) prog" where
  "api_HeadBucket E c bucket = call (s3_HeadBucket (e_aws E) (s3Client c) bucket)
     (\<lambda>r. S3Call (s3Client c) (ReqHeadBucket bucket) (unit_response r))"

definition api_GetBucketLocation ::
    "'w env \<Rightarrow> awsClient \<Rightarrow> string option \<Rightarrow> ('w, goerror + string option) prog" where
  "api_GetBucketLocation E c bucket =
     call (s3_GetBucketLocation (e_aws E) (s3Client c) bucket)
       (\<lambda>r. S3Call (s3Client c) (ReqGetBucketLocation bucket)
          (case r of Inl e \<Rightarrow> RespError e | Inr l \<Rightarrow> RespLocation l))"

definition api_GetBucketTagging ::
    "'w env \<Rightarrow> awsClient \<Rightarrow> string \<Rightarrow> ('w, goerror + Tag list) prog" where
  "api_GetBucketTagging E c bucket =
     call (s3_GetBucketTagging (e_aws E) (s3Client c) bucket)
       (\<lambda>r. S3Call (s3Client c) (ReqGetBucketTagging bucket)
          (case r of Inl e \<Rightarrow> RespError e | Inr ts \<Rightarrow> RespTags ts))"

definition api_GetPublicAccessBlock ::
    "'w env \<Rightarrow> awsClient \<Rightarrow> string \<Rightarrow> ('w, goerror + unit) prog" where
  "api_GetPublicAccessBlock E c bucket =
     call (s3_GetPublicAccessBlock (e_aws E) (s3Client c) bucket)
       (\<lambda>r. S3Call (s3Client c) (ReqGetPublicAccessBlock bucket) (unit_response r))"

definition api_ListBuckets ::
    "'w env \<Rightarrow> awsClient \<Rightarrow> ('w, goerror + ListBucketsOutput) prog" where
  "api_ListBuckets E c = call (s3_ListBuckets (e_aws E) (s3Client c))
     (\<lambda>r. S3Call (s3Client c) ReqListBuckets
        (case r of Inl e \<Rightarrow> RespError e | Inr l \<Rightarrow> RespBuckets l))"

definition api_PutBucketEncryption ::
    "'w env \<Rightarrow> awsClient \<Rightarrow> PutBucketEncryptionInput \<Rightarrow> ('w, goerror + unit) prog" where
  "api_PutBucketEncryption E c input =
     call (s3_PutBucketEncryption (e_aws E) (s3Client c) input)
       (\<lambda>r. S3Call (s3Client c) (ReqPutBucketEncryption input) (unit_response r))"

definition api_PutBucketLifecycleConfiguration ::
    "'w env \<Rightarrow> awsClient \<Rightarrow> string \<Rightarrow> LifecycleRule list \<Rightarrow> ('w, goerror + unit) prog" where
  "api_PutBucketLifecycleConfiguration E c bucket rules =
     call (s3_PutBucketLifecycleConfiguration (e_aws E) (s3Client c) bucket rules)
       (\<lambda>r. S3Call (s3Client c) (ReqPutBucketLifecycleConfiguration bucket rules)
          (unit_response r))"

definition api_PutBucketTagging ::
    "'w env \<Rightarrow> awsClient \<Rightarrow> string \<Rightarrow> Tag list \<Rightarrow> ('w, goerror + unit) prog" where
  "api_PutBucketTagging E c bucket tags =
     call (s3_PutBucketTagging (e_aws E) (s3Client c) bucket tags)
       (\<lambda>r. S3Call (s3Client c) (ReqPutBucketTagging bucket tags) (unit_response r))"

definition api_PutPublicAccessBlock ::
    "'w env \<Rightarrow> awsClient \<Rightarrow> string \<Rightarrow> PublicAccessBlock \<Rightarrow> ('w, goerror + unit) prog" where
  "api_PutPublicAccessBlock E c bucket conf =
     call (s3_PutPublicAccessBlock (e_aws E) (s3Client c) bucket conf)
       (\<lambda>r. S3Call (s3Client c) (ReqPutPublicAccessBlock bucket conf) (unit_response r))"

lemmas s3_calls = api_CreateBucket_def api_DeleteBucketTagging_def api_HeadBucket_def
  api_GetBucketLocation_def api_GetBucketTagging_def api_GetPublicAccessBlock_def
  api_ListBuckets_def api_PutBucketEncryption_def api_PutBucketLifecycleConfiguration_def
  api_PutBucketTagging_def api_PutPublicAccessBlock_def

section \<open>NewS3Client\<close>

definition NewSession :: "'w env \<Rightarrow> AwsConfig \<Rightarrow> ('w, goerror option) prog" where
  "NewSession E awsConfig = call (aws_NewSession (e_aws E) awsConfig) (AwsNewSession awsConfig)"

definition NewS3Client :: "'w env \<Rightarrow> string \<Rightarrow> ('w, goerror + awsClient) prog" where
  "NewS3Client E region =
     exec (Get Secrets E awsCredsSecretName OperatorNamespace) (\<lambda>r. case r of
       Inl err \<Rightarrow> ret (Inl err)
     | Inr secret \<Rightarrow>
        (case gomap_get (sec_Data secret) awsCredsSecretIDKey of
           None \<Rightarrow> ret (Inl (Errorf [''AWS credentials secret '', awsCredsSecretName, '' did not contain key '', awsCredsSecretIDKey]))
         | Some accessKeyID \<Rightarrow>
            (case gomap_get (sec_Data secret) awsCredsSecretAccessKey of
               None \<Rightarrow> ret (Inl (Errorf [''AWS credentials secret '', awsCredsSecretName, '' did not contain key '', awsCredsSecretAccessKey]))
             | Some secretAccessKey \<Rightarrow>
                (let awsConfig = \<lparr>cfg_Region = region, cfg_AccessKeyID = accessKeyID,
                                  cfg_SecretAccessKey = secretAccessKey\<rparr>
                 in exec (NewSession E awsConfig) (\<lambda>err. case err of
                      Some err \<Rightarrow> ret (Inl err)
                    | None \<Rightarrow> ret (Inr \<lparr>s3Client = awsConfig, Config = awsConfig\<rparr>))))))"

text \<open>The events NewS3Client may leave: it reads the secret and opens a session.\<close>

fun s3_client_event :: "string \<Rightarrow> event \<Rightarrow> bool" where
  "s3_client_event region (KGet k n ns r) =
     (k = KindSecret \<and> n = awsCredsSecretName \<and> ns = OperatorNamespace)"
| "s3_client_event region (AwsNewSession c r) = (cfg_Region c = region)"
| "s3_client_event region e = False"

definition s3_client_events :: "string \<Rightarrow> event list \<Rightarrow> bool" where
  "s3_client_events region es = list_all (s3_client_event region) es"

lemma s3_client_event_read: "s3_client_event region e \<Longrightarrow> reads e"
  by (cases e) (simp_all add: reads_def)

lemma s3_client_events_read: "s3_client_events region es \<Longrightarrow> list_all reads es"
  unfolding s3_client_events_def
  by (erule list.pred_mono_strong) (rule s3_client_event_read)

lemma wp_NewS3Client:
  "wp (NewS3Client E region)
     (\<lambda>r es w'. s3_client_events region es \<and>
        ((\<exists>err. r = Returned (Inl err)) \<or>
         (\<exists>c. r = Returned (Inr c) \<and> Config c = s3Client c \<and> cfg_Region (Config c) = region))) w"
  by (auto simp: NewS3Client_def NewSession_def env_calls wp_simps s3_client_events_def Let_def
      split: prod.split sum.split option.split)

end
