(* ===== verification/S3_Bucket.thy ===== *)
theory S3_Bucket
  imports S3_Client
begin

text \<open>
  pkg/storage/s3/bucket.go: the operations on S3 buckets the driver is built from, and what
  each does: the requests it sends, in order, and what it makes of the answers.
\<close>

section \<open>Constants\<close>

definition bucketTagBackupLocation :: string where
  "bucketTagBackupLocation = ''velero.io/backup-location''"
definition bucketTagInfraName :: string where
  "bucketTagInfraName = ''velero.io/infrastructureName''"

lemma bucket_tags_distinct [simp]:
  "bucketTagBackupLocation \<noteq> bucketTagInfraName" "bucketTagInfraName \<noteq> bucketTagBackupLocation"
  by (simp_all add: bucketTagBackupLocation_def bucketTagInfraName_def)

text \<open>The error codes of the SDK that mean that a bucket is not there.\<close>

definition no_such_bucket :: "string \<Rightarrow> bool" where
  "no_such_bucket code = (code = ''NoSuchBucket'' \<or> code = ''NotFound'')"

section \<open>Creating and checking a bucket\<close>

definition CreateBucket :: "'w env \<Rightarrow> awsClient \<Rightarrow> string \<Rightarrow> ('w, goerror option) prog" where
  "CreateBucket E c bucketName =
     (let createBucketInput = \<lparr>cb_ACL = ''private'', cb_Bucket = bucketName,
                               cb_LocationConstraint = None\<rparr>;
          config = GetAWSClientConfig c;
          createBucketInput =
            (if cfg_Region config \<noteq> ''us-east-1''
             then createBucketInput\<lparr>cb_LocationConstraint := Some (cfg_Region config)\<rparr>
             else createBucketInput)
      in case lib_Validate (e_lib E) (ReqCreateBucket createBucketInput) of
           Some err \<Rightarrow> ret (Some (Errorf [''unable to validate '', bucketName, '' bucket creation configuration: '', Error err]))
         | None \<Rightarrow> exec (api_CreateBucket E c createBucketInput) (\<lambda>r. ret (err_of r)))"

text \<open>
  In the last branch the type assertion has failed, so aerr is nil and the call
  aerr.Error() in the message panics.
\<close>

definition DoesBucketExist :: "'w env \<Rightarrow> awsClient \<Rightarrow> string \<Rightarrow> ('w, goerror + bool) prog" where
  "DoesBucketExist E c bucketName =
     exec (api_HeadBucket E c bucketName) (\<lambda>r. case r of
       Inl err \<Rightarrow>
         (case aws_code err of
            Some code \<Rightarrow>
              if no_such_bucket code then ret (Inr False)
              else ret (Inl (Errorf [''unable to determine bucket '', bucketName, '' status: '', Error err]))
          | None \<Rightarrow> panic)
     | Inr u \<Rightarrow> ret (Inr True))"

section \<open>Enforcing the settings of a bucket\<close>

definition EncryptBucket :: "'w env \<Rightarrow> awsClient \<Rightarrow> string \<Rightarrow> ('w, goerror option) prog" where
  "EncryptBucket E c bucketName =
     (let input = \<lparr>pbe_Bucket = bucketName, pbe_Rules = [''AES256'']\<rparr>
      in case lib_Validate (e_lib E) (ReqPutBucketEncryption input) of
           Some err \<Rightarrow> ret (Some (Errorf [''unable to validate '', bucketName, '' bucket encryption configuration: '', Error err]))
         | None \<Rightarrow> exec (api_PutBucketEncryption E c input) (\<lambda>r. ret (err_of r)))"

definition BlockBucketPublicAccess ::
    "'w env \<Rightarrow> awsClient \<Rightarrow> string \<Rightarrow> ('w, goerror option) prog" where
  "BlockBucketPublicAccess E c bucketName =
     (let conf = \<lparr>pab_BlockPublicAcls = True, pab_BlockPublicPolicy = True,
                  pab_IgnorePublicAcls = True, pab_RestrictPublicBuckets = True\<rparr>
      in case lib_Validate (e_lib E) (ReqPutPublicAccessBlock bucketName conf) of
           Some err \<Rightarrow> ret (Some (Errorf [''unable to validate '', bucketName, '' bucket public access configuration: '', Error err]))
         | None \<Rightarrow> exec (api_PutPublicAccessBlock E c bucketName conf) (\<lambda>r. ret (err_of r)))"

definition SetBucketLifecycle :: "'w env \<Rightarrow> awsClient \<Rightarrow> string \<Rightarrow> ('w, goerror option) prog" where
  "SetBucketLifecycle E c bucketName =
     (let rules = [\<lparr>lr_ID = ''Backup Expiry'', lr_Status = ''Enabled'', lr_Prefix = ''backups/'',
                    lr_Days = 90\<rparr>]
      in case lib_Validate (e_lib E) (ReqPutBucketLifecycleConfiguration bucketName rules) of
           Some err \<Rightarrow> ret (Some (Errorf [''unable to validate '', bucketName, '' bucket lifecycle configuration: '', Error err]))
         | None \<Rightarrow>
             exec (api_PutBucketLifecycleConfiguration E c bucketName rules) (\<lambda>r. ret (err_of r)))"

section \<open>Tags\<close>

text \<open>The loop appends a tag for each entry of the map, in the order of the range loop.\<close>

definition CreateBucketTaggingInput ::
    "key_order \<Rightarrow> string \<Rightarrow> (string, string) fmap \<Rightarrow> string \<times> Tag list" where
  "CreateBucketTaggingInput ord bucketname tags =
     (bucketname,
      fold (\<lambda>(key, value) tagSet. tagSet @ [\<lparr>t_Key = Some key, t_Value = Some value\<rparr>])
        (range_over ord tags) [])"

definition ClearBucketTags :: "'w env \<Rightarrow> awsClient \<Rightarrow> string \<Rightarrow> ('w, goerror option) prog" where
  "ClearBucketTags E c bucketName =
     exec (api_DeleteBucketTagging E c bucketName) (\<lambda>r. ret (err_of r))"

definition TagBucket ::
    "'w env \<Rightarrow> awsClient \<Rightarrow> string \<Rightarrow> string \<Rightarrow> string \<Rightarrow> ('w, goerror option) prog" where
  "TagBucket E c bucketName backUpLocation infraName =
     exec (ClearBucketTags E c bucketName) (\<lambda>err. case err of
       Some err \<Rightarrow> ret (Some (Errorf [''unable to clear '', bucketName, '' bucket tags: '', Error err]))
     | None \<Rightarrow>
         exec (current_order E) (\<lambda>ord.
           (let (bucket, tags) = CreateBucketTaggingInput ord bucketName
                  (fmap_of_list [(bucketTagBackupLocation, backUpLocation),
                                 (bucketTagInfraName, infraName)])
            in exec (api_PutBucketTagging E c bucket tags) (\<lambda>r. case r of
                 Inl err \<Rightarrow> ret (Some err)
               | Inr u \<Rightarrow> ret None))))"

section \<open>Listing buckets and their tags\<close>

text \<open>
  Where the source returns a partial result beside an error, no caller reads it, so these
  return the error alone.
\<close>

definition ListBuckets :: "'w env \<Rightarrow> awsClient \<Rightarrow> ('w, goerror + ListBucketsOutput) prog" where
  "ListBuckets E c =
     exec (api_ListBuckets E c) (\<lambda>r. case r of
       Inl err \<Rightarrow> ret (Inl err)
     | Inr result \<Rightarrow> ret (Inr result))"

fun locate_buckets ::
    "'w env \<Rightarrow> awsClient \<Rightarrow> string \<Rightarrow> Bucket list \<Rightarrow> Bucket list \<Rightarrow>
       ('w, goerror + Bucket list) prog" where
  "locate_buckets E c region [] filteredBuckets = ret (Inr filteredBuckets)"
| "locate_buckets E c region (bucket # buckets) filteredBuckets =
     exec (api_GetBucketLocation E c (b_Name bucket)) (\<lambda>r. case r of
       Inl err \<Rightarrow>
         (case aws_code err of
            Some code \<Rightarrow>
              if code = ''NoSuchBucket'' \<or> code = ''NotFound''
              then locate_buckets E c region buckets filteredBuckets
              else ret (Inl err)
          | None \<Rightarrow> ret (Inl err))
     | Inr location \<Rightarrow>
         (let locationConstraint = (case location of None \<Rightarrow> ''us-east-1'' | Some l \<Rightarrow> l)
          in if locationConstraint = region
             then locate_buckets E c region buckets (filteredBuckets @ [bucket])
             else locate_buckets E c region buckets filteredBuckets))"

definition ListBucketsInRegion ::
    "'w env \<Rightarrow> awsClient \<Rightarrow> string \<Rightarrow> ('w, goerror + ListBucketsOutput) prog" where
  "ListBucketsInRegion E c region =
     exec (ListBuckets E c) (\<lambda>r. case r of
       Inl err \<Rightarrow> ret (Inl err)
     | Inr result \<Rightarrow>
         exec (locate_buckets E c region (lbo_Buckets result) []) (\<lambda>r. case r of
           Inl err \<Rightarrow> ret (Inl err)
         | Inr filteredBuckets \<Rightarrow>
             ret (Inr \<lparr>lbo_Buckets = filteredBuckets, lbo_Owner = lbo_Owner result\<rparr>)))"

fun collect_tags ::
    "'w env \<Rightarrow> awsClient \<Rightarrow> Bucket list \<Rightarrow> (string, Tag list) fmap \<Rightarrow>
       ('w, goerror + (string, Tag list) fmap) prog" where
  "collect_tags E c [] taglist = ret (Inr taglist)"
| "collect_tags E c (bucket # buckets) taglist =
     (case b_Name bucket of
        None \<Rightarrow> panic
      | Some name \<Rightarrow>
          exec (api_GetBucketTagging E c name) (\<lambda>r. case r of
            Inl err \<Rightarrow>
              (case aws_code err of
                 Some code \<Rightarrow>
                   if code = ''NoSuchTagSet'' then collect_tags E c buckets taglist
                   else if code = ''NoSuchBucket'' then collect_tags E c buckets taglist
                   else ret (Inl err)
               | None \<Rightarrow> ret (Inl err))
          | Inr tagSet \<Rightarrow> collect_tags E c buckets (fmupd name tagSet taglist)))"

definition ListBucketTags ::
    "'w env \<Rightarrow> awsClient \<Rightarrow> Bucket list \<Rightarrow> ('w, goerror + (string, Tag list) fmap) prog" where
  "ListBucketTags E c buckets = collect_tags E c buckets fmempty"

section \<open>FindMatchingTags\<close>

text \<open>
  The three variables of the function live outside both loops. The loops visit the buckets
  in the order of the range loop over the map, and each bucket's tags in their order.
\<close>

record match_vars =
  tagMatchesCluster :: bool
  tagMatchesVelero :: bool
  possiblematch :: string

definition match_tag :: "string \<Rightarrow> string \<Rightarrow> Tag \<Rightarrow> match_vars \<Rightarrow> match_vars outcome" where
  "match_tag infraName bucket tag s =
     (case t_Key tag of
        None \<Rightarrow> Panicked
      | Some key \<Rightarrow>
          (case (if key = bucketTagInfraName
                 then (case t_Value tag of
                         None \<Rightarrow> Panicked
                       | Some value \<Rightarrow> Returned (value = infraName))
                 else Returned False) of
             Panicked \<Rightarrow> Panicked
           | Returned matches \<Rightarrow>
               (let s = (if matches then s\<lparr>tagMatchesCluster := True, possiblematch := bucket\<rparr>
                         else s);
                    s = (if key = bucketTagBackupLocation
                         then s\<lparr>tagMatchesVelero := True, possiblematch := bucket\<rparr> else s)
                in Returned s)))"

definition FindMatchingTags :: "(string \<times> Tag list) list \<Rightarrow> string \<Rightarrow> string outcome" where
  "FindMatchingTags buckets infraName =
     (case fold_outcome
             (\<lambda>(bucket, tagset) s. fold_outcome (match_tag infraName bucket) tagset s) buckets
             \<lparr>tagMatchesCluster = False, tagMatchesVelero = False, possiblematch = ''''\<rparr> of
        Panicked \<Rightarrow> Panicked
      | Returned s \<Rightarrow>
          if tagMatchesCluster s \<and> tagMatchesVelero s then Returned (possiblematch s)
          else Returned '''')"

section \<open>Operations that validate one request and send it\<close>

text \<open>
  CreateBucket, EncryptBucket, BlockBucketPublicAccess and SetBucketLifecycle share one
  shape: build the request, have the SDK validate it, send it, return the service's error.
\<close>

locale validated_request =
  fixes op :: "'w env \<Rightarrow> awsClient \<Rightarrow> string \<Rightarrow> ('w, goerror option) prog"
    and send :: "'w env \<Rightarrow> awsClient \<Rightarrow> string \<Rightarrow> 'w \<Rightarrow> (goerror + unit) \<times> 'w"
    and request :: "awsClient \<Rightarrow> string \<Rightarrow> s3_request"
    and what :: string
  assumes op_eq: "op E c b =
    (case lib_Validate (e_lib E) (request c b) of
       Some err \<Rightarrow> ret (Some (Errorf [''unable to validate '', b, what, Error err]))
     | None \<Rightarrow> exec (call (send E c b) (\<lambda>r. S3Call (s3Client c) (request c b) (unit_response r)))
                 (\<lambda>r. ret (err_of r)))"
begin

lemma wp_op:
  "wp (op E c b) Q w =
     (case lib_Validate (e_lib E) (request c b) of
        Some err \<Rightarrow> Q (Returned (Some (Errorf [''unable to validate '', b, what, Error err]))) [] w
      | None \<Rightarrow> (case send E c b w of
           (Inl err, w') \<Rightarrow> Q (Returned (Some err)) [S3Call (s3Client c) (request c b) (RespError err)] w'
         | (Inr u, w') \<Rightarrow> Q (Returned None) [S3Call (s3Client c) (request c b) RespOk] w'))"
  by (auto simp: op_eq wp_simps split: option.split prod.split sum.split)

lemma op_result:
  "wp (op E c b)
     (\<lambda>r es w'.
        (r = Returned None \<and> es = [S3Call (s3Client c) (request c b) RespOk] \<and>
         send E c b w = (Inr (), w')) \<or>
        (\<exists>err. r = Returned (Some err) \<and>
           (es = [] \<and> w' = w \<or> es = [S3Call (s3Client c) (request c b) (RespError err)]))) w"
  by (auto simp: wp_op split: option.split prod.split sum.split)

lemma op_rejected:
  "lib_Validate (e_lib E) (request c b) = Some err \<Longrightarrow>
   op E c b w = (Returned (Some (Errorf [''unable to validate '', b, what, Error err])), [], w)"
  by (simp add: op_eq ret_apply)

lemma op_only_request: "only_calls (\<lambda>e. \<exists>r. e = S3Call (s3Client c) (request c b) r) (op E c b)"
  by (auto simp: only_calls_def wp_op split: option.split prod.split sum.split)

end

definition create_request :: "awsClient \<Rightarrow> string \<Rightarrow> CreateBucketInput" where
  "create_request c b = \<lparr>cb_ACL = ''private'', cb_Bucket = b, cb_LocationConstraint =
     (if cfg_Region (Config c) = ''us-east-1'' then None else Some (cfg_Region (Config c)))\<rparr>"

definition encryption_request :: "string \<Rightarrow> PutBucketEncryptionInput" where
  "encryption_request b = \<lparr>pbe_Bucket = b, pbe_Rules = [''AES256'']\<rparr>"

definition all_public_blocked :: PublicAccessBlock where
  "all_public_blocked = \<lparr>pab_BlockPublicAcls = True, pab_BlockPublicPolicy = True,
     pab_IgnorePublicAcls = True, pab_RestrictPublicBuckets = True\<rparr>"

definition backup_expiry_rules :: "LifecycleRule list" where
  "backup_expiry_rules = [\<lparr>lr_ID = ''Backup Expiry'', lr_Status = ''Enabled'',
     lr_Prefix = ''backups/'', lr_Days = 90\<rparr>]"

interpretation create_bucket: validated_request CreateBucket
  "\<lambda>E c b. s3_CreateBucket (e_aws E) (s3Client c) (create_request c b)"
  "\<lambda>c b. ReqCreateBucket (create_request c b)" "'' bucket creation configuration: ''"
  by unfold_locales
    (simp add: CreateBucket_def create_request_def GetAWSClientConfig_def api_CreateBucket_def Let_def
      split: option.split)

interpretation encrypt_bucket: validated_request EncryptBucket
  "\<lambda>E c b. s3_PutBucketEncryption (e_aws E) (s3Client c) (encryption_request b)"
  "\<lambda>c b. ReqPutBucketEncryption (encryption_request b)" "'' bucket encryption configuration: ''"
  by unfold_locales
    (simp add: EncryptBucket_def encryption_request_def api_PutBucketEncryption_def Let_def
      split: option.split)

interpretation block_public: validated_request BlockBucketPublicAccess
  "\<lambda>E c b. s3_PutPublicAccessBlock (e_aws E) (s3Client c) b all_public_blocked"
  "\<lambda>c b. ReqPutPublicAccessBlock b all_public_blocked"
  "'' bucket public access configuration: ''"
  by unfold_locales
    (simp add: BlockBucketPublicAccess_def all_public_blocked_def api_PutPublicAccessBlock_def Let_def
      split: option.split)

interpretation set_lifecycle: validated_request SetBucketLifecycle
  "\<lambda>E c b. s3_PutBucketLifecycleConfiguration (e_aws E) (s3Client c) b backup_expiry_rules"
  "\<lambda>c b. ReqPutBucketLifecycleConfiguration b backup_expiry_rules"
  "'' bucket lifecycle configuration: ''"
  by unfold_locales
    (simp add: SetBucketLifecycle_def backup_expiry_rules_def
      api_PutBucketLifecycleConfiguration_def Let_def split: option.split)

section \<open>What the tagging operations do\<close>

definition string_tag :: "string \<Rightarrow> string \<Rightarrow> Tag" where
  "string_tag k v = \<lparr>t_Key = Some k, t_Value = Some v\<rparr>"

lemma append_tags_map:
  "fold (\<lambda>(key, value) tagSet. tagSet @ [\<lparr>t_Key = Some key, t_Value = Some value\<rparr>]) kvs acc =
     acc @ map (\<lambda>(k, v). string_tag k v) kvs"
  by (induction kvs arbitrary: acc) (auto simp: string_tag_def)

lemma CreateBucketTaggingInput_map:
  "CreateBucketTaggingInput ord b tags = (b, map (\<lambda>(k, v). string_tag k v) (range_over ord tags))"
  by (simp add: CreateBucketTaggingInput_def append_tags_map)

lemma mset_range_over_pair:
  assumes "valid_order ord" and "k \<noteq> k'"
  shows "mset (range_over ord (fmap_of_list [(k, v), (k', v')])) = {#(k, v), (k', v')#}"
proof -
  have "set (range_over ord (fmap_of_list [(k, v), (k', v')])) = set [(k, v), (k', v')]"
    using assms(2) by (auto simp: set_range_over [OF assms(1)] fmlookup_of_list split: if_splits)
  moreover have "distinct (range_over ord (fmap_of_list [(k, v), (k', v')]))"
    using distinct_range_over [OF assms(1), of "fmap_of_list [(k, v), (k', v')]"]
    unfolding distinct_map by (rule conjunct1)
  moreover have "distinct [(k, v), (k', v')]" using assms(2) by simp
  ultimately have "mset (range_over ord (fmap_of_list [(k, v), (k', v')])) = mset [(k, v), (k', v')]"
    by (metis set_eq_iff_mset_eq_distinct)
  then show ?thesis by simp
qed

text \<open>The tag set the operator wants on its bucket, whatever the order it is sent in.\<close>

definition velero_tags :: "string \<Rightarrow> string \<Rightarrow> Tag multiset" where
  "velero_tags location infraName =
     {#string_tag bucketTagBackupLocation location, string_tag bucketTagInfraName infraName#}"

lemma tagging_input_tags:
  assumes "valid_order ord"
  shows "mset (snd (CreateBucketTaggingInput ord b (fmap_of_list
     [(bucketTagBackupLocation, location), (bucketTagInfraName, infraName)]))) =
     velero_tags location infraName"
  using mset_range_over_pair [OF assms, of bucketTagBackupLocation bucketTagInfraName location infraName]
  by (simp add: CreateBucketTaggingInput_map velero_tags_def)

text \<open>
  TagBucket replaces the tags: it deletes all of them, and only if that worked puts the two
  tags of the operator.
\<close>

definition tagging_calls :: "AwsConfig \<Rightarrow> string \<Rightarrow> string \<Rightarrow> string \<Rightarrow> event list \<Rightarrow> bool" where
  "tagging_calls k b location infraName es =
     (\<exists>tags. mset tags = velero_tags location infraName \<and>
        es = [S3Call k (ReqDeleteBucketTagging b) RespOk, S3Call k (ReqPutBucketTagging b tags) RespOk])"

definition tagging_call :: "AwsConfig \<Rightarrow> string \<Rightarrow> string \<Rightarrow> string \<Rightarrow> event \<Rightarrow> bool" where
  "tagging_call k b location infraName e =
     ((\<exists>r. e = S3Call k (ReqDeleteBucketTagging b) r) \<or>
      (\<exists>tags r. e = S3Call k (ReqPutBucketTagging b tags) r \<and>
         mset tags = velero_tags location infraName))"

definition operator_tags :: "key_order \<Rightarrow> string \<Rightarrow> string \<Rightarrow> Tag list" where
  "operator_tags ord location infraName =
     map (\<lambda>(k, v). string_tag k v) (range_over ord (fmap_of_list
       [(bucketTagBackupLocation, location), (bucketTagInfraName, infraName)]))"

lemma mset_operator_tags:
  "valid_order ord \<Longrightarrow> mset (operator_tags ord location infraName) = velero_tags location infraName"
  using tagging_input_tags [of ord "[]" location infraName]
  by (simp only: CreateBucketTaggingInput_map operator_tags_def snd_conv)

lemma wp_TagBucket:
  "wp (TagBucket E c b location infraName) Q w =
     (case s3_DeleteBucketTagging (e_aws E) (s3Client c) b w of
        (Inl err, w1) \<Rightarrow>
          Q (Returned (Some (Errorf [''unable to clear '', b, '' bucket tags: '', Error err])))
            [S3Call (s3Client c) (ReqDeleteBucketTagging b) (RespError err)] w1
      | (Inr u, w1) \<Rightarrow>
          (let tags = operator_tags (rt_Order (e_rt E) w1) location infraName in
           case s3_PutBucketTagging (e_aws E) (s3Client c) b tags w1 of
             (Inl err, w2) \<Rightarrow> Q (Returned (Some err))
               [S3Call (s3Client c) (ReqDeleteBucketTagging b) RespOk,
                S3Call (s3Client c) (ReqPutBucketTagging b tags) (RespError err)] w2
           | (Inr u, w2) \<Rightarrow> Q (Returned None)
               [S3Call (s3Client c) (ReqDeleteBucketTagging b) RespOk,
                S3Call (s3Client c) (ReqPutBucketTagging b tags) RespOk] w2))"
  unfolding TagBucket_def ClearBucketTags_def CreateBucketTaggingInput_map operator_tags_def [symmetric]
  by (simp add: s3_calls env_calls wp_simps Let_def split: prod.split sum.split)

lemma TagBucket_result:
  assumes "valid_runtime E"
  shows "wp (TagBucket E c b location infraName)
     (\<lambda>r es w'. (r = Returned None \<and> tagging_calls (s3Client c) b location infraName es) \<or>
        (\<exists>err. r = Returned (Some err) \<and>
           list_all (tagging_call (s3Client c) b location infraName) es)) w"
proof -
  have "mset (operator_tags (rt_Order (e_rt E) w') location infraName) = velero_tags location infraName"
    for w' using assms by (intro mset_operator_tags) (simp add: valid_runtime_def)
  then show ?thesis
    by (auto simp: wp_TagBucket tagging_calls_def tagging_call_def Let_def
        split: prod.split sum.split)
qed

section \<open>What the listing operations do\<close>

definition located_in :: "string \<Rightarrow> s3_response \<Rightarrow> bool" where
  "located_in region r =
     (case r of RespLocation l \<Rightarrow> (case l of None \<Rightarrow> ''us-east-1'' | Some x \<Rightarrow> x) = region | _ \<Rightarrow> False)"

definition gone :: "s3_response \<Rightarrow> bool" where
  "gone r = (\<exists>code txt. r = RespError (AwsError code txt) \<and> no_such_bucket code)"

definition location_calls :: "AwsConfig \<Rightarrow> Bucket list \<Rightarrow> s3_response list \<Rightarrow> event list" where
  "location_calls k bs rs = map (\<lambda>(b, r). S3Call k (ReqGetBucketLocation (b_Name b)) r) (zip bs rs)"

definition buckets_in :: "string \<Rightarrow> Bucket list \<Rightarrow> s3_response list \<Rightarrow> Bucket list" where
  "buckets_in region bs rs = map fst (filter (\<lambda>(b, r). located_in region r) (zip bs rs))"

text \<open>
  An error ends the listing. Otherwise there is one location request for each bucket, in
  order; a bucket is kept if the answer locates it in the region, and skipped if it is gone.
\<close>

definition answered :: "s3_response list \<Rightarrow> bool" where
  "answered rs = (\<forall>x\<in>set rs. gone x \<or> (\<exists>l. x = RespLocation l))"

definition location_result :: "AwsConfig \<Rightarrow> string \<Rightarrow> Bucket list \<Rightarrow> Bucket list \<Rightarrow>
    (goerror + Bucket list) outcome \<Rightarrow> event list \<Rightarrow> bool" where
  "location_result k region bs acc r es =
     ((\<exists>err. r = Returned (Inl err)) \<or>
      (\<exists>rs. length rs = length bs \<and> answered rs \<and> es = location_calls k bs rs \<and>
         r = Returned (Inr (acc @ buckets_in region bs rs))))"

lemma gone_simps [simp]:
  "gone (RespError (AwsError code txt)) = no_such_bucket code" "\<not> gone (RespLocation l)"
  by (auto simp: gone_def)

lemma location_result_error [simp]: "location_result k region bs acc (Returned (Inl err)) es"
  by (simp add: location_result_def)

lemma location_result_Cons:
  assumes "location_result k region bs (acc @ (if located_in region x then [b] else [])) r es"
    and "gone x \<or> (\<exists>l. x = RespLocation l)"
  shows "location_result k region (b # bs) acc r
     (S3Call k (ReqGetBucketLocation (b_Name b)) x # es)"
proof -
  from assms(1) consider (err) err where "r = Returned (Inl err)"
    | (ok) rs where "length rs = length bs" "answered rs" "es = location_calls k bs rs"
        "r = Returned (Inr ((acc @ (if located_in region x then [b] else [])) @ buckets_in region bs rs))"
    unfolding location_result_def by blast
  then show ?thesis
  proof cases
    case err
    then show ?thesis by (simp add: location_result_def)
  next
    case ok
    then show ?thesis
      unfolding location_result_def using assms(2)
      by (intro disjI2 exI [of _ "x # rs"])
        (auto simp: buckets_in_def location_calls_def answered_def)
  qed
qed

lemma locate_buckets_result:
  "wp (locate_buckets E c region bs acc)
     (\<lambda>r es w'. location_result (s3Client c) region bs acc r es) w"
proof (induction bs arbitrary: acc w region)
  case Nil
  then show ?case
    by (simp add: wp_simps location_result_def buckets_in_def location_calls_def answered_def)
next
  case (Cons b bs)
  have next_bucket: "wp (locate_buckets E c region bs acc')
     (\<lambda>r es w'. location_result (s3Client c) region (b # bs) acc r
        (S3Call (s3Client c) (ReqGetBucketLocation (b_Name b)) x # es)) w1"
    if "gone x \<or> (\<exists>l. x = RespLocation l)"
      and "acc' = acc @ (if located_in region x then [b] else [])" for x acc' w1 region
    using Cons.IH [of region acc' w1] location_result_Cons [OF _ that(1)]
    unfolding that(2) by (rule wp_mono)
  show ?case
    by (auto simp: api_GetBucketLocation_def wp_simps aws_code_Some_iff located_in_def Let_def
          no_such_bucket_def
        intro!: next_bucket split: prod.split sum.split option.split)
qed

text \<open>
  Tags are read bucket by bucket. An answer that says there are none is skipped; any other
  error, such as AccessDenied, ends the listing with that error.
\<close>

definition untagged :: "goerror \<Rightarrow> bool" where
  "untagged err = (aws_code err = Some ''NoSuchTagSet'' \<or> aws_code err = Some ''NoSuchBucket'')"

definition tags_answered :: "s3_response list \<Rightarrow> bool" where
  "tags_answered rs =
     (\<forall>x\<in>set rs. (\<exists>err. x = RespError err \<and> untagged err) \<or> (\<exists>ts. x = RespTags ts))"

definition tag_reads :: "AwsConfig \<Rightarrow> string list \<Rightarrow> s3_response list \<Rightarrow> event list" where
  "tag_reads k ns rs = map (\<lambda>(n, r). S3Call k (ReqGetBucketTagging n) r) (zip ns rs)"

definition tagged_buckets :: "string list \<Rightarrow> s3_response list \<Rightarrow> (string \<times> Tag list) list" where
  "tagged_buckets ns rs =
     concat (map (\<lambda>(n, r). case r of RespTags ts \<Rightarrow> [(n, ts)] | _ \<Rightarrow> []) (zip ns rs))"

definition tags_failed :: "AwsConfig \<Rightarrow> string list \<Rightarrow> goerror \<Rightarrow> event list \<Rightarrow> bool" where
  "tags_failed k ns err es =
     (\<not> untagged err \<and>
      (\<exists>ns1 n ns2 rs. ns = ns1 @ n # ns2 \<and> length rs = length ns1 \<and> tags_answered rs \<and>
         es = tag_reads k ns1 rs @ [S3Call k (ReqGetBucketTagging n) (RespError err)]))"

definition tags_result :: "AwsConfig \<Rightarrow> string list \<Rightarrow> (string, Tag list) fmap \<Rightarrow>
    (goerror + (string, Tag list) fmap) outcome \<Rightarrow> event list \<Rightarrow> bool" where
  "tags_result k ns acc r es =
     ((\<exists>err. r = Returned (Inl err) \<and> tags_failed k ns err es) \<or>
      (\<exists>rs. length rs = length ns \<and> tags_answered rs \<and> es = tag_reads k ns rs \<and>
         r = Returned (Inr (copy_entries (tagged_buckets ns rs) acc))))"

lemma tags_failed_Cons:
  assumes "tags_failed k ns err es"
    and "(\<exists>e. x = RespError e \<and> untagged e) \<or> (\<exists>ts. x = RespTags ts)"
  shows "tags_failed k (n # ns) err (S3Call k (ReqGetBucketTagging n) x # es)"
proof -
  from assms(1) obtain ns1 m ns2 rs where
    "\<not> untagged err" "ns = ns1 @ m # ns2" "length rs = length ns1" "tags_answered rs"
    "es = tag_reads k ns1 rs @ [S3Call k (ReqGetBucketTagging m) (RespError err)]"
    unfolding tags_failed_def by blast
  then show ?thesis
    unfolding tags_failed_def using assms(2)
    by (intro conjI exI [of _ "n # ns1"] exI [of _ m] exI [of _ ns2] exI [of _ "x # rs"])
      (auto simp: tag_reads_def tags_answered_def)
qed

lemma tags_failed_now:
  "\<not> untagged err \<Longrightarrow>
     tags_failed k (n # ns) err [S3Call k (ReqGetBucketTagging n) (RespError err)]"
  unfolding tags_failed_def
  by (intro conjI exI [of _ "[]"] exI [of _ n] exI [of _ ns])
    (auto simp: tag_reads_def tags_answered_def)

lemma tags_result_Cons:
  assumes "tags_result k ns acc' r es"
    and "(\<exists>e. x = RespError e \<and> untagged e \<and> acc' = acc) \<or>
         (\<exists>ts. x = RespTags ts \<and> acc' = fmupd n ts acc)"
  shows "tags_result k (n # ns) acc r (S3Call k (ReqGetBucketTagging n) x # es)"
proof -
  from assms(1) consider (err) err where "r = Returned (Inl err)" "tags_failed k ns err es"
    | (ok) rs where "length rs = length ns" "tags_answered rs" "es = tag_reads k ns rs"
        "r = Returned (Inr (copy_entries (tagged_buckets ns rs) acc'))"
    unfolding tags_result_def by blast
  then show ?thesis
  proof cases
    case err
    then show ?thesis using assms(2) by (auto simp: tags_result_def intro!: tags_failed_Cons)
  next
    case ok
    then show ?thesis
      unfolding tags_result_def using assms(2)
      by (intro disjI2 exI [of _ "x # rs"])
        (auto simp: tagged_buckets_def tag_reads_def tags_answered_def)
  qed
qed

lemma collect_tags_result:
  "map b_Name bs = map Some ns \<Longrightarrow>
   wp (collect_tags E c bs acc) (\<lambda>r es w'. tags_result (s3Client c) ns acc r es) w"
proof (induction bs arbitrary: acc w ns)
  case Nil
  then show ?case
    by (simp add: wp_simps tags_result_def tag_reads_def tagged_buckets_def tags_answered_def)
next
  case (Cons b bs)
  from Cons.prems obtain n ns' where ns: "ns = n # ns'" "b_Name b = Some n" "map b_Name bs = map Some ns'"
    by (cases ns) auto
  have next_bucket: "wp (collect_tags E c bs acc')
     (\<lambda>r es w'. tags_result (s3Client c) ns acc r (S3Call (s3Client c) (ReqGetBucketTagging n) x # es)) w1"
    if "(\<exists>e. x = RespError e \<and> untagged e \<and> acc' = acc) \<or>
        (\<exists>ts. x = RespTags ts \<and> acc' = fmupd n ts acc)" for x acc' w1
    using Cons.IH [OF ns(3)] tags_result_Cons [OF _ that] unfolding ns(1) by (rule wp_mono)
  have failed: "tags_result (s3Client c) ns acc (Returned (Inl err))
     [S3Call (s3Client c) (ReqGetBucketTagging n) (RespError err)]" if "\<not> untagged err" for err
    using that by (simp add: tags_result_def ns(1) tags_failed_now)
  show ?case
    using ns(2)
    by (auto simp: api_GetBucketTagging_def wp_simps untagged_def
        intro!: next_bucket failed split: prod.split sum.split option.split)
qed

lemma collect_tags_stops:
  assumes "tags_result k ns acc r es" and "S3Call k' q (RespError err) \<in> set es" and "\<not> untagged err"
  shows "r = Returned (Inl err)"
  using assms
  by (auto simp: tags_result_def tags_failed_def tag_reads_def tags_answered_def dest!: set_zip_rightD)

section \<open>What FindMatchingTags computes\<close>

definition complete_tags :: "Tag list \<Rightarrow> bool" where
  "complete_tags ts = (\<forall>t\<in>set ts. t_Key t \<noteq> None \<and> t_Value t \<noteq> None)"

definition cluster_tag :: "string \<Rightarrow> Tag list \<Rightarrow> bool" where
  "cluster_tag infraName ts =
     (\<exists>t\<in>set ts. t_Key t = Some bucketTagInfraName \<and> t_Value t = Some infraName)"

definition velero_tag :: "Tag list \<Rightarrow> bool" where
  "velero_tag ts = (\<exists>t\<in>set ts. t_Key t = Some bucketTagBackupLocation)"

definition relevant :: "string \<Rightarrow> string \<times> Tag list \<Rightarrow> bool" where
  "relevant infraName b = (cluster_tag infraName (snd b) \<or> velero_tag (snd b))"

text \<open>
  The result, without the loops: the last bucket visited that has either tag, if some
  bucket has the one and some bucket, not necessarily the same, has the other.
\<close>

definition last_relevant :: "(string \<times> Tag list) list \<Rightarrow> string \<Rightarrow> string" where
  "last_relevant bs infraName =
     (if (\<exists>b\<in>set bs. cluster_tag infraName (snd b)) \<and> (\<exists>b\<in>set bs. velero_tag (snd b))
      then fst (last (filter (relevant infraName) bs)) else '''')"

definition note_tags :: "string \<Rightarrow> string \<times> Tag list \<Rightarrow> match_vars \<Rightarrow> match_vars" where
  "note_tags infraName b s =
     \<lparr>tagMatchesCluster = tagMatchesCluster s \<or> cluster_tag infraName (snd b),
      tagMatchesVelero = tagMatchesVelero s \<or> velero_tag (snd b),
      possiblematch = (if relevant infraName b then fst b else possiblematch s)\<rparr>"

lemma match_tags_bucket:
  "complete_tags ts \<Longrightarrow>
   fold_outcome (match_tag infraName b) ts s = Returned (note_tags infraName (b, ts) s)"
proof (induction ts arbitrary: s)
  case Nil
  then show ?case by (simp add: note_tags_def relevant_def cluster_tag_def velero_tag_def)
next
  case (Cons t ts)
  then have ts: "complete_tags ts" by (simp add: complete_tags_def)
  from Cons.prems obtain k v where t: "t_Key t = Some k" "t_Value t = Some v"
    by (auto simp: complete_tags_def)
  define s' where "s' = note_tags infraName (b, [t]) s"
  have "match_tag infraName b t s = Returned s'"
    using t by (auto simp: match_tag_def s'_def note_tags_def relevant_def cluster_tag_def
        velero_tag_def Let_def)
  moreover have "note_tags infraName (b, ts) s' = note_tags infraName (b, t # ts) s"
    by (auto simp: s'_def note_tags_def relevant_def cluster_tag_def velero_tag_def)
  ultimately show ?case using Cons.IH [OF ts] by simp
qed

lemma fold_note_tags:
  "fold (note_tags infraName) bs s =
     \<lparr>tagMatchesCluster = tagMatchesCluster s \<or> (\<exists>b\<in>set bs. cluster_tag infraName (snd b)),
      tagMatchesVelero = tagMatchesVelero s \<or> (\<exists>b\<in>set bs. velero_tag (snd b)),
      possiblematch = (if filter (relevant infraName) bs = [] then possiblematch s
                       else fst (last (filter (relevant infraName) bs)))\<rparr>"
  by (induction bs arbitrary: s) (auto simp: note_tags_def)

lemma FindMatchingTags_last_relevant:
  assumes "\<forall>b\<in>set bs. complete_tags (snd b)"
  shows "FindMatchingTags bs infraName = Returned (last_relevant bs infraName)"
proof -
  let ?s = "\<lparr>tagMatchesCluster = False, tagMatchesVelero = False, possiblematch = ''''\<rparr>"
  have "fold_outcome (\<lambda>(bucket, tagset) s. fold_outcome (match_tag infraName bucket) tagset s) bs ?s =
      Returned (fold (note_tags infraName) bs ?s)"
    using assms by (intro fold_outcome_returns) (auto simp: match_tags_bucket)
  moreover have "(\<exists>b\<in>set bs. cluster_tag infraName (snd b)) \<Longrightarrow> filter (relevant infraName) bs \<noteq> []"
    by (auto simp: filter_empty_conv relevant_def)
  ultimately show ?thesis
    by (auto simp: FindMatchingTags_def fold_note_tags last_relevant_def)
qed

section \<open>The operations that only read\<close>

lemma locate_buckets_cloud: "only_calls cloud_reads (locate_buckets E c region bs acc)"
  by (induction bs arbitrary: acc)
    (auto simp: api_GetBucketLocation_def cloud_reads_def reads_def Let_def
      intro!: only_calls_exec only_calls_call split: sum.split option.split)

lemma ListBucketsInRegion_cloud: "only_calls cloud_reads (ListBucketsInRegion E c region)"
  by (auto simp: ListBucketsInRegion_def ListBuckets_def api_ListBuckets_def cloud_reads_def reads_def
      intro!: only_calls_exec only_calls_call locate_buckets_cloud split: sum.split)

lemma collect_tags_cloud: "only_calls cloud_reads (collect_tags E c bs acc)"
  by (induction bs arbitrary: acc)
    (auto simp: api_GetBucketTagging_def cloud_reads_def reads_def
      intro!: only_calls_exec only_calls_call split: sum.split option.split)

lemma ListBucketTags_cloud: "only_calls cloud_reads (ListBucketTags E c bs)"
  by (simp add: ListBucketTags_def collect_tags_cloud)

lemma DoesBucketExist_cloud: "only_calls cloud_reads (DoesBucketExist E c b)"
  by (auto simp: DoesBucketExist_def api_HeadBucket_def cloud_reads_def reads_def
      intro!: only_calls_exec only_calls_call split: sum.split option.split)

lemma cloud_operations_read:
  shows ListBucketsInRegion_reads: "only_calls reads (ListBucketsInRegion E c region)"
    and ListBucketTags_reads: "only_calls reads (ListBucketTags E c bs)"
    and DoesBucketExist_reads: "only_calls reads (DoesBucketExist E c b)"
  by (rule only_calls_mono [OF ListBucketsInRegion_cloud cloud_reads_reads]
      only_calls_mono [OF ListBucketTags_cloud cloud_reads_reads]
      only_calls_mono [OF DoesBucketExist_cloud cloud_reads_reads], assumption)+

end
