(* ===== verification/Install_Api.thy ===== *)
theory Install_Api
  imports Env
begin

text \<open>
  api/v1alpha2/reconcile.go: when the storage bucket has to be reconciled, and the update
  of the resource's status. Time is read from the runtime; a duration is a signed 64-bit
  count of nanoseconds, into which time.Since saturates.
\<close>

section \<open>Times and durations\<close>

text \<open>metav1.Time.IsZero accepts a nil receiver.\<close>

definition IsZero :: "go_time option \<Rightarrow> bool" where
  "IsZero t = (case t of None \<Rightarrow> True | Some x \<Rightarrow> x = 0)"

definition minDuration :: int where "minDuration = - (2 ^ 63)"
definition maxDuration :: int where "maxDuration = 2 ^ 63 - 1"

definition Sub :: "go_time \<Rightarrow> go_time \<Rightarrow> int" where
  "Sub now t = max minDuration (min maxDuration (now - t))"

lemma Sub_less_iff:
  "minDuration \<le> p \<Longrightarrow> p < maxDuration \<Longrightarrow> p < Sub now t \<longleftrightarrow> p < now - t"
  by (auto simp: Sub_def)

lemma Sub_bounds: "minDuration \<le> Sub now t \<and> Sub now t \<le> maxDuration"
  by (simp add: Sub_def minDuration_def maxDuration_def)

section \<open>The operations of VeleroInstall\<close>

text \<open>The disjunction is evaluated from left to right, and reads the clock only at its end.\<close>

definition StorageBucketReconcileRequired ::
    "'w env \<Rightarrow> VeleroInstall \<Rightarrow> int \<Rightarrow> ('w, bool) prog" where
  "StorageBucketReconcileRequired E i reconcilePeriod =
     (if sb_Name (vi_Bucket i) = [] \<or>
         \<not> sb_Provisioned (vi_Bucket i) \<or>
         IsZero (sb_LastSyncTimestamp (vi_Bucket i))
      then ret True
      else
        (case sb_LastSyncTimestamp (vi_Bucket i) of
           None \<Rightarrow> panic
         | Some t \<Rightarrow>
             exec (time_Now E) (\<lambda>now.
               if Sub now t > reconcilePeriod then ret True else ret False)))"

text \<open>
  A successful update decodes the server's answer into the object it was called on, which
  is why the object is returned beside the error.
\<close>

definition StatusUpdate ::
    "'w env \<Rightarrow> VeleroInstall \<Rightarrow> ('w, goerror option \<times> VeleroInstall) prog" where
  "StatusUpdate E i =
     exec (Status_Update E i) (\<lambda>r. case r of
       Inl err \<Rightarrow> ret (Some err, i)
     | Inr i' \<Rightarrow> ret (None, i'))"

lemma wp_StatusUpdate [wp_simps]:
  "wp (StatusUpdate E i) Q w =
     (case k_StatusUpdate (e_kube E) i w of
        (Inl err, w') \<Rightarrow> Q (Returned (Some err, i)) [KStatusUpdate i (Some err)] w'
      | (Inr i', w') \<Rightarrow> Q (Returned (None, i')) [KStatusUpdate i None] w')"
  by (simp add: StatusUpdate_def env_calls wp_simps split: prod.split sum.split)

section \<open>When the bucket is reconciled\<close>

text \<open>What the doc comment of the function says, for a clock that shows \<open>now\<close>.\<close>

definition bucket_stale :: "go_time \<Rightarrow> int \<Rightarrow> StorageBucket \<Rightarrow> bool" where
  "bucket_stale now period b =
     (sb_Name b = [] \<or> \<not> sb_Provisioned b \<or>
      (case sb_LastSyncTimestamp b of None \<Rightarrow> True
       | Some t \<Rightarrow> t = 0 \<or> period < now - t))"

text \<open>A bucket that is due whatever the clock shows.\<close>

definition unsynced :: "StorageBucket \<Rightarrow> bool" where
  "unsynced b = (sb_Name b = [] \<or> \<not> sb_Provisioned b \<or> IsZero (sb_LastSyncTimestamp b))"

lemma unsynced_stale: "unsynced b \<Longrightarrow> bucket_stale now p b"
  by (auto simp: unsynced_def bucket_stale_def IsZero_def split: option.splits)

lemma synced_staleD:
  "bucket_stale now p b \<Longrightarrow> \<not> unsynced b \<Longrightarrow> \<exists>t. sb_LastSyncTimestamp b = Some t \<and> p < now - t"
  by (auto simp: unsynced_def bucket_stale_def IsZero_def split: option.splits)

lemma bucket_stale_mono:
  "bucket_stale now p b \<Longrightarrow> now \<le> now' \<Longrightarrow> bucket_stale now' p b"
  by (auto simp: bucket_stale_def split: option.splits)

lemma fresh_bucketD:
  "\<not> bucket_stale now p b \<Longrightarrow> sb_Name b \<noteq> [] \<and> sb_Provisioned b \<and>
     (\<exists>t. sb_LastSyncTimestamp b = Some t \<and> now - t \<le> p)"
  by (auto simp: bucket_stale_def split: option.splits)

lemma wp_StorageBucketReconcileRequired:
  assumes "minDuration \<le> p" and "p < maxDuration"
  shows "wp (StorageBucketReconcileRequired E i p)
     (\<lambda>r es w'. \<exists>b now. r = Returned b \<and> b = bucket_stale now p (vi_Bucket i) \<and>
        ((es = [] \<and> w' = w \<and> unsynced (vi_Bucket i)) \<or>
         (es = [Now now] \<and> rt_Now (e_rt E) w = (now, w') \<and> \<not> unsynced (vi_Bucket i)))) w"
  using Sub_less_iff [OF assms]
  by (auto simp: StorageBucketReconcileRequired_def env_calls wp_simps bucket_stale_def unsynced_def
      IsZero_def split: prod.split option.split)

end
