(* ===== verification/Storage_Spec.thy ===== *)
theory Storage_Spec
  imports Install_Api Constants
begin

text \<open>
  The contract of pkg/storage.Driver, the interface between the controller and a storage
  provider: how a driver moves the bucket recorded in the resource's status, as a step
  relation, and the laws of its methods, as a locale. S3_Driver and GCS_Driver show that
  the two drivers of the source keep it, and Storage that the dispatch between them does.
\<close>

section \<open>The bucket of the status as a state machine\<close>

text \<open>
  A bucket is recovered or gets a proposed name while there is none; a name that is not
  provisioned can be dropped; a missing bucket is noted; a synchronised one is recorded.
\<close>

inductive bucket_step :: "StorageBucket \<Rightarrow> StorageBucket \<Rightarrow> bool" where
  adopt: "sb_Name b = '''' \<Longrightarrow> n \<noteq> '''' \<Longrightarrow>
     bucket_step b (b\<lparr>sb_Name := n, sb_Provisioned := True\<rparr>)"
| propose: "sb_Name b = '''' \<Longrightarrow> n \<noteq> '''' \<Longrightarrow>
     bucket_step b (b\<lparr>sb_Name := n, sb_Provisioned := False\<rparr>)"
| drop: "sb_Name b \<noteq> '''' \<Longrightarrow> \<not> sb_Provisioned b \<Longrightarrow> bucket_step b (b\<lparr>sb_Name := ''''\<rparr>)"
| lose: "sb_Name b \<noteq> '''' \<Longrightarrow> bucket_step b (b\<lparr>sb_Provisioned := False\<rparr>)"
| sync: "sb_Name b \<noteq> '''' \<Longrightarrow>
     bucket_step b (b\<lparr>sb_Provisioned := True, sb_LastSyncTimestamp := Some t\<rparr>)"

inductive_cases bucket_stepE: "bucket_step b b'"

inductive_simps bucket_step_simps:
  "bucket_step b b'"

text \<open>A provisioned bucket has a name: every step keeps that.\<close>

definition bucket_wf :: "StorageBucket \<Rightarrow> bool" where
  "bucket_wf b = (sb_Provisioned b \<longrightarrow> sb_Name b \<noteq> '''')"

lemma bucket_step_wf: "bucket_step b b' \<Longrightarrow> bucket_wf b \<Longrightarrow> bucket_wf b'"
  by (induction rule: bucket_step.induct) (auto simp: bucket_wf_def)

text \<open>A step replaces a name only by dropping it, and never while it is provisioned.\<close>

lemma bucket_step_name:
  "bucket_step b b' \<Longrightarrow> sb_Name b \<noteq> '''' \<Longrightarrow> sb_Name b' \<noteq> sb_Name b \<Longrightarrow>
     sb_Name b' = '''' \<and> \<not> sb_Provisioned b"
  by (induction rule: bucket_step.induct) auto

section \<open>The steps a run takes\<close>

text \<open>
  The status updates of a run, each a step from the status stored before it. An update
  that fails stores nothing.
\<close>

fun status_after :: "StorageBucket \<Rightarrow> event list \<Rightarrow> StorageBucket" where
  "status_after b [] = b"
| "status_after b (KStatusUpdate i None # es) = status_after (vi_Bucket i) es"
| "status_after b (e # es) = status_after b es"

fun status_path :: "StorageBucket \<Rightarrow> event list \<Rightarrow> bool" where
  "status_path b [] = True"
| "status_path b (KStatusUpdate i None # es) =
     (bucket_step b (vi_Bucket i) \<and> status_path (vi_Bucket i) es)"
| "status_path b (KStatusUpdate i (Some err) # es) = (bucket_step b (vi_Bucket i) \<and> status_path b es)"
| "status_path b (e # es) = status_path b es"

lemma status_after_append: "status_after b (es @ es') = status_after (status_after b es) es'"
  by (induction b es rule: status_after.induct) auto

lemma status_path_append [simp]:
  "status_path b (es @ es') = (status_path b es \<and> status_path (status_after b es) es')"
  by (induction b es rule: status_path.induct) auto

lemma no_writes_status:
  "no_kube_writes es \<Longrightarrow> status_path b es \<and> status_after b es = b"
proof (induction es arbitrary: b)
  case (Cons e es)
  then show ?case by (cases e) auto
qed simp

lemma reads_status: "list_all reads es \<Longrightarrow> status_path b es \<and> status_after b es = b"
  by (intro no_writes_status no_kube_writes_reads)

lemma status_update_path [simp]:
  "status_path b [KStatusUpdate i res] = bucket_step b (vi_Bucket i)"
  by (cases res) auto

lemma status_path_wf: "status_path b es \<Longrightarrow> bucket_wf b \<Longrightarrow> bucket_wf (status_after b es)"
  by (induction b es rule: status_path.induct) (auto intro: bucket_step_wf)

lemma status_path_steps: "status_path b es \<Longrightarrow> bucket_step\<^sup>*\<^sup>* b (status_after b es)"
  by (induction b es rule: status_path.induct) (auto intro: converse_rtranclp_into_rtranclp)

section \<open>The changes drivers make to the status\<close>

definition synced :: "go_time \<Rightarrow> VeleroInstall \<Rightarrow> VeleroInstall" where
  "synced now i = with_bucket (\<lambda>b. b\<lparr>sb_Provisioned := True, sb_LastSyncTimestamp := Some now\<rparr>) i"

definition unprovisioned :: "VeleroInstall \<Rightarrow> VeleroInstall" where
  "unprovisioned i = with_bucket (\<lambda>b. b\<lparr>sb_Provisioned := False\<rparr>) i"

definition nameless :: "VeleroInstall \<Rightarrow> VeleroInstall" where
  "nameless i = with_bucket (\<lambda>b. b\<lparr>sb_Name := ''''\<rparr>) i"

definition adopted :: "string \<Rightarrow> VeleroInstall \<Rightarrow> VeleroInstall" where
  "adopted n i = with_bucket (\<lambda>b. b\<lparr>sb_Name := n, sb_Provisioned := True\<rparr>) i"

definition proposed :: "string \<Rightarrow> VeleroInstall \<Rightarrow> VeleroInstall" where
  "proposed n i = with_bucket (\<lambda>b. b\<lparr>sb_Name := n, sb_Provisioned := False\<rparr>) i"

text \<open>A name is a recovered bucket's, or the prefix followed by a new identifier.\<close>

definition names_bucket :: "VeleroInstall \<Rightarrow> VeleroInstall \<Rightarrow> bool" where
  "names_bucket i j =
     ((\<exists>n. n \<noteq> '''' \<and> j = adopted n i) \<or> (\<exists>u. j = proposed (StorageBucketPrefix @ u) i))"

lemma adopted_names: "n \<noteq> [] \<Longrightarrow> names_bucket i (adopted n i)"
  by (auto simp: names_bucket_def)

lemma proposed_prefix: "names_bucket i (proposed (StorageBucketPrefix @ u) i)"
  by (auto simp: names_bucket_def)

lemma names_bucket_time:
  "names_bucket i j \<Longrightarrow> sb_LastSyncTimestamp (vi_Bucket j) = sb_LastSyncTimestamp (vi_Bucket i)"
  by (auto simp: names_bucket_def adopted_def proposed_def)

lemma names_bucket_step:
  "names_bucket i j \<Longrightarrow> sb_Name (vi_Bucket i) = '''' \<Longrightarrow>
     bucket_step (vi_Bucket i) (vi_Bucket j) \<and> sb_Name (vi_Bucket j) \<noteq> ''''"
  by (auto simp: names_bucket_def adopted_def proposed_def StorageBucketPrefix_def
      intro: bucket_step.adopt bucket_step.propose)

lemma status_change_steps:
  "sb_Name (vi_Bucket i) \<noteq> [] \<Longrightarrow> bucket_step (vi_Bucket i) (vi_Bucket (synced now i))"
  "sb_Name (vi_Bucket i) \<noteq> [] \<Longrightarrow> bucket_step (vi_Bucket i) (vi_Bucket (unprovisioned i))"
  "sb_Name (vi_Bucket i) \<noteq> [] \<Longrightarrow> \<not> sb_Provisioned (vi_Bucket i) \<Longrightarrow>
     bucket_step (vi_Bucket i) (vi_Bucket (nameless i))"
  by (auto simp: synced_def unprovisioned_def nameless_def
      intro: bucket_step.sync bucket_step.lose bucket_step.drop)

section \<open>The form a status is stored in\<close>

text \<open>The API server keeps the times of a status to the second.\<close>

definition to_second :: "StorageBucket \<Rightarrow> StorageBucket" where
  "to_second b = b\<lparr>sb_LastSyncTimestamp :=
     map_option (\<lambda>t. t - t mod 1000000000) (sb_LastSyncTimestamp b)\<rparr>"

lemma to_second_simps [simp]:
  "sb_Name (to_second b) = sb_Name b"
  "sb_Provisioned (to_second b) = sb_Provisioned b"
  "whole_seconds (sb_LastSyncTimestamp (to_second b))"
  by (auto simp: to_second_def whole_seconds_def mod_diff_eq split: option.split)

lemma to_second_id: "whole_seconds (sb_LastSyncTimestamp b) \<Longrightarrow> to_second b = b"
  by (cases b) (auto simp: to_second_def whole_seconds_def split: option.splits)

section \<open>The contract of a storage driver\<close>

definition status_writes_only :: "event \<Rightarrow> bool" where
  "status_writes_only e = (is_kube_write e \<longrightarrow> is_status_update e)"

lemma reads_status_writes_only: "reads e \<Longrightarrow> status_writes_only e"
  by (simp add: reads_def status_writes_only_def)

text \<open>
  The calls a driver may make: of the API server it only reads its credentials and updates
  the status of the resource.
\<close>

fun driver_call :: "event \<Rightarrow> bool" where
  "driver_call (KGet k n ns r) = (k = KindSecret \<and> ns = OperatorNamespace)"
| "driver_call (KCreate ob r) = False"
| "driver_call (KUpdate ob r) = False"
| "driver_call (S3Call c q r) = driver_request q"
| "driver_call e = True"

lemma driver_call_status: "driver_call e \<Longrightarrow> status_writes_only e"
  by (cases e) (simp_all add: status_writes_only_def)

lemma cloud_reads_driver_call: "cloud_reads e \<Longrightarrow> driver_call e"
  by (cases e) (simp_all add: cloud_reads_def reads_def)

definition recorded :: "goerror option outcome \<Rightarrow> event list \<Rightarrow> bool" where
  "recorded r es = (r = Returned None \<longrightarrow> (\<exists>es' j. es = es' @ [KStatusUpdate j None]))"

locale storage_driver =
  fixes create_storage :: "'w env \<Rightarrow> 'd \<Rightarrow> VeleroInstall \<Rightarrow> ('w, goerror option) prog"
    and storage_exists :: "'w env \<Rightarrow> 'd \<Rightarrow> string \<Rightarrow> ('w, goerror + bool) prog"
  assumes status_steps: "valid_runtime E \<Longrightarrow> echoes_status E \<Longrightarrow>
      whole_seconds (sb_LastSyncTimestamp (vi_Bucket i)) \<Longrightarrow>
      wp (create_storage E d i) (\<lambda>r es w'. status_path (vi_Bucket i) es) w"
    and only_driver_calls: "only_calls driver_call (create_storage E d i)"
    and nil_recorded: "valid_runtime E \<Longrightarrow>
      wp (create_storage E d i) (\<lambda>r es w'. recorded r es) w"
    and exists_reads: "only_calls reads (storage_exists E d b)"
begin

lemma only_status: "only_calls status_writes_only (create_storage E d i)"
  by (rule only_calls_mono [OF only_driver_calls driver_call_status])

lemma stored_status_wf:
  assumes "valid_runtime E" and "echoes_status E" and "whole_seconds (sb_LastSyncTimestamp (vi_Bucket i))"
    and "bucket_wf (vi_Bucket i)"
  shows "wp (create_storage E d i) (\<lambda>r es w'. bucket_wf (status_after (vi_Bucket i) es)) w"
  using status_steps [OF assms(1,2,3)] by (rule wp_mono) (rule status_path_wf [OF _ assms(4)])

lemma keeps_provisioned_name:
  assumes "valid_runtime E" and "echoes_status E" and "whole_seconds (sb_LastSyncTimestamp (vi_Bucket i))"
  shows "wp (create_storage E d i)
    (\<lambda>r es w'. bucket_step\<^sup>*\<^sup>* (vi_Bucket i) (status_after (vi_Bucket i) es)) w"
  using status_steps [OF assms] by (rule wp_mono) (rule status_path_steps)

end

end
