(* ===== verification/S3_Driver.thy ===== *)
theory S3_Driver
  imports S3_Bucket Storage_Spec
begin

text \<open>
  pkg/storage/s3/s3.go: the S3 storage driver. CreateStorage picks or creates the bucket of
  the resource's status, then enforces its settings, then records the synchronisation in
  the status. Log calls are left out; every other statement is here.
\<close>

section \<open>Error codes of the SDK\<close>

definition ErrCodeBucketAlreadyExists :: string where
  "ErrCodeBucketAlreadyExists = ''BucketAlreadyExists''"
definition ErrCodeBucketAlreadyOwnedByYou :: string where
  "ErrCodeBucketAlreadyOwnedByYou = ''BucketAlreadyOwnedByYou''"

section \<open>The driver\<close>

record s3_driver =
  s3_Region :: string
  s3_InfraName :: string

text \<open>NewDriver dereferences the platform status and its AWS part.\<close>

definition s3_NewDriver :: "InfrastructureStatus \<Rightarrow> s3_driver outcome" where
  "s3_NewDriver cfg =
     (case is_PlatformStatus cfg of
        None \<Rightarrow> Panicked
      | Some platformStatus \<Rightarrow>
          (case pl_AWS platformStatus of
             None \<Rightarrow> Panicked
           | Some aws \<Rightarrow> Returned \<lparr>s3_Region = aws_Region aws,
                                    s3_InfraName = is_InfrastructureName cfg\<rparr>))"

definition s3_GetPlatformType :: "s3_driver \<Rightarrow> PlatformType" where
  "s3_GetPlatformType d = AWSPlatformType"

definition s3_generateBucketName :: "'w env \<Rightarrow> string \<Rightarrow> ('w, string) prog" where
  "s3_generateBucketName E pfx = exec (uuid_New E) (\<lambda>id. ret (pfx @ id))"

definition s3_StorageExists :: "'w env \<Rightarrow> s3_driver \<Rightarrow> string \<Rightarrow> ('w, goerror + bool) prog" where
  "s3_StorageExists E d bucketName =
     exec (NewS3Client E (s3_Region d)) (\<lambda>r. case r of
       Inl err \<Rightarrow> ret (Inl err)
     | Inr c \<Rightarrow>
         exec (api_HeadBucket E c bucketName) (\<lambda>r. case r of
           Inl err \<Rightarrow>
             (case aws_code err of
                Some code \<Rightarrow>
                  if code = ''NoSuchBucket'' \<or> code = ''NotFound'' then ret (Inr False)
                  else ret (Inl (Errorf [''unable to determine bucket '', bucketName,
                         '' status: '', Error err]))
              | None \<Rightarrow> panic)
         | Inr u \<Rightarrow> ret (Inr True)))"

section \<open>Choosing the bucket's name\<close>

definition setInstanceBucketName ::
    "'w env \<Rightarrow> s3_driver \<Rightarrow> awsClient \<Rightarrow> VeleroInstall \<Rightarrow>
       ('w, goerror option \<times> VeleroInstall) prog" where
  "setInstanceBucketName E d c inst =
     exec (ListBucketsInRegion E c (s3_Region d)) (\<lambda>r. case r of
       Inl err \<Rightarrow> ret (Some err, inst)
     | Inr bucketlist \<Rightarrow>
         exec (ListBucketTags E c (lbo_Buckets bucketlist)) (\<lambda>r. case r of
           Inl err \<Rightarrow> ret (Some err, inst)
         | Inr bucketinfo \<Rightarrow>
             exec (current_order E) (\<lambda>ord.
             exec (lift_outcome (FindMatchingTags (range_over ord bucketinfo) (s3_InfraName d)))
               (\<lambda>existingBucket.
                 if existingBucket \<noteq> '''' then
                   StatusUpdate E (with_bucket (\<lambda>b. b\<lparr>sb_Name := existingBucket,
                                                        sb_Provisioned := True\<rparr>) inst)
                 else
                   exec (s3_generateBucketName E StorageBucketPrefix) (\<lambda>proposedName.
                   exec (DoesBucketExist E c proposedName) (\<lambda>r. case r of
                     Inl err \<Rightarrow> ret (Some err, inst)
                   | Inr proposedBucketExists \<Rightarrow>
                       if proposedBucketExists then
                         ret (Some (Errorf [''proposed bucket '', proposedName,
                                '' already exists, retrying'']), inst)
                       else
                         StatusUpdate E (with_bucket (\<lambda>b. b\<lparr>sb_Name := proposedName,
                                                              sb_Provisioned := False\<rparr>) inst)))))))"

section \<open>CreateStorage\<close>

text \<open>
  The switch of CreateStorage. \<open>Inl r\<close> says that CreateStorage returns \<open>r\<close> from within
  the switch, \<open>Inr i\<close> that it goes on after it with the resource \<open>i\<close>. Both branches of the
  test for an AWS error in the source build the same message.
\<close>

definition s3_select_bucket ::
    "'w env \<Rightarrow> s3_driver \<Rightarrow> awsClient \<Rightarrow> VeleroInstall \<Rightarrow>
       ('w, goerror option + VeleroInstall) prog" where
  "s3_select_bucket E d c inst =
     (let name = sb_Name (vi_Bucket inst);
          tag = exec (TagBucket E c name DefaultVeleroBackupStorageLocation (s3_InfraName d))
            (\<lambda>err. case err of
               Some err \<Rightarrow> ret (Inl (Some (Errorf [''error occurred when tagging bucket '', name,
                             '': '', Error err])))
             | None \<Rightarrow> ret (Inr inst))
      in if name = '''' then
           exec (setInstanceBucketName E d c inst) (\<lambda>(err, inst'). case err of
             Some err \<Rightarrow> ret (Inl (Some err))
           | None \<Rightarrow> ret (Inr inst'))
         else if name \<noteq> '''' \<and> \<not> sb_Provisioned (vi_Bucket inst) then
           exec (CreateBucket E c name) (\<lambda>err. case err of
             Some err \<Rightarrow>
               (case aws_code err of
                  Some code \<Rightarrow>
                    if code = ErrCodeBucketAlreadyExists then
                      exec (StatusUpdate E (with_bucket (\<lambda>b. b\<lparr>sb_Name := ''''\<rparr>) inst))
                        (\<lambda>(err, inst'). ret (Inl err))
                    else if code = ErrCodeBucketAlreadyOwnedByYou then tag
                    else ret (Inl (Some (Errorf [''error occurred when creating bucket '', name,
                           '': '', Error err])))
                | None \<Rightarrow> ret (Inl (Some (Errorf [''error occurred when creating bucket '', name,
                            '': '', Error err]))))
           | None \<Rightarrow> tag)
         else ret (Inr inst))"

text \<open>One enforcement step: on an error CreateStorage returns it wrapped, else it goes on.\<close>

definition or_fail ::
    "('w, goerror option) prog \<Rightarrow> string \<Rightarrow> string \<Rightarrow> ('w, goerror option) prog \<Rightarrow>
       ('w, goerror option) prog" where
  "or_fail m what name k =
     exec m (\<lambda>err. case err of
       Some err \<Rightarrow> ret (Some (Errorf [''error occurred when '', what, '' bucket '', name, '': '',
                     Error err]))
     | None \<Rightarrow> k)"

text \<open>What CreateStorage does after the switch.\<close>

definition s3_enforce_bucket ::
    "'w env \<Rightarrow> s3_driver \<Rightarrow> awsClient \<Rightarrow> VeleroInstall \<Rightarrow> ('w, goerror option) prog" where
  "s3_enforce_bucket E d c inst =
     (let name = sb_Name (vi_Bucket inst)
      in exec (s3_StorageExists E d name) (\<lambda>r. case r of
        Inl err \<Rightarrow> ret (Some (Errorf [''error occurred when verifying bucket '', name, '': '',
                     Error err]))
      | Inr exists \<Rightarrow>
          if \<not> exists then
            exec (StatusUpdate E (with_bucket (\<lambda>b. b\<lparr>sb_Provisioned := False\<rparr>) inst))
              (\<lambda>(err, inst'). ret err)
          else
            or_fail (EncryptBucket E c name) ''encrypting'' name
           (or_fail (BlockBucketPublicAccess E c name) ''blocking public access to'' name
           (or_fail (SetBucketLifecycle E c name) ''configuring lifecycle rules on'' name
           (or_fail (TagBucket E c name DefaultVeleroBackupStorageLocation (s3_InfraName d))
                    ''tagging'' name
             (exec (time_Now E) (\<lambda>now.
              exec (StatusUpdate E (with_bucket (\<lambda>b. b\<lparr>sb_Provisioned := True,
                      sb_LastSyncTimestamp := Some now\<rparr>) inst))
                (\<lambda>(err, inst'). ret err))))))))"

definition s3_CreateStorage ::
    "'w env \<Rightarrow> s3_driver \<Rightarrow> VeleroInstall \<Rightarrow> ('w, goerror option) prog" where
  "s3_CreateStorage E d inst =
     exec (NewS3Client E (s3_Region d)) (\<lambda>r. case r of
       Inl err \<Rightarrow> ret (Some err)
     | Inr c \<Rightarrow>
         exec (s3_select_bucket E d c inst) (\<lambda>r. case r of
           Inl result \<Rightarrow> ret result
         | Inr inst' \<Rightarrow> s3_enforce_bucket E d c inst'))"

section \<open>What enforcement does\<close>

text \<open>The settings of README.md, as the requests that put them in place, in order.\<close>

definition enforcement :: "AwsConfig \<Rightarrow> string \<Rightarrow> string \<Rightarrow> event list \<Rightarrow> bool" where
  "enforcement k b infraName es =
     (\<exists>tags. mset tags = velero_tags DefaultVeleroBackupStorageLocation infraName \<and>
        es = [S3Call k (ReqPutBucketEncryption (encryption_request b)) RespOk,
              S3Call k (ReqPutPublicAccessBlock b all_public_blocked) RespOk,
              S3Call k (ReqPutBucketLifecycleConfiguration b backup_expiry_rules) RespOk,
              S3Call k (ReqDeleteBucketTagging b) RespOk,
              S3Call k (ReqPutBucketTagging b tags) RespOk])"

text \<open>The requests the driver may send that change a bucket: all of them name that bucket.\<close>

definition own_request :: "s3_driver \<Rightarrow> string \<Rightarrow> s3_request \<Rightarrow> bool" where
  "own_request d b q =
     (q = ReqCreateBucket \<lparr>cb_ACL = ''private'', cb_Bucket = b, cb_LocationConstraint =
        (if s3_Region d = ''us-east-1'' then None else Some (s3_Region d))\<rparr> \<or>
      q = ReqPutBucketEncryption (encryption_request b) \<or>
      q = ReqPutPublicAccessBlock b all_public_blocked \<or>
      q = ReqPutBucketLifecycleConfiguration b backup_expiry_rules \<or>
      q = ReqDeleteBucketTagging b \<or>
      (\<exists>tags. q = ReqPutBucketTagging b tags \<and>
         mset tags = velero_tags DefaultVeleroBackupStorageLocation (s3_InfraName d)))"

definition own_writes :: "s3_driver \<Rightarrow> string \<Rightarrow> event list \<Rightarrow> bool" where
  "own_writes d b es = list_all (\<lambda>e. is_cloud_write e \<longrightarrow> (\<exists>k q r. e = S3Call k q r \<and> own_request d b q)) es"

lemma own_writes_simps [simp]:
  "own_writes d b []"
  "own_writes d b (es @ es') = (own_writes d b es \<and> own_writes d b es')"
  "own_writes d b (S3Call k q r # es) = ((s3_request_writes q \<longrightarrow> own_request d b q) \<and> own_writes d b es)"
  "own_writes d b (Now t # es) = own_writes d b es"
  "own_writes d b (NewUUID u # es) = own_writes d b es"
  "own_writes d b (KStatusUpdate j res # es) = own_writes d b es"
  by (auto simp: own_writes_def)

lemma own_writes_reads: "list_all reads es \<Longrightarrow> own_writes d b es"
  by (auto simp: own_writes_def reads_def list_all_iff)

text \<open>
  How enforcement ends: the bucket was checked and all settings put in place before the
  status says so; or the bucket is missing and the status says that; or an error is
  returned and the status is left alone; or the check itself panicked.
\<close>

definition s3_synced :: "s3_driver \<Rightarrow> awsClient \<Rightarrow> VeleroInstall \<Rightarrow>
    goerror option outcome \<Rightarrow> event list \<Rightarrow> bool" where
  "s3_synced d c i r es =
     (\<exists>ce k en now res. r = Returned res \<and> s3_client_events (s3_Region d) ce \<and>
        enforcement (s3Client c) (sb_Name (vi_Bucket i)) (s3_InfraName d) en \<and>
        es = ce @ [S3Call k (ReqHeadBucket (sb_Name (vi_Bucket i))) RespOk] @ en @
          [Now now, KStatusUpdate (synced now i) res])"

definition s3_missing :: "s3_driver \<Rightarrow> VeleroInstall \<Rightarrow>
    goerror option outcome \<Rightarrow> event list \<Rightarrow> bool" where
  "s3_missing d i r es =
     (\<exists>ce k err res. r = Returned res \<and> s3_client_events (s3_Region d) ce \<and>
        gone (RespError err) \<and>
        es = ce @ [S3Call k (ReqHeadBucket (sb_Name (vi_Bucket i))) (RespError err),
          KStatusUpdate (unprovisioned i) res])"

definition s3_failed :: "s3_driver \<Rightarrow> string \<Rightarrow> goerror option outcome \<Rightarrow> event list \<Rightarrow> bool" where
  "s3_failed d b r es =
     (\<exists>err. r = Returned (Some err) \<and> no_kube_writes es \<and> own_writes d b es)"

definition s3_crashed :: "s3_driver \<Rightarrow> VeleroInstall \<Rightarrow>
    goerror option outcome \<Rightarrow> event list \<Rightarrow> bool" where
  "s3_crashed d i r es =
     (\<exists>ce k err. r = Panicked \<and> s3_client_events (s3_Region d) ce \<and> aws_code err = None \<and>
        es = ce @ [S3Call k (ReqHeadBucket (sb_Name (vi_Bucket i))) (RespError err)])"

definition s3_enforced :: "s3_driver \<Rightarrow> awsClient \<Rightarrow> VeleroInstall \<Rightarrow>
    goerror option outcome \<Rightarrow> event list \<Rightarrow> bool" where
  "s3_enforced d c i r es =
     (s3_synced d c i r es \<or> s3_missing d i r es \<or> s3_failed d (sb_Name (vi_Bucket i)) r es \<or>
      s3_crashed d i r es)"

lemma wp_or_fail [wp_simps]:
  "wp (or_fail m what name k) Q w =
     wp m (\<lambda>r es w'. case r of Panicked \<Rightarrow> Q Panicked es w'
       | Returned None \<Rightarrow> wp k (\<lambda>r es' w''. Q r (es @ es') w'') w'
       | Returned (Some err) \<Rightarrow>
           Q (Returned (Some (Errorf [''error occurred when '', what, '' bucket '', name, '': '', Error err]))) es w') w"
  unfolding or_fail_def wp_exec
  by (rule arg_cong [where f = "\<lambda>Q. wp m Q w"]) (auto intro!: ext simp: wp_simps split: outcome.split option.split)

lemmas s3_settings_wp = encrypt_bucket.wp_op block_public.wp_op set_lifecycle.wp_op create_bucket.wp_op wp_TagBucket

lemma StorageExists_result:
  "wp (s3_StorageExists E d b)
     (\<lambda>r es w'. list_all reads es \<and>
        ((\<exists>ce k. s3_client_events (s3_Region d) ce \<and> r = Returned (Inr True) \<and>
            es = ce @ [S3Call k (ReqHeadBucket b) RespOk]) \<or>
         (\<exists>ce k err. s3_client_events (s3_Region d) ce \<and> r = Returned (Inr False) \<and>
            gone (RespError err) \<and> es = ce @ [S3Call k (ReqHeadBucket b) (RespError err)]) \<or>
         (\<exists>err. r = Returned (Inl err)) \<or>
         (\<exists>ce k err. s3_client_events (s3_Region d) ce \<and> r = Panicked \<and> aws_code err = None \<and>
            es = ce @ [S3Call k (ReqHeadBucket b) (RespError err)]))) w"
  unfolding s3_StorageExists_def
proof (rule wp_bindI [OF wp_NewS3Client], goal_cases)
  case (1 es w')
  then show ?case by simp
next
  case (2 x es w')
  then show ?case
    by (auto simp: api_HeadBucket_def wp_simps s3_client_events_read aws_code_Some_iff
        no_such_bucket_def reads_def split: sum.splits prod.split option.split)
qed

lemma tags_of_runtime:
  "valid_runtime E \<Longrightarrow> mset (operator_tags (rt_Order (e_rt E) w) l n) = velero_tags l n"
  by (simp add: mset_operator_tags valid_runtime_def)

lemma settings_result:
  assumes "valid_runtime E"
  shows "wp (or_fail (EncryptBucket E c b) ''encrypting'' b
            (or_fail (BlockBucketPublicAccess E c b) ''blocking public access to'' b
            (or_fail (SetBucketLifecycle E c b) ''configuring lifecycle rules on'' b
            (or_fail (TagBucket E c b DefaultVeleroBackupStorageLocation (s3_InfraName d)) ''tagging'' b
             (exec (time_Now E) (\<lambda>now.
              exec (StatusUpdate E (with_bucket (\<lambda>b. b\<lparr>sb_Provisioned := True,
                      sb_LastSyncTimestamp := Some now\<rparr>) i))
                (\<lambda>(err, inst'). ret err)))))))
     (\<lambda>r es w'.
        (\<exists>en now res. r = Returned res \<and> enforcement (s3Client c) b (s3_InfraName d) en \<and>
           es = en @ [Now now, KStatusUpdate (synced now i) res]) \<or>
        (\<exists>err. r = Returned (Some err) \<and> no_kube_writes es \<and> own_writes d b es)) w"
  using tags_of_runtime [OF assms]
  by (simp add: wp_simps s3_settings_wp env_calls enforcement_def own_request_def synced_def Let_def
      split: option.split prod.split sum.split)

lemma s3_enforce_bucket_result:
  assumes "valid_runtime E"
  shows "wp (s3_enforce_bucket E d c i) (\<lambda>r es w'. s3_enforced d c i r es) w"
  unfolding s3_enforce_bucket_def Let_def
proof (rule wp_bindI [OF StorageExists_result], goal_cases)
  case (1 es w')
  then show ?case by (auto simp: s3_enforced_def s3_crashed_def)
next
  case (2 x es w')
  let ?b = "sb_Name (vi_Bucket i)"
  from 2 have rd: "no_kube_writes es" "own_writes d ?b es"
    by (simp_all add: no_kube_writes_reads own_writes_reads)
  from 2 consider (err) err where "x = Inl err"
    | (missing) ce k err where "x = Inr False" "s3_client_events (s3_Region d) ce"
        "gone (RespError err)" "es = ce @ [S3Call k (ReqHeadBucket ?b) (RespError err)]"
    | (there) ce k where "x = Inr True" "s3_client_events (s3_Region d) ce"
        "es = ce @ [S3Call k (ReqHeadBucket ?b) RespOk]"
    by auto
  then show ?case
  proof cases
    case err
    then show ?thesis using rd by (simp add: wp_simps s3_enforced_def s3_failed_def)
  next
    case missing
    have "s3_missing d i (Returned res) (es @ [KStatusUpdate (unprovisioned i) res])" for res
      unfolding missing(4) s3_missing_def using missing(2,3) by auto
    then show ?thesis
      unfolding missing(1) s3_enforced_def
      by (simp add: wp_simps unprovisioned_def [symmetric] split: prod.split sum.split)
  next
    case there
    have "s3_synced d c i (Returned res) (es @ en @ [Now now, KStatusUpdate (synced now i) res])"
      if "enforcement (s3Client c) ?b (s3_InfraName d) en" for en now res
      unfolding there(3) s3_synced_def append_assoc using there(2) that by blast
    then show ?thesis
      unfolding there(1) sum.case if_False not_True_eq_False
      by (intro wp_mono [OF settings_result [OF assms]])
        (use rd in \<open>auto simp: s3_enforced_def s3_failed_def\<close>)
  qed
qed

section \<open>What the choice of a name does\<close>

definition s3_named :: "'w env \<Rightarrow> VeleroInstall \<Rightarrow>
    (goerror option \<times> VeleroInstall) outcome \<Rightarrow> event list \<Rightarrow> bool" where
  "s3_named E i r es =
     ((r = Panicked \<and> list_all reads es) \<or>
      (\<exists>err. r = Returned (Some err, i) \<and> list_all reads es) \<or>
      (\<exists>pre j. list_all reads pre \<and> names_bucket i j \<and>
         ((\<exists>err. r = Returned (Some err, j) \<and> es = pre @ [KStatusUpdate j (Some err)]) \<or>
          (\<exists>i'. r = Returned (None, i') \<and> es = pre @ [KStatusUpdate j None] \<and>
             (echoes_status E \<longrightarrow> whole_seconds (sb_LastSyncTimestamp (vi_Bucket i)) \<longrightarrow>
                vi_Status i' = vi_Status j)))))"

lemma s3_named_prepend:
  assumes "s3_named E i r es" and "list_all reads pre"
  shows "s3_named E i r (pre @ es)"
proof -
  have pre: "list_all reads (pre @ es')" if "list_all reads es'" for es'
    using that assms(2) by simp
  from assms(1) show ?thesis
    unfolding s3_named_def by (metis append_assoc pre)
qed

lemma s3_named_Cons: "reads e \<Longrightarrow> s3_named E i r es \<Longrightarrow> s3_named E i r (e # es)"
  using s3_named_prepend [of E i r es "[e]"] by simp

lemma StatusUpdate_named:
  assumes "names_bucket i j"
  shows "wp (StatusUpdate E j) (\<lambda>r es w'. s3_named E i r es) w"
proof -
  have echo: "vi_Status i' = vi_Status j" if "k_StatusUpdate (e_kube E) j w = (Inr i', w')" "echoes_status E"
      "whole_seconds (sb_LastSyncTimestamp (vi_Bucket i))" for i' w' using that names_bucket_time [OF assms] unfolding echoes_status_def by metis
  have "s3_named E i (Returned (Some err, j)) [KStatusUpdate j (Some err)]" for err
    unfolding s3_named_def using assms by (intro disjI2 exI [of _ "[]"] exI [of _ j]) simp
  moreover have "s3_named E i (Returned (None, i')) [KStatusUpdate j None]"
    if "echoes_status E \<longrightarrow> whole_seconds (sb_LastSyncTimestamp (vi_Bucket i)) \<longrightarrow> vi_Status i' = vi_Status j" for i'
    unfolding s3_named_def using assms that by (intro disjI2 exI [of _ "[]"] exI [of _ j]) simp
  ultimately show ?thesis
    using echo by (auto simp: wp_simps split: prod.split sum.split)
qed

text \<open>Reads that are followed by a program that names the bucket.\<close>

lemma reads_then_named:
  assumes "only_calls reads m" and "\<And>x w. wp (f x) (\<lambda>r es w'. s3_named E i r es) w"
  shows "wp (exec m f) (\<lambda>r es w'. s3_named E i r es) w"
proof (rule wp_bindI [OF only_calls_wp [OF assms(1)]], goal_cases)
  case (1 es w')
  then show ?case by (simp add: s3_named_def)
next
  case (2 x es w')
  then show ?case
    by (intro wp_mono [OF assms(2)]) (simp add: s3_named_prepend)
qed

lemma ret_named [simp]: "wp (ret (Some err, i)) (\<lambda>r es w'. s3_named E i r es) w"
  by (simp add: wp_simps s3_named_def)

lemma s3_generateBucketName_wp [wp_simps]:
  "wp (s3_generateBucketName E pfx) Q w =
     (case rt_NewUUID (e_rt E) w of (u, w') \<Rightarrow> Q (Returned (pfx @ u)) [NewUUID u] w')"
  by (simp add: s3_generateBucketName_def env_calls wp_simps split: prod.split)

lemma setInstanceBucketName_result:
  "wp (setInstanceBucketName E d c i) (\<lambda>r es w'. s3_named E i r es) w"
proof -
  have propose: "wp (exec (DoesBucketExist E c (StorageBucketPrefix @ u)) (\<lambda>r. case r of
        Inl err \<Rightarrow> ret (Some err, i)
      | Inr proposedBucketExists \<Rightarrow>
          if proposedBucketExists then
            ret (Some (Errorf [''proposed bucket '', StorageBucketPrefix @ u,
                   '' already exists, retrying'']), i)
          else StatusUpdate E (proposed (StorageBucketPrefix @ u) i)))
      (\<lambda>r es w'. s3_named E i r es) w" for u w
    by (rule reads_then_named [OF DoesBucketExist_reads])
      (auto split: sum.split intro!: StatusUpdate_named proposed_prefix)
  have new_name: "wp (exec (s3_generateBucketName E StorageBucketPrefix) (\<lambda>proposedName.
      exec (DoesBucketExist E c proposedName) (\<lambda>r. case r of
        Inl err \<Rightarrow> ret (Some err, i)
      | Inr proposedBucketExists \<Rightarrow>
          if proposedBucketExists then
            ret (Some (Errorf [''proposed bucket '', proposedName, '' already exists, retrying'']), i)
          else StatusUpdate E (proposed proposedName i)))) (\<lambda>r es w'. s3_named E i r es) w" for w
    unfolding wp_exec [of "s3_generateBucketName E StorageBucketPrefix"] s3_generateBucketName_wp
    by (auto split: prod.split intro!: wp_mono [OF propose] s3_named_Cons simp: reads_def)
  show ?thesis
    unfolding setInstanceBucketName_def adopted_def [symmetric] proposed_def [symmetric]
    by (intro reads_then_named [OF ListBucketsInRegion_reads])
      (auto split: sum.split simp: current_order_def
        intro!: adopted_names reads_then_named [OF ListBucketTags_reads] reads_then_named new_name StatusUpdate_named)
qed

section \<open>What the switch of CreateStorage does\<close>

text \<open>The SDK client of a driver is opened on the driver's region.\<close>

definition client_of :: "s3_driver \<Rightarrow> awsClient \<Rightarrow> bool" where
  "client_of d c = (Config c = s3Client c \<and> cfg_Region (Config c) = s3_Region d)"

definition s3_created :: "s3_driver \<Rightarrow> awsClient \<Rightarrow> VeleroInstall \<Rightarrow>
    (goerror option + VeleroInstall) outcome \<Rightarrow> event list \<Rightarrow> bool" where
  "s3_created d c i r es =
     (let b = sb_Name (vi_Bucket i) in
      (r = Returned (Inr i) \<and> no_kube_writes es \<and> own_writes d b es) \<or>
      (\<exists>err. r = Returned (Inl (Some err)) \<and> no_kube_writes es \<and> own_writes d b es) \<or>
      (\<exists>txt res q. r = Returned (Inl res) \<and> own_request d b q \<and>
         es = [S3Call (s3Client c) q (RespError (AwsError ErrCodeBucketAlreadyExists txt)),
               KStatusUpdate (nameless i) res]))"

lemma own_create_request:
  "client_of d c \<Longrightarrow> own_request d b (ReqCreateBucket (create_request c b))"
  by (auto simp: own_request_def client_of_def create_request_def)

lemma own_tagging_requests [simp]:
  "own_request d b (ReqDeleteBucketTagging b)"
  "mset tags = velero_tags DefaultVeleroBackupStorageLocation (s3_InfraName d) \<Longrightarrow>
     own_request d b (ReqPutBucketTagging b tags)"
  by (auto simp: own_request_def)

lemma s3_create_branch:
  assumes "valid_runtime E" and "client_of d c"
    and "sb_Name (vi_Bucket i) \<noteq> ''''" and "\<not> sb_Provisioned (vi_Bucket i)"
  shows "wp (s3_select_bucket E d c i) (\<lambda>r es w'. s3_created d c i r es) w"
  using tags_of_runtime [OF assms(1)] own_create_request [OF assms(2)] assms(3,4)
  by (auto simp: s3_select_bucket_def Let_def wp_simps s3_settings_wp s3_created_def
      nameless_def aws_code_Some_iff split: option.split prod.split sum.split)

lemma s3_provisioned_branch:
  "sb_Name (vi_Bucket i) \<noteq> '''' \<Longrightarrow> sb_Provisioned (vi_Bucket i) \<Longrightarrow>
     s3_select_bucket E d c i = ret (Inr i)"
  by (simp add: s3_select_bucket_def Let_def)

lemma s3_nameless_branch:
  "sb_Name (vi_Bucket i) = '''' \<Longrightarrow>
     s3_select_bucket E d c i = exec (setInstanceBucketName E d c i)
       (\<lambda>(err, inst'). case err of Some err \<Rightarrow> ret (Inl (Some err)) | None \<Rightarrow> ret (Inr inst'))"
  by (simp add: s3_select_bucket_def Let_def)

section \<open>The status updates of CreateStorage\<close>

lemma enforcement_no_kube: "enforcement k b n es \<Longrightarrow> no_kube_writes es"
  by (auto simp: enforcement_def)

lemma s3_enforced_path:
  assumes "s3_enforced d c i r es" and "sb_Name (vi_Bucket i) \<noteq> ''''"
  shows "status_path (vi_Bucket i) es"
proof -
  have sync: "bucket_step (vi_Bucket i) (vi_Bucket (synced now i))" for now
    using bucket_step.sync [OF assms(2)] by (simp add: synced_def)
  have lose: "bucket_step (vi_Bucket i) (vi_Bucket (unprovisioned i))"
    using bucket_step.lose [OF assms(2)] by (simp add: unprovisioned_def)
  note quiet = reads_status [OF s3_client_events_read] no_writes_status [OF enforcement_no_kube]
    no_writes_status
  from assms(1) show ?thesis
    unfolding s3_enforced_def
  proof (elim disjE)
    assume "s3_synced d c i r es"
    then show ?thesis
      using sync by (auto simp: s3_synced_def quiet)
  next
    assume "s3_missing d i r es"
    then show ?thesis
      using lose by (auto simp: s3_missing_def quiet)
  next
    assume "s3_failed d (sb_Name (vi_Bucket i)) r es"
    then show ?thesis by (auto simp: s3_failed_def quiet)
  next
    assume "s3_crashed d i r es"
    then show ?thesis by (auto simp: s3_crashed_def quiet)
  qed
qed

lemma s3_enforced_recorded: "s3_enforced d c i r es \<Longrightarrow> recorded r es"
  by (auto simp: s3_enforced_def s3_synced_def s3_missing_def s3_failed_def s3_crashed_def recorded_def)

definition s3_select_post ::
    "VeleroInstall \<Rightarrow> (goerror option + VeleroInstall) outcome \<Rightarrow> event list \<Rightarrow> bool" where
  "s3_select_post i r es =
     (status_path (vi_Bucket i) es \<and>
      (case r of
         Panicked \<Rightarrow> True
       | Returned (Inl res) \<Rightarrow> True
       | Returned (Inr i') \<Rightarrow> sb_Name (vi_Bucket i') \<noteq> '''' \<and>
           status_after (vi_Bucket i) es = vi_Bucket i'))"

lemma s3_named_post:
  assumes "s3_named E i r es" and "echoes_status E" and "sb_Name (vi_Bucket i) = ''''"
    and "whole_seconds (sb_LastSyncTimestamp (vi_Bucket i))"
  shows "status_path (vi_Bucket i) es \<and>
     (\<forall>i'. r = Returned (None, i') \<longrightarrow>
        sb_Name (vi_Bucket i') \<noteq> '''' \<and> status_after (vi_Bucket i) es = vi_Bucket i')"
  using assms names_bucket_step [OF _ assms(3)]
  by (auto simp: s3_named_def reads_status status_after_append)

lemma s3_select_path:
  assumes "valid_runtime E" and "echoes_status E" and "client_of d c"
    and "whole_seconds (sb_LastSyncTimestamp (vi_Bucket i))"
  shows "wp (s3_select_bucket E d c i) (\<lambda>r es w'. s3_select_post i r es) w"
proof (cases "sb_Name (vi_Bucket i) = ''''")
  case True
  show ?thesis
    unfolding s3_nameless_branch [OF True]
    by (rule wp_bindI [OF setInstanceBucketName_result])
      (use s3_named_post [OF _ assms(2) True assms(4)] in
        \<open>auto simp: wp_simps s3_select_post_def split: option.split\<close>)
next
  case False
  show ?thesis
  proof (cases "sb_Provisioned (vi_Bucket i)")
    case True
    then show ?thesis
      using False by (simp add: s3_provisioned_branch wp_simps s3_select_post_def)
  next
    case unprovisioned: False
    have "bucket_step (vi_Bucket i) (vi_Bucket (nameless i))"
      using bucket_step.drop [OF False unprovisioned] by (simp add: nameless_def)
    then show ?thesis
      using False
      by (intro wp_mono [OF s3_create_branch [OF assms(1,3) False unprovisioned]])
        (auto simp: s3_created_def s3_select_post_def Let_def no_writes_status split: outcome.split)
  qed
qed

lemma s3_select_recorded:
  assumes "valid_runtime E" and "client_of d c"
  shows "wp (s3_select_bucket E d c i)
     (\<lambda>r es w'. \<forall>res. r = Returned (Inl res) \<longrightarrow> recorded (Returned res) es) w"
proof (cases "sb_Name (vi_Bucket i) = ''''")
  case True
  show ?thesis
    unfolding s3_nameless_branch [OF True] by (auto simp: wp_iff recorded_def go_run split: prod.splits outcome.splits option.splits)
next
  case False
  then show ?thesis
    by (cases "sb_Provisioned (vi_Bucket i)")
      (auto simp: s3_provisioned_branch wp_simps s3_created_def recorded_def Let_def
        intro!: wp_mono [OF s3_create_branch [OF assms False]])
qed

lemma s3_client_of: "wp (NewS3Client E (s3_Region d))
    (\<lambda>r es w'. s3_client_events (s3_Region d) es \<and> r \<noteq> Panicked \<and>
       (\<forall>c. r = Returned (Inr c) \<longrightarrow> client_of d c)) w"
  by (rule wp_mono [OF wp_NewS3Client]) (auto simp: client_of_def)

lemma s3_CreateStorage_path:
  assumes "valid_runtime E" and "echoes_status E" and "whole_seconds (sb_LastSyncTimestamp (vi_Bucket i))"
  shows "wp (s3_CreateStorage E d i) (\<lambda>r es w'. status_path (vi_Bucket i) es) w"
  unfolding s3_CreateStorage_def
proof (rule wp_bindI [OF s3_client_of], goal_cases)
  case (1 es w')
  then show ?case by simp
next
  case (2 x es w')
  then have es: "status_path (vi_Bucket i) es \<and> status_after (vi_Bucket i) es = vi_Bucket i"
    using reads_status [OF s3_client_events_read] by blast
  show ?case
  proof (cases x)
    case (Inl err)
    then show ?thesis using es by (simp add: wp_simps)
  next
    case (Inr c)
    with 2 have c: "client_of d c" by simp
    show ?thesis
      unfolding Inr sum.case
    proof (rule wp_bindI [OF s3_select_path [OF assms(1,2) c assms(3)]], goal_cases)
      case (1 es' w'')
      then show ?case using es by (simp add: s3_select_post_def)
    next
      case (2 y es' w'')
      then show ?case
        using es
        by (cases y)
          (auto simp: s3_select_post_def wp_simps status_after_append
            intro!: wp_mono [OF s3_enforce_bucket_result [OF assms(1)]] s3_enforced_path)
    qed
  qed
qed

lemma s3_CreateStorage_recorded:
  assumes "valid_runtime E"
  shows "wp (s3_CreateStorage E d i) (\<lambda>r es w'. recorded r es) w"
  unfolding s3_CreateStorage_def
proof (rule wp_bindI [OF s3_client_of], goal_cases)
  case (1 es w')
  then show ?case by simp
next
  case (2 x es w')
  show ?case
  proof (cases x)
    case (Inl err)
    then show ?thesis by (simp add: wp_simps recorded_def)
  next
    case (Inr c)
    with 2 have c: "client_of d c" by simp
    have more: "recorded r es' \<Longrightarrow> recorded r (es @ es')" for r es'
      by (auto simp: recorded_def)
    show ?thesis
      unfolding Inr sum.case
    proof (rule wp_bindI [OF s3_select_recorded [OF assms c]], goal_cases)
      case (1 es' w'')
      show ?case by (simp add: recorded_def)
    next
      case (2 y es' w'')
      have later: "recorded r es'' \<Longrightarrow> recorded r (es' @ es'')" for r es''
        by (auto simp: recorded_def)
      show ?case
        using 2
        by (cases y)
          (auto simp: wp_simps intro!: more later wp_mono [OF s3_enforce_bucket_result [OF assms(1)]]
            dest: s3_enforced_recorded)
    qed
  qed
qed

section \<open>The driver keeps the contract\<close>

lemma NewS3Client_reads: "only_calls reads (NewS3Client E region)"
  by (auto simp: NewS3Client_def NewSession_def env_calls reads_def Let_def
      intro!: only_calls_exec only_calls_call split: sum.split option.split)

lemma s3_StorageExists_reads: "only_calls reads (s3_StorageExists E d b)"
  by (auto simp: s3_StorageExists_def api_HeadBucket_def reads_def
      intro!: only_calls_exec only_calls_call NewS3Client_reads split: sum.split option.split)

lemma NewS3Client_driver_calls: "only_calls driver_call (NewS3Client E region)"
  by (auto simp: NewS3Client_def NewSession_def env_calls Let_def
      intro!: only_calls_exec only_calls_call split: sum.split option.split)

lemma s3_StorageExists_driver_calls: "only_calls driver_call (s3_StorageExists E d b)"
  by (auto simp: s3_StorageExists_def api_HeadBucket_def
      intro!: only_calls_exec only_calls_call NewS3Client_driver_calls split: sum.split option.split)

lemma StatusUpdate_driver_calls: "only_calls driver_call (StatusUpdate E i)"
  by (auto simp: StatusUpdate_def env_calls
      intro!: only_calls_exec only_calls_call split: sum.split)

lemmas cloud_driver_calls = only_calls_mono [OF _ cloud_reads_driver_call]

lemma request_driver_calls:
  "only_calls (\<lambda>e. \<exists>r. e = S3Call k q r) m \<Longrightarrow> driver_request q \<Longrightarrow> only_calls driver_call m"
  by (erule only_calls_mono) auto

lemma TagBucket_driver_calls: "only_calls driver_call (TagBucket E c b l n)"
  by (auto simp: TagBucket_def ClearBucketTags_def s3_calls env_calls
      intro!: only_calls_exec only_calls_call split: sum.split option.split prod.split)

lemmas s3_op_driver_calls = TagBucket_driver_calls StatusUpdate_driver_calls
  request_driver_calls [OF encrypt_bucket.op_only_request, simplified]
  request_driver_calls [OF block_public.op_only_request, simplified]
  request_driver_calls [OF set_lifecycle.op_only_request, simplified]
  request_driver_calls [OF create_bucket.op_only_request, simplified]
  NewS3Client_driver_calls s3_StorageExists_driver_calls
  cloud_driver_calls [OF ListBucketsInRegion_cloud] cloud_driver_calls [OF ListBucketTags_cloud]
  cloud_driver_calls [OF DoesBucketExist_cloud]

lemma time_Now_driver_calls: "only_calls driver_call (time_Now E)"
  by (auto simp: env_calls intro!: only_calls_call)

lemma s3_name_driver_calls: "only_calls driver_call (s3_generateBucketName E pfx)"
  by (auto simp: s3_generateBucketName_def env_calls
      intro!: only_calls_exec only_calls_call)

lemma setInstanceBucketName_driver_calls:
  "only_calls driver_call (setInstanceBucketName E d c i)"
  unfolding setInstanceBucketName_def current_order_def
  by (auto intro!: only_calls_exec s3_op_driver_calls s3_name_driver_calls split: sum.split)

lemma s3_CreateStorage_driver_calls: "only_calls driver_call (s3_CreateStorage E d i)"
  unfolding s3_CreateStorage_def s3_select_bucket_def s3_enforce_bucket_def or_fail_def Let_def
  by (auto intro!: only_calls_exec s3_op_driver_calls setInstanceBucketName_driver_calls
      time_Now_driver_calls split: sum.split option.split)

interpretation s3: storage_driver s3_CreateStorage s3_StorageExists
  by unfold_locales
    (simp_all add: s3_CreateStorage_path s3_CreateStorage_driver_calls s3_CreateStorage_recorded
      s3_StorageExists_reads)

section \<open>What CreateStorage changes in S3\<close>

lemma enforcement_own: "enforcement k b (s3_InfraName d) es \<Longrightarrow> own_writes d b es"
  by (auto simp: enforcement_def own_request_def)

lemma s3_enforced_own:
  assumes "s3_enforced d c i r es"
  shows "own_writes d (sb_Name (vi_Bucket i)) es"
  using assms own_writes_reads [OF s3_client_events_read] enforcement_own
  by (auto simp: s3_enforced_def s3_synced_def s3_missing_def s3_failed_def s3_crashed_def)

lemma s3_named_own: "s3_named E i r es \<Longrightarrow> own_writes d b es"
  by (auto simp: s3_named_def own_writes_reads)

text \<open>
  Every request of a run that changes S3 is one of the operator's own requests on one
  bucket, the one of the status; without a name in the status that bucket is the recovered
  or the proposed one.
\<close>

definition one_bucket :: "s3_driver \<Rightarrow> VeleroInstall \<Rightarrow> event list \<Rightarrow> bool" where
  "one_bucket d i es =
     (\<exists>b. own_writes d b es \<and> (sb_Name (vi_Bucket i) = '''' \<or> b = sb_Name (vi_Bucket i)))"

lemma s3_select_own:
  assumes "valid_runtime E" and "client_of d c"
  shows "wp (s3_select_bucket E d c i)
    (\<lambda>r es w'. (sb_Name (vi_Bucket i) = '''' \<and> (\<forall>b. own_writes d b es)) \<or>
       (sb_Name (vi_Bucket i) \<noteq> '''' \<and> own_writes d (sb_Name (vi_Bucket i)) es \<and>
        (\<forall>i'. r = Returned (Inr i') \<longrightarrow> i' = i))) w"
proof (cases "sb_Name (vi_Bucket i) = ''''")
  case True
  show ?thesis
    unfolding s3_nameless_branch [OF True]
    by (rule wp_bindI [OF setInstanceBucketName_result])
      (use True in \<open>auto simp: wp_simps s3_named_own split: option.split\<close>)
next
  case False
  then show ?thesis
    by (cases "sb_Provisioned (vi_Bucket i)")
      (auto simp: s3_provisioned_branch wp_simps s3_created_def Let_def
        intro!: wp_mono [OF s3_create_branch [OF assms False]])
qed

lemma s3_CreateStorage_one_bucket:
  assumes "valid_runtime E"
  shows "wp (s3_CreateStorage E d i) (\<lambda>r es w'. one_bucket d i es) w"
  unfolding s3_CreateStorage_def
proof (rule wp_bindI [OF s3_client_of], goal_cases)
  case (1 es w')
  then show ?case by simp
next
  case (2 x es w')
  then have pre: "own_writes d b es" for b
    by (auto simp: own_writes_reads [OF s3_client_events_read])
  show ?case
  proof (cases x)
    case (Inl err)
    then show ?thesis using pre by (auto simp: wp_simps one_bucket_def)
  next
    case (Inr c)
    with 2 have c: "client_of d c" by simp
    show ?thesis
      unfolding Inr sum.case
    proof (rule wp_bindI [OF s3_select_own [OF assms c]], goal_cases)
      case (1 es' w'')
      then show ?case using pre by (auto simp: one_bucket_def)
    next
      case (2 y es' w'')
      then show ?case
        using pre
        by (cases y)
          (auto simp: wp_simps one_bucket_def dest!: s3_enforced_own
            intro!: wp_mono [OF s3_enforce_bucket_result [OF assms(1)]])
    qed
  qed
qed

section \<open>A service that answers\<close>

text \<open>
  The credentials are there, every request of the operator is valid and accepted, and the
  server stores the status: then a run on a named bucket ends with its synchronisation.
\<close>

definition s3_willing :: "'w env \<Rightarrow> string \<Rightarrow> bool" where
  "s3_willing E region =
     ((\<forall>w. \<exists>s w'. r_Get (k_Secret (e_kube E)) awsCredsSecretName OperatorNamespace w = (Inr s, w') \<and>
        gomap_get (sec_Data s) awsCredsSecretIDKey \<noteq> None \<and>
        gomap_get (sec_Data s) awsCredsSecretAccessKey \<noteq> None) \<and>
      (\<forall>c w. fst (aws_NewSession (e_aws E) c w) = None) \<and>
      (\<forall>q. lib_Validate (e_lib E) q = None) \<and>
      (\<forall>c q w. fst (s3_CreateBucket (e_aws E) c q w) = Inr ()) \<and>
      (\<forall>c b w. fst (s3_HeadBucket (e_aws E) c b w) = Inr ()) \<and>
      (\<forall>c b w. fst (s3_DeleteBucketTagging (e_aws E) c b w) = Inr ()) \<and>
      (\<forall>c b ts w. fst (s3_PutBucketTagging (e_aws E) c b ts w) = Inr ()) \<and>
      (\<forall>c q w. fst (s3_PutBucketEncryption (e_aws E) c q w) = Inr ()) \<and>
      (\<forall>c b p w. fst (s3_PutPublicAccessBlock (e_aws E) c b p w) = Inr ()) \<and>
      (\<forall>c b l w. fst (s3_PutBucketLifecycleConfiguration (e_aws E) c b l w) = Inr ()) \<and>
      (\<forall>i w. \<exists>i' w'. k_StatusUpdate (e_kube E) i w = (Inr i', w')))"

lemma s3_willing_facts:
  assumes "s3_willing E region"
  shows "aws_NewSession (e_aws E) k w = (e0, w') \<Longrightarrow> e0 = None"
    and "lib_Validate (e_lib E) q = None"
    and "s3_CreateBucket (e_aws E) k cb w = (r, w') \<Longrightarrow> r = Inr ()"
    and "s3_HeadBucket (e_aws E) k b w = (r, w') \<Longrightarrow> r = Inr ()"
    and "s3_DeleteBucketTagging (e_aws E) k b w = (r, w') \<Longrightarrow> r = Inr ()"
    and "s3_PutBucketTagging (e_aws E) k b ts w = (r, w') \<Longrightarrow> r = Inr ()"
    and "s3_PutBucketEncryption (e_aws E) k pe w = (r, w') \<Longrightarrow> r = Inr ()"
    and "s3_PutPublicAccessBlock (e_aws E) k b pb w = (r, w') \<Longrightarrow> r = Inr ()"
    and "s3_PutBucketLifecycleConfiguration (e_aws E) k b lr w = (r, w') \<Longrightarrow> r = Inr ()"
    and "k_StatusUpdate (e_kube E) i w = (u, w') \<Longrightarrow> \<exists>i'. u = Inr i'"
    and "r_Get (k_Secret (e_kube E)) awsCredsSecretName OperatorNamespace w = (g, w') \<Longrightarrow>
      \<exists>s a b. g = Inr s \<and> gomap_get (sec_Data s) awsCredsSecretIDKey = Some a \<and>
        gomap_get (sec_Data s) awsCredsSecretAccessKey = Some b"
  using assms unfolding s3_willing_def by (metis fst_conv Pair_inject option.exhaust)+

lemma willing_client:
  assumes "s3_willing E region"
  shows "wp (NewS3Client E region) (\<lambda>r es w'. \<exists>c. r = Returned (Inr c)) w"
  by (auto simp: NewS3Client_def NewSession_def env_calls wp_simps Let_def
      split: prod.split option.split sum.split dest!: s3_willing_facts(1,11) [OF assms])

lemma willing_exists:
  assumes "s3_willing E (s3_Region d)"
  shows "wp (s3_StorageExists E d b) (\<lambda>r es w'. r = Returned (Inr True)) w"
  unfolding s3_StorageExists_def
  by (rule wp_bindI [OF willing_client [OF assms]])
    (auto simp: api_HeadBucket_def wp_simps split: prod.split dest!: s3_willing_facts(4) [OF assms])

lemma willing_enforced:
  assumes "s3_willing E (s3_Region d)"
  shows "wp (s3_enforce_bucket E d c i)
    (\<lambda>r es w'. r = Returned None \<and> (\<exists>now. KStatusUpdate (synced now i) None \<in> set es)) w"
  unfolding s3_enforce_bucket_def Let_def
  by (rule wp_bindI [OF willing_exists [OF assms]])
    (auto simp: wp_simps s3_settings_wp env_calls synced_def Let_def s3_willing_facts(2) [OF assms]
      split: prod.split sum.split option.split
      dest!: s3_willing_facts(5,6,7,8,9,10) [OF assms])

lemma willing_selected:
  assumes "s3_willing E (s3_Region d)" and "sb_Name (vi_Bucket i) \<noteq> ''''"
  shows "wp (s3_select_bucket E d c i) (\<lambda>r es w'. r = Returned (Inr i)) w"
  using assms(2)
  by (auto simp: s3_select_bucket_def wp_simps s3_settings_wp Let_def s3_willing_facts(2) [OF assms(1)]
      split: prod.split sum.split option.split
      dest!: s3_willing_facts(3,5,6) [OF assms(1)])

lemma s3_willing_syncs:
  assumes "s3_willing E (s3_Region d)" and "sb_Name (vi_Bucket i) \<noteq> ''''"
  shows "wp (s3_CreateStorage E d i)
    (\<lambda>r es w'. r = Returned None \<and> (\<exists>now. KStatusUpdate (synced now i) None \<in> set es)) w"
  unfolding s3_CreateStorage_def
  by (rule wp_bindI [OF willing_client [OF assms(1)]], simp)
    (fastforce intro: wp_bindI [OF willing_selected [OF assms]] wp_mono [OF willing_enforced [OF assms(1)]])

end
