(* ===== verification/GCS_Bucket.thy ===== *)
theory GCS_Bucket
  imports Env Constants
begin

text \<open>
  pkg/storage/gcs/client.go and bucket.go: the GCS client, bucket labels and their
  sanitisation, and the operations on GCS buckets the driver is built from.
\<close>

section \<open>The client\<close>

record gcs_driver =
  gcs_Region :: string
  gcs_Project :: string
  gcs_InfraName :: string

definition storageCredsSecretName :: string where
  "storageCredsSecretName = OperatorName @ ''-iam-credentials''"

definition credentials_from_json :: "'w env \<Rightarrow> string \<Rightarrow> ('w, goerror + string) prog" where
  "credentials_from_json E keyFileData =
     call (gcs_CredentialsFromJSON (e_gcs E) keyFileData)
       (\<lambda>r. GcsCredentials keyFileData (err_of r))"

definition storage_NewClient :: "'w env \<Rightarrow> string \<Rightarrow> ('w, goerror + string) prog" where
  "storage_NewClient E credentials =
     call (gcs_NewClient (e_gcs E) credentials) (\<lambda>r. GcsNewClient credentials (err_of r))"

definition NewGcsClient :: "'w env \<Rightarrow> ('w, goerror + string) prog" where
  "NewGcsClient E =
     exec (Get Secrets E storageCredsSecretName OperatorNamespace) (\<lambda>r. case r of
       Inl err \<Rightarrow> ret (Inl err)
     | Inr secret \<Rightarrow>
        (case gomap_get (sec_Data secret) ''service_account.json'' of
           None \<Rightarrow> ret (Inl (Errorf [''secret '', [CHR 0x22], OperatorNamespace, ''/'',
                      storageCredsSecretName, [CHR 0x22], '' does not contain required key '',
                      [CHR 0x22], ''service_account.json'', [CHR 0x22]]))
         | Some keyFileData \<Rightarrow>
             exec (credentials_from_json E keyFileData) (\<lambda>r. case r of
               Inl err \<Rightarrow> ret (Inl err)
             | Inr credentials \<Rightarrow>
                 exec (storage_NewClient E credentials) (\<lambda>r. case r of
                   Inl err \<Rightarrow> ret (Inl err)
                 | Inr gcsClient \<Rightarrow> ret (Inr gcsClient)))))"

text \<open>The calls of a bucket handle.\<close>

definition Bucket_Create ::
    "'w env \<Rightarrow> string \<Rightarrow> string \<Rightarrow> string \<Rightarrow> BucketAttrs \<Rightarrow> ('w, goerror option) prog" where
  "Bucket_Create E client name project attrs =
     call (gcs_Create (e_gcs E) client name project attrs)
       (\<lambda>r. GcsCall client (GcsCreate name project attrs) r)"

definition Bucket_Attrs :: "'w env \<Rightarrow> string \<Rightarrow> string \<Rightarrow> ('w, goerror + BucketAttrs) prog" where
  "Bucket_Attrs E client name =
     call (gcs_Attrs (e_gcs E) client name) (\<lambda>r. GcsCall client (GcsAttrs name) (err_of r))"

definition Bucket_Update ::
    "'w env \<Rightarrow> string \<Rightarrow> string \<Rightarrow> BucketAttrsToUpdate \<Rightarrow> ('w, goerror + BucketAttrs) prog" where
  "Bucket_Update E client name attrs =
     call (gcs_Update (e_gcs E) client name attrs)
       (\<lambda>r. GcsCall client (GcsUpdate name attrs) (err_of r))"

definition Client_Buckets :: "'w env \<Rightarrow> string \<Rightarrow> string \<Rightarrow> ('w, BucketIterator) prog" where
  "Client_Buckets E client project =
     call (gcs_Buckets (e_gcs E) client project) (\<lambda>it. GcsCall client (GcsBuckets project) None)"

lemmas gcs_calls = credentials_from_json_def storage_NewClient_def Bucket_Create_def
  Bucket_Attrs_def Bucket_Update_def Client_Buckets_def

section \<open>Labels\<close>

text \<open>
  The regular expression matches maximal runs of characters outside a-z, 0-9, the hyphen
  and the underscore; each run is replaced by one hyphen.
\<close>

definition label_char :: "char \<Rightarrow> bool" where
  "label_char c = (char_in CHR ''a'' CHR ''z'' c \<or> char_in CHR ''0'' CHR ''9'' c \<or>
     c = CHR ''-'' \<or> c = CHR ''_'')"

function replace_runs :: "string \<Rightarrow> string" where
  "replace_runs [] = []"
| "replace_runs (c # cs) =
     (if label_char c then c # replace_runs cs
      else CHR ''-'' # replace_runs (dropWhile (\<lambda>c. \<not> label_char c) cs))"
  by pat_completeness auto
termination
  by (relation "measure length") (auto simp: le_imp_less_Suc length_dropWhile_le)

definition sanitizeBucketLabel :: "string \<Rightarrow> string" where
  "sanitizeBucketLabel input = replace_runs (ToLower input)"

definition buildLabelMap :: "string \<Rightarrow> (string, string) fmap" where
  "buildLabelMap infraName =
     fmupd (sanitizeBucketLabel BucketTagInfrastructureName) (sanitizeBucketLabel infraName)
       (fmupd (sanitizeBucketLabel BucketTagBackupStorageLocation)
          (sanitizeBucketLabel DefaultVeleroBackupStorageLocation) fmempty)"

section \<open>The bucket operations\<close>

definition createBucket ::
    "'w env \<Rightarrow> gcs_driver \<Rightarrow> string \<Rightarrow> string \<Rightarrow> ('w, goerror option) prog" where
  "createBucket E d gcsClient bucketName =
     Bucket_Create E gcsClient bucketName (gcs_Project d)
       \<lparr>ba_Name = '''', ba_Location = ToUpper (gcs_Region d), ba_UniformBucketLevelAccess = True,
        ba_Labels = Some (buildLabelMap (gcs_InfraName d)), ba_rest = ''''\<rparr>"

definition enforceBucketLabels ::
    "'w env \<Rightarrow> gcs_driver \<Rightarrow> string \<Rightarrow> string \<Rightarrow> ('w, goerror option) prog" where
  "enforceBucketLabels E d gcsClient bucketName =
     exec (current_order E) (\<lambda>ord.
       (let bucketAttrs = copy_entries (range_over ord (buildLabelMap (gcs_InfraName d))) fmempty
        in exec (Bucket_Update E gcsClient bucketName bucketAttrs) (\<lambda>r. ret (err_of r))))"

text \<open>The loop over the iterator: its end leaves the loop, an error leaves the function.\<close>

fun drain_iterator :: "BucketIterator \<Rightarrow> BucketAttrs list \<Rightarrow> goerror + BucketAttrs list" where
  "drain_iterator IterDone results = Inr results"
| "drain_iterator (IterError err) results = Inl err"
| "drain_iterator (IterBucket bucket it) results = drain_iterator it (results @ [bucket])"

definition listBuckets ::
    "'w env \<Rightarrow> gcs_driver \<Rightarrow> string \<Rightarrow> ('w, goerror + BucketAttrs list) prog" where
  "listBuckets E d gcsClient =
     exec (Client_Buckets E gcsClient (gcs_Project d)) (\<lambda>it. ret (drain_iterator it []))"

text \<open>Unlike in the S3 driver, the two variables are declared in the body of the loop.\<close>

fun match_label :: "gcs_driver \<Rightarrow> string \<times> string \<Rightarrow> bool \<times> bool \<Rightarrow> bool \<times> bool" where
  "match_label d (k, v) (tagMatchesCluster, tagMatchesVelero) =
     (tagMatchesCluster \<or>
        (k = sanitizeBucketLabel BucketTagInfrastructureName \<and> v = sanitizeBucketLabel (gcs_InfraName d)),
      tagMatchesVelero \<or>
        (k = sanitizeBucketLabel BucketTagBackupStorageLocation \<and>
         v = sanitizeBucketLabel DefaultVeleroBackupStorageLocation))"

fun findVeleroBucket :: "key_order \<Rightarrow> gcs_driver \<Rightarrow> BucketAttrs list \<Rightarrow> string" where
  "findVeleroBucket ord d [] = ''''"
| "findVeleroBucket ord d (bucket # buckets) =
     (case fold (match_label d) (range_over ord (entries (ba_Labels bucket))) (False, False) of
        (tagMatchesCluster, tagMatchesVelero) \<Rightarrow>
          if tagMatchesCluster \<and> tagMatchesVelero then ba_Name bucket
          else findVeleroBucket ord d buckets)"

section \<open>Sanitised labels\<close>

lemma lower_char_label: "label_char c \<Longrightarrow> lower_char c = c"
  by (auto simp: label_char_def lower_char_def char_in_def)

lemma replace_runs_chars: "c \<in> set (replace_runs s) \<Longrightarrow> label_char c"
  by (induction s rule: replace_runs.induct) (auto simp: label_char_def split: if_splits)

lemma replace_runs_id: "list_all label_char s \<Longrightarrow> replace_runs s = s"
  by (induction s) auto

lemma ToLower_id: "list_all label_char s \<Longrightarrow> ToLower s = s"
  by (induction s) (auto simp: ToLower_def lower_char_label)

lemma sanitize_chars: "list_all label_char (sanitizeBucketLabel s)"
  by (auto simp: list_all_iff sanitizeBucketLabel_def dest: replace_runs_chars)

lemma sanitize_id: "list_all label_char s \<Longrightarrow> sanitizeBucketLabel s = s"
  by (simp add: sanitizeBucketLabel_def ToLower_id replace_runs_id)

lemma length_replace_runs: "length (replace_runs s) \<le> length s"
proof (induction s rule: replace_runs.induct)
  case (2 c cs)
  then show ?case
    using length_dropWhile_le [of "\<lambda>c. \<not> label_char c" cs] by (auto intro: order.trans)
qed simp

lemma label_keys:
  "sanitizeBucketLabel BucketTagInfrastructureName = ''velero-io-infrastructurename''"
  "sanitizeBucketLabel BucketTagBackupStorageLocation = ''velero-io-backup-location''"
  "sanitizeBucketLabel DefaultVeleroBackupStorageLocation = ''default''"
  by code_simp+

section \<open>Finding the bucket by its labels\<close>

text \<open>A bucket is the cluster's if it carries both labels with the sanitised values.\<close>

definition labelled :: "gcs_driver \<Rightarrow> BucketAttrs \<Rightarrow> bool" where
  "labelled d b =
     (gomap_get (ba_Labels b) ''velero-io-infrastructurename'' = Some (sanitizeBucketLabel (gcs_InfraName d)) \<and>
      gomap_get (ba_Labels b) ''velero-io-backup-location'' = Some ''default'')"

lemma fold_match_label:
  "fold (match_label d) kvs (c, v) =
     (c \<or> (''velero-io-infrastructurename'', sanitizeBucketLabel (gcs_InfraName d)) \<in> set kvs,
      v \<or> (''velero-io-backup-location'', ''default'') \<in> set kvs)"
  by (induction kvs arbitrary: c v) (auto simp: label_keys)

lemma findVeleroBucket_find:
  assumes "valid_order ord"
  shows "findVeleroBucket ord d bs =
     (case find (labelled d) bs of None \<Rightarrow> '''' | Some b \<Rightarrow> ba_Name b)"
  by (induction bs)
    (auto simp: fold_match_label in_range_over_iff [OF assms] labelled_def gomap_get_def)

lemma buildLabelMap_lookup:
  "fmlookup (buildLabelMap n) ''velero-io-infrastructurename'' = Some (sanitizeBucketLabel n)"
  "fmlookup (buildLabelMap n) ''velero-io-backup-location'' = Some ''default''"
  by (simp_all add: buildLabelMap_def label_keys)

text \<open>A GCS update sets the given labels and leaves the others as they are.\<close>

definition updated_labels :: "(string, string) fmap \<Rightarrow> BucketAttrs \<Rightarrow> BucketAttrs" where
  "updated_labels new b = b\<lparr>ba_Labels := Some (entries (ba_Labels b) ++\<^sub>f new)\<rparr>"

lemma updated_labelled: "labelled d (updated_labels (buildLabelMap (gcs_InfraName d)) b)"
  by (simp add: labelled_def updated_labels_def gomap_get_def buildLabelMap_lookup
      fmdomI [OF buildLabelMap_lookup(1)] fmdomI [OF buildLabelMap_lookup(2)])

section \<open>What the bucket operations send\<close>

lemma wp_enforceBucketLabels:
  assumes "valid_runtime E"
  shows "wp (enforceBucketLabels E d c b) Q w =
     (case gcs_Update (e_gcs E) c b (buildLabelMap (gcs_InfraName d)) w of (r, w') \<Rightarrow>
        Q (Returned (err_of r))
          [GcsCall c (GcsUpdate b (buildLabelMap (gcs_InfraName d))) (err_of r)] w')"
proof -
  have "copy_entries (range_over (rt_Order (e_rt E) w) m) fmempty = m" for w and m :: "(string, string) fmap"
    using assms by (intro copy_range_over) (simp add: valid_runtime_def)
  then show ?thesis
    by (simp add: enforceBucketLabels_def gcs_calls env_calls wp_simps Let_def split: prod.split)
qed

lemma wp_createBucket [wp_simps]:
  "wp (createBucket E d c b) Q w =
     (let attrs = \<lparr>ba_Name = '''', ba_Location = ToUpper (gcs_Region d),
        ba_UniformBucketLevelAccess = True,
        ba_Labels = Some (buildLabelMap (gcs_InfraName d)), ba_rest = ''''\<rparr>
      in case gcs_Create (e_gcs E) c b (gcs_Project d) attrs w of (r, w') \<Rightarrow>
           Q (Returned r) [GcsCall c (GcsCreate b (gcs_Project d) attrs) r] w')"
  by (simp add: createBucket_def gcs_calls wp_simps Let_def split: prod.split)

fun iterator_buckets :: "BucketIterator \<Rightarrow> goerror + BucketAttrs list" where
  "iterator_buckets IterDone = Inr []"
| "iterator_buckets (IterError err) = Inl err"
| "iterator_buckets (IterBucket b it) =
     (case iterator_buckets it of Inl err \<Rightarrow> Inl err | Inr bs \<Rightarrow> Inr (b # bs))"

lemma drain_iterator_eq:
  "drain_iterator it acc =
     (case iterator_buckets it of Inl err \<Rightarrow> Inl err | Inr bs \<Rightarrow> Inr (acc @ bs))"
  by (induction it arbitrary: acc) (auto split: sum.split)

lemma wp_listBuckets [wp_simps]:
  "wp (listBuckets E d c) Q w =
     (case gcs_Buckets (e_gcs E) c (gcs_Project d) w of (it, w') \<Rightarrow>
        Q (Returned (iterator_buckets it)) [GcsCall c (GcsBuckets (gcs_Project d)) None] w')"
  by (auto simp: listBuckets_def gcs_calls wp_simps drain_iterator_eq split: prod.split sum.split)

lemma NewGcsClient_reads: "only_calls reads (NewGcsClient E)"
  by (auto simp: NewGcsClient_def gcs_calls env_calls reads_def
      intro!: only_calls_exec only_calls_call split: sum.split option.split)

lemma NewGcsClient_returns: "wp (NewGcsClient E) (\<lambda>r es w'. list_all reads es \<and> r \<noteq> Panicked) w"
  by (auto simp: NewGcsClient_def gcs_calls env_calls reads_def wp_simps
      split: sum.split option.split prod.split)

end
