(* ===== verification/GCS_Driver.thy ===== *)
theory GCS_Driver
  imports GCS_Bucket Storage_Spec
begin

text \<open>
  pkg/storage/gcs/gcs.go: the GCS storage driver. CreateStorage names a bucket and returns,
  or creates the named bucket, checks it, labels it and records the synchronisation.
\<close>

section \<open>The driver\<close>

definition gcs_NewDriver :: "InfrastructureStatus \<Rightarrow> gcs_driver outcome" where
  "gcs_NewDriver cfg =
     (case is_PlatformStatus cfg of
        None \<Rightarrow> Panicked
      | Some platformStatus \<Rightarrow>
          (case pl_GCP platformStatus of
             None \<Rightarrow> Panicked
           | Some gcp \<Rightarrow> Returned \<lparr>gcs_Region = gcp_Region gcp, gcs_Project = gcp_ProjectID gcp,
                                    gcs_InfraName = is_InfrastructureName cfg\<rparr>))"

definition gcs_GetPlatformType :: "gcs_driver \<Rightarrow> PlatformType" where
  "gcs_GetPlatformType d = GCPPlatformType"

definition gcs_generateBucketName :: "'w env \<Rightarrow> string \<Rightarrow> ('w, string) prog" where
  "gcs_generateBucketName E pfx = exec (uuid_New E) (\<lambda>id. ret (pfx @ id))"

text \<open>The comparison with gstorage.ErrBucketNotExist.\<close>

fun is_ErrBucketNotExist :: "goerror \<Rightarrow> bool" where
  "is_ErrBucketNotExist (ErrBucketNotExist txt) = True"
| "is_ErrBucketNotExist (AwsError code txt) = False"
| "is_ErrBucketNotExist (StatusError reason txt) = False"
| "is_ErrBucketNotExist (PlainError txt) = False"

definition gcs_StorageExists :: "'w env \<Rightarrow> gcs_driver \<Rightarrow> string \<Rightarrow> ('w, goerror + bool) prog" where
  "gcs_StorageExists E d bucketName =
     exec (NewGcsClient E) (\<lambda>r. case r of
       Inl err \<Rightarrow> ret (Inl err)
     | Inr gcsClient \<Rightarrow>
         exec (Bucket_Attrs E gcsClient bucketName) (\<lambda>r. case r of
           Inl err \<Rightarrow> if is_ErrBucketNotExist err then ret (Inr False) else ret (Inl err)
         | Inr attrs \<Rightarrow> ret (Inr True)))"

section \<open>CreateStorage\<close>

text \<open>The first case of the switch: there is no name yet. It returns in every branch.\<close>

definition gcs_name_bucket ::
    "'w env \<Rightarrow> gcs_driver \<Rightarrow> string \<Rightarrow> VeleroInstall \<Rightarrow> ('w, goerror option) prog" where
  "gcs_name_bucket E d gcsClient inst =
     exec (listBuckets E d gcsClient) (\<lambda>r. case r of
       Inl err \<Rightarrow> ret (Some err)
     | Inr bucketlist \<Rightarrow>
         exec (current_order E) (\<lambda>ord.
           (let existingBucket = findVeleroBucket ord d bucketlist
            in if existingBucket \<noteq> '''' then
                 exec (StatusUpdate E (with_bucket (\<lambda>b. b\<lparr>sb_Name := existingBucket,
                                                           sb_Provisioned := True\<rparr>) inst))
                   (\<lambda>(err, inst'). ret err)
               else
                 exec (gcs_generateBucketName E StorageBucketPrefix) (\<lambda>proposedName.
                 exec (gcs_StorageExists E d proposedName) (\<lambda>r. case r of
                   Inl err \<Rightarrow> ret (Some err)
                 | Inr proposedBucketExists \<Rightarrow>
                     if proposedBucketExists then
                       ret (Some (Errorf [''proposed bucket '', proposedName,
                              '' already exists, retrying'']))
                     else
                       exec (StatusUpdate E (with_bucket (\<lambda>b. b\<lparr>sb_Name := proposedName,
                                                                 sb_Provisioned := False\<rparr>) inst))
                         (\<lambda>(err, inst'). ret err))))))"

text \<open>What CreateStorage does after the switch.\<close>

definition gcs_enforce_bucket ::
    "'w env \<Rightarrow> gcs_driver \<Rightarrow> string \<Rightarrow> VeleroInstall \<Rightarrow> ('w, goerror option) prog" where
  "gcs_enforce_bucket E d gcsClient inst =
     (let name = sb_Name (vi_Bucket inst)
      in exec (gcs_StorageExists E d name) (\<lambda>r. case r of
        Inl err \<Rightarrow> ret (Some (Errorf [''error occurred when verifying bucket '', name, '': '',
                     Error err]))
      | Inr exists \<Rightarrow>
          if \<not> exists then
            exec (StatusUpdate E (with_bucket (\<lambda>b. b\<lparr>sb_Provisioned := False\<rparr>) inst))
              (\<lambda>(err, inst'). ret err)
          else
            exec (enforceBucketLabels E d gcsClient name) (\<lambda>err. case err of
              Some err \<Rightarrow> ret (Some (Errorf [''error occurred when tagging bucket '', name, '': '',
                            Error err]))
            | None \<Rightarrow>
                exec (time_Now E) (\<lambda>now.
                exec (StatusUpdate E (with_bucket (\<lambda>b. b\<lparr>sb_Provisioned := True,
                        sb_LastSyncTimestamp := Some now\<rparr>) inst))
                  (\<lambda>(err, inst'). ret err)))))"

definition gcs_CreateStorage ::
    "'w env \<Rightarrow> gcs_driver \<Rightarrow> VeleroInstall \<Rightarrow> ('w, goerror option) prog" where
  "gcs_CreateStorage E d inst =
     exec (NewGcsClient E) (\<lambda>r. case r of
       Inl err \<Rightarrow> ret (Some err)
     | Inr gcsClient \<Rightarrow>
         (let name = sb_Name (vi_Bucket inst)
          in if name = '''' then gcs_name_bucket E d gcsClient inst
             else if name \<noteq> '''' \<and> \<not> sb_Provisioned (vi_Bucket inst) then
               exec (createBucket E d gcsClient name) (\<lambda>err. case err of
                 Some err \<Rightarrow> ret (Some (Errorf [''error occurred when creating bucket '', name,
                               '': '', Error err]))
               | None \<Rightarrow> gcs_enforce_bucket E d gcsClient inst)
             else gcs_enforce_bucket E d gcsClient inst))"

section \<open>What CreateStorage does\<close>

lemma gcs_generateBucketName_wp [wp_simps]:
  "wp (gcs_generateBucketName E pfx) Q w =
     (case rt_NewUUID (e_rt E) w of (u, w') \<Rightarrow> Q (Returned (pfx @ u)) [NewUUID u] w')"
  by (simp add: gcs_generateBucketName_def env_calls wp_simps split: prod.split)

lemma gcs_StorageExists_reads: "only_calls reads (gcs_StorageExists E d b)"
  by (auto simp: gcs_StorageExists_def gcs_calls reads_def
      intro!: only_calls_exec only_calls_call NewGcsClient_reads split: sum.split)

lemma gcs_StorageExists_result:
  "wp (gcs_StorageExists E d b)
     (\<lambda>r es w'. r \<noteq> Panicked \<and> list_all reads es \<and>
        (r = Returned (Inr True) \<longrightarrow> (\<exists>ce k. list_all reads ce \<and> es = ce @ [GcsCall k (GcsAttrs b) None]))) w"
  unfolding gcs_StorageExists_def
  by (rule wp_bindI [OF NewGcsClient_returns])
    (auto simp: gcs_calls wp_simps reads_def split: sum.split prod.split)

definition gcs_synced :: "gcs_driver \<Rightarrow> string \<Rightarrow> VeleroInstall \<Rightarrow>
    goerror option outcome \<Rightarrow> event list \<Rightarrow> bool" where
  "gcs_synced d c i r es =
     (\<exists>ce k now res. r = Returned res \<and> list_all reads ce \<and>
        es = ce @ [GcsCall k (GcsAttrs (sb_Name (vi_Bucket i))) None,
          GcsCall c (GcsUpdate (sb_Name (vi_Bucket i)) (buildLabelMap (gcs_InfraName d))) None,
          Now now, KStatusUpdate (synced now i) res])"

definition gcs_missing :: "VeleroInstall \<Rightarrow> goerror option outcome \<Rightarrow> event list \<Rightarrow> bool" where
  "gcs_missing i r es =
     (\<exists>ce res. r = Returned res \<and> list_all reads ce \<and> es = ce @ [KStatusUpdate (unprovisioned i) res])"

definition gcs_failed :: "goerror option outcome \<Rightarrow> event list \<Rightarrow> bool" where
  "gcs_failed r es = (\<exists>err. r = Returned (Some err) \<and> no_kube_writes es)"

definition gcs_enforced :: "gcs_driver \<Rightarrow> string \<Rightarrow> VeleroInstall \<Rightarrow>
    goerror option outcome \<Rightarrow> event list \<Rightarrow> bool" where
  "gcs_enforced d c i r es = (gcs_synced d c i r es \<or> gcs_missing i r es \<or> gcs_failed r es)"

lemma gcs_enforce_bucket_result:
  assumes "valid_runtime E"
  shows "wp (gcs_enforce_bucket E d c i) (\<lambda>r es w'. gcs_enforced d c i r es) w"
  unfolding gcs_enforce_bucket_def Let_def
proof (rule wp_bindI [OF gcs_StorageExists_result], goal_cases)
  case (1 es w')
  then show ?case by simp
next
  case (2 x es w')
  then have rd: "no_kube_writes es" by (simp add: no_kube_writes_reads)
  show ?case
  proof (cases x)
    case (Inl err)
    then show ?thesis using rd by (simp add: wp_simps gcs_enforced_def gcs_failed_def)
  next
    case (Inr exists)
    show ?thesis
    proof (cases exists)
      case False
      have "gcs_missing i (Returned res) (es @ [KStatusUpdate (unprovisioned i) res])" for res
        using 2 by (auto simp: gcs_missing_def)
      then show ?thesis
        using Inr False
        by (simp add: wp_simps gcs_enforced_def unprovisioned_def [symmetric]
            split: prod.split sum.split)
    next
      case True
      with 2 Inr obtain ce k where es: "list_all reads ce"
        "es = ce @ [GcsCall k (GcsAttrs (sb_Name (vi_Bucket i))) None]" by auto
      have "gcs_synced d c i (Returned res) (es @
          [GcsCall c (GcsUpdate (sb_Name (vi_Bucket i)) (buildLabelMap (gcs_InfraName d))) None,
           Now now, KStatusUpdate (synced now i) res])" for now res
        unfolding es(2) gcs_synced_def using es(1) by auto
      then show ?thesis
        using Inr True rd
        by (auto simp: wp_simps wp_enforceBucketLabels [OF assms] env_calls gcs_enforced_def
            gcs_failed_def synced_def [symmetric] split: prod.split sum.split option.split)
    qed
  qed
qed

text \<open>Naming a bucket only reads, until one status update that names it.\<close>

definition gcs_named :: "VeleroInstall \<Rightarrow> goerror option outcome \<Rightarrow> event list \<Rightarrow> bool" where
  "gcs_named i r es =
     ((\<exists>err. r = Returned (Some err) \<and> list_all reads es) \<or>
      (\<exists>pre j res. r = Returned res \<and> list_all reads pre \<and> names_bucket i j \<and>
         es = pre @ [KStatusUpdate j res]))"

lemma gcs_named_prepend:
  "gcs_named i r es \<Longrightarrow> list_all reads pre \<Longrightarrow> gcs_named i r (pre @ es)"
  unfolding gcs_named_def by (metis append_assoc list_all_append)

lemma gcs_StatusUpdate_named:
  assumes "names_bucket i j"
  shows "wp (exec (StatusUpdate E j) (\<lambda>(err, inst'). ret err)) (\<lambda>r es w'. gcs_named i r es) w"
proof -
  have "gcs_named i (Returned res) [KStatusUpdate j res]" for res
    unfolding gcs_named_def using assms by (intro disjI2 exI [of _ "[]"]) auto
  then show ?thesis by (simp add: wp_simps split: prod.split sum.split)
qed

text \<open>A name is only proposed after a look-up, and recorded when the bucket is not there.\<close>

lemma gcs_new_name_result:
  assumes "list_all reads pre"
  shows "wp (exec (gcs_StorageExists E d (StorageBucketPrefix @ u)) (\<lambda>r. case r of
        Inl err \<Rightarrow> ret (Some err)
      | Inr proposedBucketExists \<Rightarrow>
          if proposedBucketExists then
            ret (Some (Errorf [''proposed bucket '', StorageBucketPrefix @ u,
                   '' already exists, retrying'']))
          else exec (StatusUpdate E (proposed (StorageBucketPrefix @ u) i)) (\<lambda>(err, inst'). ret err)))
      (\<lambda>r es w'. gcs_named i r (pre @ es)) w"
proof (rule wp_bindI [OF gcs_StorageExists_result], goal_cases)
  case (1 es w')
  then show ?case by simp
next
  case (2 x es w')
  then have pre: "list_all reads (pre @ es)" using assms by simp
  have failed: "gcs_named i (Returned (Some err)) (pre @ es)" for err
    unfolding gcs_named_def using pre by simp
  have update: "wp (exec (StatusUpdate E (proposed (StorageBucketPrefix @ u) i)) (\<lambda>(err, inst'). ret err))
      (\<lambda>r es' w''. gcs_named i r (pre @ es @ es')) w'"
    using gcs_named_prepend [OF _ pre]
    by (intro wp_mono [OF gcs_StatusUpdate_named [OF proposed_prefix]]) simp
  show ?case
  proof (cases x)
    case (Inl err)
    then show ?thesis using failed by (simp add: wp_ret)
  next
    case (Inr exists)
    then show ?thesis using failed update by (cases exists) (simp_all add: wp_ret)
  qed
qed

lemma gcs_name_bucket_result: "wp (gcs_name_bucket E d c i) (\<lambda>r es w'. gcs_named i r es) w"
proof -
  have listed: "gcs_named i r (GcsCall c q res # es)"
    if "gcs_named i r es" and "\<not> gcs_request_writes q" for r q res es
    using gcs_named_prepend [OF that(1), of "[GcsCall c q res]"] that(2) by (simp add: reads_def)
  have adopt: "wp (exec (StatusUpdate E (adopted n i)) (\<lambda>(err, inst'). ret err))
      (\<lambda>r es w''. gcs_named i r (GcsCall c (GcsBuckets (gcs_Project d)) None # es)) w'"
    if "n \<noteq> ''''" for n w'
    by (rule wp_mono [OF gcs_StatusUpdate_named [OF adopted_names [OF that]]]) (simp add: listed)
  show ?thesis
    unfolding gcs_name_bucket_def adopted_def [symmetric] proposed_def [symmetric]
      wp_exec [of "listBuckets E d c"] wp_listBuckets
  proof (clarsimp split: prod.split sum.split simp: current_order_def wp_asks
      wp_exec [of "asks f" for f] Let_def, intro conjI allI impI, goal_cases)
    case (1 it w' err)
    then show ?case by (simp add: wp_ret gcs_named_def reads_def)
  next
    case (2 it w' bs)
    then show ?case by (intro adopt) simp
  next
    case (3 it w' bs)
    then show ?case
      unfolding wp_exec [of "gcs_generateBucketName E StorageBucketPrefix"] gcs_generateBucketName_wp
      using gcs_new_name_result [of "[GcsCall c (GcsBuckets (gcs_Project d)) None, NewUUID u]" for u]
      by (auto simp: reads_def split: prod.split)
  qed
qed

section \<open>The driver keeps the contract\<close>

text \<open>How a whole run ends: the bucket was named, or enforced, or the run failed on the way.\<close>

lemma gcs_CreateStorage_cases:
  assumes "valid_runtime E"
  shows "wp (gcs_CreateStorage E d i) (\<lambda>r es w'.
     gcs_failed r es \<or>
     (sb_Name (vi_Bucket i) = '''' \<and> gcs_named i r es) \<or>
     (sb_Name (vi_Bucket i) \<noteq> '''' \<and>
      (\<exists>c pre es'. no_kube_writes pre \<and> es = pre @ es' \<and> gcs_enforced d c i r es'))) w"
  unfolding gcs_CreateStorage_def Let_def
proof (rule wp_bindI [OF NewGcsClient_returns], goal_cases)
  case (1 es w')
  then show ?case by simp
next
  case (2 x es w')
  then have rd: "list_all reads es" "no_kube_writes es" by (auto simp: no_kube_writes_reads)
  show ?case
  proof (cases x)
    case (Inl err)
    then show ?thesis using rd by (simp add: wp_simps gcs_failed_def)
  next
    case (Inr c)
    let ?Q = "\<lambda>pre r es'. gcs_failed r (pre @ es') \<or>
      (sb_Name (vi_Bucket i) = '''' \<and> gcs_named i r (pre @ es')) \<or>
      (sb_Name (vi_Bucket i) \<noteq> '''' \<and>
       (\<exists>c' pre' es''. no_kube_writes pre' \<and> pre @ es' = pre' @ es'' \<and> gcs_enforced d c' i r es''))"
    have enforce: "wp (gcs_enforce_bucket E d c i) (\<lambda>r es' w''. ?Q pre r es') w1"
      if "sb_Name (vi_Bucket i) \<noteq> ''''" "no_kube_writes pre" for pre w1
      using that by (intro wp_mono [OF gcs_enforce_bucket_result [OF assms]]) blast
    show ?thesis
    proof (cases "sb_Name (vi_Bucket i) = ''''")
      case True
      then show ?thesis
        using Inr rd by (auto intro!: wp_mono [OF gcs_name_bucket_result] gcs_named_prepend)
    next
      case False
      have "wp (exec (createBucket E d c (sb_Name (vi_Bucket i))) (\<lambda>err. case err of
              Some err \<Rightarrow> ret (Some (Errorf [''error occurred when creating bucket '',
                sb_Name (vi_Bucket i), '': '', Error err]))
            | None \<Rightarrow> gcs_enforce_bucket E d c i)) (\<lambda>r es' w''. ?Q es r es') w'"
        using rd enforce [OF False, of "es @ [GcsCall c q None]" for q]
        by (auto simp: wp_exec wp_createBucket Let_def wp_ret gcs_failed_def
            split: prod.split option.split)
      then show ?thesis
        unfolding Inr sum.case using False rd(2) enforce [OF False, of es]
        by (cases "sb_Provisioned (vi_Bucket i)") simp_all
    qed
  qed
qed

lemma gcs_enforced_path:
  assumes "gcs_enforced d c i r es" and "sb_Name (vi_Bucket i) \<noteq> ''''"
  shows "status_path (vi_Bucket i) es"
  using assms(1) status_change_steps(1,2) [OF assms(2)]
  by (auto simp: gcs_enforced_def gcs_synced_def gcs_missing_def gcs_failed_def
      reads_status no_writes_status)

lemma gcs_enforced_recorded: "gcs_enforced d c i r es \<Longrightarrow> recorded r es"
  by (auto simp: gcs_enforced_def gcs_synced_def gcs_missing_def gcs_failed_def recorded_def)

lemma gcs_named_path:
  assumes "gcs_named i r es" and "sb_Name (vi_Bucket i) = ''''"
  shows "status_path (vi_Bucket i) es" and "recorded r es"
  using assms(1) names_bucket_step [OF _ assms(2)]
  by (auto simp: gcs_named_def reads_status recorded_def)

lemma gcs_CreateStorage_path:
  "valid_runtime E \<Longrightarrow> wp (gcs_CreateStorage E d i) (\<lambda>r es w'. status_path (vi_Bucket i) es) w"
  by (rule wp_mono [OF gcs_CreateStorage_cases])
    (auto simp: gcs_failed_def no_writes_status intro: gcs_named_path gcs_enforced_path)

lemma gcs_CreateStorage_recorded:
  "valid_runtime E \<Longrightarrow> wp (gcs_CreateStorage E d i) (\<lambda>r es w'. recorded r es) w"
proof (rule wp_mono [OF gcs_CreateStorage_cases], assumption, elim disjE conjE exE, goal_cases)
  case (1 r es w')
  then show ?case by (auto simp: gcs_failed_def recorded_def)
next
  case (2 r es w')
  then show ?case by (auto intro: gcs_named_path)
next
  case (3 r es w' c pre es')
  then show ?case using gcs_enforced_recorded [of d c i r es'] by (auto simp: recorded_def)
qed

lemma gcs_op_driver_calls:
  "only_calls driver_call (StatusUpdate E i)"
  "only_calls driver_call (NewGcsClient E)"
  "only_calls driver_call (gcs_StorageExists E d b)"
  "only_calls driver_call (createBucket E d c b)"
  "only_calls driver_call (listBuckets E d c)"
  "only_calls driver_call (enforceBucketLabels E d c b)"
  "only_calls driver_call (gcs_generateBucketName E pfx)"
  "only_calls driver_call (time_Now E)"
  by (auto simp: StatusUpdate_def createBucket_def listBuckets_def enforceBucketLabels_def Let_def
      gcs_generateBucketName_def gcs_StorageExists_def NewGcsClient_def gcs_calls env_calls
      intro!: only_calls_exec only_calls_call split: sum.split option.split)

lemma gcs_CreateStorage_driver_calls: "only_calls driver_call (gcs_CreateStorage E d i)"
  unfolding gcs_CreateStorage_def gcs_name_bucket_def gcs_enforce_bucket_def Let_def current_order_def
  by (auto intro!: only_calls_exec gcs_op_driver_calls split: sum.split option.split)

interpretation gcs: storage_driver gcs_CreateStorage gcs_StorageExists
  by unfold_locales
    (simp_all add: gcs_CreateStorage_path gcs_CreateStorage_driver_calls gcs_CreateStorage_recorded
      gcs_StorageExists_reads)

section \<open>A bucket that cannot be created\<close>

text \<open>
  While the service refuses to create the bucket of a status that is not provisioned, every
  run fails before it looks whether the bucket is there, and records nothing.
\<close>

definition creation_refused :: "'w env \<Rightarrow> string \<Rightarrow> bool" where
  "creation_refused E b = (\<forall>c p attrs w. fst (gcs_Create (e_gcs E) c b p attrs w) \<noteq> None)"

lemma gcs_CreateStorage_refused:
  assumes "creation_refused E (sb_Name (vi_Bucket i))"
    and "sb_Name (vi_Bucket i) \<noteq> ''''" and "\<not> sb_Provisioned (vi_Bucket i)"
  shows "wp (gcs_CreateStorage E d i) (\<lambda>r es w'. gcs_failed r es) w"
proof -
  have refused: "\<exists>err. res = Some err"
    if "gcs_Create (e_gcs E) c (sb_Name (vi_Bucket i)) p attrs w = (res, w')" for c p attrs w res w'
    using assms(1) that unfolding creation_refused_def by (metis fst_conv option.exhaust)
  show ?thesis
    unfolding gcs_CreateStorage_def Let_def
  proof (rule wp_bindI [OF NewGcsClient_returns], goal_cases)
    case (1 es w')
    then show ?case by simp
  next
    case (2 x es w')
    then have "no_kube_writes es" by (simp add: no_kube_writes_reads)
    then show ?case
      using assms(2,3)
      by (cases x)
        (auto simp: wp_ret wp_exec wp_createBucket Let_def gcs_failed_def split: prod.split dest!: refused)
  qed
qed

end
