(* ===== verification/Storage.thy ===== *)
theory Storage
  imports S3_Driver GCS_Driver
begin

text \<open>
  pkg/storage/storage.go and pkg/storage/base: the interface Driver as the choice between
  the two drivers of the source, and NewDriver, which makes the choice from the
  infrastructure status.
\<close>

section \<open>The interface and its dispatch\<close>

datatype Driver = S3Driver s3_driver | GCSDriver gcs_driver

text \<open>The method of the embedded base driver, which both drivers override.\<close>

definition base_GetPlatformType :: PlatformType where
  "base_GetPlatformType = NonePlatformType"

fun GetPlatformType :: "Driver \<Rightarrow> PlatformType" where
  "GetPlatformType (S3Driver d) = s3_GetPlatformType d"
| "GetPlatformType (GCSDriver d) = gcs_GetPlatformType d"

fun CreateStorage :: "'w env \<Rightarrow> Driver \<Rightarrow> VeleroInstall \<Rightarrow> ('w, goerror option) prog" where
  "CreateStorage E (S3Driver d) inst = s3_CreateStorage E d inst"
| "CreateStorage E (GCSDriver d) inst = gcs_CreateStorage E d inst"

fun StorageExists :: "'w env \<Rightarrow> Driver \<Rightarrow> string \<Rightarrow> ('w, goerror + bool) prog" where
  "StorageExists E (S3Driver d) b = s3_StorageExists E d b"
| "StorageExists E (GCSDriver d) b = gcs_StorageExists E d b"

section \<open>NewDriver\<close>

definition NewDriver :: "InfrastructureStatus \<Rightarrow> (goerror + Driver) outcome" where
  "NewDriver cfg =
     (case is_PlatformStatus cfg of
        None \<Rightarrow> Panicked
      | Some ps \<Rightarrow>
          if pl_Type ps = AWSPlatformType then
            (if (case pl_AWS ps of None \<Rightarrow> True | Some aws \<Rightarrow> length (aws_Region aws) < 1)
             then Returned (Inl (Errorf [''unable to determine AWS region'']))
             else and_then (s3_NewDriver cfg) (\<lambda>d. Returned (Inr (S3Driver d))))
          else if pl_Type ps = GCPPlatformType then
            (if (case pl_GCP ps of None \<Rightarrow> True
                 | Some gcp \<Rightarrow> length (gcp_Region gcp) < 1 \<or> length (gcp_ProjectID gcp) < 1)
             then Returned (Inl (Errorf [''unable to determine GCP region'']))
             else and_then (gcs_NewDriver cfg) (\<lambda>d. Returned (Inr (GCSDriver d))))
          else Returned (Inl (Errorf [''unable to determine platform''])))"

section \<open>The dispatch keeps the contract of a driver\<close>

interpretation driver: storage_driver CreateStorage StorageExists
proof (unfold_locales, goal_cases)
  case (1 E i d w)
  then show ?case by (cases d) (simp_all add: s3.status_steps gcs.status_steps)
next
  case (2 E d i)
  then show ?case by (cases d) (simp_all add: s3.only_driver_calls gcs.only_driver_calls)
next
  case (3 E d i w)
  then show ?case by (cases d) (simp_all add: s3.nil_recorded gcs.nil_recorded)
next
  case (4 E d b)
  then show ?case by (cases d) (simp_all add: s3.exists_reads gcs.exists_reads)
qed

section \<open>What NewDriver returns\<close>

text \<open>The platform data that NewDriver asks for before it makes a driver.\<close>

definition usable_platform :: "PlatformStatus \<Rightarrow> bool" where
  "usable_platform ps =
     ((pl_Type ps = AWSPlatformType \<and> (\<exists>aws. pl_AWS ps = Some aws \<and> aws_Region aws \<noteq> '''')) \<or>
      (pl_Type ps = GCPPlatformType \<and>
         (\<exists>gcp. pl_GCP ps = Some gcp \<and> gcp_Region gcp \<noteq> '''' \<and> gcp_ProjectID gcp \<noteq> '''')))"

fun driver_for :: "InfrastructureStatus \<Rightarrow> PlatformStatus \<Rightarrow> Driver \<Rightarrow> bool" where
  "driver_for cfg ps (S3Driver d) =
     (pl_Type ps = AWSPlatformType \<and>
      (\<exists>aws. pl_AWS ps = Some aws \<and> s3_Region d = aws_Region aws \<and> aws_Region aws \<noteq> '''') \<and>
      s3_InfraName d = is_InfrastructureName cfg)"
| "driver_for cfg ps (GCSDriver d) =
     (pl_Type ps = GCPPlatformType \<and>
      (\<exists>gcp. pl_GCP ps = Some gcp \<and> gcs_Region d = gcp_Region gcp \<and>
         gcs_Project d = gcp_ProjectID gcp \<and> gcp_Region gcp \<noteq> '''' \<and> gcp_ProjectID gcp \<noteq> '''') \<and>
      gcs_InfraName d = is_InfrastructureName cfg)"

lemma NewDriver_result:
  assumes "is_PlatformStatus cfg = Some ps"
  shows "(usable_platform ps \<and> (\<exists>d. NewDriver cfg = Returned (Inr d) \<and> driver_for cfg ps d \<and>
            GetPlatformType d = pl_Type ps)) \<or>
         (\<not> usable_platform ps \<and> (\<exists>err. NewDriver cfg = Returned (Inl err)))"
  using assms
  by (auto simp: NewDriver_def usable_platform_def s3_NewDriver_def gcs_NewDriver_def
      s3_GetPlatformType_def gcs_GetPlatformType_def Suc_le_eq split: option.split)

end
