(* ===== verification/Provision.thy ===== *)
theory Provision
  imports Ensure_Spec Velero_Objects Storage
begin

text \<open>
  provisionVelero (controllers/velero/velero.go, lines 42 to 251): for each object of a
  Velero installation, a block that looks it up, creates it with the resource as its owner
  when it is missing, and puts its specification right when it differs. A block's value is
  what the variable of the wanted object holds after it: Create decodes the server's answer
  into it, and Update decodes into the object that was found.
\<close>

section \<open>The blocks\<close>

definition ensure_BackupStorageLocation ::
    "'w env \<Rightarrow> VeleroInstall \<Rightarrow> BackupStorageLocation \<Rightarrow> ('w, goerror + BackupStorageLocation) prog" where
  "ensure_BackupStorageLocation E inst bsl =
     exec (Get BSLs E (om_Name (bsl_ObjectMeta bsl)) (om_Namespace (bsl_ObjectMeta bsl))) (\<lambda>r. case r of
       Inl err \<Rightarrow>
         if IsNotFound err then
           (case lib_SetControllerReference (e_lib E) inst (bsl_ObjectMeta bsl) of
              Inl err \<Rightarrow> ret (Inl err)
            | Inr m \<Rightarrow> exec (Create BSLs E (bsl\<lparr>bsl_ObjectMeta := m\<rparr>)) ret)
         else ret (Inl err)
     | Inr foundBsl \<Rightarrow>
         if bsl_Spec foundBsl \<noteq> bsl_Spec bsl then
           exec (Update BSLs E (foundBsl\<lparr>bsl_Spec := bsl_Spec bsl\<rparr>)) (\<lambda>r. case r of
             Inl err \<Rightarrow> ret (Inl err)
           | Inr foundBsl \<Rightarrow> ret (Inr bsl))
         else ret (Inr bsl))"

definition ensure_VolumeSnapshotLocation ::
    "'w env \<Rightarrow> VeleroInstall \<Rightarrow> VolumeSnapshotLocation \<Rightarrow> ('w, goerror + VolumeSnapshotLocation) prog" where
  "ensure_VolumeSnapshotLocation E inst vsl =
     exec (Get VSLs E (om_Name (vsl_ObjectMeta vsl)) (om_Namespace (vsl_ObjectMeta vsl))) (\<lambda>r. case r of
       Inl err \<Rightarrow>
         if IsNotFound err then
           (case lib_SetControllerReference (e_lib E) inst (vsl_ObjectMeta vsl) of
              Inl err \<Rightarrow> ret (Inl err)
            | Inr m \<Rightarrow> exec (Create VSLs E (vsl\<lparr>vsl_ObjectMeta := m\<rparr>)) ret)
         else ret (Inl err)
     | Inr foundVsl \<Rightarrow>
         if vsl_Spec foundVsl \<noteq> vsl_Spec vsl then
           exec (Update VSLs E (foundVsl\<lparr>vsl_Spec := vsl_Spec vsl\<rparr>)) (\<lambda>r. case r of
             Inl err \<Rightarrow> ret (Inl err)
           | Inr foundVsl \<Rightarrow> ret (Inr vsl))
         else ret (Inr vsl))"

text \<open>Credentials requests are compared by their decoded specifications, which may fail.\<close>

definition ensure_CredentialsRequest ::
    "'w env \<Rightarrow> VeleroInstall \<Rightarrow> CredentialsRequest \<Rightarrow> ('w, goerror + CredentialsRequest) prog" where
  "ensure_CredentialsRequest E inst cr =
     exec (Get CRs E (om_Name (cr_ObjectMeta cr)) (om_Namespace (cr_ObjectMeta cr))) (\<lambda>r. case r of
       Inl err \<Rightarrow>
         if IsNotFound err then
           (case lib_SetControllerReference (e_lib E) inst (cr_ObjectMeta cr) of
              Inl err \<Rightarrow> ret (Inl err)
            | Inr m \<Rightarrow> exec (Create CRs E (cr\<lparr>cr_ObjectMeta := m\<rparr>)) ret)
         else ret (Inl err)
     | Inr foundCr \<Rightarrow>
         exec (lift_outcome (credentialsRequestSpecEqual (e_lib E) (cr_Spec foundCr) (cr_Spec cr)))
           (\<lambda>r. case r of
              Inl err \<Rightarrow> ret (Inl err)
            | Inr crEqual \<Rightarrow>
                if \<not> crEqual then
                  exec (Update CRs E (foundCr\<lparr>cr_Spec := cr_Spec cr\<rparr>)) (\<lambda>r. case r of
                    Inl err \<Rightarrow> ret (Inl err)
                  | Inr foundCr \<Rightarrow> ret (Inr cr))
                else ret (Inr cr)))"

definition ensure_Deployment ::
    "'w env \<Rightarrow> VeleroInstall \<Rightarrow> Deployment \<Rightarrow> ('w, goerror + Deployment) prog" where
  "ensure_Deployment E inst deployment =
     exec (Get Deployments E (om_Name (d_ObjectMeta deployment)) (om_Namespace (d_ObjectMeta deployment)))
       (\<lambda>r. case r of
       Inl err \<Rightarrow>
         if IsNotFound err then
           (case lib_SetControllerReference (e_lib E) inst (d_ObjectMeta deployment) of
              Inl err \<Rightarrow> ret (Inl err)
            | Inr m \<Rightarrow> exec (Create Deployments E (deployment\<lparr>d_ObjectMeta := m\<rparr>)) ret)
         else ret (Inl err)
     | Inr foundDeployment \<Rightarrow>
         if d_Spec foundDeployment \<noteq> d_Spec deployment then
           exec (Update Deployments E (foundDeployment\<lparr>d_Spec := d_Spec deployment\<rparr>)) (\<lambda>r. case r of
             Inl err \<Rightarrow> ret (Inl err)
           | Inr foundDeployment \<Rightarrow> ret (Inr deployment))
         else ret (Inr deployment))"

text \<open>
  The service keeps the fields the cluster assigns. The value is the service found, None
  when it had to be created: the source then asks for another run.
\<close>

definition keep_cluster_fields :: "Service \<Rightarrow> Service \<Rightarrow> Service" where
  "keep_cluster_fields foundService service =
     service\<lparr>svc_Spec := (svc_Spec service)
       \<lparr>ss_ClusterIP := ss_ClusterIP (svc_Spec foundService),
        ss_ClusterIPs := ss_ClusterIPs (svc_Spec foundService),
        ss_IPFamilies := ss_IPFamilies (svc_Spec foundService),
        ss_IPFamilyPolicy := ss_IPFamilyPolicy (svc_Spec foundService),
        ss_InternalTrafficPolicy := ss_InternalTrafficPolicy (svc_Spec foundService)\<rparr>\<rparr>"

definition ensure_metrics_Service ::
    "'w env \<Rightarrow> VeleroInstall \<Rightarrow> Service \<Rightarrow> ('w, goerror + Service option) prog" where
  "ensure_metrics_Service E inst service =
     exec (Get Services E (om_Name (svc_ObjectMeta service)) (om_Namespace (svc_ObjectMeta service)))
       (\<lambda>r. case r of
       Inl err \<Rightarrow>
         if IsNotFound err then
           (case lib_SetControllerReference (e_lib E) inst (svc_ObjectMeta service) of
              Inl err \<Rightarrow> ret (Inl err)
            | Inr m \<Rightarrow> exec (Create Services E (service\<lparr>svc_ObjectMeta := m\<rparr>)) (\<lambda>r. case r of
                Inl err \<Rightarrow> ret (Inl err)
              | Inr service \<Rightarrow> ret (Inr None)))
         else ret (Inl err)
     | Inr foundService \<Rightarrow>
         let service = keep_cluster_fields foundService service in
         if svc_Spec foundService \<noteq> svc_Spec service then
           exec (Update Services E (foundService\<lparr>svc_Spec := svc_Spec service\<rparr>)) (\<lambda>r. case r of
             Inl err \<Rightarrow> ret (Inl err)
           | Inr foundService \<Rightarrow> ret (Inr (Some foundService)))
         else ret (Inr (Some foundService)))"

text \<open>The service monitor has its owner already.\<close>

definition ensure_ServiceMonitor :: "'w env \<Rightarrow> ServiceMonitor \<Rightarrow> ('w, goerror + ServiceMonitor) prog" where
  "ensure_ServiceMonitor E serviceMonitor =
     exec (Get ServiceMonitors E (om_Name (sm_ObjectMeta serviceMonitor))
             (om_Namespace (sm_ObjectMeta serviceMonitor))) (\<lambda>r. case r of
       Inl err \<Rightarrow>
         if IsNotFound err then exec (Create ServiceMonitors E serviceMonitor) ret
         else ret (Inl err)
     | Inr foundServiceMonitor \<Rightarrow>
         if sm_Spec foundServiceMonitor \<noteq> sm_Spec serviceMonitor then
           exec (Update ServiceMonitors E (foundServiceMonitor\<lparr>sm_Spec := sm_Spec serviceMonitor\<rparr>))
             (\<lambda>r. case r of
               Inl err \<Rightarrow> ret (Inl err)
             | Inr foundServiceMonitor \<Rightarrow> ret (Inr serviceMonitor))
         else ret (Inr serviceMonitor))"

section \<open>provisionVelero\<close>

text \<open>reconcile.Result, of which the source only ever sets Requeue.\<close>

record Result =
  res_Requeue :: bool

definition no_requeue :: Result where "no_requeue = \<lparr>res_Requeue = False\<rparr>"
definition requeue :: Result where "requeue = \<lparr>res_Requeue = True\<rparr>"

text \<open>An error of a block ends the function with the empty result.\<close>

definition or_return ::
    "('w, goerror + 'a) prog \<Rightarrow> ('a \<Rightarrow> ('w, Result \<times> goerror option) prog) \<Rightarrow>
       ('w, Result \<times> goerror option) prog" where
  "or_return m f = exec m (\<lambda>r. case r of Inl err \<Rightarrow> ret (no_requeue, Some err) | Inr x \<Rightarrow> f x)"

definition location_config ::
    "PlatformType \<Rightarrow> PlatformStatus option \<Rightarrow> (goerror + string gomap) outcome" where
  "location_config platform platformStatus =
     (if platform = AWSPlatformType then
        (case platformStatus of
           None \<Rightarrow> Panicked
         | Some ps \<Rightarrow>
            (case pl_AWS ps of
               None \<Rightarrow> Panicked
             | Some aws \<Rightarrow> Returned (Inr (Some (fmupd ''region'' (aws_Region aws) fmempty)))))
      else if platform = GCPPlatformType then Returned (Inr None)
      else Returned (Inl (Errorf [''unable to determine platform''])))"

text \<open>A missing key of a Go map reads as the empty string.\<close>

definition region_of :: "string gomap \<Rightarrow> string" where
  "region_of locationConfig =
     (case gomap_get locationConfig ''region'' of None \<Rightarrow> '''' | Some region \<Rightarrow> region)"

definition velero_credentials ::
    "libraries \<Rightarrow> string \<Rightarrow> PlatformType \<Rightarrow> string gomap \<Rightarrow> string \<Rightarrow> goerror + CredentialsRequest" where
  "velero_credentials L namespace platform locationConfig bucketName =
     (if platform = AWSPlatformType then
        (case lib_PartitionForRegion L (region_of locationConfig) of
           None \<Rightarrow> Inl (Errorf [''no partition found for region '', [CHR 0x22],
                           region_of locationConfig, [CHR 0x22]])
         | Some partitionID \<Rightarrow>
             Inr (awsCredentialsRequest L namespace credentialsRequestName partitionID bucketName))
      else if platform = GCPPlatformType then
        Inr (gcpCredentialsRequest L namespace credentialsRequestName)
      else Inl (Errorf [''unable to determine platform'']))"

definition provisionVelero ::
    "'w env \<Rightarrow> Driver \<Rightarrow> string \<Rightarrow> PlatformStatus option \<Rightarrow> VeleroInstall \<Rightarrow>
       ('w, Result \<times> goerror option) prog" where
  "provisionVelero E driver namespace platformStatus inst =
     or_return (lift_outcome (location_config (GetPlatformType driver) platformStatus)) (\<lambda>locationConfig.
     or_return (ensure_BackupStorageLocation E inst
        (lib_BackupStorageLocation (e_lib E) namespace (ToLower (GetPlatformType driver))
           (sb_Name (vi_Bucket inst)) '''' locationConfig '''')) (\<lambda>bsl.
     or_return (ensure_VolumeSnapshotLocation E inst
        (lib_VolumeSnapshotLocation (e_lib E) namespace (ToLower (GetPlatformType driver))
           locationConfig)) (\<lambda>vsl.
     or_return (ret (velero_credentials (e_lib E) namespace (GetPlatformType driver) locationConfig
        (sb_Name (vi_Bucket inst)))) (\<lambda>cr.
     or_return (ensure_CredentialsRequest E inst cr) (\<lambda>cr.
     exec (lift_outcome (veleroDeployment (e_lib E) namespace (GetPlatformType driver)
        veleroImageRegistry)) (\<lambda>deployment.
     or_return (ensure_Deployment E inst deployment) (\<lambda>deployment.
     exec (current_order E) (\<lambda>ord.
     or_return (ensure_metrics_Service E inst
        (metricsServiceFromDeployment (e_lib E) ord deployment)) (\<lambda>foundService.
     (case foundService of
        None \<Rightarrow> ret (requeue, None)
      | Some service \<Rightarrow>
          exec (current_order E) (\<lambda>ord.
          or_return (ensure_ServiceMonitor E (generateServiceMonitor ord service)) (\<lambda>serviceMonitor.
          ret (no_requeue, None)))))))))))))"

section \<open>Every block keeps the interface\<close>

definition own :: "('o \<Rightarrow> ObjectMeta) \<Rightarrow> (ObjectMeta \<Rightarrow> 'o \<Rightarrow> 'o) \<Rightarrow> 'w env \<Rightarrow> VeleroInstall \<Rightarrow> 'o \<Rightarrow>
    goerror + 'o" where
  "own meta set_meta E inst x =
     map_sum id (\<lambda>m. set_meta m x) (lib_SetControllerReference (e_lib E) inst (meta x))"

fun negated :: "(goerror + bool) outcome \<Rightarrow> (goerror + bool) outcome" where
  "negated Panicked = Panicked"
| "negated (Returned (Inl err)) = Returned (Inl err)"
| "negated (Returned (Inr b)) = Returned (Inr (\<not> b))"

fun_cases negatedE: "negated r = Returned (Inr b)"

lemmas block_shape = own_def meta_key_def exec_def lift_outcome_def ret_def sum.map_id

interpretation bsl: ensured_object ensure_BackupStorageLocation BSLs "meta_key bsl_ObjectMeta"
  "own bsl_ObjectMeta (\<lambda>m x. x\<lparr>bsl_ObjectMeta := m\<rparr>)"
  "\<lambda>E found x. Returned (Inr (bsl_Spec found \<noteq> bsl_Spec x))"
  "\<lambda>found x. found\<lparr>bsl_Spec := bsl_Spec x\<rparr>" id "\<lambda>found x. x" "\<lambda>y found x. x"
  by unfold_locales
    (auto simp: ensure_BackupStorageLocation_def block_shape
       split: sum.split prod.split outcome.split intro!: ext)

interpretation vsl: ensured_object ensure_VolumeSnapshotLocation VSLs "meta_key vsl_ObjectMeta"
  "own vsl_ObjectMeta (\<lambda>m x. x\<lparr>vsl_ObjectMeta := m\<rparr>)"
  "\<lambda>E found x. Returned (Inr (vsl_Spec found \<noteq> vsl_Spec x))"
  "\<lambda>found x. found\<lparr>vsl_Spec := vsl_Spec x\<rparr>" id "\<lambda>found x. x" "\<lambda>y found x. x"
  by unfold_locales
    (auto simp: ensure_VolumeSnapshotLocation_def block_shape
       split: sum.split prod.split outcome.split intro!: ext)

interpretation cr: ensured_object ensure_CredentialsRequest CRs "meta_key cr_ObjectMeta"
  "own cr_ObjectMeta (\<lambda>m x. x\<lparr>cr_ObjectMeta := m\<rparr>)"
  "\<lambda>E found x. negated (credentialsRequestSpecEqual (e_lib E) (cr_Spec found) (cr_Spec x))"
  "\<lambda>found x. found\<lparr>cr_Spec := cr_Spec x\<rparr>" id "\<lambda>found x. x" "\<lambda>y found x. x"
proof (unfold_locales, goal_cases)
  case (1 E i x)
  have "(case negated q of Panicked \<Rightarrow> P | Returned r \<Rightarrow> f r) =
      (case q of Panicked \<Rightarrow> P | Returned r \<Rightarrow> f (map_sum id Not r))"
    for q and P :: "'x" and f
    by (cases q rule: negated.cases) simp_all
  then show ?case
    by (auto simp: ensure_CredentialsRequest_def block_shape
        split: sum.split prod.split outcome.split intro!: ext)
next
  case (2 E found x d)
  then show ?case by (auto elim!: negatedE dest: credentialsRequestSpecEqual_self)
qed simp

interpretation deployment: ensured_object ensure_Deployment Deployments "meta_key d_ObjectMeta"
  "own d_ObjectMeta (\<lambda>m x. x\<lparr>d_ObjectMeta := m\<rparr>)"
  "\<lambda>E found x. Returned (Inr (d_Spec found \<noteq> d_Spec x))"
  "\<lambda>found x. found\<lparr>d_Spec := d_Spec x\<rparr>" id "\<lambda>found x. x" "\<lambda>y found x. x"
  by unfold_locales
    (auto simp: ensure_Deployment_def block_shape
       split: sum.split prod.split outcome.split intro!: ext)

interpretation metrics: ensured_object ensure_metrics_Service Services "meta_key svc_ObjectMeta"
  "own svc_ObjectMeta (\<lambda>m x. x\<lparr>svc_ObjectMeta := m\<rparr>)"
  "\<lambda>E found x. Returned (Inr (svc_Spec found \<noteq> svc_Spec (keep_cluster_fields found x)))"
  "\<lambda>found x. found\<lparr>svc_Spec := svc_Spec (keep_cluster_fields found x)\<rparr>"
  "\<lambda>y. None" "\<lambda>found x. Some found" "\<lambda>y found x. Some y"
  by unfold_locales
    (auto simp: ensure_metrics_Service_def keep_cluster_fields_def block_shape Let_def
       split: sum.split prod.split outcome.split intro!: ext)

interpretation monitor: ensured_object "\<lambda>E (u :: unit) x. ensure_ServiceMonitor E x" ServiceMonitors
  "meta_key sm_ObjectMeta" "\<lambda>E u x. Inr x"
  "\<lambda>E found x. Returned (Inr (sm_Spec found \<noteq> sm_Spec x))"
  "\<lambda>found x. found\<lparr>sm_Spec := sm_Spec x\<rparr>" id "\<lambda>found x. x" "\<lambda>y found x. x"
  by unfold_locales
    (auto simp: ensure_ServiceMonitor_def block_shape
       split: sum.split prod.split outcome.split intro!: ext)

section \<open>The order of a whole run\<close>

definition provision_kinds :: "kkind list" where
  "provision_kinds = [KindBackupStorageLocation, KindVolumeSnapshotLocation, KindCredentialsRequest,
     KindDeployment, KindService, KindServiceMonitor]"

text \<open>
  The blocks of a run for the kinds that are left. Between two blocks a computation without
  a call may fail or panic. A service that was created ends the run with a requeue.
\<close>

inductive provision_run ::
    "kkind list \<Rightarrow> (Result \<times> goerror option) outcome \<Rightarrow> event list \<Rightarrow> bool" where
  complete: "provision_run [] (Returned (no_requeue, None)) []"
| broken: "provision_run ks (Returned (no_requeue, Some err)) []"
| panicked: "provision_run ks Panicked []"
| failed: "block_run k key (Returned (Some err)) es \<Longrightarrow>
     provision_run (k # ks) (Returned (no_requeue, Some err)) es"
| crashed: "block_run k key Panicked es \<Longrightarrow> provision_run (k # ks) Panicked es"
| again: "IsNotFound err \<Longrightarrow> kind_of ob = KindService \<Longrightarrow>
     provision_run (KindService # ks) (Returned (requeue, None))
       [KGet KindService n ns (Inl err), KCreate ob None]"
| advance: "block_run k key (Returned None) es \<Longrightarrow> provision_run ks r es' \<Longrightarrow>
     provision_run (k # ks) r (es @ es')"

inductive_cases provision_runE: "provision_run ks r es"

lemma or_return_run:
  assumes "\<And>w. wp m (\<lambda>r es w'. block_run k key (error_of r) es) w"
    and "\<And>x w. wp (f x) (\<lambda>r es w'. provision_run ks r es) w"
  shows "wp (or_return m f) (\<lambda>r es w'. provision_run (k # ks) r es) w"
  unfolding or_return_def
proof (rule wp_bindI [OF assms(1)], goal_cases)
  case (1 es w')
  then show ?case by (simp add: provision_run.crashed)
next
  case (2 r es w')
  show ?case
  proof (cases r)
    case (Inl err)
    with 2 show ?thesis by (simp add: wp_simps provision_run.failed)
  next
    case (Inr x)
    with 2 have "block_run k key (Returned None) es" by simp
    with Inr show ?thesis
      by (auto intro: wp_mono [OF assms(2)] provision_run.advance)
  qed
qed

lemma lift_run:
  assumes "\<And>x w. wp (f x) (\<lambda>r es w'. provision_run ks r es) w"
  shows "wp (exec (lift_outcome r) f) (\<lambda>r es w'. provision_run ks r es) w"
  using assms by (auto simp: wp_simps intro: provision_run.panicked split: outcome.split)

lemma lift_return_run:
  assumes "\<And>x w. wp (f x) (\<lambda>r es w'. provision_run ks r es) w"
  shows "wp (or_return (lift_outcome r) f) (\<lambda>r es w'. provision_run ks r es) w"
  unfolding or_return_def
  by (rule lift_run) (auto simp: wp_simps assms intro: provision_run.broken split: sum.split)

lemma ret_return_run:
  assumes "\<And>x w. wp (f x) (\<lambda>r es w'. provision_run ks r es) w"
  shows "wp (or_return (ret r) f) (\<lambda>r es w'. provision_run ks r es) w"
  using lift_return_run [of f ks "Returned r", OF assms]
  by (simp add: or_return_def exec_def lift_outcome_def ret_def)

lemma metrics_run:
  assumes "\<And>s w. wp (f (Some s)) (\<lambda>r es w'. provision_run ks r es) w"
    and "f None = ret (requeue, None)"
  shows "wp (or_return (ensure_metrics_Service E i x) f)
    (\<lambda>r es w'. provision_run (KindService # ks) r es) w"
  unfolding or_return_def
proof (rule wp_bindI [OF wp_conj [OF metrics.op_run metrics.op_value]], goal_cases)
  case (1 es w')
  then show ?case by (simp add: provision_run.crashed)
next
  case (2 r es w')
  show ?case
  proof (cases r)
    case (Inl err)
    with 2 show ?thesis by (auto simp: wp_simps intro: provision_run.failed)
  next
    case (Inr v)
    show ?thesis
    proof (cases v)
      case None
      with Inr 2 show ?thesis
        by (auto simp: wp_simps assms(2) intro!: provision_run.again)
    next
      case (Some s)
      from Inr 2 have "block_run KindService (meta_key svc_ObjectMeta x) (Returned None) es" by simp
      with Inr Some show ?thesis
        by (auto intro: wp_mono [OF assms(1)] provision_run.advance)
    qed
  qed
qed

lemmas block_runs =
  bsl.op_run [simplified] vsl.op_run [simplified] cr.op_run [simplified]
  deployment.op_run [simplified] monitor.op_run [simplified]

lemma provisionVelero_run:
  "wp (provisionVelero E d ns ps i) (\<lambda>r es w'. provision_run provision_kinds r es) w"
  unfolding provisionVelero_def provision_kinds_def
proof ((rule lift_return_run or_return_run [OF block_runs(1)] or_return_run [OF block_runs(2)]
    ret_return_run or_return_run [OF block_runs(3)] lift_run or_return_run [OF block_runs(4)])+, goal_cases)
  case (1 lc b v c c' dep dep' w)
  have "wp (or_return (ensure_ServiceMonitor E m) (\<lambda>sm. ret (no_requeue, None)))
      (\<lambda>r es w'. provision_run [KindServiceMonitor] r es) w" for m w
    by (rule or_return_run [OF block_runs(5)]) (simp add: wp_simps provision_run.complete)
  then show ?case
    unfolding wp_exec current_order_def wp_asks
    by (auto intro!: metrics_run simp: wp_simps)
qed

section \<open>What a run has done when it returns\<close>

fun kind_read :: "event \<Rightarrow> kkind list" where
  "kind_read (KGet k n ns r) = [k]"
| "kind_read e = []"

definition kinds_read :: "event list \<Rightarrow> kkind list" where
  "kinds_read es = concat (map kind_read es)"

lemma kinds_read_simps [simp]:
  "kinds_read [] = []"
  "kinds_read (e # es) = kind_read e @ kinds_read es"
  "kinds_read (es @ es') = kinds_read es @ kinds_read es'"
  by (simp_all add: kinds_read_def)

text \<open>A call that a run may go on after.\<close>

fun went_well :: "event \<Rightarrow> bool" where
  "went_well (KGet k n ns (Inl err)) = IsNotFound err"
| "went_well (KGet k n ns (Inr ob)) = True"
| "went_well (KCreate ob r) = (r = None)"
| "went_well (KUpdate ob r) = (r = None)"
| "went_well e = False"

fun provision_summary :: "kkind list \<Rightarrow> (Result \<times> goerror option) outcome \<Rightarrow> event list \<Rightarrow> bool" where
  "provision_summary ks (Returned (res, None)) es =
     (list_all went_well es \<and>
      (if res = no_requeue then kinds_read es = ks
       else (\<exists>es' ob. es = es' @ [KCreate ob None] \<and> kind_of ob = KindService) \<and>
            prefix (kinds_read es) ks))"
| "provision_summary ks (Returned (res, Some err)) es = (res = no_requeue \<and> prefix (kinds_read es) ks)"
| "provision_summary ks Panicked es = prefix (kinds_read es) ks"

lemma block_run_reads: "block_run k key r es \<Longrightarrow> kinds_read es = [k]"
  by (induction rule: block_run.induct) auto

lemma block_run_well: "block_run k key (Returned None) es \<Longrightarrow> list_all went_well es"
  by (erule block_runE) auto

lemma results_distinct [simp]: "requeue \<noteq> no_requeue"
  by (simp add: requeue_def no_requeue_def)

lemma provision_run_summary: "provision_run ks r es \<Longrightarrow> provision_summary ks r es"
proof (induction rule: provision_run.induct)
  case (advance k key es ks r es')
  note ok = block_run_reads [OF advance.hyps(1)] block_run_well [OF advance.hyps(1)]
  show ?case
  proof (cases r)
    case (Returned x)
    obtain res err where "x = (res, err)" by (cases x)
    then show ?thesis using Returned advance.IH ok
      by (cases err) auto
  next
    case Panicked
    then show ?thesis using advance.IH ok by simp
  qed
qed (auto dest: block_run_reads)

section \<open>What a run may write\<close>

definition wanted_bsl ::
    "libraries \<Rightarrow> PlatformType \<Rightarrow> string \<Rightarrow> string gomap \<Rightarrow> VeleroInstall \<Rightarrow> BackupStorageLocation" where
  "wanted_bsl L platform namespace locationConfig inst =
     lib_BackupStorageLocation L namespace (ToLower platform) (sb_Name (vi_Bucket inst)) ''''
       locationConfig ''''"

definition wanted_vsl ::
    "libraries \<Rightarrow> PlatformType \<Rightarrow> string \<Rightarrow> string gomap \<Rightarrow> VolumeSnapshotLocation" where
  "wanted_vsl L platform namespace locationConfig =
     lib_VolumeSnapshotLocation L namespace (ToLower platform) locationConfig"

text \<open>The specification of a written object, by its kind.\<close>

definition right_spec ::
    "libraries \<Rightarrow> PlatformType \<Rightarrow> string \<Rightarrow> PlatformStatus option \<Rightarrow> VeleroInstall \<Rightarrow> kobj \<Rightarrow> bool" where
  "right_spec L platform namespace ps inst ob =
     (\<exists>lc. location_config platform ps = Returned (Inr lc) \<and>
      (case ob of
         ObjBackupStorageLocation b \<Rightarrow> bsl_Spec b = bsl_Spec (wanted_bsl L platform namespace lc inst)
       | ObjVolumeSnapshotLocation v \<Rightarrow> vsl_Spec v = vsl_Spec (wanted_vsl L platform namespace lc)
       | ObjCredentialsRequest c \<Rightarrow>
           (\<exists>cr. velero_credentials L namespace platform lc (sb_Name (vi_Bucket inst)) = Inr cr \<and>
              cr_Spec c = cr_Spec cr)
       | ObjDeployment d \<Rightarrow>
           (\<exists>dep. veleroDeployment L namespace platform veleroImageRegistry = Returned dep \<and>
              d_Spec d = d_Spec dep)
       | ObjService s \<Rightarrow> ss_Type (svc_Spec s) = ''ClusterIP'' \<and> ss_SessionAffinity (svc_Spec s) = ''None''
       | ObjServiceMonitor m \<Rightarrow> True
       | _ \<Rightarrow> False))"

text \<open>The metadata of a created object: that of the resource's own, or of a service's own.\<close>

definition right_owner :: "libraries \<Rightarrow> VeleroInstall \<Rightarrow> kobj \<Rightarrow> bool" where
  "right_owner L inst ob =
     (case ob of
        ObjBackupStorageLocation b \<Rightarrow> (\<exists>m. lib_SetControllerReference L inst m = Inr (bsl_ObjectMeta b))
      | ObjVolumeSnapshotLocation v \<Rightarrow> (\<exists>m. lib_SetControllerReference L inst m = Inr (vsl_ObjectMeta v))
      | ObjCredentialsRequest c \<Rightarrow> (\<exists>m. lib_SetControllerReference L inst m = Inr (cr_ObjectMeta c))
      | ObjDeployment d \<Rightarrow> (\<exists>m. lib_SetControllerReference L inst m = Inr (d_ObjectMeta d))
      | ObjService s \<Rightarrow> (\<exists>m. lib_SetControllerReference L inst m = Inr (svc_ObjectMeta s))
      | ObjServiceMonitor m \<Rightarrow>
          map (\<lambda>r. (or_Kind r, or_Name r, or_Controller r)) (om_OwnerReferences (sm_ObjectMeta m)) =
            [(''Service'', om_Name (sm_ObjectMeta m), Some True)]
      | _ \<Rightarrow> False)"

lemma only_calls_lift_exec:
  "(\<And>x. r = Returned x \<Longrightarrow> only_calls P (f x)) \<Longrightarrow> only_calls P (exec (lift_outcome r) f)"
  by (cases r) (simp_all add: only_calls_def wp_simps)

lemma only_calls_or_return:
  assumes "only_calls P m" and "\<And>x. only_calls P (f x)"
  shows "only_calls P (or_return m f)"
  unfolding or_return_def by (rule only_calls_exec) (auto intro: assms split: sum.split)

lemma or_return_lift: "or_return (lift_outcome (Returned (Inr x))) f = f x"
  by (simp add: or_return_def exec_def lift_outcome_def ret_def)

lemma or_return_lift_stops:
  "r = Panicked \<or> (\<exists>err. r = Returned (Inl err)) \<Longrightarrow> only_calls P (or_return (lift_outcome r) f)"
  by (auto simp: or_return_def only_calls_def wp_simps split: outcome.split)

definition velero_writes ::
    "libraries \<Rightarrow> PlatformType \<Rightarrow> string \<Rightarrow> PlatformStatus option \<Rightarrow> VeleroInstall \<Rightarrow> event \<Rightarrow> bool" where
  "velero_writes L platform namespace ps inst =
     allowed (\<lambda>ob. right_spec L platform namespace ps inst ob \<and> right_owner L inst ob)
       (right_spec L platform namespace ps inst)"

lemma own_meta:
  "own meta set_meta E inst x = Inr y \<Longrightarrow>
     \<exists>m m'. y = set_meta m' x \<and> lib_SetControllerReference (e_lib E) inst m = Inr m'"
  by (auto simp: own_def)

lemmas velero_writes_simps = velero_writes_def right_spec_def right_owner_def

lemma bsl_allowed:
  assumes "location_config platform ps = Returned (Inr lc)"
  shows "only_calls (velero_writes (e_lib E) platform namespace ps i)
    (ensure_BackupStorageLocation E i (wanted_bsl (e_lib E) platform namespace lc i))"
  unfolding velero_writes_def
  by (rule bsl.op_allowed) (auto simp: assms velero_writes_simps own_def)

lemma vsl_allowed:
  assumes "location_config platform ps = Returned (Inr lc)"
  shows "only_calls (velero_writes (e_lib E) platform namespace ps i)
    (ensure_VolumeSnapshotLocation E i (wanted_vsl (e_lib E) platform namespace lc))"
  unfolding velero_writes_def
  by (rule vsl.op_allowed) (auto simp: assms velero_writes_simps own_def)

lemma cr_allowed:
  assumes "location_config platform ps = Returned (Inr lc)"
    and "velero_credentials (e_lib E) namespace platform lc (sb_Name (vi_Bucket i)) = Inr cr"
  shows "only_calls (velero_writes (e_lib E) platform namespace ps i) (ensure_CredentialsRequest E i cr)"
  unfolding velero_writes_def
  by (rule cr.op_allowed) (auto simp: assms velero_writes_simps own_def)

lemma deployment_allowed:
  assumes "location_config platform ps = Returned (Inr lc)"
    and "veleroDeployment (e_lib E) namespace platform veleroImageRegistry = Returned dep"
  shows "only_calls (velero_writes (e_lib E) platform namespace ps i) (ensure_Deployment E i dep)"
  unfolding velero_writes_def
  by (rule deployment.op_allowed) (auto simp: assms velero_writes_simps own_def)

lemma metrics_allowed:
  assumes "location_config platform ps = Returned (Inr lc)"
  shows "only_calls (velero_writes (e_lib E) platform namespace ps i)
    (ensure_metrics_Service E i (metricsServiceFromDeployment L ord dep))"
  unfolding velero_writes_def
  by (rule metrics.op_allowed)
    (auto simp: assms velero_writes_simps own_def metricsServiceFromDeployment_def keep_cluster_fields_def)

lemma monitor_allowed:
  assumes "location_config platform ps = Returned (Inr lc)"
  shows "only_calls (velero_writes L platform namespace ps i)
    (ensure_ServiceMonitor E (generateServiceMonitor ord s))"
  unfolding velero_writes_def
  by (rule monitor.op_allowed)
    (auto simp: assms velero_writes_simps generateServiceMonitor_def Let_def object_meta_def)

lemma current_order_allowed: "only_calls P (current_order E)"
  by (simp add: current_order_def)

lemma provisionVelero_writes:
  "only_calls (velero_writes (e_lib E) (GetPlatformType d) namespace ps i) (provisionVelero E d namespace ps i)"
proof (cases "\<exists>lc. location_config (GetPlatformType d) ps = Returned (Inr lc)")
  case False
  then have "location_config (GetPlatformType d) ps = Panicked \<or>
      (\<exists>err. location_config (GetPlatformType d) ps = Returned (Inl err))"
    by (metis outcome.exhaust sum.exhaust)
  then show ?thesis unfolding provisionVelero_def by (rule or_return_lift_stops)
next
  case True
  then obtain lc where lc: "location_config (GetPlatformType d) ps = Returned (Inr lc)" by blast
  note blocks = bsl_allowed [OF lc] vsl_allowed [OF lc] metrics_allowed [OF lc] monitor_allowed [OF lc]
  show ?thesis
    unfolding provisionVelero_def lc or_return_lift wanted_bsl_def [symmetric] wanted_vsl_def [symmetric]
  proof (intro only_calls_or_return [OF blocks(1)] only_calls_or_return [OF blocks(2)], goal_cases)
    case (1 b v)
    show ?case
    proof (cases "velero_credentials (e_lib E) namespace (GetPlatformType d) lc (sb_Name (vi_Bucket i))")
      case (Inl err)
      then show ?thesis by (simp add: or_return_def)
    next
      case (Inr cr)
      show ?thesis
        unfolding Inr
        by (auto simp: or_return_def [of "ret _"] split: option.split
            intro!: only_calls_or_return only_calls_lift_exec only_calls_exec
              cr_allowed [OF lc Inr] deployment_allowed [OF lc] current_order_allowed blocks(3,4))
    qed
  qed
qed

section \<open>A settled cluster\<close>

text \<open>A cluster on which every object is what the operator wants.\<close>

definition settled ::
    "'w env \<Rightarrow> PlatformType \<Rightarrow> string \<Rightarrow> PlatformStatus option \<Rightarrow> VeleroInstall \<Rightarrow> 'w \<Rightarrow> bool" where
  "settled E platform namespace ps i w =
     (\<exists>lc cr dep b v c d s m.
        location_config platform ps = Returned (Inr lc) \<and>
        velero_credentials (e_lib E) namespace platform lc (sb_Name (vi_Bucket i)) = Inr cr \<and>
        veleroDeployment (e_lib E) namespace platform veleroImageRegistry = Returned dep \<and>
        finds BSLs E (meta_key bsl_ObjectMeta (wanted_bsl (e_lib E) platform namespace lc i)) w b \<and>
        bsl_Spec b = bsl_Spec (wanted_bsl (e_lib E) platform namespace lc i) \<and>
        finds VSLs E (meta_key vsl_ObjectMeta (wanted_vsl (e_lib E) platform namespace lc)) w v \<and>
        vsl_Spec v = vsl_Spec (wanted_vsl (e_lib E) platform namespace lc) \<and>
        finds CRs E (meta_key cr_ObjectMeta cr) w c \<and>
        credentialsRequestSpecEqual (e_lib E) (cr_Spec c) (cr_Spec cr) = Returned (Inr True) \<and>
        finds Deployments E (meta_key d_ObjectMeta dep) w d \<and> d_Spec d = d_Spec dep \<and>
        (let service = metricsServiceFromDeployment (e_lib E) (rt_Order (e_rt E) w) dep;
             sm = generateServiceMonitor (rt_Order (e_rt E) w) s
         in finds Services E (meta_key svc_ObjectMeta service) w s \<and>
            svc_Spec s = svc_Spec (keep_cluster_fields s service) \<and>
            finds ServiceMonitors E (meta_key sm_ObjectMeta sm) w m \<and> sm_Spec m = sm_Spec sm))"

lemma or_return_done: "m w = (Returned (Inr x), es, w') \<Longrightarrow> f x w' = (r, es', w'') \<Longrightarrow>
  or_return m f w = (r, es @ es', w'')"
  by (simp add: or_return_def exec_def)

lemma lift_done: "exec (lift_outcome (Returned x)) f = f x"
  by (simp add: exec_def lift_outcome_def)

lemma provisionVelero_settled:
  assumes "settled E (GetPlatformType d) namespace ps i w"
  shows "\<exists>es. provisionVelero E d namespace ps i w = (Returned (no_requeue, None), es, w) \<and>
    list_all reads es"
proof -
  let ?p = "GetPlatformType d" and ?L = "e_lib E" and ?ord = "rt_Order (e_rt E) w"
  from assms obtain lc cr dep b v c dd s m where
    lc: "location_config ?p ps = Returned (Inr lc)" and
    cr: "velero_credentials ?L namespace ?p lc (sb_Name (vi_Bucket i)) = Inr cr" and
    dep: "veleroDeployment ?L namespace ?p veleroImageRegistry = Returned dep" and
    b: "finds BSLs E (meta_key bsl_ObjectMeta (wanted_bsl ?L ?p namespace lc i)) w b"
       "bsl_Spec b = bsl_Spec (wanted_bsl ?L ?p namespace lc i)" and
    v: "finds VSLs E (meta_key vsl_ObjectMeta (wanted_vsl ?L ?p namespace lc)) w v"
       "vsl_Spec v = vsl_Spec (wanted_vsl ?L ?p namespace lc)" and
    c: "finds CRs E (meta_key cr_ObjectMeta cr) w c"
       "credentialsRequestSpecEqual ?L (cr_Spec c) (cr_Spec cr) = Returned (Inr True)" and
    dd: "finds Deployments E (meta_key d_ObjectMeta dep) w dd" "d_Spec dd = d_Spec dep" and
    s: "finds Services E (meta_key svc_ObjectMeta (metricsServiceFromDeployment ?L ?ord dep)) w s"
       "svc_Spec s = svc_Spec (keep_cluster_fields s (metricsServiceFromDeployment ?L ?ord dep))" and
    m: "finds ServiceMonitors E (meta_key sm_ObjectMeta (generateServiceMonitor ?ord s)) w m"
       "sm_Spec m = sm_Spec (generateServiceMonitor ?ord s)"
    unfolding settled_def Let_def by (elim exE conjE) (rule that)
  note found = bsl.found_same [OF b(1) [unfolded finds_def]] vsl.found_same [OF v(1) [unfolded finds_def]]
    cr.found_same [OF c(1) [unfolded finds_def]] deployment.found_same [OF dd(1) [unfolded finds_def]]
    metrics.found_same [OF s(1) [unfolded finds_def]] monitor.found_same [OF m(1) [unfolded finds_def]]
  show ?thesis
    unfolding provisionVelero_def lc or_return_lift cr dep lift_done
      wanted_bsl_def [symmetric] wanted_vsl_def [symmetric]
    by (simp add: or_return_def current_order_def go_run found b(2) v(2) c(2) dd(2) s(2) [symmetric] m(2)
        reads_def)
qed

end
