(* ===== verification/Controller.thy ===== *)
theory Controller
  imports Provision
begin

text \<open>
  controllers/velero/veleroinstall\_controller.go: Reconcile, which is called with the name of
  a VeleroInstall and either brings its storage up to date or provisions Velero. The
  reconciler keeps the storage driver from one call to the next, as an argument and a
  result here.
\<close>

section \<open>Reconcile\<close>

text \<open>60 * time.Minute, in nanoseconds\<close>

definition s3ReconcilePeriod :: int where
  "s3ReconcilePeriod = 60 * (60 * 1000000000)"

text \<open>The driver in use, made when there is none yet.\<close>

definition reconciler_driver ::
    "Driver option \<Rightarrow> InfrastructureStatus \<Rightarrow> (goerror + Driver) outcome" where
  "reconciler_driver driver infraStatus =
     (case driver of Some d \<Rightarrow> Returned (Inr d) | None \<Rightarrow> NewDriver infraStatus)"

definition Reconcile ::
    "'w env \<Rightarrow> Driver option \<Rightarrow> Request \<Rightarrow>
       ('w, (Result \<times> goerror option) \<times> Driver option) prog" where
  "Reconcile E driver request =
     exec (Get VeleroInstalls E (rq_Name request) (rq_Namespace request)) (\<lambda>r. case r of
       Inl err \<Rightarrow>
         if IsNotFound err then ret ((no_requeue, None), driver)
         else ret ((no_requeue, Some err), driver)
     | Inr inst \<Rightarrow>
         exec (platformutils_NewClient E) (\<lambda>err. case err of
           Some err \<Rightarrow> ret ((no_requeue, Some err), driver)
         | None \<Rightarrow>
             exec (GetInfrastructureStatus E) (\<lambda>r. case r of
               Inl err \<Rightarrow> ret ((no_requeue, Some err), driver)
             | Inr infraStatus \<Rightarrow>
                 exec (lift_outcome (reconciler_driver driver infraStatus)) (\<lambda>r. case r of
                   Inl err \<Rightarrow> ret ((no_requeue, Some err), None)
                 | Inr d \<Rightarrow>
                     exec (StorageBucketReconcileRequired E inst s3ReconcilePeriod) (\<lambda>b.
                       if b then
                         exec (CreateStorage E d inst) (\<lambda>err. ret ((no_requeue, err), Some d))
                       else
                         exec (provisionVelero E d (rq_Namespace request)
                                 (is_PlatformStatus infraStatus) inst)
                           (\<lambda>res. ret (res, Some d)))))))"

section \<open>SetupWithManager\<close>

definition VeleroInstall_watches :: ControllerWatches where
  "VeleroInstall_watches =
     \<lparr>cw_For = KindVeleroInstall,
      cw_Watches = [KindVeleroInstall],
      cw_Owns = [KindBackupStorageLocation, KindVolumeSnapshotLocation, KindCredentialsRequest,
        KindDeployment]\<rparr>"

definition SetupWithManager :: "'w env \<Rightarrow> ('w, goerror option) prog" where
  "SetupWithManager E = startup E (CompleteController VeleroInstall_watches)"

text \<open>
  The requests that a change to an object enqueues. For and Watches here enqueue the object
  itself; Owns enqueues what controller-runtime finds as the controller of the object.
\<close>

definition enqueued :: "libraries \<Rightarrow> ControllerWatches \<Rightarrow> kobj \<Rightarrow> Request list" where
  "enqueued L cw ob =
     (let itself = \<lparr>rq_Namespace = om_Namespace (obj_meta ob), rq_Name = om_Name (obj_meta ob)\<rparr>
      in map (\<lambda>k. itself) (filter (\<lambda>k. k = kind_of ob) (cw_For cw # cw_Watches cw)) @
         concat (map (\<lambda>k. lib_OwnerRequests L (cw_For cw) (obj_meta ob))
           (filter (\<lambda>k. k = kind_of ob) (cw_Owns cw))))"

text \<open>
  The documented behaviour of SetControllerReference and of the handler behind Owns: an
  object whose controller was set is mapped to that controller, by name, in its own namespace.
\<close>

definition requests_owner :: "libraries \<Rightarrow> VeleroInstall \<Rightarrow> bool" where
  "requests_owner L inst =
     (\<forall>m m'. lib_SetControllerReference L inst m = Inr m' \<longrightarrow>
        lib_OwnerRequests L KindVeleroInstall m' =
          [\<lparr>rq_Namespace = om_Namespace m', rq_Name = om_Name (vi_ObjectMeta inst)\<rparr>])"

text \<open>What a run of provisionVelero creates, by whether a change to it is seen.\<close>

fun seen_change :: "libraries \<Rightarrow> VeleroInstall \<Rightarrow> event \<Rightarrow> bool" where
  "seen_change L inst (KCreate ob r) =
     (enqueued L VeleroInstall_watches ob =
       (if kind_of ob \<in> {KindService, KindServiceMonitor} then []
        else [\<lparr>rq_Namespace = om_Namespace (obj_meta ob), rq_Name = om_Name (vi_ObjectMeta inst)\<rparr>]))"
| "seen_change L inst e = True"

lemma velero_writes_seen:
  assumes "requests_owner L inst" and "velero_writes L platform namespace ps inst e"
  shows "seen_change L inst e"
proof (cases e)
  case (KCreate ob r)
  with assms show ?thesis
    by (cases ob)
      (auto simp: velero_writes_def right_owner_def right_spec_def enqueued_def VeleroInstall_watches_def
        requests_owner_def)
qed simp_all

section \<open>What a call does\<close>

text \<open>The events that only prepare the decision, and the two kinds of work.\<close>

fun is_preparation :: "event \<Rightarrow> bool" where
  "is_preparation (KGet k n ns r) = (k = KindVeleroInstall)"
| "is_preparation (PlatformClient r) = True"
| "is_preparation (PlatformStatusRead r) = True"
| "is_preparation (Now t) = True"
| "is_preparation e = False"

text \<open>
  A call stops while it prepares, or prepares and then does the storage of a stale
  bucket, or prepares and then provisions from a fresh one. The clock is the one the call
  read; a bucket without name, provision or time is stale at any time.
\<close>

datatype work = Stopped | StorageWork Driver VeleroInstall | ProvisionWork Driver VeleroInstall InfrastructureStatus

fun stored :: "Driver \<Rightarrow> goerror option outcome \<Rightarrow> ((Result \<times> goerror option) \<times> Driver option) outcome" where
  "stored d Panicked = Panicked"
| "stored d (Returned err) = Returned ((no_requeue, err), Some d)"

fun provisioned :: "Driver \<Rightarrow> (Result \<times> goerror option) outcome \<Rightarrow>
    ((Result \<times> goerror option) \<times> Driver option) outcome" where
  "provisioned d Panicked = Panicked"
| "provisioned d (Returned res) = Returned (res, Some d)"

text \<open>What a call has read before it works with driver \<open>d\<close> on \<open>inst\<close>.\<close>

definition prepared ::
    "Driver option \<Rightarrow> Request \<Rightarrow> Driver \<Rightarrow> VeleroInstall \<Rightarrow> InfrastructureStatus \<Rightarrow> event list \<Rightarrow> bool" where
  "prepared driver rq d inst infra pre =
     (list_all is_preparation pre \<and>
      KGet KindVeleroInstall (rq_Name rq) (rq_Namespace rq) (Inr (ObjVeleroInstall inst)) \<in> set pre \<and>
      PlatformStatusRead (Inr infra) \<in> set pre \<and>
      reconciler_driver driver infra = Returned (Inr d))"

inductive reconcile_run ::
    "'w env \<Rightarrow> Driver option \<Rightarrow> Request \<Rightarrow> ((Result \<times> goerror option) \<times> Driver option) outcome \<Rightarrow>
       event list \<Rightarrow> 'w \<Rightarrow> work \<Rightarrow> bool"
  for E :: "'w env" and driver :: "Driver option" and rq :: Request where
  stop: "list_all is_preparation pre \<Longrightarrow> r = Panicked \<or> (\<exists>err d. r = Returned ((no_requeue, err), d) \<and> (d = driver \<or> d = None)) \<Longrightarrow>
     reconcile_run E driver rq r pre w' Stopped"
| store: "prepared driver rq d inst infra pre \<Longrightarrow>
     bucket_stale now s3ReconcilePeriod (vi_Bucket inst) \<Longrightarrow>
     CreateStorage E d inst w0 = (r, es, w') \<Longrightarrow>
     unsynced (vi_Bucket inst) \<or> Now now \<in> set pre \<Longrightarrow>
     reconcile_run E driver rq (stored d r) (pre @ es) w' (StorageWork d inst)"
| provision: "prepared driver rq d inst infra pre \<Longrightarrow> Now now \<in> set pre \<Longrightarrow>
     \<not> bucket_stale now s3ReconcilePeriod (vi_Bucket inst) \<Longrightarrow>
     provisionVelero E d (rq_Namespace rq) (is_PlatformStatus infra) inst w0 = (r, es, w') \<Longrightarrow>
     reconcile_run E driver rq (provisioned d r) (pre @ es) w' (ProvisionWork d inst infra)"

inductive_cases reconcile_run_StorageE: "reconcile_run E driver rq r es w' (StorageWork d inst)"
inductive_cases reconcile_run_ProvisionE: "reconcile_run E driver rq r es w' (ProvisionWork d inst infra)"

lemma period_bounds: "minDuration \<le> s3ReconcilePeriod" "s3ReconcilePeriod < maxDuration"
  by (simp_all add: minDuration_def maxDuration_def s3ReconcilePeriod_def)

lemmas required = wp_StorageBucketReconcileRequired [OF period_bounds]

lemma wp_last:
  "wp (exec m (\<lambda>x. ret (f x))) Q w =
     wp m (\<lambda>r es w'. Q (case r of Panicked \<Rightarrow> Panicked | Returned x \<Rightarrow> Returned (f x)) es w') w"
  unfolding wp_exec
  by (rule arg_cong [where f = "\<lambda>Q. wp m Q w"]) (auto intro!: ext simp: wp_simps split: outcome.split)

lemma storage_phase:
  assumes "prepared driver rq d inst infra pre"
    and "bucket_stale now s3ReconcilePeriod (vi_Bucket inst)"
    and "unsynced (vi_Bucket inst) \<or> Now now \<in> set pre"
  shows "wp (exec (CreateStorage E d inst) (\<lambda>err. ret ((no_requeue, err), Some d)))
    (\<lambda>r es w'. \<exists>wk. reconcile_run E driver rq r (pre @ es) w' wk) w"
  unfolding wp_last
proof (rule wpI, goal_cases)
  case (1 r es w')
  then show ?case using reconcile_run.store [OF assms(1,2) 1 assms(3)] by (cases r) auto
qed

lemma provision_phase:
  assumes "prepared driver rq d inst infra pre" and "Now now \<in> set pre"
    and "\<not> bucket_stale now s3ReconcilePeriod (vi_Bucket inst)"
  shows "wp (exec (provisionVelero E d (rq_Namespace rq) (is_PlatformStatus infra) inst)
      (\<lambda>res. ret (res, Some d)))
    (\<lambda>r es w'. \<exists>wk. reconcile_run E driver rq r (pre @ es) w' wk) w"
  unfolding wp_last
proof (rule wpI, goal_cases)
  case (1 r es w')
  then show ?case using reconcile_run.provision [OF assms 1] by (cases r) auto
qed

text \<open>The part of a call after the driver is known.\<close>

lemma decided_run:
  assumes "prepared driver rq d inst infra pre"
  shows "wp (exec (StorageBucketReconcileRequired E inst s3ReconcilePeriod) (\<lambda>b.
       if b then exec (CreateStorage E d inst) (\<lambda>err. ret ((no_requeue, err), Some d))
       else exec (provisionVelero E d (rq_Namespace rq) (is_PlatformStatus infra) inst)
              (\<lambda>res. ret (res, Some d))))
     (\<lambda>r es w'. \<exists>wk. reconcile_run E driver rq r (pre @ es) w' wk) w"
proof (rule wp_bindI [OF required], goal_cases)
  case (1 es w')
  then show ?case by simp
next
  case (2 b es w')
  then obtain now where b: "b = bucket_stale now s3ReconcilePeriod (vi_Bucket inst)" and
    es: "es = [] \<and> unsynced (vi_Bucket inst) \<or> es = [Now now]" by auto
  have pre: "prepared driver rq d inst infra (pre @ es)"
    using assms es by (auto simp: prepared_def)
  show ?case
  proof (cases b)
    case True
    then show ?thesis using storage_phase [OF pre, of now E w'] b es by auto
  next
    case False
    then show ?thesis using provision_phase [OF pre, of now E w'] b es unsynced_stale by auto
  qed
qed

lemma Reconcile_run:
  "wp (Reconcile E driver rq) (\<lambda>r es w'. \<exists>wk. reconcile_run E driver rq r es w' wk) w"
proof -
  let ?got = "\<lambda>inst. KGet KindVeleroInstall (rq_Name rq) (rq_Namespace rq) (Inr (ObjVeleroInstall inst))"
  have stop: "Ex (reconcile_run E driver rq r pre w')"
    if "list_all is_preparation pre" and "r = Panicked \<or> (\<exists>err d. r = Returned ((no_requeue, err), d) \<and> (d = driver \<or> d = None))"
    for r pre w'
    by (rule exI [where x = Stopped]) (rule reconcile_run.stop [OF that])
  have go: "wp (exec (StorageBucketReconcileRequired E inst s3ReconcilePeriod) (\<lambda>b.
       if b then exec (CreateStorage E d inst) (\<lambda>err. ret ((no_requeue, err), Some d))
       else exec (provisionVelero E d (rq_Namespace rq) (is_PlatformStatus infra) inst)
              (\<lambda>res. ret (res, Some d))))
     (\<lambda>r es w'. Ex (reconcile_run E driver rq r
       (?got inst # PlatformClient None # PlatformStatusRead (Inr infra) # es) w')) w"
    if "reconciler_driver driver infra = Returned (Inr d)" for inst d infra w
    using decided_run [of driver rq d inst infra "[?got inst, PlatformClient None, PlatformStatusRead (Inr infra)]" E w]
      that by (simp add: prepared_def)
  show ?thesis
    unfolding Reconcile_def wp_exec [of "Get VeleroInstalls E n ns" for n ns] env_calls wp_call
    by (auto simp: wp_ret wp_exec [of "call f g" for f g] wp_call wp_exec [of "lift_outcome r" for r] wp_lift_outcome
        intro!: stop go split: prod.split sum.split option.split outcome.split)
qed

section \<open>What a call may change\<close>

text \<open>Each call either only records the storage in the status, or only installs Velero.\<close>

definition installs_velero :: "'w env \<Rightarrow> Request \<Rightarrow> event list \<Rightarrow> bool" where
  "installs_velero E rq es =
     (\<exists>d inst (infra :: InfrastructureStatus) now. Now now \<in> set es \<and> \<not> bucket_stale now s3ReconcilePeriod (vi_Bucket inst) \<and>
        KGet KindVeleroInstall (rq_Name rq) (rq_Namespace rq) (Inr (ObjVeleroInstall inst)) \<in> set es \<and>
        list_all (\<lambda>e. is_preparation e \<or>
          velero_writes (e_lib E) (GetPlatformType d) (rq_Namespace rq) (is_PlatformStatus infra) inst e) es)"

lemma preparation_reads: "is_preparation e \<Longrightarrow> reads e"
  by (cases e) (simp_all add: reads_def)

lemma preparations_status: "list_all is_preparation pre \<Longrightarrow> list_all status_writes_only pre"
  by (auto simp: list_all_iff intro: reads_status_writes_only preparation_reads)

lemma reconcile_run_changes:
  assumes "reconcile_run E driver rq r es w' wk"
  shows "list_all status_writes_only es \<or> installs_velero E rq es"
  using assms
proof cases
  case (stop)
  then show ?thesis by (simp add: preparations_status)
next
  case (store d inst infra pre now w0 r' es')
  then have "list_all status_writes_only pre"
    by (simp add: prepared_def preparations_status)
  moreover have "list_all status_writes_only es'"
    using only_callsD [OF driver.only_status store(6)] by (simp add: list_all_iff)
  ultimately show ?thesis using store(2) by simp
next
  case (provision d inst infra pre now w0 r' es')
  have "list_all (\<lambda>e. is_preparation e \<or>
      velero_writes (e_lib E) (GetPlatformType d) (rq_Namespace rq) (is_PlatformStatus infra) inst e) es'"
    using only_callsD [OF provisionVelero_writes provision(7)] by (simp add: list_all_iff)
  with provision show ?thesis
    unfolding installs_velero_def prepared_def
    by (intro disjI2 exI [where x = d] exI [where x = inst] exI [where x = infra] exI [where x = now])
      (auto simp: list_all_iff)
qed

text \<open>The driver of a reconciler is made once.\<close>

lemma reconcile_run_driver:
  assumes "reconcile_run E (Some d) rq (Returned (res, d')) es w' wk" and "wk \<noteq> Stopped"
  shows "d' = Some d"
  using assms
proof cases
  case (store d2 inst infra pre now w0 r' es')
  then show ?thesis by (cases r') (auto simp: prepared_def reconciler_driver_def)
next
  case (provision d2 inst infra pre now w0 r' es')
  then show ?thesis by (cases r') (auto simp: prepared_def reconciler_driver_def)
qed simp

text \<open>A storage run that reports no error has recorded its result.\<close>

lemma reconcile_run_recorded:
  assumes "reconcile_run E driver rq (Returned ((res, None), d')) es w' (StorageWork d inst)"
    and "valid_runtime E"
  shows "\<exists>es' j. es = es' @ [KStatusUpdate j None]"
  using assms(1)
proof (cases rule: reconcile_run.cases)
  case (store infra pre now w0 r' es')
  have "recorded r' es'"
    using wpD [OF driver.nil_recorded [OF assms(2)] store(5)] .
  moreover have "r' = Returned None" using store(1) by (cases r') auto
  ultimately show ?thesis using store(2) by (auto simp: recorded_def)
qed

lemma preparations_path: "list_all is_preparation pre \<Longrightarrow> status_path b pre \<and> status_after b pre = b"
  by (intro reads_status) (auto simp: list_all_iff intro: preparation_reads)

lemma reconcile_run_path:
  assumes "reconcile_run E driver rq r es w' (StorageWork d inst)"
    and "valid_runtime E" and "echoes_status E"
    and "whole_seconds (sb_LastSyncTimestamp (vi_Bucket inst))"
  shows "status_path (vi_Bucket inst) es"
  using assms(1)
proof (cases rule: reconcile_run.cases)
  case (store infra pre now w0 r' es')
  have "status_path (vi_Bucket inst) es'"
    using wpD [OF driver.status_steps [OF assms(2,3,4)] store(5)] .
  with store show ?thesis by (simp add: prepared_def preparations_path)
qed

section \<open>Calls on a missing resource\<close>

lemma Reconcile_missing:
  assumes "r_Get (k_VeleroInstall (e_kube E)) (rq_Name rq) (rq_Namespace rq) w = (Inl err, w')"
  shows "Reconcile E driver rq w =
    (Returned ((no_requeue, if IsNotFound err then None else Some err), driver),
     [KGet KindVeleroInstall (rq_Name rq) (rq_Namespace rq) (Inl err)], w')"
  using assms by (simp add: Reconcile_def env_calls go_run)

end
