(* ===== verification/Velero_CRDs.thy ===== *)
theory Velero_CRDs
  imports Ensure_Spec
begin

text \<open>
  pkg/velero/crds.go: InstallVeleroCRDs puts the custom resource definitions of Velero in
  place at startup. The definitions and their conversion from unstructured data are the
  library's.
\<close>

section \<open>InstallVeleroCRDs\<close>

text \<open>The definition of the library, with the conversion strategy the cluster would add.\<close>

definition wanted_crd :: "libraries \<Rightarrow> string \<Rightarrow> goerror + CustomResourceDefinition" where
  "wanted_crd L unstructuredCrd =
     (case lib_FromUnstructured L unstructuredCrd of
        Inl err \<Rightarrow> Inl err
      | Inr crd \<Rightarrow> Inr (crd\<lparr>crd_Spec := (crd_Spec crd)\<lparr>crd_Conversion := Some ''None''\<rparr>\<rparr>))"

text \<open>The key has a name only: definitions belong to no namespace.\<close>

definition ensure_CRD ::
    "'w env \<Rightarrow> CustomResourceDefinition \<Rightarrow> ('w, goerror + CustomResourceDefinition) prog" where
  "ensure_CRD E crd =
     exec (Get CRDs E (om_Name (crd_ObjectMeta crd)) '''') (\<lambda>r. case r of
       Inl err \<Rightarrow>
         if IsNotFound err then exec (Create CRDs E crd) ret
         else ret (Inl err)
     | Inr foundCrd \<Rightarrow>
         if crd_Spec foundCrd \<noteq> crd_Spec crd then
           exec (Update CRDs E (foundCrd\<lparr>crd_Spec := crd_Spec crd\<rparr>)) (\<lambda>r. case r of
             Inl err \<Rightarrow> ret (Inl err)
           | Inr foundCrd \<Rightarrow> ret (Inr crd))
         else ret (Inr crd))"

fun install_crds :: "'w env \<Rightarrow> string list \<Rightarrow> ('w, goerror option) prog" where
  "install_crds E [] = ret None"
| "install_crds E (u # us) =
     (case wanted_crd (e_lib E) u of
        Inl err \<Rightarrow> ret (Some err)
      | Inr crd \<Rightarrow>
          exec (ensure_CRD E crd) (\<lambda>r. case r of
            Inl err \<Rightarrow> ret (Some err)
          | Inr crd \<Rightarrow> install_crds E us))"

definition InstallVeleroCRDs :: "'w env \<Rightarrow> ('w, goerror option) prog" where
  "InstallVeleroCRDs E = install_crds E (lib_AllCRDs (e_lib E))"

section \<open>The block keeps the interface\<close>

definition crd_key :: "CustomResourceDefinition \<Rightarrow> string \<times> string" where
  "crd_key crd = (om_Name (crd_ObjectMeta crd), '''')"

interpretation crd: ensured_object "\<lambda>E (u :: unit) x. ensure_CRD E x" CRDs crd_key "\<lambda>E u x. Inr x"
  "\<lambda>E found x. Returned (Inr (crd_Spec found \<noteq> crd_Spec x))"
  "\<lambda>found x. found\<lparr>crd_Spec := crd_Spec x\<rparr>" id "\<lambda>found x. x" "\<lambda>y found x. x"
  by unfold_locales
    (auto simp: ensure_CRD_def crd_key_def exec_def lift_outcome_def ret_def sum.map_id
       split: sum.split prod.split outcome.split intro!: ext)

section \<open>The order of a whole run\<close>

text \<open>The definitions are handled one by one, in order, up to the first error.\<close>

inductive crds_run :: "libraries \<Rightarrow> string list \<Rightarrow> goerror option \<Rightarrow> event list \<Rightarrow> bool" where
  all_done: "crds_run L [] None []"
| malformed: "wanted_crd L u = Inl err \<Longrightarrow> crds_run L (u # us) (Some err) []"
| failed: "wanted_crd L u = Inr crd \<Longrightarrow>
     block_run KindCustomResourceDefinition (crd_key crd) (Returned (Some err)) es \<Longrightarrow>
     crds_run L (u # us) (Some err) es"
| advance: "wanted_crd L u = Inr crd \<Longrightarrow>
     block_run KindCustomResourceDefinition (crd_key crd) (Returned None) es \<Longrightarrow>
     crds_run L us r es' \<Longrightarrow> crds_run L (u # us) r (es @ es')"

inductive_cases crds_run_ConsE: "crds_run L (u # us) r es"

lemma install_crds_run:
  "wp (install_crds E us) (\<lambda>r es w'. \<exists>res. r = Returned res \<and> crds_run (e_lib E) us res es) w"
proof (induction us arbitrary: w)
  case Nil
  then show ?case by (simp add: wp_simps crds_run.all_done)
next
  case (Cons u us)
  show ?case
  proof (cases "wanted_crd (e_lib E) u")
    case (Inl err)
    then show ?thesis by (simp add: wp_simps crds_run.malformed)
  next
    case (Inr x)
    have block: "wp (ensure_CRD E x) (\<lambda>r es w'.
        block_run KindCustomResourceDefinition (crd_key x) (error_of r) es \<and> r \<noteq> Panicked) w"
      by (intro wp_conj crd.op_run [simplified] crd.op_no_panic) simp
    show ?thesis
      unfolding install_crds.simps Inr sum.case
    proof (rule wp_bindI [OF block], goal_cases)
      case (1 es w')
      then show ?case by simp
    next
      case (2 r es w')
      then show ?case
        by (cases r)
          (auto simp: wp_simps intro: crds_run.failed [OF Inr] crds_run.advance [OF Inr]
            intro!: wp_mono [OF Cons.IH])
    qed
  qed
qed

section \<open>What a run may write, and a settled cluster\<close>

definition right_crd :: "libraries \<Rightarrow> string list \<Rightarrow> kobj \<Rightarrow> bool" where
  "right_crd L us ob =
     (case ob of
        ObjCustomResourceDefinition c \<Rightarrow>
          (\<exists>u \<in> set us. \<exists>crd. wanted_crd L u = Inr crd \<and> crd_Spec c = crd_Spec crd)
      | _ \<Rightarrow> False)"

lemma crd_allowed:
  assumes "u \<in> set us" and "wanted_crd (e_lib E) u = Inr crd"
  shows "only_calls (allowed (right_crd (e_lib E) us) (right_crd (e_lib E) us)) (ensure_CRD E crd)"
  by (rule crd.op_allowed) (use assms in \<open>auto simp: right_crd_def\<close>)

lemma install_crds_writes:
  "set us \<subseteq> set vs \<Longrightarrow>
   only_calls (allowed (right_crd (e_lib E) vs) (right_crd (e_lib E) vs)) (install_crds E us)"
  by (induction us) (auto split: sum.split intro!: only_calls_exec crd_allowed)

definition crd_settled :: "'w env \<Rightarrow> 'w \<Rightarrow> string \<Rightarrow> bool" where
  "crd_settled E w u =
     (case wanted_crd (e_lib E) u of
        Inl err \<Rightarrow> False
      | Inr crd \<Rightarrow> (\<exists>c. finds CRDs E (crd_key crd) w c \<and> crd_Spec c = crd_Spec crd))"

lemma install_crds_settled:
  "list_all (crd_settled E w) us \<Longrightarrow>
   \<exists>es. install_crds E us w = (Returned None, es, w) \<and> list_all reads es"
proof (induction us)
  case (Cons u us)
  then obtain x c where u: "wanted_crd (e_lib E) u = Inr x" and
    c: "finds CRDs E (crd_key x) w c" "crd_Spec c = crd_Spec x"
    by (auto simp: crd_settled_def split: sum.splits)
  have "ensure_CRD E x w = (Returned (Inr x),
      [KGet KindCustomResourceDefinition (fst (crd_key x)) (snd (crd_key x))
        (Inr (ObjCustomResourceDefinition c))], w)"
    using crd.found_same [OF c(1) [unfolded finds_def]] c(2) by simp
  with u Cons show ?case by (auto simp: exec_def reads_def)
qed (simp add: ret_def)

end
