(* ===== verification/Command_Line.thy ===== *)
theory Command_Line
  imports Env
begin

text \<open>
  The command line of the operator: the three flags that main.go registers, and the
  parser of the Go package flag that reads them. Flags that imported packages register are
  parameters; their values are kept in the order they are set.
\<close>

section \<open>The variables\<close>

record flag_vars =
  metricsAddr :: string
  probeAddr :: string
  enableLeaderElection :: bool
  other_flags :: "(string \<times> string) list"

definition flag_defaults :: flag_vars where
  "flag_defaults = \<lparr>metricsAddr = '':8383'', probeAddr = '':8081'', enableLeaderElection = False,
     other_flags = []\<rparr>"

definition own_flags :: "string list" where
  "own_flags = [''metrics-bind-address'', ''health-probe-bind-address'', ''leader-elect'']"

text \<open>Registering a flag a second time panics.\<close>

definition register_flags :: "libraries \<Rightarrow> unit outcome" where
  "register_flags L = (if list_all (\<lambda>n. lib_Flag L n = None) own_flags then Returned () else Panicked)"

section \<open>The package flag\<close>

text \<open>strconv.ParseBool\<close>

definition ParseBool :: "string \<Rightarrow> bool option" where
  "ParseBool s =
     (if s \<in> {''1'', ''t'', ''T'', ''true'', ''TRUE'', ''True''} then Some True
      else if s \<in> {''0'', ''f'', ''F'', ''false'', ''FALSE'', ''False''} then Some False
      else None)"

definition flag_kind_of :: "libraries \<Rightarrow> string \<Rightarrow> flag_kind option" where
  "flag_kind_of L name =
     (if name = ''metrics-bind-address'' \<or> name = ''health-probe-bind-address'' then Some ValueFlag
      else if name = ''leader-elect'' then Some BoolFlag
      else lib_Flag L name)"

text \<open>Setting a flag fails on a value that its type does not accept.\<close>

definition set_flag :: "libraries \<Rightarrow> string \<Rightarrow> string \<Rightarrow> flag_vars \<Rightarrow> flag_vars option" where
  "set_flag L name value v =
     (if name = ''metrics-bind-address'' then Some (v\<lparr>metricsAddr := value\<rparr>)
      else if name = ''health-probe-bind-address'' then Some (v\<lparr>probeAddr := value\<rparr>)
      else if name = ''leader-elect'' then
        (case ParseBool value of None \<Rightarrow> None | Some b \<Rightarrow> Some (v\<lparr>enableLeaderElection := b\<rparr>))
      else
        (case lib_FlagSet L name value of
           None \<Rightarrow> Some (v\<lparr>other_flags := other_flags v @ [(name, value)]\<rparr>)
         | Some err \<Rightarrow> None))"

text \<open>A name and the value after its first equals sign, if it has one.\<close>

definition split_value :: "string \<Rightarrow> string \<times> string option" where
  "split_value s =
     (case dropWhile (\<lambda>c. c \<noteq> CHR ''='') s of
        [] \<Rightarrow> (s, None)
      | _ # value \<Rightarrow> (takeWhile (\<lambda>c. c \<noteq> CHR ''='') s, Some value))"

text \<open>One or two dashes start a flag; no name is empty or starts with a dash or equals sign.\<close>

datatype arg = NoFlag | BadSyntax | Flag string "string option"

definition read_arg :: "string \<Rightarrow> arg" where
  "read_arg s =
     (case s of
        c # d # rest \<Rightarrow>
          if c \<noteq> CHR ''-'' then NoFlag
          else if d = CHR ''-'' \<and> rest = [] then NoFlag
          else
            (case (if d = CHR ''-'' then rest else d # rest) of
               [] \<Rightarrow> BadSyntax
             | e # name \<Rightarrow>
                 if e = CHR ''-'' \<or> e = CHR ''='' then BadSyntax
                 else case_prod Flag (split_value (e # name)))
      | _ \<Rightarrow> NoFlag)"

text \<open>The value of a flag: a boolean one needs none, any other may take the next argument.\<close>

fun flag_value :: "flag_kind \<Rightarrow> string option \<Rightarrow> string list \<Rightarrow> (string \<times> string list) option" where
  "flag_value BoolFlag None args = Some (''true'', args)"
| "flag_value k (Some x) args = Some (x, args)"
| "flag_value ValueFlag None (x # args) = Some (x, args)"
| "flag_value ValueFlag None [] = None"

text \<open>
  One step of the parser, with the error handling of the command line: a request for help
  ends the process with code 0, and any error ends it with code 2. Parsing stops at the
  first argument that is no flag, and at two dashes alone.
\<close>

datatype parse_step = Done | Exit int | Next "string list" flag_vars

definition parse_one :: "libraries \<Rightarrow> string list \<Rightarrow> flag_vars \<Rightarrow> parse_step" where
  "parse_one L args v =
     (case args of
        [] \<Rightarrow> Done
      | s # args \<Rightarrow>
          (case read_arg s of
             NoFlag \<Rightarrow> Done
           | BadSyntax \<Rightarrow> Exit 2
           | Flag name value \<Rightarrow>
               (case flag_kind_of L name of
                  None \<Rightarrow> Exit (if name = ''help'' \<or> name = ''h'' then 0 else 2)
                | Some k \<Rightarrow>
                    (case flag_value k value args of
                       None \<Rightarrow> Exit 2
                     | Some (x, args') \<Rightarrow>
                         (case set_flag L name x v of
                            None \<Rightarrow> Exit 2
                          | Some v' \<Rightarrow> Next args' v')))))"

lemma flag_value_shorter: "flag_value k given args = Some (x, args') \<Longrightarrow> length args' \<le> length args"
  by (induction k given args rule: flag_value.induct) auto

lemma parse_one_shorter: "parse_one L args v = Next args' v' \<Longrightarrow> length args' < length args"
  by (auto simp: parse_one_def dest: flag_value_shorter split: list.splits arg.splits option.splits)

function parse_flags :: "libraries \<Rightarrow> string list \<Rightarrow> flag_vars \<Rightarrow> int + flag_vars" where
  "parse_flags L args v =
     (case parse_one L args v of
        Done \<Rightarrow> Inr v
      | Exit code \<Rightarrow> Inl code
      | Next args' v' \<Rightarrow> parse_flags L args' v')"
  by pat_completeness auto
termination
  by (relation "measure (\<lambda>(L, args, v). length args)") (auto dest: parse_one_shorter)

declare parse_flags.simps [simp del]

section \<open>Every spelling is read back\<close>

text \<open>
  A setting of one of the operator's own flags: its value, whether the flag is written with
  two dashes, and whether the value follows an equals sign or is an argument of its own. A
  boolean flag is written alone for true, or with any of the spellings of its value.
\<close>

datatype setting =
    MetricsAddress bool bool string
  | ProbeAddress bool bool string
  | LeaderElection bool
  | LeaderElectionValue bool string bool

definition dashed :: "bool \<Rightarrow> string \<Rightarrow> string" where
  "dashed two s = (if two then ''--'' @ s else ''-'' @ s)"

definition spell_value :: "bool \<Rightarrow> bool \<Rightarrow> string \<Rightarrow> string \<Rightarrow> string list" where
  "spell_value two inline name value =
     (if inline then [dashed two (name @ ''='' @ value)] else [dashed two name, value])"

fun spell :: "setting \<Rightarrow> string list" where
  "spell (MetricsAddress two inline a) = spell_value two inline ''metrics-bind-address'' a"
| "spell (ProbeAddress two inline a) = spell_value two inline ''health-probe-bind-address'' a"
| "spell (LeaderElection two) = [dashed two ''leader-elect'']"
| "spell (LeaderElectionValue two s b) = spell_value two True ''leader-elect'' s"

fun well_spelled :: "setting \<Rightarrow> bool" where
  "well_spelled (LeaderElectionValue two s b) = (ParseBool s = Some b)"
| "well_spelled x = True"

fun assign :: "setting \<Rightarrow> flag_vars \<Rightarrow> flag_vars" where
  "assign (MetricsAddress two inline a) v = v\<lparr>metricsAddr := a\<rparr>"
| "assign (ProbeAddress two inline a) v = v\<lparr>probeAddr := a\<rparr>"
| "assign (LeaderElection two) v = v\<lparr>enableLeaderElection := True\<rparr>"
| "assign (LeaderElectionValue two s b) v = v\<lparr>enableLeaderElection := b\<rparr>"

text \<open>A flag is read back, with its value if that is written after an equals sign.\<close>

definition plain_name :: "string \<Rightarrow> bool" where
  "plain_name n = (n \<noteq> [] \<and> hd n \<noteq> CHR ''-'' \<and> CHR ''='' \<notin> set n)"

lemma split_value_spelled:
  assumes "CHR ''='' \<notin> set n"
  shows "split_value n = (n, None)" "split_value (n @ CHR ''='' # x) = (n, Some x)"
proof -
  have "dropWhile (\<lambda>c. c \<noteq> CHR ''='') n = []" and "takeWhile (\<lambda>c. c \<noteq> CHR ''='') n = n"
    using assms by (induction n) auto
  then show "split_value n = (n, None)" "split_value (n @ CHR ''='' # x) = (n, Some x)"
    by (simp_all only: split_value_def dropWhile_append3 takeWhile_append dropWhile_append)
      (use assms in simp_all)
qed

lemma read_dashed:
  assumes "plain_name n"
  shows "read_arg (dashed two n) = Flag n None"
    and "read_arg (dashed two (n @ CHR ''='' # x)) = Flag n (Some x)"
proof -
  obtain c m where n: "n = c # m" "c \<noteq> CHR ''-''" "c \<noteq> CHR ''=''" "CHR ''='' \<notin> set n"
    using assms by (cases n) (auto simp: plain_name_def)
  note split = split_value_spelled [OF n(4), unfolded n(1) append_Cons]
  show "read_arg (dashed two n) = Flag n None"
    using n(2,3) by (simp add: read_arg_def dashed_def split(1) n(1))
  show "read_arg (dashed two (n @ CHR ''='' # x)) = Flag n (Some x)"
    using n(2,3) by (simp add: read_arg_def dashed_def split(2) n(1))
qed

lemma own_flags_plain:
  "plain_name ''metrics-bind-address''" "plain_name ''health-probe-bind-address''"
  "plain_name ''leader-elect''"
  by (simp_all add: plain_name_def)

text \<open>One setting, in front of any other arguments.\<close>

lemma parse_spelled_value:
  assumes "plain_name n" and "flag_kind_of L n = Some k" and "set_flag L n x v = Some v'"
    and "k = BoolFlag \<Longrightarrow> inline"
  shows "parse_flags L (spell_value two inline n x @ args) v = parse_flags L args v'"
  using assms
  by (subst parse_flags.simps) (cases k; simp add: parse_one_def spell_value_def read_dashed)

lemma parse_spelled_alone:
  assumes "plain_name n" and "flag_kind_of L n = Some BoolFlag" and "set_flag L n ''true'' v = Some v'"
  shows "parse_flags L (dashed two n # args) v = parse_flags L args v'"
  using assms by (subst parse_flags.simps) (simp add: parse_one_def read_dashed)

lemma own_kinds:
  "flag_kind_of L ''metrics-bind-address'' = Some ValueFlag"
  "flag_kind_of L ''health-probe-bind-address'' = Some ValueFlag"
  "flag_kind_of L ''leader-elect'' = Some BoolFlag"
  by (simp_all add: flag_kind_of_def)

lemma own_sets:
  "set_flag L ''metrics-bind-address'' x v = Some (v\<lparr>metricsAddr := x\<rparr>)"
  "set_flag L ''health-probe-bind-address'' x v = Some (v\<lparr>probeAddr := x\<rparr>)"
  "ParseBool x = Some b \<Longrightarrow> set_flag L ''leader-elect'' x v = Some (v\<lparr>enableLeaderElection := b\<rparr>)"
  by (simp_all add: set_flag_def)

lemma ParseBool_true: "ParseBool ''true'' = Some True"
  by (simp add: ParseBool_def)

lemma parse_setting:
  assumes "well_spelled s"
  shows "parse_flags L (spell s @ args) v = parse_flags L args (assign s v)"
proof (cases s)
  case (MetricsAddress two inline a)
  then show ?thesis
    using parse_spelled_value [OF own_flags_plain(1) own_kinds(1) own_sets(1)] by simp
next
  case (ProbeAddress two inline a)
  then show ?thesis
    using parse_spelled_value [OF own_flags_plain(2) own_kinds(2) own_sets(2)] by simp
next
  case (LeaderElection two)
  then show ?thesis
    using parse_spelled_alone [OF own_flags_plain(3) own_kinds(3) own_sets(3) [OF ParseBool_true]] by simp
next
  case (LeaderElectionValue two x b)
  with assms show ?thesis
    using parse_spelled_value [OF own_flags_plain(3) own_kinds(3) own_sets(3), of x b] by simp
qed

lemma parse_settings:
  "list_all well_spelled ss \<Longrightarrow>
     parse_flags L (concat (map spell ss) @ args) v = parse_flags L args (fold assign ss v)"
  by (induction ss arbitrary: v) (simp_all add: parse_setting)

text \<open>Where the flags of a command line end.\<close>

definition flags_end :: "string list \<Rightarrow> bool" where
  "flags_end args = (case args of [] \<Rightarrow> True | s # rest \<Rightarrow> read_arg s = NoFlag)"

lemma parse_end: "flags_end args \<Longrightarrow> parse_flags L args v = Inr v"
  by (subst parse_flags.simps) (auto simp: flags_end_def parse_one_def split: list.splits)

text \<open>
  The codes a command line can end the process with; it is 0 only for a request for help
  that no package has taken.
\<close>

lemma parse_one_exit:
  "parse_one L args v = Exit code \<Longrightarrow>
     code = 2 \<or> code = 0 \<and> (\<exists>s value name. s \<in> set args \<and> read_arg s = Flag name value \<and>
       (name = ''help'' \<or> name = ''h'') \<and> flag_kind_of L name = None)"
  by (auto simp: parse_one_def split: list.splits arg.splits option.splits if_splits)

lemma flag_value_subset: "flag_value k given args = Some (x, args') \<Longrightarrow> set args' \<subseteq> set args"
  by (induction k given args rule: flag_value.induct) auto

lemma parse_one_subset: "parse_one L args v = Next args' v' \<Longrightarrow> set args' \<subseteq> set args"
  by (auto simp: parse_one_def dest!: flag_value_subset split: list.splits arg.splits option.splits)

lemma parse_flags_exit:
  "parse_flags L args v = Inl code \<Longrightarrow>
     code = 2 \<or> code = 0 \<and> (\<exists>s value name. s \<in> set args \<and> read_arg s = Flag name value \<and>
       (name = ''help'' \<or> name = ''h'') \<and> flag_kind_of L name = None)"
proof (induction L args v rule: parse_flags.induct)
  case (1 L args v)
  show ?case
  proof (cases "parse_one L args v")
    case (Exit c)
    then show ?thesis using "1.prems" parse_one_exit [of L args v c] by (simp add: parse_flags.simps)
  next
    case (Next args' v')
    then show ?thesis
      using "1.IH" [OF Next] "1.prems" parse_one_subset [OF Next] by (auto simp: parse_flags.simps)
  next
    case Done
    then show ?thesis using "1.prems" by (simp add: parse_flags.simps)
  qed
qed

end
