(* ===== verification/Api_Registration.thy ===== *)
theory Api_Registration
  imports Env
begin

text \<open>
  api/v1alpha2/groupversion_info.go, the init function of veleroinstall_types.go and
  zz_generated.openapi.go: the group and the version of the operator's types and how they
  are registered. The builder is controller-runtime's: registering objects with it and
  adding its types to a scheme are parameters. The package's variable points to the builder,
  and the method value AddToScheme keeps that pointer, so that a call uses the builder as it
  is then, with what init registered, and not as it was when the variable was set.
\<close>

definition GroupVersion_v1alpha2 :: GroupVersion where
  "GroupVersion_v1alpha2 = \<lparr>gv_Group = ''managed.openshift.io'', gv_Version = ''v1alpha2''\<rparr>"

definition SchemeBuilder :: Builder where
  "SchemeBuilder = \<lparr>bld_GroupVersion = GroupVersion_v1alpha2, bld_SchemeBuilder = ''''\<rparr>"

definition AddToScheme :: "libraries \<Rightarrow> Builder \<Rightarrow> goerror option" where
  "AddToScheme L builder = lib_Builder_AddToScheme L builder"

text \<open>The init function of veleroinstall_types.go, which changes the builder.\<close>

definition types_init :: "libraries \<Rightarrow> Builder \<Rightarrow> Builder" where
  "types_init L builder = lib_Register L [NewVeleroInstall, NewVeleroInstallList] builder"

text \<open>The builder once the package is initialised: its variables first, then init.\<close>

definition package_builder :: "libraries \<Rightarrow> Builder" where
  "package_builder L = types_init L SchemeBuilder"

text \<open>zz_generated.openapi.go: no type asks for a definition.\<close>

definition GetOpenAPIDefinitions :: "'ref \<Rightarrow> (string, 'definition) fmap" where
  "GetOpenAPIDefinitions ref = fmempty"

end
