(* ===== verification/Operator_Main.thy ===== *)
theory Operator_Main
  imports Controller Velero_CRDs Command_Line Api_Registration
begin

text \<open>
  main.go: init, which registers the types the operator handles; main, which reads the
  command line and runs the startup sequence, each step of which ends the process with code
  1 when it fails; and addMetrics, which installs the service and the service monitor of
  the operator's own metrics. The steps that only set up the manager are calls that succeed
  or fail. The value of main is the exit code of the process.
\<close>

section \<open>Constants\<close>

definition metricsPort :: int where "metricsPort = 8383"
definition WatchNamespaceEnvVar :: string where "WatchNamespaceEnvVar = ''WATCH_NAMESPACE''"
definition ManagedVeleroOperatorNamespace :: string where
  "ManagedVeleroOperatorNamespace = ''openshift-velero''"
definition MainOperatorName :: string where "MainOperatorName = ''managed-velero-operator''"

definition supportedPlatforms :: "PlatformType list" where
  "supportedPlatforms = [AWSPlatformType, GCPPlatformType]"

section \<open>addMetrics\<close>

text \<open>The two fields are set before the error of the constructor is checked.\<close>

definition generated_service :: "libraries \<Rightarrow> (goerror + Service) outcome" where
  "generated_service L =
     (case lib_opmetrics_GenerateService L metricsPort ''http-metrics'' (MainOperatorName @ ''-metrics'')
        ManagedVeleroOperatorNamespace (Some (fmupd ''name'' MainOperatorName fmempty)) of
        (None, err) \<Rightarrow> Panicked
      | (Some service, None) \<Rightarrow>
          Returned (Inr (service\<lparr>svc_Spec := (svc_Spec service)
            \<lparr>ss_SessionAffinity := ''None'', ss_Type := ''ClusterIP''\<rparr>\<rparr>))
      | (Some service, Some err) \<Rightarrow> Returned (Inl err))"

text \<open>The value is the variable service after the block: created, or with the fields kept.\<close>

definition ensure_operator_Service :: "'w env \<Rightarrow> Service \<Rightarrow> ('w, goerror + Service) prog" where
  "ensure_operator_Service E service =
     exec (Get Services E (om_Name (svc_ObjectMeta service)) (om_Namespace (svc_ObjectMeta service)))
       (\<lambda>r. case r of
       Inl err \<Rightarrow>
         if IsNotFound err then exec (Create Services E service) ret
         else ret (Inl err)
     | Inr foundService \<Rightarrow>
         let service = keep_cluster_fields foundService service in
         if svc_Spec foundService \<noteq> svc_Spec service then
           exec (Update Services E (foundService\<lparr>svc_Spec := svc_Spec service\<rparr>)) (\<lambda>r. case r of
             Inl err \<Rightarrow> ret (Inl err)
           | Inr foundService \<Rightarrow> ret (Inr service))
         else ret (Inr service))"

definition ensure_operator_ServiceMonitor ::
    "'w env \<Rightarrow> ServiceMonitor \<Rightarrow> ('w, goerror + ServiceMonitor) prog" where
  "ensure_operator_ServiceMonitor E serviceMonitor =
     exec (Get ServiceMonitors E (om_Name (sm_ObjectMeta serviceMonitor))
             (om_Namespace (sm_ObjectMeta serviceMonitor))) (\<lambda>r. case r of
       Inl err \<Rightarrow>
         if IsNotFound err then exec (Create ServiceMonitors E serviceMonitor) ret
         else ret (Inl err)
     | Inr foundServiceMonitor \<Rightarrow>
         if sm_Spec foundServiceMonitor \<noteq> sm_Spec serviceMonitor then
           exec (Update ServiceMonitors E (foundServiceMonitor\<lparr>sm_Spec := sm_Spec serviceMonitor\<rparr>))
             (\<lambda>r. case r of
               Inl err \<Rightarrow> ret (Inl err)
             | Inr foundServiceMonitor \<Rightarrow> ret (Inr serviceMonitor))
         else ret (Inr serviceMonitor))"

definition addMetrics :: "'w env \<Rightarrow> ('w, goerror option) prog" where
  "addMetrics E =
     exec (lift_outcome (generated_service (e_lib E))) (\<lambda>r. case r of
       Inl err \<Rightarrow> ret (Some err)
     | Inr service \<Rightarrow>
         exec (ensure_operator_Service E service) (\<lambda>r. case r of
           Inl err \<Rightarrow> ret (Some err)
         | Inr service \<Rightarrow>
             exec (ensure_operator_ServiceMonitor E (lib_opmetrics_GenerateServiceMonitor (e_lib E) service))
               (\<lambda>r. ret (err_of r))))"

section \<open>main\<close>

definition getWatchNamespace :: "'w env \<Rightarrow> ('w, goerror + string) prog" where
  "getWatchNamespace E =
     exec (LookupEnv E WatchNamespaceEnvVar) (\<lambda>r. case r of
       None \<Rightarrow> ret (Inl (Errorf [WatchNamespaceEnvVar, '' must be set'']))
     | Some ns \<Rightarrow> ret (Inr ns))"

text \<open>A step whose error is logged and ends the process with os.Exit(1).\<close>

definition or_exit :: "('w, goerror option) prog \<Rightarrow> ('w, int) prog \<Rightarrow> ('w, int) prog" where
  "or_exit m k = exec m (\<lambda>err. case err of Some err \<Rightarrow> ret 1 | None \<Rightarrow> k)"

text \<open>
  init: a registration that fails panics (utilruntime.Must). The registration of the
  operator's own types is the one of its package.
\<close>

definition group_AddToScheme :: "libraries \<Rightarrow> api_group \<Rightarrow> goerror option" where
  "group_AddToScheme L g = (if g = ManagedV1alpha2 then AddToScheme L (package_builder L) else lib_AddToScheme L g)"

definition scheme_groups :: "api_group list" where
  "scheme_groups =
     [ClientGoScheme, ManagedV1alpha2, ConfigV1, MonitoringV1, MinterV1, ApiextensionsV1, VeleroV1]"

definition init_scheme :: "libraries \<Rightarrow> api_group list outcome" where
  "init_scheme L =
     fold_outcome (\<lambda>g scheme. case group_AddToScheme L g of
         None \<Rightarrow> Returned (scheme @ [g])
       | Some err \<Rightarrow> Panicked) scheme_groups []"

definition manager_options :: "api_group list \<Rightarrow> flag_vars \<Rightarrow> ManagerOptions" where
  "manager_options scheme v =
     \<lparr>mo_Scheme = scheme,
      mo_MetricsBindAddress = metricsAddr v,
      mo_Port = 9443,
      mo_HealthProbeBindAddress = probeAddr v,
      mo_LeaderElection = enableLeaderElection v,
      mo_LeaderElectionID = ''fcfdbe85.openshift.io'',
      mo_Namespace = ManagedVeleroOperatorNamespace\<rparr>"

definition main :: "'w env \<Rightarrow> api_group list \<Rightarrow> ('w, int) prog" where
  "main E scheme =
     exec (lift_outcome (register_flags (e_lib E))) (\<lambda>_.
     exec (os_Args E) (\<lambda>args. case parse_flags (e_lib E) args flag_defaults of
       Inl code \<Rightarrow> ret code
     | Inr v \<Rightarrow>
     exec (getWatchNamespace E) (\<lambda>r. case r of
       Inl err \<Rightarrow> ret 1
     | Inr namespace \<Rightarrow>
         if namespace \<noteq> ManagedVeleroOperatorNamespace then ret 1
         else
           or_exit (startup E GetConfigOrDie)
          (or_exit (startup E (NewManager (manager_options scheme v)))
          (or_exit (startup E (BecomeLeader ''managed-velero-operator-lock''))
          (or_exit (startup E GetConfig)
          (or_exit (startup E (NewStartupClient (mo_Scheme (manager_options scheme v))))
          (or_exit (platformutils_NewClient E)
            (exec (GetInfrastructureStatus E) (\<lambda>r. case r of
               Inl err \<Rightarrow> ret 1
             | Inr infraStatus \<Rightarrow>
                (case is_PlatformStatus infraStatus of
                   None \<Rightarrow> panic
                 | Some ps \<Rightarrow>
                    if \<not> lib_IsPlatformSupported (e_lib E) (pl_Type ps) supportedPlatforms then ret 1
                    else
                      or_exit (InstallVeleroCRDs E)
                     (or_exit (SetupWithManager E)
                     (or_exit (startup E (AddHealthzCheck ''healthz''))
                     (or_exit (startup E (AddReadyzCheck ''readyz''))
                     (or_exit (addMetrics E)
                     (or_exit (startup E StartManager)
                        (ret 0)))))))))))))))))"

text \<open>The process: init, with the package's scheme, then main.\<close>

definition run_operator :: "'w env \<Rightarrow> ('w, int) prog" where
  "run_operator E = exec (lift_outcome (init_scheme (e_lib E))) (main E)"

section \<open>The blocks keep the interface\<close>

interpretation operator_service: ensured_object "\<lambda>E (u :: unit) x. ensure_operator_Service E x" Services
  "meta_key svc_ObjectMeta" "\<lambda>E u x. Inr x"
  "\<lambda>E found x. Returned (Inr (svc_Spec found \<noteq> svc_Spec (keep_cluster_fields found x)))"
  "\<lambda>found x. found\<lparr>svc_Spec := svc_Spec (keep_cluster_fields found x)\<rparr>" id
  "\<lambda>found x. keep_cluster_fields found x" "\<lambda>y found x. keep_cluster_fields found x"
  by unfold_locales
    (auto simp: ensure_operator_Service_def keep_cluster_fields_def block_shape Let_def
       split: sum.split prod.split outcome.split intro!: ext)

interpretation operator_monitor: ensured_object
  "\<lambda>E (u :: unit) x. ensure_operator_ServiceMonitor E x" ServiceMonitors
  "meta_key sm_ObjectMeta" "\<lambda>E u x. Inr x"
  "\<lambda>E found x. Returned (Inr (sm_Spec found \<noteq> sm_Spec x))"
  "\<lambda>found x. found\<lparr>sm_Spec := sm_Spec x\<rparr>" id "\<lambda>found x. x" "\<lambda>y found x. x"
  by unfold_locales
    (auto simp: ensure_operator_ServiceMonitor_def block_shape
       split: sum.split prod.split outcome.split intro!: ext)

section \<open>addMetrics, branch by branch\<close>

lemma addMetrics_nil_service:
  "fst (lib_opmetrics_GenerateService (e_lib E) metricsPort ''http-metrics'' (MainOperatorName @ ''-metrics'')
     ManagedVeleroOperatorNamespace (Some (fmupd ''name'' MainOperatorName fmempty))) = None \<Longrightarrow>
   addMetrics E w = (Panicked, [], w)"
  by (auto simp: addMetrics_def generated_service_def go_run split: prod.splits)

text \<open>The service is done before the service monitor, and an error of either ends the run.\<close>

inductive metrics_run :: "libraries \<Rightarrow> goerror option outcome \<Rightarrow> event list \<Rightarrow> bool" where
  nil_service: "generated_service L = Panicked \<Longrightarrow> metrics_run L Panicked []"
| no_service: "generated_service L = Returned (Inl err) \<Longrightarrow> metrics_run L (Returned (Some err)) []"
| service_failed: "generated_service L = Returned (Inr s) \<Longrightarrow>
     block_run KindService (meta_key svc_ObjectMeta s) (Returned (Some err)) es \<Longrightarrow>
     metrics_run L (Returned (Some err)) es"
| both: "generated_service L = Returned (Inr s) \<Longrightarrow>
     block_run KindService (meta_key svc_ObjectMeta s) (Returned None) es \<Longrightarrow>
     block_run KindServiceMonitor (meta_key sm_ObjectMeta (lib_opmetrics_GenerateServiceMonitor L s'))
       (Returned err) es' \<Longrightarrow>
     metrics_run L (Returned err) (es @ es')"

inductive_cases metrics_runE: "metrics_run L r es"

lemma addMetrics_run: "wp (addMetrics E) (\<lambda>r es w'. metrics_run (e_lib E) r es) w"
proof (cases "generated_service (e_lib E)")
  case Panicked
  then show ?thesis by (simp add: addMetrics_def wp_simps metrics_run.nil_service)
next
  case (Returned g)
  show ?thesis
  proof (cases g)
    case (Inl err)
    with Returned show ?thesis by (simp add: addMetrics_def wp_simps metrics_run.no_service)
  next
    case (Inr s)
    let ?L = "e_lib E"
    have gen: "generated_service ?L = Returned (Inr s)" using Returned Inr by simp
    have service: "wp (ensure_operator_Service E s) (\<lambda>r es w'.
        block_run KindService (meta_key svc_ObjectMeta s) (error_of r) es \<and> r \<noteq> Panicked) w"
      by (intro wp_conj operator_service.op_run [simplified] operator_service.op_no_panic) simp
    have monitor: "wp (ensure_operator_ServiceMonitor E m) (\<lambda>r es w'.
        block_run KindServiceMonitor (meta_key sm_ObjectMeta m) (error_of r) es \<and> r \<noteq> Panicked) w" for m w
      by (intro wp_conj operator_monitor.op_run [simplified] operator_monitor.op_no_panic) simp
    have last: "wp (exec (ensure_operator_ServiceMonitor E m) (\<lambda>r. ret (err_of r)))
        (\<lambda>r es w'. \<exists>err. r = Returned err \<and>
           block_run KindServiceMonitor (meta_key sm_ObjectMeta m) (Returned err) es) w" for m w
      unfolding wp_last
      by (rule wp_mono [OF monitor]) (auto simp: error_of.simps split: outcome.splits)
    show ?thesis
      unfolding addMetrics_def gen lift_done sum.case
    proof (rule wp_bindI [OF service], goal_cases)
      case (1 es w')
      then show ?case by simp
    next
      case (2 r es w')
      then show ?case
        by (cases r)
          (auto simp: wp_ret intro: metrics_run.service_failed [OF gen] metrics_run.both [OF gen]
            intro!: wp_mono [OF last])
    qed
  qed
qed

section \<open>The startup sequence\<close>

datatype phase = Step startup_step | PlatformPhase | StatusPhase | CRDPhase | MetricsPhase

definition startup_phases :: "api_group list \<Rightarrow> flag_vars \<Rightarrow> phase list" where
  "startup_phases scheme v =
     [Step GetConfigOrDie, Step (NewManager (manager_options scheme v)),
      Step (BecomeLeader ''managed-velero-operator-lock''), Step GetConfig, Step (NewStartupClient scheme),
      PlatformPhase, StatusPhase, CRDPhase, Step (CompleteController VeleroInstall_watches),
      Step (AddHealthzCheck ''healthz''), Step (AddReadyzCheck ''readyz''), MetricsPhase, Step StartManager]"

text \<open>The calls of a phase, and the error it ends with.\<close>

inductive phase_run :: "libraries \<Rightarrow> phase \<Rightarrow> goerror option outcome \<Rightarrow> event list \<Rightarrow> bool" where
  step: "phase_run L (Step s) (Returned err) [Startup s err]"
| platform: "phase_run L PlatformPhase (Returned err) [PlatformClient err]"
| status_ok: "is_PlatformStatus infra = Some ps \<Longrightarrow>
     lib_IsPlatformSupported L (pl_Type ps) supportedPlatforms \<Longrightarrow>
     phase_run L StatusPhase (Returned None) [PlatformStatusRead (Inr infra)]"
| status_error: "phase_run L StatusPhase (Returned (Some err)) [PlatformStatusRead (Inl err)]"
| unsupported: "is_PlatformStatus infra = Some ps \<Longrightarrow>
     \<not> lib_IsPlatformSupported L (pl_Type ps) supportedPlatforms \<Longrightarrow>
     phase_run L StatusPhase (Returned (Some err)) [PlatformStatusRead (Inr infra)]"
| no_status: "is_PlatformStatus infra = None \<Longrightarrow>
     phase_run L StatusPhase Panicked [PlatformStatusRead (Inr infra)]"
| crds: "crds_run L (lib_AllCRDs L) err es \<Longrightarrow> phase_run L CRDPhase (Returned err) es"
| metrics: "metrics_run L r es \<Longrightarrow> phase_run L MetricsPhase r es"

text \<open>
  The phases run in order. The process ends with code 0 after the last of them, and with
  code 1 or a panic in the first that does not succeed.
\<close>

inductive main_run :: "libraries \<Rightarrow> phase list \<Rightarrow> int outcome \<Rightarrow> event list \<Rightarrow> bool" where
  exit_zero: "main_run L [] (Returned 0) []"
| exit_one: "phase_run L p (Returned (Some err)) es \<Longrightarrow> main_run L (p # ps) (Returned 1) es"
| died: "phase_run L p Panicked es \<Longrightarrow> main_run L (p # ps) Panicked es"
| proceed: "phase_run L p (Returned None) es \<Longrightarrow> main_run L ps r es' \<Longrightarrow> main_run L (p # ps) r (es @ es')"

inductive_cases main_run_ConsE: "main_run L (p # ps) r es"
inductive_simps main_run_Nil: "main_run L [] r es"

lemma or_exit_run:
  assumes "\<And>w. wp m (\<lambda>r es w'. phase_run (e_lib E) p r es) w"
    and "\<And>w. wp k (\<lambda>r es w'. main_run (e_lib E) ps r es) w"
  shows "wp (or_exit m k) (\<lambda>r es w'. main_run (e_lib E) (p # ps) r es) w"
  unfolding or_exit_def
proof (rule wp_bindI [OF assms(1)], goal_cases)
  case (1 es w')
  then show ?case by (rule main_run.died)
next
  case (2 err es w')
  then show ?case
    by (cases err) (auto simp: wp_ret intro: main_run.exit_one main_run.proceed intro!: wp_mono [OF assms(2)])
qed

lemma startup_run: "wp (startup E s) (\<lambda>r es w'. phase_run L (Step s) r es) w"
  by (auto simp: startup_def wp_simps phase_run.step split: prod.split)

lemma client_run: "wp (platformutils_NewClient E) (\<lambda>r es w'. phase_run L PlatformPhase r es) w"
  by (auto simp: platformutils_NewClient_def wp_simps phase_run.platform split: prod.split)

lemma crds_phase: "wp (InstallVeleroCRDs E) (\<lambda>r es w'. phase_run (e_lib E) CRDPhase r es) w"
  unfolding InstallVeleroCRDs_def
  by (rule wp_mono [OF install_crds_run]) (auto intro: phase_run.crds)

lemma metrics_phase: "wp (addMetrics E) (\<lambda>r es w'. phase_run (e_lib E) MetricsPhase r es) w"
  by (rule wp_mono [OF addMetrics_run]) (rule phase_run.metrics)

lemma status_run:
  assumes "\<And>w. wp k (\<lambda>r es w'. main_run (e_lib E) ps r es) w"
  shows "wp (exec (GetInfrastructureStatus E) (\<lambda>r. case r of
       Inl err \<Rightarrow> ret 1
     | Inr infraStatus \<Rightarrow>
        (case is_PlatformStatus infraStatus of
           None \<Rightarrow> panic
         | Some ps \<Rightarrow>
            if \<not> lib_IsPlatformSupported (e_lib E) (pl_Type ps) supportedPlatforms then ret 1 else k)))
     (\<lambda>r es w'. main_run (e_lib E) (StatusPhase # ps) r es) w"
proof -
  have k: "wp k (\<lambda>r es w'. main_run (e_lib E) (StatusPhase # ps) r (PlatformStatusRead (Inr infra) # es)) w"
    if "is_PlatformStatus infra = Some s" and "lib_IsPlatformSupported (e_lib E) (pl_Type s) supportedPlatforms"
    for infra s w
    using main_run.proceed [OF phase_run.status_ok [OF that]]
    by (auto intro!: wp_mono [OF assms])
  show ?thesis
    by (auto simp: GetInfrastructureStatus_def wp_exec wp_call wp_ret wp_panic k
        intro: main_run.exit_one main_run.died phase_run.status_error phase_run.unsupported phase_run.no_status
        split: prod.split sum.split option.split)
qed

lemma setup_run: "wp (SetupWithManager E) (\<lambda>r es w'. phase_run L (Step (CompleteController VeleroInstall_watches)) r es) w"
  unfolding SetupWithManager_def by (rule startup_run)

lemma last_run: "wp (ret 0) (\<lambda>r es w'. main_run L [] r es) w"
  by (simp add: wp_ret main_run.exit_zero)

text \<open>
  Outside its namespace, and when the command line ends it, the operator makes no call.
\<close>

definition in_namespace :: "'w env \<Rightarrow> 'w \<Rightarrow> bool" where
  "in_namespace E w = (rt_LookupEnv (e_rt E) WatchNamespaceEnvVar w = Some ManagedVeleroOperatorNamespace)"

definition parsed_flags :: "'w env \<Rightarrow> 'w \<Rightarrow> (int + flag_vars) outcome" where
  "parsed_flags E w =
     and_then (register_flags (e_lib E))
       (\<lambda>_. Returned (parse_flags (e_lib E) (rt_Args (e_rt E) w) flag_defaults))"

definition main_result ::
    "'w env \<Rightarrow> 'w \<Rightarrow> api_group list \<Rightarrow> int outcome \<Rightarrow> event list \<Rightarrow> bool" where
  "main_result E w scheme r es =
     (case parsed_flags E w of
        Panicked \<Rightarrow> r = Panicked \<and> es = []
      | Returned (Inl code) \<Rightarrow> r = Returned code \<and> es = []
      | Returned (Inr v) \<Rightarrow>
          if in_namespace E w then main_run (e_lib E) (startup_phases scheme v) r es
          else r = Returned 1 \<and> es = [])"

lemma main_in_namespace:
  assumes "parsed_flags E w = Returned (Inr v)" and "in_namespace E w"
  shows "wp (main E scheme) (\<lambda>r es w'. main_run (e_lib E) (startup_phases scheme v) r es) w"
proof -
  have flags: "register_flags (e_lib E) = Returned ()"
    "parse_flags (e_lib E) (rt_Args (e_rt E) w) flag_defaults = Inr v"
    using assms(1) by (auto simp: parsed_flags_def and_then_def split: outcome.splits)
  have scheme: "mo_Scheme (manager_options scheme v) = scheme"
    by (simp add: manager_options_def)
  show ?thesis
    unfolding main_def flags(1) lift_done os_Args_def getWatchNamespace_def LookupEnv_def exec_assoc
    unfolding wp_exec [of "asks f" for f] wp_asks outcome.case flags(2) sum.case
      assms(2) [unfolded in_namespace_def] option.case exec_ret_left if_False not_True_eq_False simp_thms
      append_Nil startup_phases_def scheme
    by (intro or_exit_run startup_run client_run status_run crds_phase metrics_phase setup_run last_run)
qed

lemma main_cases: "wp (main E scheme) (\<lambda>r es w'. main_result E w scheme r es) w"
proof (cases "parsed_flags E w")
  case Panicked
  then show ?thesis
    by (auto simp: main_result_def main_def parsed_flags_def and_then_def wp_simps split: outcome.splits)
next
  case (Returned p)
  then have flags: "register_flags (e_lib E) = Returned ()"
    "parse_flags (e_lib E) (rt_Args (e_rt E) w) flag_defaults = p"
    by (auto simp: parsed_flags_def and_then_def split: outcome.splits)
  show ?thesis
  proof (cases p)
    case (Inl code)
    then show ?thesis using Returned flags
      by (simp add: main_result_def main_def os_Args_def wp_simps)
  next
    case (Inr v)
    show ?thesis
    proof (cases "in_namespace E w")
      case True
      then show ?thesis
        using main_in_namespace [OF Returned [unfolded Inr] True] Returned Inr by (simp add: main_result_def)
    next
      case False
      have "main_result E w scheme (Returned 1) []"
        using False Returned Inr by (simp add: main_result_def)
      then show ?thesis using flags Inr False
        unfolding main_def lift_done os_Args_def getWatchNamespace_def LookupEnv_def exec_assoc flags(1)
        by (auto simp: wp_exec wp_asks wp_ret in_namespace_def split: option.split)
    qed
  qed
qed

lemma init_scheme_result:
  "init_scheme L = (if list_all (\<lambda>g. group_AddToScheme L g = None) scheme_groups
     then Returned scheme_groups else Panicked)"
  by (auto simp: init_scheme_def scheme_groups_def split: option.split)

definition operator_result :: "'w env \<Rightarrow> 'w \<Rightarrow> int outcome \<Rightarrow> event list \<Rightarrow> bool" where
  "operator_result E w r es =
     (if list_all (\<lambda>g. group_AddToScheme (e_lib E) g = None) scheme_groups
      then main_result E w scheme_groups r es else r = Panicked \<and> es = [])"

lemma operator_cases: "wp (run_operator E) (\<lambda>r es w'. operator_result E w r es) w"
  using main_cases [of E scheme_groups w]
  by (simp add: run_operator_def operator_result_def init_scheme_result wp_simps)

lemma phase_run_startup:
  "phase_run L p r es \<Longrightarrow> Startup s err \<in> set es \<Longrightarrow> p = Step s \<and> r = Returned err"
proof (induction rule: phase_run.induct)
  case (crds L err' es)
  then show ?case
    by (induction rule: crds_run.induct) (auto elim!: block_runE)
next
  case (metrics L r es)
  then show ?case by (auto elim!: metrics_runE block_runE)
qed auto

lemma main_run_steps:
  "main_run L ps r es \<Longrightarrow> Startup s err \<in> set es \<Longrightarrow> Step s \<in> set ps"
  by (induction rule: main_run.induct) (auto dest: phase_run_startup)

text \<open>The exit code is 0 only after the manager ran and stopped without an error.\<close>

lemma main_run_exit:
  assumes "main_run L (ps @ [Step s]) r es" and "Step s \<notin> set ps"
  shows "(r = Returned 0) = (Startup s None \<in> set es)"
  using assms
proof (induction ps arbitrary: es)
  case Nil
  then show ?case
    by (auto elim!: main_run_ConsE phase_run.cases simp: main_run_Nil)
next
  case (Cons p ps)
  from Cons.prems(1) show ?case unfolding append_Cons
  proof (cases rule: main_run.cases)
    case (exit_one err)
    then show ?thesis using Cons.prems(2) by (auto dest: phase_run_startup)
  next
    case died
    then show ?thesis by (auto dest: phase_run_startup)
  next
    case (proceed es1 es2)
    have "Startup s None \<notin> set es1" using phase_run_startup [OF proceed(2)] Cons.prems(2) by auto
    then show ?thesis using Cons.IH [OF proceed(3)] Cons.prems(2) proceed(1) by auto
  qed
qed

lemma startup_phases_last:
  "startup_phases scheme v = butlast (startup_phases scheme v) @ [Step StartManager]"
  "Step StartManager \<notin> set (butlast (startup_phases scheme v))"
  by (simp_all add: startup_phases_def)

text \<open>When the last phase starts, all the phases before it have succeeded, in order.\<close>

lemma main_run_ready:
  assumes "main_run L (ps @ [Step s]) r es" and "Step s \<notin> set ps" and "Startup s err \<in> set es"
  shows "\<exists>ess. es = concat ess @ [Startup s err] \<and>
    list_all2 (\<lambda>q es. phase_run L q (Returned None) es) ps ess"
  using assms
proof (induction ps arbitrary: es)
  case Nil
  have "es = [Startup s err]"
    using Nil.prems(1,3)
    by (auto elim!: main_run_ConsE phase_run.cases simp: main_run_Nil)
  then show ?case by simp
next
  case (Cons p ps)
  from Cons.prems(1) show ?case unfolding append_Cons
  proof (cases rule: main_run.cases)
    case (exit_one e)
    then show ?thesis using Cons.prems(2,3) by (auto dest: phase_run_startup)
  next
    case died
    then show ?thesis using Cons.prems(3) by (auto dest: phase_run_startup)
  next
    case (proceed es1 es2)
    have "Startup s err \<notin> set es1" using phase_run_startup [OF proceed(2)] Cons.prems(2) by auto
    then obtain ess where "es2 = concat ess @ [Startup s err]"
      "list_all2 (\<lambda>q es. phase_run L q (Returned None) es) ps ess"
      using Cons.IH [OF proceed(3)] Cons.prems(2,3) proceed(1) by auto
    then show ?thesis using proceed(1,2) by (intro exI [of _ "es1 # ess"]) simp
  qed
qed

end
