(* ===== verification/Secured_Bucket.thy ===== *)
theory Secured_Bucket
  imports Storage
begin

text \<open>
  What a synchronisation time in the status stands for. A driver may put a time into the
  status only after it has put the settings of the named bucket in place in the same run:
  the contract of a driver (Storage_Spec) is extended by that law, and both drivers and the
  dispatch between them keep it.
\<close>

section \<open>Status updates and synchronisation times\<close>

text \<open>
  In a run that started with the time \<open>t\<close>, every status update keeps \<open>t\<close> or marks a named
  bucket as provisioned that the events before it have secured.
\<close>

fun stamps :: "(string \<Rightarrow> event list \<Rightarrow> bool) \<Rightarrow> go_time option \<Rightarrow> event list \<Rightarrow> event list \<Rightarrow> bool" where
  "stamps sec t pre [] = True"
| "stamps sec t pre (e # es) =
     ((case e of
         KStatusUpdate j res \<Rightarrow>
           sb_LastSyncTimestamp (vi_Bucket j) = t \<or>
           (sb_Provisioned (vi_Bucket j) \<and> sb_Name (vi_Bucket j) \<noteq> '''' \<and> sec (sb_Name (vi_Bucket j)) pre)
       | _ \<Rightarrow> True) \<and>
      stamps sec t (pre @ [e]) es)"

lemma stamps_append [simp]:
  "stamps sec t pre (xs @ ys) = (stamps sec t pre xs \<and> stamps sec t (pre @ xs) ys)"
  by (induction xs arbitrary: pre) auto

lemma stamps_no_writes: "no_kube_writes es \<Longrightarrow> stamps sec t pre es"
  by (induction es arbitrary: pre) (auto split: event.split)

lemma stamps_reads: "list_all reads es \<Longrightarrow> stamps sec t pre es"
  by (intro stamps_no_writes no_kube_writes_reads)

lemma stamps_mono:
  assumes "stamps sec t pre es" and "\<And>n es. sec n es \<Longrightarrow> sec' n (before @ es)"
  shows "stamps sec' t (before @ pre) es"
  using assms(1)
proof (induction es arbitrary: pre)
  case (Cons e es)
  then show ?case using assms(2) Cons.IH [of "pre @ [e]"] by (auto split: event.splits)
qed simp

section \<open>The contract\<close>

locale securing_driver = storage_driver create_storage storage_exists
  for create_storage :: "'w env \<Rightarrow> 'd \<Rightarrow> VeleroInstall \<Rightarrow> ('w, goerror option) prog"
    and storage_exists :: "'w env \<Rightarrow> 'd \<Rightarrow> string \<Rightarrow> ('w, goerror + bool) prog" +
  fixes secures :: "'d \<Rightarrow> string \<Rightarrow> event list \<Rightarrow> bool"
  assumes secures_extend: "secures d n es \<Longrightarrow> secures d n (pre @ es @ post)"
    and stamps_secured: "valid_runtime E \<Longrightarrow> echoes_status E \<Longrightarrow>
      whole_seconds (sb_LastSyncTimestamp (vi_Bucket i)) \<Longrightarrow>
      wp (create_storage E d i) (\<lambda>r es w'. stamps (secures d) (sb_LastSyncTimestamp (vi_Bucket i)) [] es) w"
begin

text \<open>The law with a history before the run.\<close>

lemma stamps_after:
  assumes "valid_runtime E" and "echoes_status E" and "whole_seconds (sb_LastSyncTimestamp (vi_Bucket i))"
    and "create_storage E d i w = (r, es, w')"
  shows "stamps (secures d) (sb_LastSyncTimestamp (vi_Bucket i)) before es"
  using stamps_mono [OF wpD [OF stamps_secured [OF assms(1,2,3)] assms(4)], of "secures d" before]
    secures_extend [where pre = before and post = "[]"] by simp

end

section \<open>The S3 driver\<close>

text \<open>All settings of the bucket were accepted, one after the other.\<close>

definition s3_secured :: "s3_driver \<Rightarrow> string \<Rightarrow> event list \<Rightarrow> bool" where
  "s3_secured d n es = (\<exists>k pre en post. enforcement k n (s3_InfraName d) en \<and> es = pre @ en @ post)"

lemma s3_secured_extend: "s3_secured d n es \<Longrightarrow> s3_secured d n (pre @ es @ post)"
  unfolding s3_secured_def by (metis append_assoc)

lemma s3_secured_within:
  "enforcement k n (s3_InfraName d) en \<Longrightarrow> s3_secured d n (pre @ en @ post)"
  by (auto simp: s3_secured_def)

lemma s3_synced_stamps:
  assumes "s3_synced d c i r es" and "sb_Name (vi_Bucket i) \<noteq> ''''"
  shows "stamps (s3_secured d) (sb_LastSyncTimestamp (vi_Bucket i)) pre es"
proof -
  from assms(1) obtain ce k en now res where
    es: "es = (ce @ [S3Call k (ReqHeadBucket (sb_Name (vi_Bucket i))) RespOk]) @ en @
          [Now now, KStatusUpdate (synced now i) res]"
    and ce: "s3_client_events (s3_Region d) ce"
    and en: "enforcement (s3Client c) (sb_Name (vi_Bucket i)) (s3_InfraName d) en"
    unfolding s3_synced_def by auto
  have "no_kube_writes (ce @ [S3Call k (ReqHeadBucket (sb_Name (vi_Bucket i))) RespOk])"
    using no_kube_writes_reads [OF s3_client_events_read [OF ce]] by simp
  moreover have "s3_secured d (sb_Name (vi_Bucket i))
      ((pre @ ce @ [S3Call k (ReqHeadBucket (sb_Name (vi_Bucket i))) RespOk]) @ en @ [Now now])"
    by (rule s3_secured_within [OF en])
  ultimately show ?thesis
    using assms(2) unfolding es
    by (simp add: stamps_no_writes stamps_no_writes [OF enforcement_no_kube [OF en]] synced_def)
qed

lemma s3_enforced_stamps:
  assumes "s3_enforced d c i r es" and "sb_Name (vi_Bucket i) \<noteq> ''''"
  shows "stamps (s3_secured d) (sb_LastSyncTimestamp (vi_Bucket i)) pre es"
  using assms(1) s3_synced_stamps [OF _ assms(2)]
  by (auto simp: s3_enforced_def s3_missing_def s3_failed_def s3_crashed_def unprovisioned_def
      stamps_no_writes stamps_reads [OF s3_client_events_read])

text \<open>The switch never changes the time.\<close>

lemma s3_named_stamps:
  assumes "s3_named E i r es" and "echoes_status E" and "whole_seconds (sb_LastSyncTimestamp (vi_Bucket i))"
  shows "stamps sec (sb_LastSyncTimestamp (vi_Bucket i)) pre es \<and>
    (\<forall>i'. r = Returned (None, i') \<longrightarrow>
       sb_LastSyncTimestamp (vi_Bucket i') = sb_LastSyncTimestamp (vi_Bucket i))"
  using assms by (auto simp: s3_named_def stamps_reads names_bucket_time)

lemma s3_select_stamps:
  assumes "valid_runtime E" and "echoes_status E" and "client_of d c"
    and "whole_seconds (sb_LastSyncTimestamp (vi_Bucket i))"
  shows "wp (s3_select_bucket E d c i)
    (\<lambda>r es w'. (\<forall>sec pre. stamps sec (sb_LastSyncTimestamp (vi_Bucket i)) pre es) \<and>
       (\<forall>i'. r = Returned (Inr i') \<longrightarrow>
          sb_LastSyncTimestamp (vi_Bucket i') = sb_LastSyncTimestamp (vi_Bucket i))) w"
proof (cases "sb_Name (vi_Bucket i) = ''''")
  case True
  show ?thesis
    unfolding s3_nameless_branch [OF True]
  proof (rule wp_bindI [OF setInstanceBucketName_result], goal_cases)
    case (1 es w')
    then show ?case using s3_named_stamps [OF 1 assms(2,4)] by simp
  next
    case (2 x es w')
    then show ?case
      using s3_named_stamps [OF 2 assms(2,4)] by (cases x; cases "fst x") (simp_all add: wp_ret)
  qed
next
  case False
  show ?thesis
  proof (cases "sb_Provisioned (vi_Bucket i)")
    case True
    then show ?thesis using False by (simp add: s3_provisioned_branch wp_ret)
  next
    case unprovisioned: False
    show ?thesis
      by (rule wp_mono [OF s3_create_branch [OF assms(1,3) False unprovisioned]])
        (auto simp: s3_created_def Let_def stamps_no_writes nameless_def)
  qed
qed

lemma s3_CreateStorage_stamps:
  assumes "valid_runtime E" and "echoes_status E" and "whole_seconds (sb_LastSyncTimestamp (vi_Bucket i))"
  shows "wp (s3_CreateStorage E d i)
    (\<lambda>r es w'. stamps (s3_secured d) (sb_LastSyncTimestamp (vi_Bucket i)) [] es) w"
  unfolding s3_CreateStorage_def
proof (rule wp_bindI [OF s3_client_of], goal_cases)
  case (1 es w')
  then show ?case by simp
next
  case (2 x es w')
  then have "list_all reads es" using s3_client_events_read by blast
  then have es: "stamps sec t pre es" for sec t pre by (rule stamps_reads)
  show ?case
  proof (cases x)
    case (Inl err)
    then show ?thesis using es by (simp add: wp_simps)
  next
    case (Inr c)
    with 2 have c: "client_of d c" by simp
    show ?thesis
      unfolding Inr sum.case
    proof (rule wp_bindI [OF wp_conj [OF s3_select_stamps [OF assms(1,2) c assms(3)]
            s3_select_path [OF assms(1,2) c assms(3)]]], goal_cases)
      case (1 es' w'')
      then show ?case using es by simp
    next
      case (2 y es' w'')
      show ?case
      proof (cases y)
        case (Inl res)
        then show ?thesis using es 2 by (simp add: wp_simps)
      next
        case (Inr i')
        have name: "sb_Name (vi_Bucket i') \<noteq> ''''"
          and time: "sb_LastSyncTimestamp (vi_Bucket i') = sb_LastSyncTimestamp (vi_Bucket i)"
          using 2 by (auto simp: Inr s3_select_post_def)
        show ?thesis
          unfolding Inr sum.case
          using es 2 s3_enforced_stamps [OF _ name] time
          by (intro wp_mono [OF s3_enforce_bucket_result [OF assms(1)]]) simp
      qed
    qed
  qed
qed

interpretation s3_securing: securing_driver s3_CreateStorage s3_StorageExists s3_secured
  by unfold_locales (simp_all add: s3_secured_extend s3_CreateStorage_stamps)

section \<open>The GCS driver\<close>

text \<open>The bucket was found and the labels of the cluster were accepted.\<close>

definition gcs_secured :: "gcs_driver \<Rightarrow> string \<Rightarrow> event list \<Rightarrow> bool" where
  "gcs_secured d n es =
     ((\<exists>k. GcsCall k (GcsAttrs n) None \<in> set es) \<and>
      (\<exists>c. GcsCall c (GcsUpdate n (buildLabelMap (gcs_InfraName d))) None \<in> set es))"

lemma gcs_secured_extend: "gcs_secured d n es \<Longrightarrow> gcs_secured d n (pre @ es @ post)"
  by (auto simp: gcs_secured_def)

lemma gcs_enforced_stamps:
  assumes "gcs_enforced d c i r es" and "sb_Name (vi_Bucket i) \<noteq> ''''"
  shows "stamps (gcs_secured d) (sb_LastSyncTimestamp (vi_Bucket i)) pre es"
  using assms
  by (auto simp: gcs_enforced_def gcs_synced_def gcs_missing_def gcs_failed_def unprovisioned_def
      synced_def gcs_secured_def stamps_no_writes stamps_reads)

lemma gcs_named_stamps:
  "gcs_named i r es \<Longrightarrow> stamps sec (sb_LastSyncTimestamp (vi_Bucket i)) pre es"
  by (auto simp: gcs_named_def stamps_reads names_bucket_time)

lemma gcs_CreateStorage_stamps:
  "valid_runtime E \<Longrightarrow> wp (gcs_CreateStorage E d i)
    (\<lambda>r es w'. stamps (gcs_secured d) (sb_LastSyncTimestamp (vi_Bucket i)) [] es) w"
  by (rule wp_mono [OF gcs_CreateStorage_cases])
    (auto simp: gcs_failed_def stamps_no_writes intro: gcs_named_stamps gcs_enforced_stamps)

interpretation gcs_securing: securing_driver gcs_CreateStorage gcs_StorageExists gcs_secured
  by unfold_locales (simp_all add: gcs_secured_extend gcs_CreateStorage_stamps)

section \<open>The dispatch\<close>

fun secured :: "Driver \<Rightarrow> string \<Rightarrow> event list \<Rightarrow> bool" where
  "secured (S3Driver d) = s3_secured d"
| "secured (GCSDriver d) = gcs_secured d"

interpretation securing: securing_driver CreateStorage StorageExists secured
proof (unfold_locales, goal_cases)
  case (1 d n es pre post)
  then show ?case by (cases d) (simp_all add: s3_secured_extend gcs_secured_extend)
next
  case (2 E i d w)
  then show ?case
    by (cases d) (simp_all add: s3_securing.stamps_secured gcs_securing.stamps_secured)
qed

end
