(* ===== verification/Operator_History.thy ===== *)
theory Operator_History
  imports Operator_Main Secured_Bucket
begin

text \<open>
  The operator over time: any number of calls of Reconcile, for any resources and in any
  worlds, with restarts of the process between them. The only thing that ties the calls
  together is what the API server and the clock let the operator see: a status that is
  read was sent before, and the clock does not run backwards.
\<close>

section \<open>Histories\<close>

text \<open>The driver a reconciler is left with; a panic ends the process.\<close>

fun driver_kept :: "((Result \<times> goerror option) \<times> Driver option) outcome \<Rightarrow> Driver option" where
  "driver_kept Panicked = None"
| "driver_kept (Returned (res, driver)) = driver"

text \<open>
  The driver of the running process, and all events so far. A process starts with init and main,
  and no driver. Between two calls the world may change in any way.
\<close>

inductive history :: "'w env \<Rightarrow> Driver option \<Rightarrow> event list \<Rightarrow> bool" for E :: "'w env" where
  nothing: "history E None []"
| process: "history E driver tr \<Longrightarrow> run_operator E w = (code, es, w') \<Longrightarrow> history E None (tr @ es)"
| reconcile: "history E driver tr \<Longrightarrow> Reconcile E driver rq w = (r, es, w') \<Longrightarrow>
     history E (driver_kept r) (tr @ es)"

section \<open>What the services show\<close>

text \<open>The buckets of the statuses sent, in the form they are stored in.\<close>

fun sent :: "event list \<Rightarrow> StorageBucket list" where
  "sent [] = []"
| "sent (KStatusUpdate j res # es) = to_second (vi_Bucket j) # sent es"
| "sent (e # es) = sent es"

lemma sent_append [simp]: "sent (xs @ ys) = sent xs @ sent ys"
  by (induction xs rule: sent.induct) auto

lemma sent_nothing: "list_all (\<lambda>e. \<not> is_status_update e) es \<Longrightarrow> sent es = []"
  by (induction es rule: sent.induct) auto

text \<open>
  A resource that is read was never synchronised or has a bucket that was sent before,
  stored or not, however long ago: caches and lost answers are allowed for.
\<close>

fun reads_sent :: "StorageBucket list \<Rightarrow> event list \<Rightarrow> bool" where
  "reads_sent known [] = True"
| "reads_sent known (KGet k n ns (Inr (ObjVeleroInstall i)) # es) =
     ((sb_LastSyncTimestamp (vi_Bucket i) = None \<or> vi_Bucket i \<in> set known) \<and> reads_sent known es)"
| "reads_sent known (KStatusUpdate j res # es) = reads_sent (to_second (vi_Bucket j) # known) es"
| "reads_sent known (e # es) = reads_sent known es"

lemma reads_sent_append:
  "reads_sent known (xs @ ys) = (reads_sent known xs \<and> reads_sent (rev (sent xs) @ known) ys)"
  by (induction known xs rule: reads_sent.induct) auto

lemma reads_sentD:
  assumes "reads_sent known es" and "KGet k n ns (Inr (ObjVeleroInstall i)) \<in> set es" and "sent es = []"
  shows "sb_LastSyncTimestamp (vi_Bucket i) = None \<or> vi_Bucket i \<in> set known"
  using assms by (induction known es rule: reads_sent.induct) auto

text \<open>The readings of the clock.\<close>

fun times :: "event list \<Rightarrow> go_time list" where
  "times [] = []"
| "times (Now t # es) = t # times es"
| "times (e # es) = times es"

lemma times_append [simp]: "times (xs @ ys) = times xs @ times ys"
  by (induction xs rule: times.induct) auto

lemma in_times_iff: "t \<in> set (times es) \<longleftrightarrow> Now t \<in> set es"
  by (induction es rule: times.induct) auto

section \<open>Honest statuses\<close>

text \<open>
  A time is outdated when it was more than the period old at some earlier reading of the
  clock. A bucket is honest when its time is, or when it was secured under its name.
\<close>

definition outdated :: "event list \<Rightarrow> go_time option \<Rightarrow> bool" where
  "outdated tr t = (case t of None \<Rightarrow> True
     | Some x \<Rightarrow> x = 0 \<or> (\<exists>now\<in>set (times tr). s3ReconcilePeriod < now - x))"

definition honest :: "event list \<Rightarrow> StorageBucket \<Rightarrow> bool" where
  "honest tr b =
     (outdated tr (sb_LastSyncTimestamp b) \<or>
      (sb_Provisioned b \<and> sb_Name b \<noteq> '''' \<and> (\<exists>d. secured d (sb_Name b) tr)))"

lemma outdated_extend: "outdated tr t \<Longrightarrow> outdated (tr @ es) t"
  by (auto simp: outdated_def split: option.splits)

lemma secured_extend: "secured d n tr \<Longrightarrow> secured d n (tr @ es)"
  using securing.secures_extend [of d n tr "[]" es] by simp

lemma honest_extend: "honest tr b \<Longrightarrow> honest (tr @ es) b"
  unfolding honest_def using outdated_extend secured_extend by blast

text \<open>A bucket whose storage is due has an outdated time if it is honest.\<close>

lemma due_outdated:
  assumes "honest tr b" and "unsynced b \<or> Now now \<in> set es" and "bucket_stale now s3ReconcilePeriod b"
  shows "outdated (tr @ es) (sb_LastSyncTimestamp b)"
proof (cases "unsynced b")
  case True
  then show ?thesis
    using assms(1) outdated_extend
    by (auto simp: honest_def unsynced_def IsZero_def outdated_def split: option.splits)
next
  case False
  then have "\<exists>t. sb_LastSyncTimestamp b = Some t \<and> s3ReconcilePeriod < now - t"
    using synced_staleD [OF assms(3)] by blast
  then show ?thesis using False assms(2) by (auto simp: outdated_def in_times_iff)
qed

text \<open>A bucket that is fresh by a clock that does not run backwards is secured.\<close>

lemma fresh_secured:
  assumes "honest tr b" and "\<not> bucket_stale now s3ReconcilePeriod b"
    and "\<forall>t\<in>set (times tr). t \<le> now"
  shows "\<exists>d. secured d (sb_Name b) tr"
  using assms fresh_bucketD [OF assms(2)]
  by (force simp: honest_def outdated_def bucket_stale_def split: option.splits)

text \<open>What a run of a driver sends is honest.\<close>

lemma stamps_honest:
  assumes "stamps (secured d) t pre es" and "outdated pre t" and "whole_seconds t" and "b \<in> set (sent es)"
  shows "honest (pre @ es) b"
  using assms(1,2,4)
proof (induction es arbitrary: pre)
  case (Cons e es)
  have later: "b \<in> set (sent es) \<Longrightarrow> honest (pre @ e # es) b"
    using Cons.IH [of "pre @ [e]"] Cons.prems(1) outdated_extend [OF Cons.prems(2)] by simp
  show ?case
  proof (cases e)
    case (KStatusUpdate j res)
    have "honest pre (to_second (vi_Bucket j))"
      using Cons.prems(1,2) assms(3) unfolding KStatusUpdate
      by (auto simp: honest_def to_second_id)
    then show ?thesis
      using Cons.prems(3) later honest_extend [of pre _ "e # es"] unfolding KStatusUpdate by auto
  qed (use Cons.prems(3) later in auto)
qed simp

section \<open>Startup sends no status\<close>

lemma block_sends_nothing: "block_run k key r es \<Longrightarrow> sent es = []"
  by (erule block_run.cases) auto

lemma crds_send_nothing: "crds_run L us r es \<Longrightarrow> sent es = []"
  by (induction rule: crds_run.induct) (auto dest: block_sends_nothing)

lemma phase_sends_nothing: "phase_run L p r es \<Longrightarrow> sent es = []"
  by (erule phase_run.cases)
    (auto dest: crds_send_nothing block_sends_nothing elim!: metrics_runE)

lemma main_run_sends_nothing: "main_run L ps r es \<Longrightarrow> sent es = []"
  by (induction rule: main_run.induct) (auto dest: phase_sends_nothing)

lemma main_sends_nothing: "run_operator E w = (r, es, w') \<Longrightarrow> sent es = []"
  using wpD [OF operator_cases, of E w r es w']
  by (auto simp: operator_result_def main_result_def dest: main_run_sends_nothing
      split: if_splits outcome.splits sum.splits)

section \<open>Every status sent is honest\<close>

lemma preparation_sends_nothing: "list_all is_preparation es \<Longrightarrow> sent es = []"
  by (rule sent_nothing) (auto simp: list_all_iff elim!: is_status_update.elims)

lemma velero_sends_nothing: "velero_writes L platform ns ps inst e \<Longrightarrow> \<not> is_status_update e"
  by (cases e) (simp_all add: velero_writes_def)

text \<open>What a call reads from a history of honest statuses is honest.\<close>

definition all_honest :: "event list \<Rightarrow> bool" where
  "all_honest tr = (\<forall>b\<in>set (sent tr). honest tr b \<and> whole_seconds (sb_LastSyncTimestamp b))"

lemma read_honest:
  assumes "all_honest tr" and "reads_sent [] (tr @ pre @ es)" and "prepared driver rq d inst infra pre"
  shows "honest tr (vi_Bucket inst) \<and> whole_seconds (sb_LastSyncTimestamp (vi_Bucket inst))"
proof -
  have "reads_sent (rev (sent tr)) pre"
    using assms(2) by (simp add: reads_sent_append)
  then have "sb_LastSyncTimestamp (vi_Bucket inst) = None \<or> vi_Bucket inst \<in> set (sent tr)"
    using reads_sentD [of "rev (sent tr)" pre] assms(3)
    by (auto simp: prepared_def preparation_sends_nothing)
  then show ?thesis
    using assms(1) by (auto simp: all_honest_def honest_def outdated_def whole_seconds_def)
qed

lemma all_honest_quiet: "all_honest tr \<Longrightarrow> sent es = [] \<Longrightarrow> all_honest (tr @ es)"
  by (auto simp: all_honest_def intro: honest_extend)

lemma all_honest_call:
  assumes "valid_runtime E" and "echoes_status E" and "all_honest tr" and "reads_sent [] (tr @ es)"
    and "reconcile_run E driver rq r es w' wk"
  shows "all_honest (tr @ es)"
  using assms(5)
proof cases
  case (stop)
  then show ?thesis by (intro all_honest_quiet [OF assms(3)] preparation_sends_nothing)
next
  case (store d inst infra pre now w0 r' es')
  have inst: "honest tr (vi_Bucket inst)" "whole_seconds (sb_LastSyncTimestamp (vi_Bucket inst))"
    using read_honest [OF assms(3) _ store(4)] assms(4) store(2) by auto
  have pre: "sent pre = []" using store(4) by (simp add: prepared_def preparation_sends_nothing)
  have out: "outdated (tr @ pre) (sb_LastSyncTimestamp (vi_Bucket inst))"
    using due_outdated [OF inst(1) store(7) store(5)] .
  have st: "stamps (secured d) (sb_LastSyncTimestamp (vi_Bucket inst)) (tr @ pre) es'"
    using securing.stamps_after [OF assms(1,2) inst(2) store(6)] .
  have "honest ((tr @ pre) @ es') b" if "b \<in> set (sent es')" for b
    using stamps_honest [OF st out inst(2) that] .
  moreover have "whole_seconds (sb_LastSyncTimestamp b)" if "b \<in> set (sent es')" for b
    using that by (induction es' rule: sent.induct) auto
  ultimately show ?thesis
    using assms(3) pre unfolding store(2) by (auto simp: all_honest_def intro: honest_extend)
next
  case (provision d inst infra pre now w0 r' es')
  have "list_all (\<lambda>e. \<not> is_status_update e) es'"
    unfolding list_all_iff
    using only_callsD [OF provisionVelero_writes provision(7)] by (blast dest: velero_sends_nothing)
  then have "sent es' = []" by (rule sent_nothing)
  moreover have "sent pre = []"
    using provision(4) by (simp add: prepared_def preparation_sends_nothing)
  ultimately show ?thesis using all_honest_quiet [OF assms(3)] provision(2) by simp
qed

lemma history_honest:
  assumes "history E driver tr" and "valid_runtime E" and "echoes_status E" and "reads_sent [] tr"
  shows "all_honest tr"
  using assms(1,4)
proof (induction rule: history.induct)
  case nothing
  then show ?case by (simp add: all_honest_def)
next
  case (process driver tr w code es w')
  then show ?case
    by (intro all_honest_quiet) (auto simp: reads_sent_append dest: main_sends_nothing)
next
  case (reconcile driver tr rq w r es w')
  obtain wk where "reconcile_run E driver rq r es w' wk"
    using wpD [OF Reconcile_run reconcile.hyps(2)] by blast
  then show ?case
    using all_honest_call [OF assms(2,3)] reconcile.IH reconcile.prems by (simp add: reads_sent_append)
qed

section \<open>Velero is installed on secured buckets only\<close>

lemma install_secured:
  assumes "valid_runtime E" and "echoes_status E" and "history E driver tr"
    and "Reconcile E driver rq w = (r, es, w')"
    and "reads_sent [] (tr @ es)" and "sorted (times (tr @ es))"
    and "e \<in> set es" and "is_kube_write e" and "\<not> is_status_update e"
  shows "\<exists>d inst. secured d (sb_Name (vi_Bucket inst)) tr \<and>
    KGet KindVeleroInstall (rq_Name rq) (rq_Namespace rq) (Inr (ObjVeleroInstall inst)) \<in> set es \<and>
    (\<exists>platform ps. velero_writes (e_lib E) platform (rq_Namespace rq) ps inst e)"
proof -
  obtain wk where run: "reconcile_run E driver rq r es w' wk"
    using wpD [OF Reconcile_run assms(4)] by blast
  have all: "all_honest tr"
    using history_honest [OF assms(3,1,2)] assms(5) by (simp add: reads_sent_append)
  from run show ?thesis
  proof cases
    case (stop)
    then show ?thesis
      using assms(7-9) preparations_status by (force simp: list_all_iff status_writes_only_def)
  next
    case (store d inst infra pre now w0 r' es')
    have "list_all status_writes_only pre"
      using store(4) by (simp add: prepared_def preparations_status)
    moreover have "list_all status_writes_only es'"
      using only_callsD [OF driver.only_status store(6)] by (simp add: list_all_iff)
    ultimately have "list_all status_writes_only es" using store(2) by simp
    then show ?thesis using assms(7-9) by (auto simp: list_all_iff status_writes_only_def)
  next
    case (provision d inst infra pre now w0 r' es')
    have honest: "honest tr (vi_Bucket inst)"
      using read_honest [OF all _ provision(4)] assms(5) provision(2) by auto
    have "\<forall>t\<in>set (times tr). t \<le> now"
      using assms(6) provision(2,5) by (auto simp: sorted_append in_times_iff)
    then obtain d' where "secured d' (sb_Name (vi_Bucket inst)) tr"
      using fresh_secured [OF honest provision(6)] by blast
    moreover have "e \<in> set es'"
      using assms(7-9) provision(2,4) preparations_status
      by (force simp: prepared_def list_all_iff status_writes_only_def)
    then have "velero_writes (e_lib E) (GetPlatformType d) (rq_Namespace rq) (is_PlatformStatus infra) inst e"
      using only_callsD [OF provisionVelero_writes provision(7)] by (auto simp: list_all_iff)
    moreover have "KGet KindVeleroInstall (rq_Name rq) (rq_Namespace rq) (Inr (ObjVeleroInstall inst)) \<in> set es"
      using provision(2,4) by (simp add: prepared_def)
    ultimately show ?thesis by blast
  qed
qed

section \<open>The driver in use\<close>

text \<open>The driver was made from an infrastructure status the operator has read.\<close>

definition made_from_status :: "Driver option \<Rightarrow> event list \<Rightarrow> bool" where
  "made_from_status driver tr =
     (\<forall>d. driver = Some d \<longrightarrow>
        (\<exists>infra. PlatformStatusRead (Inr infra) \<in> set tr \<and> NewDriver infra = Returned (Inr d)))"

lemma made_from_status_extend: "made_from_status driver tr \<Longrightarrow> made_from_status driver (tr @ es)"
  by (auto simp: made_from_status_def)

lemma prepared_driver:
  assumes "prepared driver rq d inst infra pre" and "made_from_status driver tr"
  shows "made_from_status (Some d) (tr @ pre @ es)"
  using assms
  by (cases driver) (auto simp: prepared_def reconciler_driver_def made_from_status_def)

lemma history_driver:
  assumes "history E driver tr"
  shows "made_from_status driver tr"
  using assms
proof (induction rule: history.induct)
  case (reconcile driver tr rq w r es w')
  obtain wk where "reconcile_run E driver rq r es w' wk"
    using wpD [OF Reconcile_run reconcile.hyps(2)] by blast
  then show ?case
  proof cases
    case (store d inst infra pre now w0 r' es')
    then show ?thesis
      using prepared_driver [OF store(4) reconcile.IH]
      by (cases r') (auto simp: made_from_status_def)
  next
    case (provision d inst infra pre now w0 r' es')
    then show ?thesis
      using prepared_driver [OF provision(4) reconcile.IH]
      by (cases r') (auto simp: made_from_status_def)
  next
    case stop
    then show ?thesis using made_from_status_extend [OF reconcile.IH] by (auto simp: made_from_status_def)
  qed
qed (simp_all add: made_from_status_def)

end
