(* ===== verification/Provision_Converges.thy ===== *)
theory Provision_Converges
  imports Provision
begin

text \<open>
  provisionVelero on a cluster that works: an API server that stores what it is sent and
  answers lookups from its store. From any contents of the cluster, two runs in a row put
  every object of the installation in place, after which a run only reads.
\<close>

section \<open>A working API server\<close>

text \<open>
  The store of the server, by kind, name and namespace. A stored object is like the one that
  was sent: the server may fill in the fields that are its own.
\<close>

type_synonym 'w store = "'w \<Rightarrow> kkind \<times> string \<times> string \<Rightarrow> kobj option"

definition puts ::
    "('w, 'o) handle \<Rightarrow> 'w store \<Rightarrow> ('o \<Rightarrow> string \<times> string) \<Rightarrow> ('o \<Rightarrow> 'o \<Rightarrow> bool) \<Rightarrow>
       ('o \<Rightarrow> 'w \<Rightarrow> (goerror + 'o) \<times> 'w) \<Rightarrow> 'w \<Rightarrow> 'o \<Rightarrow> bool" where
  "puts h objs key like send w x =
     (\<exists>y w'. send x w = (Inr y, w') \<and> like x y \<and> key y = key x \<and>
        objs w' = (objs w)((h_kind h, key x) \<mapsto> h_obj h y))"

definition answers ::
    "('w, 'o) handle \<Rightarrow> 'w env \<Rightarrow> 'w store \<Rightarrow> ('o \<Rightarrow> string \<times> string) \<Rightarrow> 'w \<Rightarrow> string \<times> string \<Rightarrow> bool" where
  "answers h E objs key w k =
     (case objs w (h_kind h, k) of
        None \<Rightarrow> (\<exists>err. IsNotFound err \<and> r_Get (h_resource h (e_kube E)) (fst k) (snd k) w = (Inl err, w))
      | Some ob \<Rightarrow> (\<exists>x. ob = h_obj h x \<and> key x = k \<and> finds h E k w x))"

definition serves ::
    "('w, 'o) handle \<Rightarrow> 'w env \<Rightarrow> 'w store \<Rightarrow> ('o \<Rightarrow> string \<times> string) \<Rightarrow> ('o \<Rightarrow> 'o \<Rightarrow> bool) \<Rightarrow> bool" where
  "serves h E objs key like =
     ((\<forall>w k. answers h E objs key w k) \<and>
      (\<forall>w x. objs w (h_kind h, key x) = None \<longrightarrow>
         puts h objs key like (r_Create (h_resource h (e_kube E))) w x) \<and>
      (\<forall>w x. objs w (h_kind h, key x) \<noteq> None \<longrightarrow>
         puts h objs key like (r_Update (h_resource h (e_kube E))) w x))"

lemma serves_answers: "serves h E objs key like \<Longrightarrow> answers h E objs key w k"
  unfolding serves_def by blast

lemma serves_missing:
  assumes "serves h E objs key like" and "objs w (h_kind h, k) = None"
  shows "\<exists>err. IsNotFound err \<and> r_Get (h_resource h (e_kube E)) (fst k) (snd k) w = (Inl err, w)"
  using serves_answers [OF assms(1), of w k] by (simp add: answers_def assms(2))

lemma serves_stored:
  assumes "serves h E objs key like" and "objs w (h_kind h, k) = Some ob"
  shows "\<exists>x. ob = h_obj h x \<and> key x = k \<and> finds h E k w x"
  using serves_answers [OF assms(1), of w k] by (simp add: answers_def assms(2))

lemma serves_create:
  "serves h E objs key like \<Longrightarrow> objs w (h_kind h, key x) = None \<Longrightarrow>
     puts h objs key like (r_Create (h_resource h (e_kube E))) w x"
  by (simp add: serves_def)

lemma serves_update:
  "serves h E objs key like \<Longrightarrow> objs w (h_kind h, key x) \<noteq> None \<Longrightarrow>
     puts h objs key like (r_Update (h_resource h (e_kube E))) w x"
  by (simp add: serves_def)

section \<open>A block on a working server\<close>

context ensured_object
begin

text \<open>
  The block succeeds, and what the server then stores under the key of the wanted object is
  equal to it in the block's own comparison.
\<close>

lemma op_settles:
  assumes "serves h E objs key like"
    and "attach E i x = Inr x0" and "key x0 = key x"
    and "\<And>z. like x0 z \<Longrightarrow> differs E z x = Returned (Inr False)"
    and "\<And>found. objs w (h_kind h, key x) = Some (h_obj h found) \<Longrightarrow> \<exists>b. differs E found x = Returned (Inr b)"
    and "\<And>found z. differs E found x = Returned (Inr True) \<Longrightarrow> like (corrected found x) z \<Longrightarrow>
      differs E z x = Returned (Inr False)"
    and "\<And>found. key (corrected found x) = key found"
  shows "\<exists>v es w' y. op E i x w = (Returned (Inr v), es, w') \<and>
    objs w' = (objs w)((h_kind h, key x) \<mapsto> h_obj h y) \<and> key y = key x \<and>
    differs E y x = Returned (Inr False) \<and>
    (if objs w (h_kind h, key x) = None then v = created y
     else v = kept y x \<or> (\<exists>found. v = updated y found x))"
proof (cases "objs w (h_kind h, key x)")
  case None
  obtain err where err: "IsNotFound err"
    and get: "r_Get (h_resource h (e_kube E)) (fst (key x)) (snd (key x)) w = (Inl err, w)"
    using serves_missing [OF assms(1) None] by blast
  have "objs w (h_kind h, key x0) = None" using None assms(3) by simp
  then obtain y w' where y: "r_Create (h_resource h (e_kube E)) x0 w = (Inr y, w')" "like x0 y"
    "key y = key x0" "objs w' = (objs w)((h_kind h, key x0) \<mapsto> h_obj h y)"
    using serves_create [OF assms(1)] unfolding puts_def by blast
  then show ?thesis
    using missing [OF get err assms(2) y(1)] assms(3,4) None by auto
next
  case (Some ob)
  obtain found where found: "ob = h_obj h found" "key found = key x"
    and get: "r_Get (h_resource h (e_kube E)) (fst (key x)) (snd (key x)) w = (Inr found, w)"
    using serves_stored [OF assms(1) Some] unfolding finds_def by blast
  obtain b where b: "differs E found x = Returned (Inr b)"
    using assms(5) Some found(1) by blast
  show ?thesis
  proof (cases b)
    case False
    have "objs w = (objs w)((h_kind h, key x) \<mapsto> h_obj h found)"
      using Some found(1) by (simp add: fun_upd_idem)
    then show ?thesis
      using found_same [OF get] b False found(2) Some by auto
  next
    case True
    have "objs w (h_kind h, key (corrected found x)) \<noteq> None"
      using Some found(2) assms(7) by simp
    then obtain y w' where y: "r_Update (h_resource h (e_kube E)) (corrected found x) w = (Inr y, w')"
      "like (corrected found x) y" "key y = key (corrected found x)"
      "objs w' = (objs w)((h_kind h, key (corrected found x)) \<mapsto> h_obj h y)"
      using serves_update [OF assms(1)] unfolding puts_def by blast
    have diff: "differs E found x = Returned (Inr True)" using b True by simp
    show ?thesis
      using found_different [OF get diff y(1)] assms(6) [OF diff y(2)] y(3,4) found(2) assms(7) Some
      by auto
  qed
qed

end

section \<open>The cluster of the operator\<close>

text \<open>
  The server keeps the specification of an object. Of a service it may set the fields that
  belong to the cluster, which the source leaves alone.
\<close>

definition same_service :: "Service \<Rightarrow> Service \<Rightarrow> bool" where
  "same_service x y = (svc_Spec y = svc_Spec (keep_cluster_fields y x))"

definition working_cluster :: "'w env \<Rightarrow> 'w store \<Rightarrow> bool" where
  "working_cluster E objs =
     (serves BSLs E objs (meta_key bsl_ObjectMeta) (\<lambda>x y. bsl_Spec y = bsl_Spec x) \<and>
      serves VSLs E objs (meta_key vsl_ObjectMeta) (\<lambda>x y. vsl_Spec y = vsl_Spec x) \<and>
      serves CRs E objs (meta_key cr_ObjectMeta) (\<lambda>x y. cr_Spec y = cr_Spec x) \<and>
      serves Deployments E objs (meta_key d_ObjectMeta) (\<lambda>x y. d_Spec y = d_Spec x) \<and>
      serves Services E objs (meta_key svc_ObjectMeta) same_service \<and>
      serves ServiceMonitors E objs (meta_key sm_ObjectMeta) (\<lambda>x y. sm_Spec y = sm_Spec x))"

text \<open>SetControllerReference adds an owner to metadata that has none, and changes no name.\<close>

definition can_own :: "libraries \<Rightarrow> VeleroInstall \<Rightarrow> bool" where
  "can_own L i = (\<forall>m. \<exists>m'. lib_SetControllerReference L i m = Inr m' \<and>
     om_Name m' = om_Name m \<and> om_Namespace m' = om_Namespace m)"

text \<open>What a run wants can be computed, and the credentials request in the cluster decodes.\<close>

definition wants ::
    "'w env \<Rightarrow> PlatformType \<Rightarrow> string \<Rightarrow> PlatformStatus option \<Rightarrow> VeleroInstall \<Rightarrow>
       string gomap \<Rightarrow> CredentialsRequest \<Rightarrow> Deployment \<Rightarrow> bool" where
  "wants E platform namespace ps i lc cr dep =
     (location_config platform ps = Returned (Inr lc) \<and>
      velero_credentials (e_lib E) namespace platform lc (sb_Name (vi_Bucket i)) = Inr cr \<and>
      credentialsRequestSpecEqual (e_lib E) (cr_Spec cr) (cr_Spec cr) = Returned (Inr True) \<and>
      veleroDeployment (e_lib E) namespace platform veleroImageRegistry = Returned dep)"

definition comparable :: "libraries \<Rightarrow> 'w store \<Rightarrow> CredentialsRequest \<Rightarrow> 'w \<Rightarrow> bool" where
  "comparable L objs cr w =
     (\<forall>found. objs w (KindCredentialsRequest, meta_key cr_ObjectMeta cr) = Some (ObjCredentialsRequest found) \<longrightarrow>
        (\<exists>b. credentialsRequestSpecEqual L (cr_Spec found) (cr_Spec cr) = Returned (Inr b)))"

lemma own_attaches:
  assumes "can_own (e_lib E) i"
    and "\<And>m. meta (set_meta m x) = m"
  shows "\<exists>m. own meta set_meta E i x = Inr (set_meta m x) \<and>
    meta_key meta (set_meta m x) = meta_key meta x"
  using assms(1) unfolding can_own_def own_def
  by (metis assms(2) map_sum.simps(2) meta_key_def)

lemma bsl_settles:
  assumes "working_cluster E objs" and "can_own (e_lib E) i"
  shows "\<exists>v es w' y. ensure_BackupStorageLocation E i x w = (Returned (Inr v), es, w') \<and>
    objs w' = (objs w)((KindBackupStorageLocation, meta_key bsl_ObjectMeta x) \<mapsto> ObjBackupStorageLocation y) \<and>
    bsl_Spec y = bsl_Spec x"
proof -
  obtain m where m: "own bsl_ObjectMeta (\<lambda>m x. x\<lparr>bsl_ObjectMeta := m\<rparr>) E i x = Inr (x\<lparr>bsl_ObjectMeta := m\<rparr>)"
    "meta_key bsl_ObjectMeta (x\<lparr>bsl_ObjectMeta := m\<rparr>) = meta_key bsl_ObjectMeta x"
    using own_attaches [OF assms(2), of bsl_ObjectMeta "\<lambda>m x. x\<lparr>bsl_ObjectMeta := m\<rparr>" x] by auto
  show ?thesis
    using bsl.op_settles [OF _ m, of objs "\<lambda>x y. bsl_Spec y = bsl_Spec x" w] assms(1)
    by (force simp: working_cluster_def meta_key_def)
qed

lemma vsl_settles:
  assumes "working_cluster E objs" and "can_own (e_lib E) i"
  shows "\<exists>v es w' y. ensure_VolumeSnapshotLocation E i x w = (Returned (Inr v), es, w') \<and>
    objs w' = (objs w)((KindVolumeSnapshotLocation, meta_key vsl_ObjectMeta x) \<mapsto> ObjVolumeSnapshotLocation y) \<and>
    vsl_Spec y = vsl_Spec x"
proof -
  obtain m where m: "own vsl_ObjectMeta (\<lambda>m x. x\<lparr>vsl_ObjectMeta := m\<rparr>) E i x = Inr (x\<lparr>vsl_ObjectMeta := m\<rparr>)"
    "meta_key vsl_ObjectMeta (x\<lparr>vsl_ObjectMeta := m\<rparr>) = meta_key vsl_ObjectMeta x"
    using own_attaches [OF assms(2), of vsl_ObjectMeta "\<lambda>m x. x\<lparr>vsl_ObjectMeta := m\<rparr>" x] by auto
  show ?thesis
    using vsl.op_settles [OF _ m, of objs "\<lambda>x y. vsl_Spec y = vsl_Spec x" w] assms(1)
    by (force simp: working_cluster_def meta_key_def)
qed

lemma negated_False: "negated r = Returned (Inr False) \<longleftrightarrow> r = Returned (Inr True)"
  by (cases r rule: negated.cases) auto

lemma negated_bool: "r = Returned (Inr b) \<Longrightarrow> negated r = Returned (Inr (\<not> b))"
  by simp

lemma cr_settles:
  assumes "working_cluster E objs" and "can_own (e_lib E) i"
    and "credentialsRequestSpecEqual (e_lib E) (cr_Spec x) (cr_Spec x) = Returned (Inr True)"
    and "comparable (e_lib E) objs x w"
  shows "\<exists>v es w' y. ensure_CredentialsRequest E i x w = (Returned (Inr v), es, w') \<and>
    objs w' = (objs w)((KindCredentialsRequest, meta_key cr_ObjectMeta x) \<mapsto> ObjCredentialsRequest y) \<and>
    credentialsRequestSpecEqual (e_lib E) (cr_Spec y) (cr_Spec x) = Returned (Inr True)"
proof -
  obtain m where m: "own cr_ObjectMeta (\<lambda>m x. x\<lparr>cr_ObjectMeta := m\<rparr>) E i x = Inr (x\<lparr>cr_ObjectMeta := m\<rparr>)"
    "meta_key cr_ObjectMeta (x\<lparr>cr_ObjectMeta := m\<rparr>) = meta_key cr_ObjectMeta x"
    using own_attaches [OF assms(2), of cr_ObjectMeta "\<lambda>m x. x\<lparr>cr_ObjectMeta := m\<rparr>" x] by auto
  have total: "\<exists>b. negated (credentialsRequestSpecEqual (e_lib E) (cr_Spec found) (cr_Spec x)) = Returned (Inr b)"
    if "objs w (h_kind CRs, meta_key cr_ObjectMeta x) = Some (h_obj CRs found)" for found
    using assms(4) that negated_bool unfolding comparable_def by fastforce
  show ?thesis
    using cr.op_settles [where like = "\<lambda>x y. cr_Spec y = cr_Spec x", OF _ m _ total] assms(1,3)
    by (force simp: working_cluster_def meta_key_def negated_False)
qed

text \<open>The value of the block for the deployment agrees with the wanted one where it is used.\<close>

lemma deployment_settles:
  assumes "working_cluster E objs" and "can_own (e_lib E) i"
  shows "\<exists>v es w' y. ensure_Deployment E i x w = (Returned (Inr v), es, w') \<and>
    objs w' = (objs w)((KindDeployment, meta_key d_ObjectMeta x) \<mapsto> ObjDeployment y) \<and>
    d_Spec y = d_Spec x \<and> d_Spec v = d_Spec x \<and> meta_key d_ObjectMeta v = meta_key d_ObjectMeta x"
proof -
  obtain m where m: "own d_ObjectMeta (\<lambda>m x. x\<lparr>d_ObjectMeta := m\<rparr>) E i x = Inr (x\<lparr>d_ObjectMeta := m\<rparr>)"
    "meta_key d_ObjectMeta (x\<lparr>d_ObjectMeta := m\<rparr>) = meta_key d_ObjectMeta x"
    using own_attaches [OF assms(2), of d_ObjectMeta "\<lambda>m x. x\<lparr>d_ObjectMeta := m\<rparr>" x] by auto
  have server: "serves Deployments E objs (meta_key d_ObjectMeta) (\<lambda>x y. d_Spec y = d_Spec x)"
    using assms(1) by (simp add: working_cluster_def)
  have "\<exists>v es w' y. ensure_Deployment E i x w = (Returned (Inr v), es, w') \<and>
      objs w' = (objs w)((KindDeployment, meta_key d_ObjectMeta x) \<mapsto> ObjDeployment y) \<and>
      meta_key d_ObjectMeta y = meta_key d_ObjectMeta x \<and> d_Spec y = d_Spec x \<and>
      (if objs w (KindDeployment, meta_key d_ObjectMeta x) = None then v = y else v = x)"
    using deployment.op_settles [where w = w, OF server m] by (simp add: meta_key_def cong: if_cong split del: if_split)
  then obtain v es w' y where "ensure_Deployment E i x w = (Returned (Inr v), es, w')"
    and "objs w' = (objs w)((KindDeployment, meta_key d_ObjectMeta x) \<mapsto> ObjDeployment y)"
    and "meta_key d_ObjectMeta y = meta_key d_ObjectMeta x" and "d_Spec y = d_Spec x"
    and "v = y \<or> v = x"
    by (auto split: if_splits)
  then show ?thesis by auto
qed

lemma keep_cluster_fields_twice [simp]:
  "svc_Spec (keep_cluster_fields z (x\<lparr>svc_ObjectMeta := m\<rparr>)) = svc_Spec (keep_cluster_fields z x)"
  "svc_Spec (keep_cluster_fields z (y\<lparr>svc_Spec := svc_Spec (keep_cluster_fields found x)\<rparr>)) =
     svc_Spec (keep_cluster_fields z x)"
  by (simp_all add: keep_cluster_fields_def)

lemma metrics_settles:
  assumes "working_cluster E objs" and "can_own (e_lib E) i"
  shows "\<exists>v es w' y. ensure_metrics_Service E i x w = (Returned (Inr v), es, w') \<and>
    objs w' = (objs w)((KindService, meta_key svc_ObjectMeta x) \<mapsto> ObjService y) \<and>
    svc_Spec y = svc_Spec (keep_cluster_fields y x) \<and>
    v = (if objs w (KindService, meta_key svc_ObjectMeta x) = None then None else Some y)"
proof -
  obtain m where m: "own svc_ObjectMeta (\<lambda>m x. x\<lparr>svc_ObjectMeta := m\<rparr>) E i x = Inr (x\<lparr>svc_ObjectMeta := m\<rparr>)"
    "meta_key svc_ObjectMeta (x\<lparr>svc_ObjectMeta := m\<rparr>) = meta_key svc_ObjectMeta x"
    using own_attaches [OF assms(2), of svc_ObjectMeta "\<lambda>m x. x\<lparr>svc_ObjectMeta := m\<rparr>" x] by auto
  have server: "serves Services E objs (meta_key svc_ObjectMeta) same_service"
    using assms(1) by (simp add: working_cluster_def)
  have "\<exists>v es w' y. ensure_metrics_Service E i x w = (Returned (Inr v), es, w') \<and>
      objs w' = (objs w)((KindService, meta_key svc_ObjectMeta x) \<mapsto> ObjService y) \<and>
      meta_key svc_ObjectMeta y = meta_key svc_ObjectMeta x \<and>
      svc_Spec y = svc_Spec (keep_cluster_fields y x) \<and>
      (if objs w (KindService, meta_key svc_ObjectMeta x) = None
       then v = None else v = Some y)"
    using metrics.op_settles [where w = w, OF server m]
    by (simp add: meta_key_def same_service_def cong: if_cong split del: if_split)
  then obtain v es w' y where "ensure_metrics_Service E i x w = (Returned (Inr v), es, w')"
    and "objs w' = (objs w)((KindService, meta_key svc_ObjectMeta x) \<mapsto> ObjService y)"
    and "svc_Spec y = svc_Spec (keep_cluster_fields y x)"
    and "v = (if objs w (KindService, meta_key svc_ObjectMeta x) = None then None else Some y)"
    by (auto split: if_splits)
  then show ?thesis by blast
qed

lemma monitor_settles:
  assumes "working_cluster E objs"
  shows "\<exists>v es w' y. ensure_ServiceMonitor E x w = (Returned (Inr v), es, w') \<and>
    objs w' = (objs w)((KindServiceMonitor, meta_key sm_ObjectMeta x) \<mapsto> ObjServiceMonitor y) \<and>
    sm_Spec y = sm_Spec x"
proof -
  have server: "serves ServiceMonitors E objs (meta_key sm_ObjectMeta) (\<lambda>x y. sm_Spec y = sm_Spec x)"
    using assms(1) by (simp add: working_cluster_def)
  show ?thesis
    using monitor.op_settles [where w = w and x = x, OF server refl] by (force simp: meta_key_def)
qed

section \<open>Whole runs\<close>

definition service_key :: "Deployment \<Rightarrow> kkind \<times> string \<times> string" where
  "service_key dep = (KindService, om_Name (d_ObjectMeta dep) @ ''-metrics'', om_Namespace (d_ObjectMeta dep))"

text \<open>What a run looks for does not depend on the order of the labels.\<close>

lemma metrics_service_of:
  assumes "valid_runtime E" and "d_Spec v = d_Spec dep" and "meta_key d_ObjectMeta v = meta_key d_ObjectMeta dep"
  shows "metricsServiceFromDeployment L (rt_Order (e_rt E) w) v =
     metricsServiceFromDeployment L (rt_Order (e_rt E) w') dep"
    and "(KindService, meta_key svc_ObjectMeta (metricsServiceFromDeployment L (rt_Order (e_rt E) w) v)) =
     service_key dep"
proof -
  have "metricsServiceFromDeployment L (rt_Order (e_rt E) w) v =
      metricsServiceFromDeployment L (rt_Order (e_rt E) w) dep"
    using assms(2,3) by (simp add: metricsServiceFromDeployment_def meta_key_def)
  then show "metricsServiceFromDeployment L (rt_Order (e_rt E) w) v =
     metricsServiceFromDeployment L (rt_Order (e_rt E) w') dep"
    using metrics_service_any_order assms(1) unfolding valid_runtime_def by metis
  show "(KindService, meta_key svc_ObjectMeta (metricsServiceFromDeployment L (rt_Order (e_rt E) w) v)) =
     service_key dep"
    using assms(3) by (simp add: metricsServiceFromDeployment_def meta_key_def object_meta_def service_key_def)
qed

text \<open>What the cluster holds after a run that did not ask for another one is settled.\<close>

lemma objects_settled:
  assumes "working_cluster E objs" and "valid_runtime E" and "wants E platform namespace ps i lc cr dep"
    and "objs w (KindBackupStorageLocation, meta_key bsl_ObjectMeta (wanted_bsl (e_lib E) platform namespace lc i)) =
      Some (ObjBackupStorageLocation b)"
    and "bsl_Spec b = bsl_Spec (wanted_bsl (e_lib E) platform namespace lc i)"
    and "objs w (KindVolumeSnapshotLocation, meta_key vsl_ObjectMeta (wanted_vsl (e_lib E) platform namespace lc)) =
      Some (ObjVolumeSnapshotLocation v)"
    and "vsl_Spec v = vsl_Spec (wanted_vsl (e_lib E) platform namespace lc)"
    and "objs w (KindCredentialsRequest, meta_key cr_ObjectMeta cr) = Some (ObjCredentialsRequest c)"
    and "credentialsRequestSpecEqual (e_lib E) (cr_Spec c) (cr_Spec cr) = Returned (Inr True)"
    and "objs w (KindDeployment, meta_key d_ObjectMeta dep) = Some (ObjDeployment d)" and "d_Spec d = d_Spec dep"
    and "objs w (service_key dep) = Some (ObjService s)"
    and "svc_Spec s = svc_Spec (keep_cluster_fields s
      (metricsServiceFromDeployment (e_lib E) (rt_Order (e_rt E) w) dep))"
    and "objs w (KindServiceMonitor, meta_key sm_ObjectMeta (generateServiceMonitor (rt_Order (e_rt E) w) s)) =
      Some (ObjServiceMonitor m)"
    and "sm_Spec m = sm_Spec (generateServiceMonitor (rt_Order (e_rt E) w) s)"
  shows "settled E platform namespace ps i w"
proof -
  have server:
    "serves BSLs E objs (meta_key bsl_ObjectMeta) (\<lambda>x y. bsl_Spec y = bsl_Spec x)"
    "serves VSLs E objs (meta_key vsl_ObjectMeta) (\<lambda>x y. vsl_Spec y = vsl_Spec x)"
    "serves CRs E objs (meta_key cr_ObjectMeta) (\<lambda>x y. cr_Spec y = cr_Spec x)"
    "serves Deployments E objs (meta_key d_ObjectMeta) (\<lambda>x y. d_Spec y = d_Spec x)"
    "serves Services E objs (meta_key svc_ObjectMeta) same_service"
    "serves ServiceMonitors E objs (meta_key sm_ObjectMeta) (\<lambda>x y. sm_Spec y = sm_Spec x)"
    using assms(1) by (simp_all add: working_cluster_def)
  let ?service = "metricsServiceFromDeployment (e_lib E) (rt_Order (e_rt E) w) dep"
  have key: "(KindService, meta_key svc_ObjectMeta ?service) = service_key dep"
    by (rule metrics_service_of(2) [OF assms(2) refl refl])
  have finds:
    "finds BSLs E (meta_key bsl_ObjectMeta (wanted_bsl (e_lib E) platform namespace lc i)) w b"
    "finds VSLs E (meta_key vsl_ObjectMeta (wanted_vsl (e_lib E) platform namespace lc)) w v"
    "finds CRs E (meta_key cr_ObjectMeta cr) w c"
    "finds Deployments E (meta_key d_ObjectMeta dep) w d"
    "finds Services E (meta_key svc_ObjectMeta ?service) w s"
    "finds ServiceMonitors E (meta_key sm_ObjectMeta (generateServiceMonitor (rt_Order (e_rt E) w) s)) w m"
    using serves_stored [OF server(1), of w _ "ObjBackupStorageLocation b"] assms(4)
      serves_stored [OF server(2), of w _ "ObjVolumeSnapshotLocation v"] assms(6)
      serves_stored [OF server(3), of w _ "ObjCredentialsRequest c"] assms(8)
      serves_stored [OF server(4), of w _ "ObjDeployment d"] assms(10)
      serves_stored [OF server(5), of w _ "ObjService s"] assms(12) [folded key]
      serves_stored [OF server(6), of w _ "ObjServiceMonitor m"] assms(14)
    by (auto simp del: split_paired_All split_paired_Ex)
  show ?thesis
    unfolding settled_def Let_def
    using assms(3,5,7,9,11,13,15) finds unfolding wants_def
    by (intro exI [of _ lc] exI [of _ cr] exI [of _ dep] exI [of _ b] exI [of _ v] exI [of _ c] exI [of _ d]
        exI [of _ s] exI [of _ m] conjI) (simp_all del: handle_defs)
qed

text \<open>The first five blocks: what they leave in the cluster, and what the last one reads of it.\<close>

definition five_blocks ::
    "'w env \<Rightarrow> 'w store \<Rightarrow> PlatformType \<Rightarrow> string \<Rightarrow> VeleroInstall \<Rightarrow> string gomap \<Rightarrow> CredentialsRequest \<Rightarrow>
       Deployment \<Rightarrow> 'w \<Rightarrow> 'w \<Rightarrow> BackupStorageLocation \<Rightarrow> VolumeSnapshotLocation \<Rightarrow> CredentialsRequest \<Rightarrow>
       Deployment \<Rightarrow> Service \<Rightarrow> bool" where
  "five_blocks E objs platform namespace i lc cr dep w w' b v c d s =
     (objs w' = (objs w)
        ((KindBackupStorageLocation, meta_key bsl_ObjectMeta (wanted_bsl (e_lib E) platform namespace lc i)) \<mapsto>
           ObjBackupStorageLocation b,
         (KindVolumeSnapshotLocation, meta_key vsl_ObjectMeta (wanted_vsl (e_lib E) platform namespace lc)) \<mapsto>
           ObjVolumeSnapshotLocation v,
         (KindCredentialsRequest, meta_key cr_ObjectMeta cr) \<mapsto> ObjCredentialsRequest c,
         (KindDeployment, meta_key d_ObjectMeta dep) \<mapsto> ObjDeployment d,
         service_key dep \<mapsto> ObjService s) \<and>
      bsl_Spec b = bsl_Spec (wanted_bsl (e_lib E) platform namespace lc i) \<and>
      vsl_Spec v = vsl_Spec (wanted_vsl (e_lib E) platform namespace lc) \<and>
      credentialsRequestSpecEqual (e_lib E) (cr_Spec c) (cr_Spec cr) = Returned (Inr True) \<and>
      d_Spec d = d_Spec dep \<and>
      (\<forall>w. svc_Spec s = svc_Spec (keep_cluster_fields s
        (metricsServiceFromDeployment (e_lib E) (rt_Order (e_rt E) w) dep))))"

lemma first_blocks_settle:
  assumes "working_cluster E objs" and "can_own (e_lib E) i" and "valid_runtime E"
    and "wants E platform namespace ps i lc cr dep" and "comparable (e_lib E) objs cr w"
  obtains bv e1 w1 vv e2 w2 cv e3 w3 dv e4 w4 sv e5 w5 b v c d s where
    "ensure_BackupStorageLocation E i (wanted_bsl (e_lib E) platform namespace lc i) w = (Returned (Inr bv), e1, w1)"
    "ensure_VolumeSnapshotLocation E i (wanted_vsl (e_lib E) platform namespace lc) w1 = (Returned (Inr vv), e2, w2)"
    "ensure_CredentialsRequest E i cr w2 = (Returned (Inr cv), e3, w3)"
    "ensure_Deployment E i dep w3 = (Returned (Inr dv), e4, w4)"
    "ensure_metrics_Service E i (metricsServiceFromDeployment (e_lib E) (rt_Order (e_rt E) w4) dv) w4 =
       (Returned (Inr sv), e5, w5)"
    "sv = (if objs w (service_key dep) = None then None else Some s)"
    "five_blocks E objs platform namespace i lc cr dep w w5 b v c d s"
proof -
  let ?p = platform and ?L = "e_lib E"
  have want: "credentialsRequestSpecEqual ?L (cr_Spec cr) (cr_Spec cr) = Returned (Inr True)"
    using assms(4) by (simp add: wants_def)
  obtain bv e1 w1 b where b: "ensure_BackupStorageLocation E i (wanted_bsl ?L ?p namespace lc i) w = (Returned (Inr bv), e1, w1)"
    "objs w1 = (objs w)((KindBackupStorageLocation, meta_key bsl_ObjectMeta (wanted_bsl ?L ?p namespace lc i)) \<mapsto>
       ObjBackupStorageLocation b)" "bsl_Spec b = bsl_Spec (wanted_bsl ?L ?p namespace lc i)"
    using bsl_settles [OF assms(1,2)] by blast
  obtain vv e2 w2 v where v: "ensure_VolumeSnapshotLocation E i (wanted_vsl ?L ?p namespace lc) w1 = (Returned (Inr vv), e2, w2)"
    "objs w2 = (objs w1)((KindVolumeSnapshotLocation, meta_key vsl_ObjectMeta (wanted_vsl ?L ?p namespace lc)) \<mapsto>
       ObjVolumeSnapshotLocation v)" "vsl_Spec v = vsl_Spec (wanted_vsl ?L ?p namespace lc)"
    using vsl_settles [OF assms(1,2)] by blast
  have "comparable ?L objs cr w2"
    using assms(5) by (simp add: comparable_def b(2) v(2))
  then obtain cv e3 w3 c where c: "ensure_CredentialsRequest E i cr w2 = (Returned (Inr cv), e3, w3)"
    "objs w3 = (objs w2)((KindCredentialsRequest, meta_key cr_ObjectMeta cr) \<mapsto> ObjCredentialsRequest c)"
    "credentialsRequestSpecEqual ?L (cr_Spec c) (cr_Spec cr) = Returned (Inr True)"
    using cr_settles [OF assms(1,2) want] by blast
  obtain dv e4 w4 dd where dd: "ensure_Deployment E i dep w3 = (Returned (Inr dv), e4, w4)"
    "objs w4 = (objs w3)((KindDeployment, meta_key d_ObjectMeta dep) \<mapsto> ObjDeployment dd)" "d_Spec dd = d_Spec dep"
    "d_Spec dv = d_Spec dep" "meta_key d_ObjectMeta dv = meta_key d_ObjectMeta dep"
    using deployment_settles [OF assms(1,2)] by blast
  note service = metrics_service_of [OF assms(3) dd(4,5)]
  obtain sv e5 w5 s where s: "ensure_metrics_Service E i (metricsServiceFromDeployment ?L (rt_Order (e_rt E) w4) dv) w4 =
      (Returned (Inr sv), e5, w5)"
    "objs w5 = (objs w4)(service_key dep \<mapsto> ObjService s)"
    "svc_Spec s = svc_Spec (keep_cluster_fields s (metricsServiceFromDeployment ?L (rt_Order (e_rt E) w4) dv))"
    "sv = (if objs w4 (service_key dep) = None then None else Some s)"
    using metrics_settles [OF assms(1,2), of "metricsServiceFromDeployment ?L (rt_Order (e_rt E) w4) dv" w4]
    unfolding service(2) by blast
  have "objs w4 (service_key dep) = objs w (service_key dep)"
    by (simp add: b(2) v(2) c(2) dd(2) service_key_def)
  moreover have "svc_Spec s = svc_Spec (keep_cluster_fields s (metricsServiceFromDeployment ?L (rt_Order (e_rt E) w) dep))" for w
    using s(3) service(1) by metis
  ultimately show ?thesis
    using that [OF b(1) v(1) c(1) dd(1) s(1), of s b v c dd] s(4)
    by (simp add: five_blocks_def b(2,3) v(2,3) c(2,3) dd(2,3) s(2))
qed

lemma five_blocks_comparable:
  "five_blocks E objs platform namespace i lc cr dep w w' b v c d s \<Longrightarrow> comparable (e_lib E) objs cr w'"
  by (auto simp: five_blocks_def comparable_def service_key_def)

lemma six_blocks_settled:
  assumes "working_cluster E objs" and "valid_runtime E" and "wants E platform namespace ps i lc cr dep"
    and "five_blocks E objs platform namespace i lc cr dep w w5 b v c d s"
    and "objs w6 = (objs w5)((KindServiceMonitor, meta_key sm_ObjectMeta (generateServiceMonitor (rt_Order (e_rt E) w6) s)) \<mapsto>
      ObjServiceMonitor m)"
    and "sm_Spec m = sm_Spec (generateServiceMonitor (rt_Order (e_rt E) w6) s)"
  shows "settled E platform namespace ps i w6"
  using assms(4) unfolding five_blocks_def
  by (elim conjE, intro objects_settled [OF assms(1,2,3), where b = b and v = v and c = c and d = d and s = s and m = m])
    (simp_all add: assms(5,6) service_key_def)

text \<open>One run: it asks for another one exactly when the service was missing.\<close>

lemma provisionVelero_pass:
  assumes "working_cluster E objs" and "can_own (e_lib E) i" and "valid_runtime E"
    and "wants E (GetPlatformType d) namespace ps i lc cr dep" and "comparable (e_lib E) objs cr w"
  shows "\<exists>es w'. comparable (e_lib E) objs cr w' \<and> objs w' (service_key dep) \<noteq> None \<and>
    (\<forall>k. objs w' (KindVeleroInstall, k) = objs w (KindVeleroInstall, k)) \<and>
    (if objs w (service_key dep) = None
     then provisionVelero E d namespace ps i w = (Returned (requeue, None), es, w')
     else provisionVelero E d namespace ps i w = (Returned (no_requeue, None), es, w') \<and>
       settled E (GetPlatformType d) namespace ps i w')"
proof (rule first_blocks_settle [OF assms], goal_cases)
  case (1 bv e1 w1 vv e2 w2 cv e3 w3 dv e4 w4 sv e5 w5 b v c dd s)
  note runs = 1(1-6) and five = 1(7)
  from assms(4) have want: "location_config (GetPlatformType d) ps = Returned (Inr lc)"
    "velero_credentials (e_lib E) namespace (GetPlatformType d) lc (sb_Name (vi_Bucket i)) = Inr cr"
    "veleroDeployment (e_lib E) namespace (GetPlatformType d) veleroImageRegistry = Returned dep"
    by (simp_all add: wants_def)
  note unfolded = provisionVelero_def want(1) or_return_lift want(2,3) lift_done
    wanted_bsl_def [symmetric] wanted_vsl_def [symmetric]
  have there: "objs w5 (service_key dep) \<noteq> None"
    and kept: "objs w5 (KindVeleroInstall, k) = objs w (KindVeleroInstall, k)" for k
    using five by (simp_all add: five_blocks_def service_key_def)
  show ?case
  proof (cases "objs w (service_key dep) = None")
    case True
    have "\<exists>es. provisionVelero E d namespace ps i w = (Returned (requeue, None), es, w5)"
      unfolding unfolded using runs True by (simp add: or_return_def current_order_def go_run)
    then show ?thesis using True there kept five_blocks_comparable [OF five] by auto
  next
    case False
    let ?sm = "generateServiceMonitor (rt_Order (e_rt E) w5) s"
    obtain mv e6 w6 m where m: "ensure_ServiceMonitor E ?sm w5 = (Returned (Inr mv), e6, w6)"
      "objs w6 = (objs w5)((KindServiceMonitor, meta_key sm_ObjectMeta ?sm) \<mapsto> ObjServiceMonitor m)"
      "sm_Spec m = sm_Spec ?sm"
      using monitor_settles [OF assms(1)] by blast
    have sm: "?sm = generateServiceMonitor (rt_Order (e_rt E) w6) s"
      using service_monitor_any_order assms(3) unfolding valid_runtime_def by blast
    have "\<exists>es. provisionVelero E d namespace ps i w = (Returned (no_requeue, None), es, w6)"
      unfolding unfolded using runs m(1) False by (simp add: or_return_def current_order_def go_run)
    moreover have "settled E (GetPlatformType d) namespace ps i w6"
      by (rule six_blocks_settled [OF assms(1,3,4) five m(2,3) [unfolded sm]])
    moreover have "comparable (e_lib E) objs cr w6"
      using five_blocks_comparable [OF five] by (simp add: comparable_def m(2))
    moreover have "objs w6 (service_key dep) \<noteq> None" using there by (simp add: m(2) service_key_def)
    moreover have "objs w6 (KindVeleroInstall, k) = objs w (KindVeleroInstall, k)" for k
      using kept by (simp add: m(2))
    ultimately show ?thesis using False by auto
  qed
qed

text \<open>Two runs in a row.\<close>

lemma provisionVelero_two_runs:
  assumes "working_cluster E objs" and "can_own (e_lib E) i" and "valid_runtime E"
    and "wants E (GetPlatformType d) namespace ps i lc cr dep" and "comparable (e_lib E) objs cr w"
  shows "\<exists>res es w' es' w''. provisionVelero E d namespace ps i w = (Returned (res, None), es, w') \<and>
    (res = requeue) = (objs w (service_key dep) = None) \<and>
    provisionVelero E d namespace ps i w' = (Returned (no_requeue, None), es', w'') \<and>
    settled E (GetPlatformType d) namespace ps i w''"
proof -
  obtain es w' where one: "comparable (e_lib E) objs cr w'" "objs w' (service_key dep) \<noteq> None"
    "provisionVelero E d namespace ps i w =
      (Returned (if objs w (service_key dep) = None then requeue else no_requeue, None), es, w')"
    using provisionVelero_pass [OF assms] by (auto split: if_splits)
  obtain es' w'' where two: "provisionVelero E d namespace ps i w' = (Returned (no_requeue, None), es', w'')"
    "settled E (GetPlatformType d) namespace ps i w''"
    using provisionVelero_pass [OF assms(1-4) one(1)] one(2) by auto
  show ?thesis
    using one(3) two by (auto simp: requeue_def no_requeue_def)
qed

end
