(* ===== verification/Reconcile_Converges.thy ===== *)
theory Reconcile_Converges
  imports Controller Provision_Converges
begin

text \<open>
  Reconcile on a cluster that works: two calls for a resource whose bucket was synchronised
  within the hour put Velero in place, whatever the cluster held before.
\<close>

section \<open>What a call reads before it decides\<close>

definition call_prefix :: "Request \<Rightarrow> VeleroInstall \<Rightarrow> InfrastructureStatus \<Rightarrow> go_time \<Rightarrow> event list" where
  "call_prefix rq inst infra t =
     [KGet KindVeleroInstall (rq_Name rq) (rq_Namespace rq) (Inr (ObjVeleroInstall inst)), PlatformClient None,
      PlatformStatusRead (Inr infra), Now t]"

text \<open>The answers of a working platform: the resource, the infrastructure status and a clock.\<close>

definition working_platform :: "'w env \<Rightarrow> 'w store \<Rightarrow> InfrastructureStatus \<Rightarrow> bool" where
  "working_platform E objs infra =
     ((\<forall>w n ns i. objs w (KindVeleroInstall, n, ns) = Some (ObjVeleroInstall i) \<longrightarrow>
         finds VeleroInstalls E (n, ns) w i) \<and>
      (\<forall>w. rt_PlatformClient (e_rt E) w = (None, w)) \<and>
      (\<forall>w. rt_GetInfrastructureStatus (e_rt E) w = (Inr infra, w)) \<and>
      (\<forall>w. objs (snd (rt_Now (e_rt E) w)) = objs w))"

lemma decision:
  assumes "\<not> unsynced (vi_Bucket i)" and "rt_Now (e_rt E) w = (t, w')"
  shows "StorageBucketReconcileRequired E i s3ReconcilePeriod w =
    (Returned (bucket_stale t s3ReconcilePeriod (vi_Bucket i)), [Now t], w')"
proof -
  obtain r es w2 where run: "StorageBucketReconcileRequired E i s3ReconcilePeriod w = (r, es, w2)"
    by (metis prod_cases3)
  then show ?thesis using wpD [OF required run] assms by auto
qed

lemma Reconcile_call:
  assumes "working_platform E objs infra" and "reconciler_driver driver infra = Returned (Inr d)"
    and "objs w (KindVeleroInstall, rq_Name rq, rq_Namespace rq) = Some (ObjVeleroInstall i)"
    and "\<not> unsynced (vi_Bucket i)" and "rt_Now (e_rt E) w = (t, w')"
  shows "Reconcile E driver rq w =
    (case (if bucket_stale t s3ReconcilePeriod (vi_Bucket i)
           then exec (CreateStorage E d i) (\<lambda>err. ret ((no_requeue, err), Some d))
           else exec (provisionVelero E d (rq_Namespace rq) (is_PlatformStatus infra) i)
             (\<lambda>res. ret (res, Some d))) w' of
       (r, es, w'') \<Rightarrow> (r, call_prefix rq i infra t @ es, w''))"
proof -
  have get: "r_Get (k_VeleroInstall (e_kube E)) (rq_Name rq) (rq_Namespace rq) w = (Inr i, w)"
    and rest: "rt_PlatformClient (e_rt E) w = (None, w)" "rt_GetInfrastructureStatus (e_rt E) w = (Inr infra, w)"
    using assms(1,3) by (auto simp: working_platform_def finds_def)
  show ?thesis
    unfolding Reconcile_def exec_def [of "Get VeleroInstalls E n ns" for n ns]
    by (simp add: env_calls call_def get rest exec_def lift_outcome_def assms(2) decision [OF assms(4,5)]
        call_prefix_def split: prod.split outcome.split)
qed

text \<open>A status that is due whatever the clock shows is acted on without reading it.\<close>

lemma Reconcile_unsynced:
  assumes "working_platform E objs infra" and "reconciler_driver driver infra = Returned (Inr d)"
    and "objs w (KindVeleroInstall, rq_Name rq, rq_Namespace rq) = Some (ObjVeleroInstall i)"
    and "unsynced (vi_Bucket i)"
  shows "Reconcile E driver rq w =
    (case exec (CreateStorage E d i) (\<lambda>err. ret ((no_requeue, err), Some d)) w of
       (r, es, w') \<Rightarrow> (r, butlast (call_prefix rq i infra 0) @ es, w'))"
proof -
  have get: "r_Get (k_VeleroInstall (e_kube E)) (rq_Name rq) (rq_Namespace rq) w = (Inr i, w)"
    and rest: "rt_PlatformClient (e_rt E) w = (None, w)" "rt_GetInfrastructureStatus (e_rt E) w = (Inr infra, w)"
    using assms(1,3) by (auto simp: working_platform_def finds_def)
  have due: "StorageBucketReconcileRequired E i s3ReconcilePeriod = ret True"
    using assms(4) by (auto simp: StorageBucketReconcileRequired_def unsynced_def)
  show ?thesis
    unfolding Reconcile_def exec_def [of "Get VeleroInstalls E n ns" for n ns]
    by (simp add: env_calls call_def get rest exec_def lift_outcome_def assms(2) due ret_def
        call_prefix_def split: prod.split outcome.split)
qed

section \<open>A call that provisions\<close>

lemma comparable_same: "objs w' = objs w \<Longrightarrow> comparable L objs cr w' = comparable L objs cr w"
  by (simp add: comparable_def)

text \<open>A call that reads no stale time does one run of provisionVelero.\<close>

lemma Reconcile_pass:
  assumes "working_cluster E objs" and "can_own (e_lib E) i" and "valid_runtime E"
    and "working_platform E objs infra" and "reconciler_driver driver infra = Returned (Inr d)"
    and "wants E (GetPlatformType d) (rq_Namespace rq) (is_PlatformStatus infra) i lc cr dep"
    and "comparable (e_lib E) objs cr w"
    and "objs w (KindVeleroInstall, rq_Name rq, rq_Namespace rq) = Some (ObjVeleroInstall i)"
    and "\<not> unsynced (vi_Bucket i)" and "Reconcile E driver rq w = (r, es, w')"
    and "\<forall>t. Now t \<in> set es \<longrightarrow> \<not> bucket_stale t s3ReconcilePeriod (vi_Bucket i)"
  shows "comparable (e_lib E) objs cr w' \<and> objs w' (service_key dep) \<noteq> None \<and>
    objs w' (KindVeleroInstall, rq_Name rq, rq_Namespace rq) = Some (ObjVeleroInstall i) \<and>
    r = Returned ((if objs w (service_key dep) = None then requeue else no_requeue, None), Some d) \<and>
    (objs w (service_key dep) \<noteq> None \<longrightarrow>
       settled E (GetPlatformType d) (rq_Namespace rq) (is_PlatformStatus infra) i w')"
proof -
  obtain t w0 where clock: "rt_Now (e_rt E) w = (t, w0)" by fastforce
  then have same: "objs w0 = objs w"
    using assms(4) unfolding working_platform_def by (metis snd_conv)
  note call = Reconcile_call [OF assms(4,5,8,9) clock, unfolded assms(10)]
  have "Now t \<in> set es"
    using call by (auto simp: call_prefix_def split: prod.splits)
  then have fresh: "\<not> bucket_stale t s3ReconcilePeriod (vi_Bucket i)"
    using assms(11) by blast
  have comparable: "comparable (e_lib E) objs cr w0"
    using assms(7) comparable_same [OF same] by simp
  obtain es0 w1 where pass: "comparable (e_lib E) objs cr w1" "objs w1 (service_key dep) \<noteq> None"
    "\<forall>k. objs w1 (KindVeleroInstall, k) = objs w0 (KindVeleroInstall, k)"
    "if objs w0 (service_key dep) = None
     then provisionVelero E d (rq_Namespace rq) (is_PlatformStatus infra) i w0 = (Returned (requeue, None), es0, w1)
     else provisionVelero E d (rq_Namespace rq) (is_PlatformStatus infra) i w0 = (Returned (no_requeue, None), es0, w1) \<and>
       settled E (GetPlatformType d) (rq_Namespace rq) (is_PlatformStatus infra) i w1"
    using provisionVelero_pass [OF assms(1,2,3,6) comparable] by (elim exE conjE) (rule that)
  have "r = Returned ((if objs w (service_key dep) = None then requeue else no_requeue, None), Some d) \<and> w' = w1"
    using call fresh pass(4)
    by (cases "objs w (service_key dep)") (simp_all add: exec_def ret_def same)
  then show ?thesis
    using pass assms(8) by (cases "objs w (service_key dep)") (simp_all add: same)
qed

text \<open>Two calls in a row, of which the second keeps the driver of the first.\<close>

lemma Reconcile_two_calls:
  assumes "working_cluster E objs" and "can_own (e_lib E) i" and "valid_runtime E"
    and "working_platform E objs infra" and "reconciler_driver driver infra = Returned (Inr d)"
    and "wants E (GetPlatformType d) (rq_Namespace rq) (is_PlatformStatus infra) i lc cr dep"
    and "comparable (e_lib E) objs cr w"
    and "objs w (KindVeleroInstall, rq_Name rq, rq_Namespace rq) = Some (ObjVeleroInstall i)"
    and "\<not> unsynced (vi_Bucket i)"
    and "Reconcile E driver rq w = (r, es, w')" and "Reconcile E (Some d) rq w' = (r', es', w'')"
    and "\<forall>t. Now t \<in> set (es @ es') \<longrightarrow> \<not> bucket_stale t s3ReconcilePeriod (vi_Bucket i)"
  shows "r = Returned ((if objs w (service_key dep) = None then requeue else no_requeue, None), Some d) \<and>
    r' = Returned ((no_requeue, None), Some d) \<and>
    settled E (GetPlatformType d) (rq_Namespace rq) (is_PlatformStatus infra) i w''"
proof -
  have fresh: "\<forall>t. Now t \<in> set es \<longrightarrow> \<not> bucket_stale t s3ReconcilePeriod (vi_Bucket i)"
    "\<forall>t. Now t \<in> set es' \<longrightarrow> \<not> bucket_stale t s3ReconcilePeriod (vi_Bucket i)"
    using assms(12) by auto
  have driver: "reconciler_driver (Some d) infra = Returned (Inr d)"
    by (simp add: reconciler_driver_def)
  note first = Reconcile_pass [OF assms(1-10) fresh(1)]
  have "comparable (e_lib E) objs cr w'"
    and "objs w' (KindVeleroInstall, rq_Name rq, rq_Namespace rq) = Some (ObjVeleroInstall i)"
    using first by blast+
  from Reconcile_pass [OF assms(1-4) driver assms(6) this assms(9,11) fresh(2)]
  show ?thesis using first by auto
qed

end
