(* ===== verification/Sample.thy ===== *)
theory Sample
  imports Controller Operator_Main Operator_History Reconcile_Converges "HOL-Library.Char_ord" "HOL-Library.List_Lexorder" "HOL-Library.AList"
begin

text \<open>
  A concrete environment on which the definitions run: a cluster that stores objects under
  their kind, name and namespace, an S3 service that stores buckets with their settings,
  a clock and a supply of identifiers, and library functions that build small objects. The
  properties with a hypothesis are applied to it.
\<close>

section \<open>The world\<close>

record sample_bucket =
  smb_Region :: "string option"
  smb_Tags :: "Tag list"
  smb_Encryption :: "string list"
  smb_Blocked :: "PublicAccessBlock option"
  smb_Lifecycle :: "LifecycleRule list"

record sample_world =
  sw_Clock :: int
  sw_Uuids :: "string list"
  sw_Objects :: "((kkind \<times> string \<times> string) \<times> kobj) list"
  sw_Buckets :: "(string \<times> sample_bucket) list"

section \<open>The cluster\<close>

definition not_found :: goerror where "not_found = StatusError ''NotFound'' ''not found''"

definition obj_key :: "kobj \<Rightarrow> kkind \<times> string \<times> string" where
  "obj_key ob = (kind_of ob, om_Name (obj_meta ob), om_Namespace (obj_meta ob))"

definition store_obj :: "kobj \<Rightarrow> sample_world \<Rightarrow> sample_world" where
  "store_obj ob w = w\<lparr>sw_Objects := AList.update (obj_key ob) ob (sw_Objects w)\<rparr>"

definition sample_resource :: "kkind \<Rightarrow> ('o \<Rightarrow> kobj) \<Rightarrow> (kobj \<Rightarrow> 'o option) \<Rightarrow> (sample_world, 'o) resource" where
  "sample_resource k wrap unwrap =
     \<lparr>r_Get = (\<lambda>n ns w.
        (case map_of (sw_Objects w) (k, n, ns) of
           None \<Rightarrow> (Inl not_found, w)
         | Some ob \<Rightarrow>
             if obj_key ob = (k, n, ns) then (case unwrap ob of None \<Rightarrow> (Inl not_found, w) | Some x \<Rightarrow> (Inr x, w))
             else (Inl not_found, w))),
      r_Create = (\<lambda>x w. (Inr x, store_obj (wrap x) w)),
      r_Update = (\<lambda>x w. (Inr x, store_obj (wrap x) w))\<rparr>"

definition sample_kube :: "sample_world kube_api" where
  "sample_kube =
     \<lparr>k_VeleroInstall = sample_resource KindVeleroInstall ObjVeleroInstall
        (\<lambda>ob. case ob of ObjVeleroInstall x \<Rightarrow> Some x | _ \<Rightarrow> None),
      k_StatusUpdate = (\<lambda>i w. (Inr i, store_obj (ObjVeleroInstall i) w)),
      k_Secret = sample_resource KindSecret ObjSecret (\<lambda>ob. case ob of ObjSecret x \<Rightarrow> Some x | _ \<Rightarrow> None),
      k_BackupStorageLocation = sample_resource KindBackupStorageLocation ObjBackupStorageLocation
        (\<lambda>ob. case ob of ObjBackupStorageLocation x \<Rightarrow> Some x | _ \<Rightarrow> None),
      k_VolumeSnapshotLocation = sample_resource KindVolumeSnapshotLocation ObjVolumeSnapshotLocation
        (\<lambda>ob. case ob of ObjVolumeSnapshotLocation x \<Rightarrow> Some x | _ \<Rightarrow> None),
      k_CredentialsRequest = sample_resource KindCredentialsRequest ObjCredentialsRequest
        (\<lambda>ob. case ob of ObjCredentialsRequest x \<Rightarrow> Some x | _ \<Rightarrow> None),
      k_Deployment = sample_resource KindDeployment ObjDeployment
        (\<lambda>ob. case ob of ObjDeployment x \<Rightarrow> Some x | _ \<Rightarrow> None),
      k_Service = sample_resource KindService ObjService (\<lambda>ob. case ob of ObjService x \<Rightarrow> Some x | _ \<Rightarrow> None),
      k_ServiceMonitor = sample_resource KindServiceMonitor ObjServiceMonitor
        (\<lambda>ob. case ob of ObjServiceMonitor x \<Rightarrow> Some x | _ \<Rightarrow> None),
      k_CustomResourceDefinition = sample_resource KindCustomResourceDefinition ObjCustomResourceDefinition
        (\<lambda>ob. case ob of ObjCustomResourceDefinition x \<Rightarrow> Some x | _ \<Rightarrow> None)\<rparr>"

section \<open>S3\<close>

definition on_bucket ::
    "string \<Rightarrow> (sample_bucket \<Rightarrow> sample_bucket) \<Rightarrow> sample_world \<Rightarrow> (goerror + unit) \<times> sample_world" where
  "on_bucket n f w =
     (case map_of (sw_Buckets w) n of
        None \<Rightarrow> (Inl (AwsError ''NoSuchBucket'' ''no such bucket''), w)
      | Some b \<Rightarrow> (Inr (), w\<lparr>sw_Buckets := AList.update n (f b) (sw_Buckets w)\<rparr>))"

definition read_bucket ::
    "string \<Rightarrow> (sample_bucket \<Rightarrow> 'a) \<Rightarrow> sample_world \<Rightarrow> (goerror + 'a) \<times> sample_world" where
  "read_bucket n f w =
     (case map_of (sw_Buckets w) n of
        None \<Rightarrow> (Inl (AwsError ''NoSuchBucket'' ''no such bucket''), w)
      | Some b \<Rightarrow> (Inr (f b), w))"

definition sample_aws :: "sample_world aws_api" where
  "sample_aws =
     \<lparr>aws_NewSession = (\<lambda>c w. (None, w)),
      s3_CreateBucket = (\<lambda>c input w.
        (case map_of (sw_Buckets w) (cb_Bucket input) of
           Some b \<Rightarrow> (Inl (AwsError ''BucketAlreadyOwnedByYou'' ''already yours''), w)
         | None \<Rightarrow> (Inr (), w\<lparr>sw_Buckets := AList.update (cb_Bucket input)
             \<lparr>smb_Region = cb_LocationConstraint input, smb_Tags = [], smb_Encryption = [],
              smb_Blocked = None, smb_Lifecycle = []\<rparr> (sw_Buckets w)\<rparr>))),
      s3_DeleteBucketTagging = (\<lambda>c n. on_bucket n (\<lambda>b. b\<lparr>smb_Tags := []\<rparr>)),
      s3_HeadBucket = (\<lambda>c n. read_bucket n (\<lambda>b. ())),
      s3_GetBucketLocation = (\<lambda>c n. case n of
        None \<Rightarrow> (\<lambda>w. (Inl (PlainError ''no name''), w)) | Some n \<Rightarrow> read_bucket n smb_Region),
      s3_GetBucketTagging = (\<lambda>c n. read_bucket n smb_Tags),
      s3_GetPublicAccessBlock = (\<lambda>c n. read_bucket n (\<lambda>b. ())),
      s3_ListBuckets = (\<lambda>c w. (Inr \<lparr>lbo_Buckets = map (\<lambda>(n, b). \<lparr>b_Name = Some n, b_rest = ''''\<rparr>) (sw_Buckets w),
        lbo_Owner = ''owner''\<rparr>, w)),
      s3_PutBucketEncryption = (\<lambda>c input. on_bucket (pbe_Bucket input) (\<lambda>b. b\<lparr>smb_Encryption := pbe_Rules input\<rparr>)),
      s3_PutBucketLifecycleConfiguration = (\<lambda>c n rules. on_bucket n (\<lambda>b. b\<lparr>smb_Lifecycle := rules\<rparr>)),
      s3_PutBucketTagging = (\<lambda>c n tags. on_bucket n (\<lambda>b. b\<lparr>smb_Tags := tags\<rparr>)),
      s3_PutPublicAccessBlock = (\<lambda>c n conf. on_bucket n (\<lambda>b. b\<lparr>smb_Blocked := Some conf\<rparr>))\<rparr>"

definition sample_gcs :: "sample_world gcs_api" where
  "sample_gcs =
     \<lparr>gcs_CredentialsFromJSON = (\<lambda>key w. (Inr key, w)),
      gcs_NewClient = (\<lambda>creds w. (Inr creds, w)),
      gcs_Create = (\<lambda>client name project attrs w. (None, w)),
      gcs_Attrs = (\<lambda>client name w. (Inl (ErrBucketNotExist ''no such bucket''), w)),
      gcs_Update = (\<lambda>client name labels w. (Inl (ErrBucketNotExist ''no such bucket''), w)),
      gcs_Buckets = (\<lambda>client project w. (IterDone, w))\<rparr>"

section \<open>The runtime and the libraries\<close>

definition sorted_keys :: key_order where
  "sorted_keys S = sorted_list_of_fset S"

lemma valid_sorted_keys: "valid_order sorted_keys"
  by (simp add: valid_order_def sorted_keys_def sorted_list_of_fset.rep_eq)

definition sample_infra :: InfrastructureStatus where
  "sample_infra = \<lparr>is_InfrastructureName = ''demo'',
     is_PlatformStatus = Some \<lparr>pl_Type = AWSPlatformType, pl_AWS = Some \<lparr>aws_Region = ''us-east-2''\<rparr>,
       pl_GCP = None\<rparr>\<rparr>"

definition sample_rt :: "sample_world runtime_api" where
  "sample_rt =
     \<lparr>rt_Now = (\<lambda>w. (sw_Clock w, w\<lparr>sw_Clock := sw_Clock w + 1000000000\<rparr>)),
      rt_NewUUID = (\<lambda>w. (case sw_Uuids w of [] \<Rightarrow> ('''', w) | u # us \<Rightarrow> (u, w\<lparr>sw_Uuids := us\<rparr>))),
      rt_Order = (\<lambda>w. sorted_keys),
      rt_PlatformClient = (\<lambda>w. (None, w)),
      rt_GetInfrastructureStatus = (\<lambda>w. (Inr sample_infra, w)),
      rt_LookupEnv = (\<lambda>var w. if var = ''WATCH_NAMESPACE'' then Some ''openshift-velero'' else None),
      rt_Args = (\<lambda>w. [''--leader-elect'']),
      rt_Startup = (\<lambda>step w. (None, w))\<rparr>"

definition sample_container :: Container where
  "sample_container =
     \<lparr>c_Name = ''velero'', c_Image = ''velero'',
      c_Ports = [\<lparr>cp_Name = ''metrics'', cp_ContainerPort = 8085, cp_Protocol = '''', cp_rest = ''''\<rparr>],
      c_Env = [\<lparr>ev_Name = ''A'', ev_Value = ''a'', ev_ValueFrom = None\<rparr>,
               \<lparr>ev_Name = ''B'', ev_Value = '''',
                ev_ValueFrom = Some \<lparr>evs_FieldRef = Some ('''', ''metadata.namespace''), evs_rest = ''''\<rparr>\<rparr>],
      c_VolumeMounts = [], c_TerminationMessagePath = '''', c_TerminationMessagePolicy = '''', c_rest = ''''\<rparr>"

definition sample_deployment :: "string \<Rightarrow> Deployment" where
  "sample_deployment namespace =
     \<lparr>d_ObjectMeta = object_meta ''velero'' namespace,
      d_Spec = \<lparr>d_Replicas = None, d_RevisionHistoryLimit = None, d_ProgressDeadlineSeconds = None,
        d_Strategy = \<lparr>ds_Type = '''', ds_MaxUnavailable = None, ds_MaxSurge = None\<rparr>,
        d_Template = \<lparr>pt_Labels = Some (fmap_of_list [(''deploy'', ''velero'')]),
          pt_Spec = \<lparr>ps_Volumes = [], ps_InitContainers = [sample_container\<lparr>c_Name := ''plugin''\<rparr>],
            ps_Containers = [sample_container], ps_DeprecatedServiceAccount = '''', ps_ServiceAccountName = '''',
            ps_DNSPolicy = '''', ps_SchedulerName = '''', ps_SecurityContext = None,
            ps_TerminationGracePeriodSeconds = None, ps_Tolerations = [], ps_Affinity = None, ps_rest = ''''\<rparr>,
          pt_rest = ''''\<rparr>,
        dspec_rest = ''''\<rparr>,
      d_rest = ''''\<rparr>"

definition sample_lib :: libraries where
  "sample_lib =
     \<lparr>lib_Validate = (\<lambda>q. None),
      lib_PartitionForRegion = (\<lambda>region. Some ''aws''),
      lib_BackupStorageLocation = (\<lambda>namespace provider bucket pfx config cacert.
        \<lparr>bsl_ObjectMeta = object_meta ''default'' namespace,
         bsl_Spec = \<lparr>bsl_Provider = provider, bsl_Bucket = bucket, bsl_Prefix = pfx, bsl_Config = config,
           bsl_CACert = cacert, bslspec_rest = ''''\<rparr>, bsl_rest = ''''\<rparr>),
      lib_VolumeSnapshotLocation = (\<lambda>namespace provider config.
        \<lparr>vsl_ObjectMeta = object_meta ''default'' namespace,
         vsl_Spec = \<lparr>vsl_Provider = provider, vsl_Config = config, vslspec_rest = ''''\<rparr>, vsl_rest = ''''\<rparr>),
      lib_Deployment = (\<lambda>namespace options. sample_deployment namespace),
      lib_AllCRDs = [''backups'', ''restores''],
      lib_FromUnstructured = (\<lambda>u. Inr \<lparr>crd_ObjectMeta = object_meta u '''',
        crd_Spec = \<lparr>crd_Conversion = None, crdspec_rest = u\<rparr>, crd_rest = ''''\<rparr>),
      lib_EncodeProviderSpec = (\<lambda>spec. Inr (case spec of
          AWSProviderSpec kind stmts \<Rightarrow> concat (map se_Resource stmts)
        | GCPProviderSpec kind roles skip \<Rightarrow> concat roles
        | OtherProviderSpec raw \<Rightarrow> raw)),
      lib_minterv1_GroupVersion = ''v1'',
      lib_corev1_GroupVersion = ''v1'',
      lib_minterAddToScheme = None,
      lib_Decode = (\<lambda>raw. Inr (OtherProviderSpec raw)),
      lib_SetControllerReference = (\<lambda>inst m. Inr (m\<lparr>om_OwnerReferences :=
        [\<lparr>or_APIVersion = ''managed.openshift.io/v1alpha2'', or_BlockOwnerDeletion = Some True,
          or_Controller = Some True, or_Kind = ''VeleroInstall'',
          or_Name = om_Name (vi_ObjectMeta inst), or_UID = om_UID (vi_ObjectMeta inst)\<rparr>]\<rparr>)),
      lib_IsPlatformSupported = (\<lambda>p ps. p \<in> set ps),
      lib_opmetrics_GenerateService = (\<lambda>port pname sname namespace labels.
        (Some \<lparr>svc_TypeMeta = \<lparr>tm_Kind = ''Service'', tm_APIVersion = ''v1''\<rparr>,
           svc_ObjectMeta = (object_meta sname namespace)\<lparr>om_Labels := labels\<rparr>,
           svc_Spec = \<lparr>ss_Ports = [\<lparr>sp_Name = pname, sp_Protocol = ''TCP'', sp_Port = port,
               sp_TargetPort = port, sp_rest = ''''\<rparr>], ss_Selector = labels, ss_Type = '''',
             ss_SessionAffinity = '''', ss_ClusterIP = '''', ss_ClusterIPs = [], ss_IPFamilies = [],
             ss_IPFamilyPolicy = None, ss_InternalTrafficPolicy = None, ss_rest = ''''\<rparr>,
           svc_rest = ''''\<rparr>, None)),
      lib_opmetrics_GenerateServiceMonitor = (\<lambda>s.
        \<lparr>sm_ObjectMeta = object_meta (om_Name (svc_ObjectMeta s)) (om_Namespace (svc_ObjectMeta s)),
         sm_Spec = \<lparr>sm_MatchLabels = om_Labels (svc_ObjectMeta s), sm_Endpoints = [], smspec_rest = ''''\<rparr>,
         sm_rest = ''''\<rparr>),
      lib_Register = (\<lambda>objs b. b\<lparr>bld_SchemeBuilder := concat (map (\<lambda>ob. (case ob of
        NewVeleroInstall \<Rightarrow> ''VeleroInstall;'' | NewVeleroInstallList \<Rightarrow> ''VeleroInstallList;'')) objs)\<rparr>),
      lib_Builder_AddToScheme = (\<lambda>b. if bld_SchemeBuilder b = ''VeleroInstall;VeleroInstallList;'' then None
        else Some (PlainError ''missing types'')),
      lib_AddToScheme = (\<lambda>g. None),
      lib_OwnerRequests = (\<lambda>k m. map (\<lambda>r. \<lparr>rq_Namespace = om_Namespace m, rq_Name = or_Name r\<rparr>)
        (filter (\<lambda>r. k = KindVeleroInstall \<and> or_Kind r = ''VeleroInstall'' \<and> or_Controller r = Some True)
           (om_OwnerReferences m))),
      lib_Flag = (\<lambda>name. if name = ''zap-devel'' then Some BoolFlag
        else if name = ''kubeconfig'' then Some ValueFlag else None),
      lib_FlagSet = (\<lambda>name value. None)\<rparr>"

definition sample_env :: "sample_world env" where
  "sample_env = \<lparr>e_kube = sample_kube, e_aws = sample_aws, e_gcs = sample_gcs, e_rt = sample_rt,
     e_lib = sample_lib\<rparr>"

section \<open>A cluster before the first call\<close>

definition sample_install :: VeleroInstall where
  "sample_install =
     \<lparr>vi_TypeMeta = \<lparr>tm_Kind = ''VeleroInstall'', tm_APIVersion = ''v1alpha2''\<rparr>,
      vi_ObjectMeta = object_meta ''cluster'' ''openshift-velero'',
      vi_Status = \<lparr>vs_StorageBucket = \<lparr>sb_Name = '''', sb_Provisioned = False, sb_LastSyncTimestamp = None\<rparr>\<rparr>\<rparr>"

definition sample_secret :: Secret where
  "sample_secret =
     \<lparr>sec_ObjectMeta = object_meta awsCredsSecretName OperatorNamespace,
      sec_Data = Some (fmap_of_list [(''aws_access_key_id'', ''id''), (''aws_secret_access_key'', ''key'')]),
      sec_rest = ''''\<rparr>"

definition sample_start :: sample_world where
  "sample_start =
     store_obj (ObjSecret sample_secret) (store_obj (ObjVeleroInstall sample_install)
       \<lparr>sw_Clock = 1000000000000, sw_Uuids = [''u1'', ''u2''], sw_Objects = [], sw_Buckets = []\<rparr>)"

definition sample_request :: Request where
  "sample_request = \<lparr>rq_Namespace = ''openshift-velero'', rq_Name = ''cluster''\<rparr>"

section \<open>The hypotheses hold\<close>

lemma sample_valid_runtime: "valid_runtime sample_env"
  by (simp add: valid_runtime_def sample_env_def sample_rt_def valid_sorted_keys)

lemma sample_echoes_status: "echoes_status sample_env"
  by (simp add: echoes_status_def sample_env_def sample_kube_def)

text \<open>The driver and the client of the sample, and S3 and GCS services that answer in one way.\<close>

definition sample_driver :: s3_driver where
  "sample_driver = \<lparr>s3_Region = ''us-east-2'', s3_InfraName = ''demo''\<rparr>"

definition sample_config :: AwsConfig where
  "sample_config = \<lparr>cfg_Region = ''us-east-2'', cfg_AccessKeyID = ''id'', cfg_SecretAccessKey = ''key''\<rparr>"

definition sample_client :: awsClient where
  "sample_client = \<lparr>s3Client = sample_config, Config = sample_config\<rparr>"

lemma sample_client_of: "client_of sample_driver sample_client"
  by (simp add: client_of_def sample_driver_def sample_client_def sample_config_def)

definition sample_gcs_driver :: gcs_driver where
  "sample_gcs_driver = \<lparr>gcs_Region = ''us-east1'', gcs_Project = ''p'', gcs_InfraName = ''demo''\<rparr>"

definition named_install :: VeleroInstall where
  "named_install = with_bucket (\<lambda>b. b\<lparr>sb_Name := ''managed-velero-backups-u1''\<rparr>) sample_install"

lemma named_install_bucket [simp]:
  "sb_Name (vi_Bucket named_install) = ''managed-velero-backups-u1''"
  "\<not> sb_Provisioned (vi_Bucket named_install)"
  by (simp_all add: named_install_def sample_install_def)

text \<open>A service that accepts every request, and a cluster that has the credentials.\<close>

definition willing_env :: "sample_world env" where
  "willing_env = sample_env
     \<lparr>e_kube := sample_kube\<lparr>k_Secret := (k_Secret sample_kube)\<lparr>r_Get := (\<lambda>n ns w. (Inr sample_secret, w))\<rparr>\<rparr>,
      e_aws := sample_aws
        \<lparr>s3_CreateBucket := (\<lambda>c q w. (Inr (), w)), s3_HeadBucket := (\<lambda>c b w. (Inr (), w)),
         s3_DeleteBucketTagging := (\<lambda>c b w. (Inr (), w)), s3_PutBucketTagging := (\<lambda>c b ts w. (Inr (), w)),
         s3_PutBucketEncryption := (\<lambda>c q w. (Inr (), w)), s3_PutPublicAccessBlock := (\<lambda>c b p w. (Inr (), w)),
         s3_PutBucketLifecycleConfiguration := (\<lambda>c b l w. (Inr (), w))\<rparr>\<rparr>"

lemma sample_willing: "s3_willing willing_env region"
  by (simp add: s3_willing_def willing_env_def sample_env_def sample_aws_def sample_kube_def sample_lib_def
      sample_secret_def awsCredsSecretIDKey_def awsCredsSecretAccessKey_def fmlookup_of_list)

text \<open>A GCS service on which the bucket exists already.\<close>

definition conflict_env :: "sample_world env" where
  "conflict_env = sample_env\<lparr>e_gcs := sample_gcs
     \<lparr>gcs_Create := (\<lambda>client name project attrs w. (Some (PlainError ''409 conflict''), w))\<rparr>\<rparr>"

lemma sample_conflict: "creation_refused conflict_env b"
  by (simp add: creation_refused_def conflict_env_def sample_gcs_def)

text \<open>A cluster whose resource has a name, and no bucket yet.\<close>

definition named_world :: sample_world where
  "named_world = store_obj (ObjVeleroInstall named_install) sample_start"

section \<open>A settled cluster\<close>

definition synced_install :: VeleroInstall where
  "synced_install = with_bucket (\<lambda>b. \<lparr>sb_Name = ''managed-velero-backups-u1'', sb_Provisioned = True,
     sb_LastSyncTimestamp = Some 1000000000000\<rparr>) sample_install"

definition sample_location :: "string gomap" where
  "sample_location = Some (fmupd ''region'' ''us-east-2'' fmempty)"

definition sample_bsl :: BackupStorageLocation where
  "sample_bsl = wanted_bsl sample_lib AWSPlatformType ''openshift-velero'' sample_location synced_install"

definition sample_vsl :: VolumeSnapshotLocation where
  "sample_vsl = wanted_vsl sample_lib AWSPlatformType ''openshift-velero'' sample_location"

definition sample_cr :: CredentialsRequest where
  "sample_cr = awsCredentialsRequest sample_lib ''openshift-velero'' credentialsRequestName ''aws''
     ''managed-velero-backups-u1''"

definition sample_dep :: Deployment where
  "sample_dep = velero_deployment AWSPlatformType (sample_deployment ''openshift-velero'')"

definition sample_service :: Service where
  "sample_service = metricsServiceFromDeployment sample_lib sorted_keys sample_dep"

definition sample_monitor :: ServiceMonitor where
  "sample_monitor = generateServiceMonitor sorted_keys sample_service"

definition settled_world :: sample_world where
  "settled_world = fold store_obj
     [ObjBackupStorageLocation sample_bsl, ObjVolumeSnapshotLocation sample_vsl,
      ObjCredentialsRequest sample_cr, ObjDeployment sample_dep, ObjService sample_service,
      ObjServiceMonitor sample_monitor, ObjVeleroInstall synced_install] sample_start"

lemma settled_objects:
  "location_config AWSPlatformType (is_PlatformStatus sample_infra) = Returned (Inr sample_location)"
  "velero_credentials sample_lib ''openshift-velero'' AWSPlatformType sample_location
     (sb_Name (vi_Bucket synced_install)) = Inr sample_cr"
  "veleroDeployment sample_lib ''openshift-velero'' AWSPlatformType veleroImageRegistry = Returned sample_dep"
  "finds BSLs sample_env (meta_key bsl_ObjectMeta sample_bsl) settled_world sample_bsl"
  "finds VSLs sample_env (meta_key vsl_ObjectMeta sample_vsl) settled_world sample_vsl"
  "finds CRs sample_env (meta_key cr_ObjectMeta sample_cr) settled_world sample_cr"
  "credentialsRequestSpecEqual sample_lib (cr_Spec sample_cr) (cr_Spec sample_cr) = Returned (Inr True)"
  "finds Deployments sample_env (meta_key d_ObjectMeta sample_dep) settled_world sample_dep"
  "finds Services sample_env (meta_key svc_ObjectMeta sample_service) settled_world sample_service"
  "finds ServiceMonitors sample_env (meta_key sm_ObjectMeta sample_monitor) settled_world sample_monitor"
  by code_simp+

lemma sample_settled:
  "settled sample_env AWSPlatformType ''openshift-velero'' (is_PlatformStatus sample_infra) synced_install settled_world"
proof -
  have "rt_Order (e_rt sample_env) settled_world = sorted_keys" and lib: "e_lib sample_env = sample_lib"
    by (simp_all add: sample_env_def sample_rt_def)
  moreover have "svc_Spec sample_service = svc_Spec (keep_cluster_fields sample_service sample_service)"
    by (simp add: keep_cluster_fields_def)
  ultimately show ?thesis
    unfolding settled_def Let_def lib
    using settled_objects
    by (intro exI [of _ sample_location] exI [of _ sample_cr] exI [of _ sample_dep] exI [of _ sample_bsl]
        exI [of _ sample_vsl] exI [of _ sample_service] exI [of _ sample_monitor] conjI)
      (simp_all add: sample_bsl_def [symmetric] sample_vsl_def [symmetric] sample_service_def [symmetric]
        sample_monitor_def [symmetric] del: handle_defs)
qed

section \<open>A working cluster\<close>

definition sample_objs :: "sample_world store" where
  "sample_objs w k =
     (case map_of (sw_Objects w) k of
        None \<Rightarrow> None
      | Some ob \<Rightarrow> if obj_key ob = k then Some ob else None)"

lemma sample_objs_store: "sample_objs (store_obj ob w) = (sample_objs w)(obj_key ob \<mapsto> ob)"
  by (auto simp: sample_objs_def store_obj_def update_conv' split: option.splits)

lemma sample_serves:
  assumes "h_resource h (e_kube sample_env) = sample_resource (h_kind h) (h_obj h) unwrap"
    and "\<And>x. unwrap (h_obj h x) = Some x" and "\<And>x. obj_key (h_obj h x) = (h_kind h, key x)"
    and "\<And>ob. kind_of ob = h_kind h \<Longrightarrow> \<exists>x. ob = h_obj h x" and "\<And>x. like x x"
  shows "serves h sample_env sample_objs key like"
proof -
  have "answers h sample_env sample_objs key w k" for w k
  proof (cases "map_of (sw_Objects w) (h_kind h, k)")
    case None
    then show ?thesis
      by (simp add: answers_def sample_objs_def assms(1) sample_resource_def not_found_def)
  next
    case (Some ob)
    show ?thesis
    proof (cases "obj_key ob = (h_kind h, k)")
      case True
      then have "kind_of ob = h_kind h" by (simp add: obj_key_def)
      then obtain x where "ob = h_obj h x" using assms(4) by blast
      with True Some show ?thesis
        by (auto simp: answers_def sample_objs_def finds_def assms(1,2,3) sample_resource_def)
    next
      case False
      with Some show ?thesis
        by (simp add: answers_def sample_objs_def assms(1) sample_resource_def not_found_def)
    qed
  qed
  moreover have "puts h sample_objs key like (\<lambda>x w. (Inr x, store_obj (h_obj h x) w)) w x" for w x
    using assms(5) by (simp add: puts_def sample_objs_store assms(3))
  ultimately show ?thesis by (simp add: serves_def assms(1) sample_resource_def)
qed

lemma sample_working: "working_cluster sample_env sample_objs"
proof -
  have one: "\<exists>x. ob = ObjBackupStorageLocation x" if "kind_of ob = KindBackupStorageLocation" for ob
    using that by (cases ob) simp_all
  have two: "\<exists>x. ob = ObjVolumeSnapshotLocation x" if "kind_of ob = KindVolumeSnapshotLocation" for ob
    using that by (cases ob) simp_all
  have three: "\<exists>x. ob = ObjCredentialsRequest x" if "kind_of ob = KindCredentialsRequest" for ob
    using that by (cases ob) simp_all
  have four: "\<exists>x. ob = ObjDeployment x" if "kind_of ob = KindDeployment" for ob
    using that by (cases ob) simp_all
  have five: "\<exists>x. ob = ObjService x" if "kind_of ob = KindService" for ob
    using that by (cases ob) simp_all
  have six: "\<exists>x. ob = ObjServiceMonitor x" if "kind_of ob = KindServiceMonitor" for ob
    using that by (cases ob) simp_all
  show ?thesis
    unfolding working_cluster_def
    by (intro conjI sample_serves)
      (simp_all add: sample_env_def sample_kube_def obj_key_def meta_key_def one two three four five six
        same_service_def keep_cluster_fields_def, simp_all)
qed

lemma sample_can_own: "can_own (e_lib sample_env) i"
  by (simp add: can_own_def sample_env_def sample_lib_def)

lemma sample_wants:
  "wants sample_env AWSPlatformType ''openshift-velero'' (is_PlatformStatus sample_infra) synced_install
     sample_location sample_cr sample_dep"
  using settled_objects(1,2,3,7) by (simp add: wants_def sample_env_def)

text \<open>A cluster that holds nothing but a resource whose bucket is synchronised.\<close>

definition synced_world :: sample_world where
  "synced_world = store_obj (ObjVeleroInstall synced_install) sample_start"

lemma sample_platform: "working_platform sample_env sample_objs sample_infra"
proof -
  have "finds VeleroInstalls sample_env (n, ns) w i"
    if "sample_objs w (KindVeleroInstall, n, ns) = Some (ObjVeleroInstall i)" for w n ns i
    using that
    by (auto simp: sample_objs_def finds_def sample_env_def sample_kube_def sample_resource_def
        split: option.splits if_splits)
  moreover have "sample_objs (snd (rt_Now (e_rt sample_env) w)) = sample_objs w" for w
    by (intro ext) (simp add: sample_objs_def sample_env_def sample_rt_def)
  ultimately show ?thesis
    by (simp add: working_platform_def) (simp add: sample_env_def sample_rt_def)
qed

end
