(* ===== verification/S3_Properties.thy ===== *)
theory S3_Properties
  imports Sample
begin

text \<open>
  The properties of the S3 driver (pkg/storage/s3), each with an instance on the sample
  environment where it has a hypothesis.
\<close>

section \<open>Recovering the cluster's bucket\<close>

text \<open>A bucket of the cluster is the only one of a listing with one of the operator's tags.\<close>

definition only_relevant :: "(string, Tag list) fmap \<Rightarrow> string \<Rightarrow> string \<Rightarrow> bool" where
  "only_relevant m infraName n =
     ((\<forall>k ts. fmlookup m k = Some ts \<longrightarrow> complete_tags ts) \<and>
      (\<exists>ts. fmlookup m n = Some ts \<and> cluster_tag infraName ts \<and> velero_tag ts) \<and>
      (\<forall>k ts. fmlookup m k = Some ts \<longrightarrow> relevant infraName (k, ts) \<longrightarrow> k = n))"

lemma complete_range:
  assumes "valid_order ord" and "\<forall>k ts. fmlookup m k = Some ts \<longrightarrow> complete_tags ts"
  shows "\<forall>b\<in>set (range_over ord m). complete_tags (snd b)"
  using assms by (auto simp: in_range_over_iff)

lemma ne_of_mem: "x \<in> set xs \<Longrightarrow> xs \<noteq> []"
  by auto

lemma last_relevant_only:
  assumes "valid_order ord" and "only_relevant m infraName n"
  shows "last_relevant (range_over ord m) infraName = n"
proof -
  from assms(2) obtain ts where ts: "fmlookup m n = Some ts" "cluster_tag infraName ts" "velero_tag ts"
    by (auto simp: only_relevant_def)
  let ?bs = "filter (relevant infraName) (range_over ord m)"
  have mem: "(n, ts) \<in> set ?bs"
    using ts by (simp add: in_range_over_iff [OF assms(1)] relevant_def)
  then have "?bs \<noteq> []" by (rule ne_of_mem)
  then have in_bs: "last ?bs \<in> set ?bs" by (rule last_in_set)
  obtain k ts' where last: "last ?bs = (k, ts')" by (cases "last ?bs")
  have "fmlookup m k = Some ts'" and "relevant infraName (k, ts')"
    using in_bs unfolding last by (simp_all add: in_range_over_iff [OF assms(1)])
  then have "k = n" using assms(2) by (auto simp: only_relevant_def)
  moreover have "(n, ts) \<in> set (range_over ord m)" using mem by simp
  ultimately show ?thesis
    using ts last by (force simp: last_relevant_def)
qed


text \<open>
  C12: FindMatchingTags returns the name of the cluster's bucket, in whatever order Go ranges
  over the listing, when no other bucket carries a tag of the operator: it panics on none of
  the tags and neither misses the bucket nor picks another.
\<close>

theorem FindMatchingTags_own_bucket:
  assumes "valid_order ord" and "only_relevant m infraName n"
  shows "FindMatchingTags (range_over ord m) infraName = Returned n"
  using FindMatchingTags_last_relevant [OF complete_range [OF assms(1)]] last_relevant_only [OF assms] assms(2)
  by (simp add: only_relevant_def)

theorem FindMatchingTags_own_bucket_witness:
  "FindMatchingTags (range_over sorted_keys (fmap_of_list
     [(''b'', [string_tag bucketTagBackupLocation ''default'', string_tag bucketTagInfraName ''demo'']),
      (''a'', [string_tag ''owner'' ''me''])])) ''demo'' = Returned ''b''"
proof (rule FindMatchingTags_own_bucket [OF valid_sorted_keys])
  show "only_relevant (fmap_of_list
     [(''b'', [string_tag bucketTagBackupLocation ''default'', string_tag bucketTagInfraName ''demo'']),
      (''a'', [string_tag ''owner'' ''me''])]) ''demo'' ''b''"
    by (auto simp: only_relevant_def fmlookup_of_list complete_tags_def string_tag_def cluster_tag_def
        velero_tag_def relevant_def bucketTagInfraName_def bucketTagBackupLocation_def split: if_splits)
qed

text \<open>
  C25: FindMatchingTags does not compare buckets one by one. On tag sets that are complete
  it returns the last bucket visited that carries either tag of interest, provided some
  bucket carries the cluster's tag and some bucket, not necessarily the same one, carries
  the backup location's; and the empty name otherwise.
\<close>

theorem FindMatchingTags_reference:
  assumes "\<forall>b\<in>set bs. complete_tags (snd b)"
  shows "FindMatchingTags bs infraName = Returned (last_relevant bs infraName)"
  using assms by (rule FindMatchingTags_last_relevant)

theorem FindMatchingTags_reference_witness:
  "FindMatchingTags [(''a'', [string_tag bucketTagInfraName ''demo'']),
      (''b'', [string_tag bucketTagBackupLocation ''x''])] ''demo'' = Returned ''b''"
proof -
  let ?bs = "[(''a'', [string_tag bucketTagInfraName ''demo'']), (''b'', [string_tag bucketTagBackupLocation ''x''])]"
  have "\<forall>b\<in>set ?bs. complete_tags (snd b)" by (simp add: complete_tags_def string_tag_def)
  from FindMatchingTags_reference [OF this] show ?thesis
    by (simp add: last_relevant_def cluster_tag_def velero_tag_def relevant_def string_tag_def)
qed



section \<open>Listing and checking buckets\<close>

definition named_bucket :: "string \<Rightarrow> Bucket" where
  "named_bucket n = \<lparr>b_Name = Some n, b_rest = ''''\<rparr>"

text \<open>
  ListBucketsInRegion lists once and asks for the location of every bucket, in order.
  Unless it returns an error, it keeps exactly the buckets whose location is the region, a
  missing location counting as us-east-1, skips those that are gone, keeps their order and
  the owner of the listing; it never panics.
\<close>

theorem ListBucketsInRegion_result:
  "wp (ListBucketsInRegion E c region)
     (\<lambda>r es w'. (\<exists>err. r = Returned (Inl err)) \<or>
        (\<exists>out rs. length rs = length (lbo_Buckets out) \<and> answered rs \<and>
           es = S3Call (s3Client c) ReqListBuckets (RespBuckets out) #
                location_calls (s3Client c) (lbo_Buckets out) rs \<and>
           r = Returned (Inr \<lparr>lbo_Buckets = buckets_in region (lbo_Buckets out) rs,
                             lbo_Owner = lbo_Owner out\<rparr>))) w"
proof -
  have more: "wp (exec (locate_buckets E c region (lbo_Buckets out) []) (\<lambda>r. case r of
        Inl err \<Rightarrow> ret (Inl err)
      | Inr fb \<Rightarrow> ret (Inr \<lparr>lbo_Buckets = fb, lbo_Owner = lbo_Owner out\<rparr>)))
     (\<lambda>r es w'. (\<exists>err. r = Returned (Inl err)) \<or>
        (\<exists>rs. length rs = length (lbo_Buckets out) \<and> answered rs \<and>
           es = location_calls (s3Client c) (lbo_Buckets out) rs \<and>
           r = Returned (Inr \<lparr>lbo_Buckets = buckets_in region (lbo_Buckets out) rs,
                             lbo_Owner = lbo_Owner out\<rparr>))) w" for out w
    by (rule wp_bindI [OF locate_buckets_result]) (auto simp: location_result_def wp_ret)
  show ?thesis
    unfolding ListBucketsInRegion_def ListBuckets_def api_ListBuckets_def exec_assoc
    by (auto simp: wp_exec [of "call f g" for f g] wp_call wp_ret intro!: wp_mono [OF more]
        split: prod.split sum.split)
qed

text \<open>
  C27: ListBucketTags reads the tags of the buckets in order and collects those that answer,
  a later bucket of the same name winning; buckets without tags and buckets that are gone
  are left out. Any other error, such as AccessDenied, ends the listing with that error,
  whereas the comment of the function says that unreadable buckets are omitted.
\<close>

theorem ListBucketTags_result:
  "wp (ListBucketTags E c (map named_bucket ns))
     (\<lambda>r es w'. tags_result (s3Client c) ns fmempty r es) w"
  unfolding ListBucketTags_def by (rule collect_tags_result) (simp add: named_bucket_def comp_def)


section \<open>The requests for one bucket\<close>



section \<open>CreateStorage\<close>

text \<open>
  C7: The part of CreateStorage after the switch marks a bucket as synchronised only after
  it saw the bucket and the service accepted, in this order, encryption, the public access
  block, the lifecycle rules and the two tags. A bucket that is gone is marked as not
  provisioned; after an error the status is left as it is, and only the check can panic.
\<close>

theorem s3_sync_after_enforcement:
  assumes "valid_runtime E"
  shows "wp (s3_enforce_bucket E d c i)
     (\<lambda>r es w'. s3_synced d c i r es \<or> s3_missing d i r es \<or>
        s3_failed d (sb_Name (vi_Bucket i)) r es \<or> s3_crashed d i r es) w"
  using s3_enforce_bucket_result [OF assms] by (simp add: s3_enforced_def)

theorem s3_sync_after_enforcement_witness:
  "wp (s3_enforce_bucket sample_env sample_driver sample_client named_install)
     (\<lambda>r es w'. s3_synced sample_driver sample_client named_install r es \<or>
        s3_missing sample_driver named_install r es \<or>
        s3_failed sample_driver ''managed-velero-backups-u1'' r es \<or>
        s3_crashed sample_driver named_install r es) sample_start"
  using s3_sync_after_enforcement [OF sample_valid_runtime, of sample_driver sample_client named_install]
  by simp

text \<open>
  C13: Every request of CreateStorage that changes S3 is one of the operator's own requests
  (creating the private bucket in the driver's region, its encryption, public access block,
  lifecycle and tags) and they all name one bucket, the one of the status if it has a name.
\<close>

theorem s3_CreateStorage_touches_one_bucket:
  assumes "valid_runtime E"
  shows "wp (s3_CreateStorage E d i) (\<lambda>r es w'. one_bucket d i es) w"
  using assms by (rule s3_CreateStorage_one_bucket)

theorem s3_CreateStorage_touches_one_bucket_witness:
  "wp (s3_CreateStorage sample_env sample_driver named_install)
     (\<lambda>r es w'. one_bucket sample_driver named_install es) sample_start"
  by (rule s3_CreateStorage_touches_one_bucket [OF sample_valid_runtime])

text \<open>
  The switch of CreateStorage on a name that is not provisioned sends CreateBucket. If
  the bucket is someone else's it drops the name from the status and returns; otherwise it
  goes on with the same resource or returns an error, without a status update.
\<close>

theorem s3_creation_branches:
  assumes "valid_runtime E" and "client_of d c"
    and "sb_Name (vi_Bucket i) \<noteq> ''''" and "\<not> sb_Provisioned (vi_Bucket i)"
  shows "wp (s3_select_bucket E d c i) (\<lambda>r es w'. s3_created d c i r es) w"
  using assms by (rule s3_create_branch)

theorem s3_creation_branches_witness:
  "wp (s3_select_bucket sample_env sample_driver sample_client named_install)
     (\<lambda>r es w'. s3_created sample_driver sample_client named_install r es) sample_start"
  by (rule s3_creation_branches [OF sample_valid_runtime sample_client_of]) simp_all

text \<open>
  With credentials in the cluster and a service that accepts the operator's requests,
  one run on a named bucket ends without an error and stores its synchronisation: no branch
  of the code stands in the way.
\<close>

theorem s3_CreateStorage_syncs:
  assumes "s3_willing E (s3_Region d)" and "sb_Name (vi_Bucket i) \<noteq> ''''"
  shows "wp (s3_CreateStorage E d i)
    (\<lambda>r es w'. r = Returned None \<and> (\<exists>now. KStatusUpdate (synced now i) None \<in> set es)) w"
  using assms by (rule s3_willing_syncs)

theorem s3_CreateStorage_syncs_witness:
  "wp (s3_CreateStorage willing_env sample_driver named_install)
    (\<lambda>r es w'. r = Returned None \<and> (\<exists>now. KStatusUpdate (synced now named_install) None \<in> set es))
    sample_start"
  by (rule s3_CreateStorage_syncs [OF sample_willing]) simp

end
