(* ===== verification/GCS_Properties.thy ===== *)
theory GCS_Properties
  imports Sample
begin

text \<open>
  The properties of the Google Cloud Storage driver (pkg/storage/gcs), each with an instance
  on the sample environment where it has a hypothesis.
\<close>

section \<open>Labels\<close>


text \<open>
  C32: findVeleroBucket returns the first bucket of the listing that carries both of the
  cluster's labels, and no name if there is none: unlike the S3 driver it never mixes the
  labels of two buckets, and the order of the labels does not matter.
\<close>

theorem findVeleroBucket_first_labelled:
  assumes "valid_order ord"
  shows "findVeleroBucket ord d bs = (case find (labelled d) bs of None \<Rightarrow> '''' | Some b \<Rightarrow> ba_Name b)"
  using assms by (rule findVeleroBucket_find)

definition gcs_bucket :: "string \<Rightarrow> (string \<times> string) list \<Rightarrow> BucketAttrs" where
  "gcs_bucket n labels = \<lparr>ba_Name = n, ba_Location = ''US'', ba_UniformBucketLevelAccess = True,
     ba_Labels = Some (fmap_of_list labels), ba_rest = ''''\<rparr>"

theorem findVeleroBucket_first_labelled_witness:
  "findVeleroBucket sorted_keys sample_gcs_driver
     [gcs_bucket ''theirs'' [(''velero-io-infrastructurename'', ''prod''), (''velero-io-backup-location'', ''default'')],
      gcs_bucket ''mine'' [(''velero-io-infrastructurename'', ''demo''), (''velero-io-backup-location'', ''default'')]] =
   ''mine''"
proof -
  have "sanitizeBucketLabel ''demo'' = ''demo''"
    by (rule sanitize_id) (simp add: label_char_def char_in_def)
  then show ?thesis
    unfolding findVeleroBucket_first_labelled [OF valid_sorted_keys]
    by (simp add: labelled_def gcs_bucket_def sample_gcs_driver_def fmlookup_of_list)
qed

text \<open>
  C33: What enforceBucketLabels sends is what findVeleroBucket looks for: it makes one update
  with the labels of the driver, and a bucket with any attributes is recognised as the
  cluster's after that update, whatever other labels it keeps.
\<close>

theorem enforceBucketLabels_recognised:
  assumes "valid_runtime E" and "valid_order ord"
  shows "wp (enforceBucketLabels E d c b)
     (\<lambda>r es w'. \<exists>labels res. r = Returned res \<and> es = [GcsCall c (GcsUpdate b labels) res] \<and>
        findVeleroBucket ord d [updated_labels labels attrs] = ba_Name attrs) w"
  unfolding wp_enforceBucketLabels [OF assms(1)]
proof -
  have "findVeleroBucket ord d [updated_labels (buildLabelMap (gcs_InfraName d)) attrs] = ba_Name attrs"
    unfolding findVeleroBucket_find [OF assms(2)] by (simp add: updated_labelled) (simp add: updated_labels_def)
  then show "case gcs_Update (e_gcs E) c b (buildLabelMap (gcs_InfraName d)) w of (r, w') \<Rightarrow>
      \<exists>labels res. Returned (err_of r) = Returned res \<and>
        [GcsCall c (GcsUpdate b (buildLabelMap (gcs_InfraName d))) (err_of r)] = [GcsCall c (GcsUpdate b labels) res] \<and>
        findVeleroBucket ord d [updated_labels labels attrs] = ba_Name attrs"
    by (auto simp del: findVeleroBucket.simps split: prod.split)
qed

theorem enforceBucketLabels_recognised_witness:
  "wp (enforceBucketLabels sample_env sample_gcs_driver ''client'' ''b'')
     (\<lambda>r es w'. \<exists>labels res. r = Returned res \<and> es = [GcsCall ''client'' (GcsUpdate ''b'' labels) res] \<and>
        findVeleroBucket sorted_keys sample_gcs_driver [updated_labels labels (gcs_bucket ''b'' [(''team'', ''x'')])] =
          ba_Name (gcs_bucket ''b'' [(''team'', ''x'')])) sample_start"
  by (rule enforceBucketLabels_recognised [OF sample_valid_runtime valid_sorted_keys])

section \<open>CreateStorage\<close>

text \<open>
  C30: A run of CreateStorage fails without a status update; or, without a name, only reads
  and then stores a recovered or a proposed name; or, with a name, stores the
  synchronisation only after it saw the bucket and updated its labels, or stores that the
  bucket is gone. It never panics.
\<close>

theorem gcs_CreateStorage_branches:
  assumes "valid_runtime E"
  shows "wp (gcs_CreateStorage E d i) (\<lambda>r es w'.
     gcs_failed r es \<or>
     (sb_Name (vi_Bucket i) = '''' \<and> gcs_named i r es) \<or>
     (sb_Name (vi_Bucket i) \<noteq> '''' \<and>
      (\<exists>c pre es'. no_kube_writes pre \<and> es = pre @ es' \<and> gcs_enforced d c i r es'))) w"
  using assms by (rule gcs_CreateStorage_cases)

theorem gcs_CreateStorage_branches_witness:
  "wp (gcs_CreateStorage sample_env sample_gcs_driver named_install) (\<lambda>r es w'.
     gcs_failed r es \<or>
     (sb_Name (vi_Bucket named_install) = '''' \<and> gcs_named named_install r es) \<or>
     (sb_Name (vi_Bucket named_install) \<noteq> '''' \<and>
      (\<exists>c pre es'. no_kube_writes pre \<and> es = pre @ es' \<and>
         gcs_enforced sample_gcs_driver c named_install r es'))) sample_start"
  by (rule gcs_CreateStorage_branches [OF sample_valid_runtime])

text \<open>
  C31: The GCS driver has no case for a bucket that is there already. While the service
  refuses to create it, which it does when an earlier run created it and then failed to
  store the status, every run returns an error and stores nothing, so the operator never
  reaches the check that would find the bucket.
\<close>

theorem gcs_CreateStorage_stuck:
  assumes "creation_refused E (sb_Name (vi_Bucket i))"
    and "sb_Name (vi_Bucket i) \<noteq> ''''" and "\<not> sb_Provisioned (vi_Bucket i)"
  shows "wp (gcs_CreateStorage E d i) (\<lambda>r es w'. gcs_failed r es) w"
  using assms by (rule gcs_CreateStorage_refused)

theorem gcs_CreateStorage_stuck_witness:
  "wp (gcs_CreateStorage conflict_env sample_gcs_driver named_install) (\<lambda>r es w'. gcs_failed r es) sample_start"
  by (rule gcs_CreateStorage_stuck [OF sample_conflict]) simp_all

end
