(* ===== verification/Velero_Properties.thy ===== *)
theory Velero_Properties
  imports Sample
begin

text \<open>
  The properties of the objects of a Velero installation, of provisionVelero and of
  InstallVeleroCRDs (controllers/velero/velero.go, pkg/velero/crds.go), each with an
  instance on the sample environment where it has a hypothesis.
\<close>

section \<open>The objects\<close>

text \<open>
  C35: veleroDeployment returns a deployment exactly for AWS and GCP, and only if the
  library's deployment has an init container and a first container with a port and a second
  environment variable that refers to a field; else it panics on an index or a nil pointer.
  What it returns is the library's deployment with the fixed replica counts and strategy,
  and with the credentials of GCP, the defaults of the cluster, the node placement and the
  trusted CA bundle in its pod; the other containers are untouched.
\<close>

theorem veleroDeployment_branches:
  "veleroDeployment L namespace platform registry =
     (if platform \<in> {AWSPlatformType, GCPPlatformType} \<and>
         pod_ready (pod_of (base_deployment L namespace platform registry))
      then Returned (velero_deployment platform (base_deployment L namespace platform registry))
      else Panicked)"
  by (rule veleroDeployment_eq)

text \<open>
  The metrics service selects exactly the pods of the deployment's template, publishes
  exactly the container ports with metrics in their name, in order and under their own
  number, and is the same in every iteration order of the labels.
\<close>

theorem metrics_service_selects:
  assumes "valid_order ord" and "valid_order ord'"
  shows "ss_Selector (svc_Spec (metricsServiceFromDeployment L ord d)) =
      Some (entries (pt_Labels (d_Template (d_Spec d)))) \<and>
    ss_Ports (svc_Spec (metricsServiceFromDeployment L ord d)) =
      map service_port (filter is_metrics_port (concat (map c_Ports (ps_Containers (pod_of d))))) \<and>
    metricsServiceFromDeployment L ord d = metricsServiceFromDeployment L ord' d"
  using selector_labels [OF assms(1)] metrics_service_any_order [OF assms]
  by (simp add: metricsServiceFromDeployment_def service_ports_filter)

theorem metrics_service_selects_witness:
  "ss_Ports (svc_Spec (metricsServiceFromDeployment sample_lib sorted_keys (sample_deployment ''ns''))) =
     [\<lparr>sp_Name = ''metrics'', sp_Protocol = '''', sp_Port = 8085, sp_TargetPort = 8085, sp_rest = ''''\<rparr>]"
  using metrics_service_selects [OF valid_sorted_keys valid_sorted_keys, of sample_lib "sample_deployment ''ns''"]
  by (simp add: sample_deployment_def sample_container_def service_port_def is_metrics_port_def)

text \<open>
  The service monitor generated from a service selects services by exactly the labels
  of that service, scrapes each of its ports by name, in order, and has the service as its
  one owner, with its UID.
\<close>

theorem service_monitor_follows:
  assumes "valid_order ord"
  shows "sm_MatchLabels (sm_Spec (generateServiceMonitor ord s)) = Some (entries (om_Labels (svc_ObjectMeta s))) \<and>
    map ep_Port (sm_Endpoints (sm_Spec (generateServiceMonitor ord s))) = map sp_Name (ss_Ports (svc_Spec s)) \<and>
    map (\<lambda>r. (or_Kind r, or_Name r, or_UID r)) (om_OwnerReferences (sm_ObjectMeta (generateServiceMonitor ord s))) =
      [(''Service'', om_Name (svc_ObjectMeta s), om_UID (svc_ObjectMeta s))]"
  using monitor_labels [OF assms] populateEndpoints_names [of s]
  by (simp add: generateServiceMonitor_def Let_def)

theorem service_monitor_follows_witness:
  "map ep_Port (sm_Endpoints (sm_Spec (generateServiceMonitor sorted_keys sample_service))) = [''metrics'']"
proof -
  have "map sp_Name (ss_Ports (svc_Spec sample_service)) = [''metrics'']" by code_simp
  then show ?thesis using service_monitor_follows [OF valid_sorted_keys, of sample_service] by simp
qed

text \<open>
  Comparing two credentials requests gives true or false exactly when the scheme can be
  built and both provider specifications are there and decode; it is true exactly when the
  decoded specifications and all other fields agree, however the raw bytes differ. It panics
  exactly when the specification found in the cluster, or the wanted one once the found one
  decoded, is nil.
\<close>

theorem credentialsRequestSpecEqual_branches:
  "(credentialsRequestSpecEqual L x y = Returned (Inr b)) =
     (lib_minterAddToScheme L = None \<and> decoded L x \<noteq> None \<and> decoded L y \<noteq> None \<and>
      b = (decoded L x = decoded L y \<and> x\<lparr>cr_ProviderSpec := None\<rparr> = y\<lparr>cr_ProviderSpec := None\<rparr>)) \<and>
   (credentialsRequestSpecEqual L x y = Panicked) =
     (lib_minterAddToScheme L = None \<and>
      (cr_ProviderSpec x = None \<or> (decoded L x \<noteq> None \<and> cr_ProviderSpec y = None)))"
  by (intro conjI credentialsRequestSpecEqual_bool)
    (auto simp: credentialsRequestSpecEqual_def decoded_def split: option.splits sum.splits)


section \<open>provisionVelero\<close>


text \<open>
  When provisionVelero returns without an error, every call went well; without a
  requeue all six kinds have been looked up, in order, and with one the last call created
  the service. With an error it asks for no requeue, and what it looked up is a prefix.
\<close>

theorem provisionVelero_complete:
  "wp (provisionVelero E d namespace ps i) (\<lambda>r es w'. provision_summary provision_kinds r es) w"
  by (rule wp_mono [OF provisionVelero_run]) (rule provision_run_summary)


text \<open>
  C11: On a cluster where every object has the wanted specification, provisionVelero returns
  without error and without requeue, only reads, and leaves the cluster as it is: its
  updates converge, and fields that only the cluster sets do not make it write again.
\<close>

theorem provisionVelero_fixpoint:
  assumes "settled E (GetPlatformType d) namespace ps i w"
  shows "\<exists>es. provisionVelero E d namespace ps i w = (Returned (no_requeue, None), es, w) \<and>
    list_all reads es"
  using assms by (rule provisionVelero_settled)

theorem provisionVelero_fixpoint_witness:
  "\<exists>es. provisionVelero sample_env (S3Driver sample_driver) ''openshift-velero''
      (is_PlatformStatus sample_infra) synced_install settled_world =
    (Returned (no_requeue, None), es, settled_world) \<and> list_all reads es"
  by (rule provisionVelero_fixpoint) (simp add: s3_GetPlatformType_def sample_settled)



text \<open>
  A block converges in one step: when the credentials request found differs from the
  wanted one, the block writes the found object with the wanted specification, and comparing
  that object with the wanted one finds no difference any more.
\<close>

theorem credentials_request_corrected:
  assumes "credentialsRequestSpecEqual (e_lib E) (cr_Spec found) (cr_Spec x) = Returned (Inr False)"
    and "r_Get (k_CredentialsRequest (e_kube E)) (om_Name (cr_ObjectMeta x)) (om_Namespace (cr_ObjectMeta x)) w =
      (Inr found, w1)"
    and "r_Update (k_CredentialsRequest (e_kube E)) (found\<lparr>cr_Spec := cr_Spec x\<rparr>) w1 = (Inr y, w2)"
  shows "ensure_CredentialsRequest E i x w =
      (Returned (Inr x),
       [KGet KindCredentialsRequest (om_Name (cr_ObjectMeta x)) (om_Namespace (cr_ObjectMeta x))
          (Inr (ObjCredentialsRequest found)),
        KUpdate (ObjCredentialsRequest (found\<lparr>cr_Spec := cr_Spec x\<rparr>)) None], w2) \<and>
    credentialsRequestSpecEqual (e_lib E) (cr_Spec (found\<lparr>cr_Spec := cr_Spec x\<rparr>)) (cr_Spec x) =
      Returned (Inr True)"
proof -
  have differs: "negated (credentialsRequestSpecEqual (e_lib E) (cr_Spec found) (cr_Spec x)) = Returned (Inr True)"
    by (simp add: assms(1))
  show ?thesis
    using cr.found_different [OF _ differs] assms(2,3) credentialsRequestSpecEqual_self [OF assms(1)]
    by (simp add: meta_key_def)
qed

text \<open>A credentials request for another bucket, in a cluster that holds it.\<close>

definition stale_cr :: CredentialsRequest where
  "stale_cr = awsCredentialsRequest sample_lib ''openshift-velero'' credentialsRequestName ''aws'' ''other''"

definition stale_world :: sample_world where
  "stale_world = store_obj (ObjCredentialsRequest stale_cr) sample_start"

theorem credentials_request_corrected_witness:
  "fst (ensure_CredentialsRequest sample_env synced_install sample_cr stale_world) = Returned (Inr sample_cr)"
proof -
  have differ: "credentialsRequestSpecEqual (e_lib sample_env) (cr_Spec stale_cr) (cr_Spec sample_cr) =
      Returned (Inr False)" by code_simp
  have get: "r_Get (k_CredentialsRequest (e_kube sample_env)) (om_Name (cr_ObjectMeta sample_cr))
      (om_Namespace (cr_ObjectMeta sample_cr)) stale_world = (Inr stale_cr, stale_world)" by code_simp
  have update: "r_Update (k_CredentialsRequest (e_kube sample_env)) (stale_cr\<lparr>cr_Spec := cr_Spec sample_cr\<rparr>)
      stale_world = (Inr (stale_cr\<lparr>cr_Spec := cr_Spec sample_cr\<rparr>),
        store_obj (ObjCredentialsRequest (stale_cr\<lparr>cr_Spec := cr_Spec sample_cr\<rparr>)) stale_world)"
    by (simp add: sample_env_def sample_kube_def sample_resource_def)
  show ?thesis using credentials_request_corrected [OF differ get update] by simp
qed

text \<open>
  C37: A credentials request in the cluster without a provider specification makes the
  block panic: the comparison dereferences it before any check, so the request is never put
  right although the wanted specification is known.
\<close>

theorem credentials_request_nil_spec:
  assumes "lib_minterAddToScheme (e_lib E) = None" and "cr_ProviderSpec (cr_Spec found) = None"
    and "r_Get (k_CredentialsRequest (e_kube E)) (om_Name (cr_ObjectMeta x)) (om_Namespace (cr_ObjectMeta x)) w =
      (Inr found, w1)"
  shows "ensure_CredentialsRequest E i x w =
    (Panicked, [KGet KindCredentialsRequest (om_Name (cr_ObjectMeta x)) (om_Namespace (cr_ObjectMeta x))
       (Inr (ObjCredentialsRequest found))], w1)"
  using assms
  by (simp add: ensure_CredentialsRequest_def env_calls go_run credentialsRequestSpecEqual_def)

definition nil_spec_cr :: CredentialsRequest where
  "nil_spec_cr = sample_cr\<lparr>cr_Spec := (cr_Spec sample_cr)\<lparr>cr_ProviderSpec := None\<rparr>\<rparr>"

theorem credentials_request_nil_spec_witness:
  "fst (ensure_CredentialsRequest sample_env synced_install sample_cr
     (store_obj (ObjCredentialsRequest nil_spec_cr) sample_start)) = Panicked"
proof -
  have scheme: "lib_minterAddToScheme (e_lib sample_env) = None"
    by (simp add: sample_env_def sample_lib_def)
  have nil: "cr_ProviderSpec (cr_Spec nil_spec_cr) = None" by (simp add: nil_spec_cr_def)
  have get: "r_Get (k_CredentialsRequest (e_kube sample_env)) (om_Name (cr_ObjectMeta sample_cr))
      (om_Namespace (cr_ObjectMeta sample_cr)) (store_obj (ObjCredentialsRequest nil_spec_cr) sample_start) =
    (Inr nil_spec_cr, store_obj (ObjCredentialsRequest nil_spec_cr) sample_start)" by code_simp
  show ?thesis using credentials_request_nil_spec [OF scheme nil get] by simp
qed

section \<open>InstallVeleroCRDs\<close>

text \<open>
  InstallVeleroCRDs handles the definitions of the library one by one, in order, each
  with one lookup by its name and at most one write, and stops at the first definition that
  does not convert or whose lookup or write fails, with that error; it never panics.
\<close>

theorem InstallVeleroCRDs_order:
  "wp (InstallVeleroCRDs E)
     (\<lambda>r es w'. \<exists>res. r = Returned res \<and> crds_run (e_lib E) (lib_AllCRDs (e_lib E)) res es) w"
  unfolding InstallVeleroCRDs_def by (rule install_crds_run)






end
