(* ===== verification/Deep_Copy.thy ===== *)
theory Deep_Copy
  imports Kube_Types
begin

text \<open>
  api/v1alpha2/zz\_generated.deepcopy.go: the copies that the caches of the client make of
  the operator's resources. Here the structs are as they are in memory, with pointers: a
  memory has one map per type of variable and the next free address. The copiers of the
  embedded library types are parameters, which keep the contract deep\_copier; the lemmas show
  that the generated ones keep it too.
\<close>

section \<open>Structs in memory\<close>

text \<open>
  VeleroInstallSpec has no fields. The metadata of an object and of a list are values of
  the library, which may point to variables of the library. A slice is nil or points to an
  array of its own.
\<close>

type_synonym address = nat
type_synonym VeleroInstallSpec = unit

record bucket_rep =
  br_Name :: string
  br_Provisioned :: bool
  br_LastSyncTimestamp :: "address option"

record status_rep =
  sr_StorageBucket :: bucket_rep

record 'm install_rep =
  ir_TypeMeta :: TypeMeta
  ir_ObjectMeta :: 'm
  ir_Spec :: VeleroInstallSpec
  ir_Status :: status_rep

record 'l list_rep =
  lr_TypeMeta :: TypeMeta
  lr_ListMeta :: 'l
  lr_Items :: "address option"

record ('m, 'l, 'x) memory =
  lim :: address
  mem_Bucket :: "address \<Rightarrow> bucket_rep"
  mem_Status :: "address \<Rightarrow> status_rep"
  mem_Spec :: "address \<Rightarrow> VeleroInstallSpec"
  mem_Install :: "address \<Rightarrow> 'm install_rep"
  mem_List :: "address \<Rightarrow> 'l list_rep"
  mem_Items :: "address \<Rightarrow> 'm install_rep list"
  mem_Library :: "address \<Rightarrow> 'x"

definition put_Bucket :: "address \<Rightarrow> bucket_rep \<Rightarrow> ('m, 'l, 'x) memory \<Rightarrow> ('m, 'l, 'x) memory" where
  "put_Bucket a x m = m\<lparr>mem_Bucket := (mem_Bucket m)(a := x)\<rparr>"
definition put_Status :: "address \<Rightarrow> status_rep \<Rightarrow> ('m, 'l, 'x) memory \<Rightarrow> ('m, 'l, 'x) memory" where
  "put_Status a x m = m\<lparr>mem_Status := (mem_Status m)(a := x)\<rparr>"
definition put_Spec :: "address \<Rightarrow> VeleroInstallSpec \<Rightarrow> ('m, 'l, 'x) memory \<Rightarrow> ('m, 'l, 'x) memory" where
  "put_Spec a x m = m\<lparr>mem_Spec := (mem_Spec m)(a := x)\<rparr>"
definition put_Install :: "address \<Rightarrow> 'm install_rep \<Rightarrow> ('m, 'l, 'x) memory \<Rightarrow> ('m, 'l, 'x) memory" where
  "put_Install a x m = m\<lparr>mem_Install := (mem_Install m)(a := x)\<rparr>"
definition put_List :: "address \<Rightarrow> 'l list_rep \<Rightarrow> ('m, 'l, 'x) memory \<Rightarrow> ('m, 'l, 'x) memory" where
  "put_List a x m = m\<lparr>mem_List := (mem_List m)(a := x)\<rparr>"
definition put_Items :: "address \<Rightarrow> 'm install_rep list \<Rightarrow> ('m, 'l, 'x) memory \<Rightarrow> ('m, 'l, 'x) memory" where
  "put_Items a x m = m\<lparr>mem_Items := (mem_Items m)(a := x)\<rparr>"
definition put_Library :: "address \<Rightarrow> 'x \<Rightarrow> ('m, 'l, 'x) memory \<Rightarrow> ('m, 'l, 'x) memory" where
  "put_Library a x m = m\<lparr>mem_Library := (mem_Library m)(a := x)\<rparr>"

lemmas put_defs = put_Bucket_def put_Status_def put_Spec_def put_Install_def put_List_def put_Items_def
  put_Library_def

text \<open>Two memories with the same variables at the addresses \<open>A\<close>, and one that only grew.\<close>

definition agree :: "address set \<Rightarrow> ('m, 'l, 'x) memory \<Rightarrow> ('m, 'l, 'x) memory \<Rightarrow> bool" where
  "agree A m m' = (\<forall>a\<in>A. mem_Bucket m' a = mem_Bucket m a \<and> mem_Status m' a = mem_Status m a \<and>
     mem_Spec m' a = mem_Spec m a \<and> mem_Install m' a = mem_Install m a \<and> mem_List m' a = mem_List m a \<and>
     mem_Items m' a = mem_Items m a \<and> mem_Library m' a = mem_Library m a)"

definition grows :: "('m, 'l, 'x) memory \<Rightarrow> ('m, 'l, 'x) memory \<Rightarrow> bool" where
  "grows m m' = (lim m \<le> lim m' \<and> agree {..<lim m} m m')"

lemma agree_refl [simp]: "agree A m m"
  by (simp add: agree_def)

lemma agree_mono: "agree A m m' \<Longrightarrow> B \<subseteq> A \<Longrightarrow> agree B m m'"
  by (auto simp: agree_def)

lemma agree_trans: "agree A m1 m2 \<Longrightarrow> agree A m2 m3 \<Longrightarrow> agree A m1 m3"
  by (simp add: agree_def)

lemma agree_lim [simp]:
  "agree A (m\<lparr>lim := n\<rparr>) m' = agree A m m'" "agree A m (m'\<lparr>lim := n\<rparr>) = agree A m m'"
  by (simp_all add: agree_def)

lemma grows_refl [simp]: "grows m m"
  by (simp add: grows_def)

lemma grows_trans: "grows m1 m2 \<Longrightarrow> grows m2 m3 \<Longrightarrow> grows m1 m3"
  unfolding grows_def by (meson agree_mono agree_trans lessThan_subset_iff order_trans)

lemma grows_agree: "grows m m' \<Longrightarrow> A \<subseteq> {..<lim m} \<Longrightarrow> agree A m m'"
  by (auto simp: grows_def intro: agree_mono)

lemma grows_lim: "grows m m' \<Longrightarrow> A \<subseteq> {..<lim m} \<Longrightarrow> A \<subseteq> {..<lim m'}"
  by (force simp: grows_def)

section \<open>The copiers\<close>

text \<open>
  A deep copy of a value: the value to store in the copy, and the memory with what the copy
  points to. Writing to *out is storing that value. The copiers of metav1 are parameters.
\<close>

record ('m, 'l, 'x) copiers =
  co_Time :: "address option \<Rightarrow> ('m, 'l, 'x) memory \<Rightarrow> address option \<times> ('m, 'l, 'x) memory"
  co_ObjectMeta :: "'m \<Rightarrow> ('m, 'l, 'x) memory \<Rightarrow> 'm \<times> ('m, 'l, 'x) memory"
  co_ListMeta :: "'l \<Rightarrow> ('m, 'l, 'x) memory \<Rightarrow> 'l \<times> ('m, 'l, 'x) memory"

type_synonym ('m, 'l, 'x, 'a) copier = "'a \<Rightarrow> ('m, 'l, 'x) memory \<Rightarrow> 'a \<times> ('m, 'l, 'x) memory"

text \<open>
  DeepCopy: nil for nil, otherwise a new variable that the value is copied into. The zero
  value of the new variable is overwritten before it is read.
\<close>

definition copy_pointer ::
    "(('m, 'l, 'x) memory \<Rightarrow> address \<Rightarrow> 'a) \<Rightarrow> (address \<Rightarrow> 'a \<Rightarrow> ('m, 'l, 'x) memory \<Rightarrow> ('m, 'l, 'x) memory) \<Rightarrow>
       ('m, 'l, 'x, 'a) copier \<Rightarrow> ('m, 'l, 'x, address option) copier" where
  "copy_pointer get put into p m =
     (case p of
        None \<Rightarrow> (None, m)
      | Some a \<Rightarrow>
          (let out = lim m in
           case into (get m a) (m\<lparr>lim := Suc out\<rparr>) of (y, m') \<Rightarrow> (Some out, put out y m')))"

definition StorageBucket_DeepCopyInto :: "('m, 'l, 'x) copiers \<Rightarrow> ('m, 'l, 'x, bucket_rep) copier" where
  "StorageBucket_DeepCopyInto C x m =
     (if br_LastSyncTimestamp x \<noteq> None then
        (case co_Time C (br_LastSyncTimestamp x) m of (t, m') \<Rightarrow> (x\<lparr>br_LastSyncTimestamp := t\<rparr>, m'))
      else (x, m))"

definition StorageBucket_DeepCopy :: "('m, 'l, 'x) copiers \<Rightarrow> ('m, 'l, 'x, address option) copier" where
  "StorageBucket_DeepCopy C = copy_pointer mem_Bucket put_Bucket (StorageBucket_DeepCopyInto C)"

definition VeleroInstallStatus_DeepCopyInto :: "('m, 'l, 'x) copiers \<Rightarrow> ('m, 'l, 'x, status_rep) copier" where
  "VeleroInstallStatus_DeepCopyInto C x m =
     (case StorageBucket_DeepCopyInto C (sr_StorageBucket x) m of
        (b, m') \<Rightarrow> (x\<lparr>sr_StorageBucket := b\<rparr>, m'))"

definition VeleroInstallStatus_DeepCopy :: "('m, 'l, 'x) copiers \<Rightarrow> ('m, 'l, 'x, address option) copier" where
  "VeleroInstallStatus_DeepCopy C = copy_pointer mem_Status put_Status (VeleroInstallStatus_DeepCopyInto C)"

definition VeleroInstallSpec_DeepCopyInto :: "('m, 'l, 'x, VeleroInstallSpec) copier" where
  "VeleroInstallSpec_DeepCopyInto x m = (x, m)"

definition VeleroInstallSpec_DeepCopy :: "('m, 'l, 'x, address option) copier" where
  "VeleroInstallSpec_DeepCopy = copy_pointer mem_Spec put_Spec VeleroInstallSpec_DeepCopyInto"

definition VeleroInstall_DeepCopyInto :: "('m, 'l, 'x) copiers \<Rightarrow> ('m, 'l, 'x, 'm install_rep) copier" where
  "VeleroInstall_DeepCopyInto C x m =
     (case co_ObjectMeta C (ir_ObjectMeta x) m of (om, m) \<Rightarrow>
      (case VeleroInstallStatus_DeepCopyInto C (ir_Status x) m of (s, m) \<Rightarrow>
         (x\<lparr>ir_ObjectMeta := om, ir_Status := s\<rparr>, m)))"

definition VeleroInstall_DeepCopy :: "('m, 'l, 'x) copiers \<Rightarrow> ('m, 'l, 'x, address option) copier" where
  "VeleroInstall_DeepCopy C = copy_pointer mem_Install put_Install (VeleroInstall_DeepCopyInto C)"

text \<open>The loop over the items, each of which is copied into its element of the new array.\<close>

fun copy_items :: "('m, 'l, 'x, 'a) copier \<Rightarrow> ('m, 'l, 'x, 'a list) copier" where
  "copy_items into [] m = ([], m)"
| "copy_items into (x # xs) m =
     (case into x m of (y, m) \<Rightarrow> (case copy_items into xs m of (ys, m) \<Rightarrow> (y # ys, m)))"

definition VeleroInstallList_DeepCopyInto :: "('m, 'l, 'x) copiers \<Rightarrow> ('m, 'l, 'x, 'l list_rep) copier" where
  "VeleroInstallList_DeepCopyInto C x m =
     (case co_ListMeta C (lr_ListMeta x) m of (lm, m) \<Rightarrow>
      (case copy_pointer mem_Items put_Items (copy_items (VeleroInstall_DeepCopyInto C)) (lr_Items x) m of
         (items, m) \<Rightarrow> (x\<lparr>lr_ListMeta := lm, lr_Items := items\<rparr>, m)))"

definition VeleroInstallList_DeepCopy :: "('m, 'l, 'x) copiers \<Rightarrow> ('m, 'l, 'x, address option) copier" where
  "VeleroInstallList_DeepCopy C = copy_pointer mem_List put_List (VeleroInstallList_DeepCopyInto C)"

text \<open>A value of the interface runtime.Object: nil, or a pointer with its type.\<close>

datatype runtime_object = InstallObject address | ListObject address

definition VeleroInstall_DeepCopyObject ::
    "('m, 'l, 'x) copiers \<Rightarrow> address option \<Rightarrow> ('m, 'l, 'x) memory \<Rightarrow> runtime_object option \<times> ('m, 'l, 'x) memory" where
  "VeleroInstall_DeepCopyObject C p m =
     (case VeleroInstall_DeepCopy C p m of
        (Some c, m') \<Rightarrow> (Some (InstallObject c), m')
      | (None, m') \<Rightarrow> (None, m'))"

definition VeleroInstallList_DeepCopyObject ::
    "('m, 'l, 'x) copiers \<Rightarrow> address option \<Rightarrow> ('m, 'l, 'x) memory \<Rightarrow> runtime_object option \<times> ('m, 'l, 'x) memory" where
  "VeleroInstallList_DeepCopyObject C p m =
     (case VeleroInstallList_DeepCopy C p m of
        (Some c, m') \<Rightarrow> (Some (ListObject c), m')
      | (None, m') \<Rightarrow> (None, m'))"

section \<open>The contract of a deep copy\<close>

text \<open>
  A copier of values whose memory is \<open>refs\<close> and whose meaning is \<open>val\<close>: it changes nothing
  that is there, the copy has the same meaning and only new memory, and meaning and memory
  of a value depend on nothing but its memory.
\<close>

locale deep_copier =
  fixes copy :: "('m, 'l, 'x, 'a) copier"
    and refs :: "'a \<Rightarrow> ('m, 'l, 'x) memory \<Rightarrow> address set"
    and val :: "'a \<Rightarrow> ('m, 'l, 'x) memory \<Rightarrow> 'v"
  assumes copy_grows: "copy x m = (y, m') \<Longrightarrow> grows m m'"
    and copy_fresh: "copy x m = (y, m') \<Longrightarrow> refs x m \<subseteq> {..<lim m} \<Longrightarrow> refs y m' \<subseteq> {lim m..<lim m'}"
    and copy_same: "copy x m = (y, m') \<Longrightarrow> refs x m \<subseteq> {..<lim m} \<Longrightarrow> val y m' = val x m"
    and val_local: "agree (refs x m) m m' \<Longrightarrow> val x m' = val x m"
    and refs_local: "agree (refs x m) m m' \<Longrightarrow> refs x m' = refs x m"
begin

lemma original_kept:
  assumes "copy x m = (y, m')" and "refs x m \<subseteq> {..<lim m}"
  shows "val x m' = val x m" "refs x m' = refs x m"
  using val_local refs_local grows_agree [OF copy_grows [OF assms(1)] assms(2)] by blast+

lemma copy_separate:
  assumes "copy x m = (y, m')" and "refs x m \<subseteq> {..<lim m}"
  shows "refs x m' \<inter> refs y m' = {}"
  using copy_fresh [OF assms] original_kept(2) [OF assms] assms(2) by force

text \<open>Whatever is done to the memory outside the copy cannot be seen through the copy.\<close>

lemma copy_stays:
  assumes "copy x m = (y, m')" and "refs x m \<subseteq> {..<lim m}" and "agree (refs y m') m' m''"
  shows "val y m'' = val x m"
  using val_local [OF assms(3)] copy_same [OF assms(1,2)] by simp

end

section \<open>Copiers built from copiers\<close>

text \<open>A field, two fields in a row, and a list.\<close>

definition field_copy ::
    "('s \<Rightarrow> 'a) \<Rightarrow> ('a \<Rightarrow> 's \<Rightarrow> 's) \<Rightarrow> ('m, 'l, 'x, 'a) copier \<Rightarrow> ('m, 'l, 'x, 's) copier" where
  "field_copy get put c s m = (case c (get s) m of (x, m) \<Rightarrow> (put x s, m))"

definition pair_copy ::
    "('m, 'l, 'x, 'a) copier \<Rightarrow> ('m, 'l, 'x, 'b) copier \<Rightarrow> ('m, 'l, 'x, 'a \<times> 'b) copier" where
  "pair_copy c d p m =
     (case c (fst p) m of (x, m) \<Rightarrow> (case d (snd p) m of (y, m) \<Rightarrow> ((x, y), m)))"

lemma field_deep:
  assumes "deep_copier c r v" and "\<And>x s. get (put x s) = x" and "\<And>x s y. F (put x s) y = F s y"
  shows "deep_copier (field_copy get put c) (\<lambda>s. r (get s)) (\<lambda>s m. F s (v (get s) m))"
  using assms(1)
  unfolding deep_copier_def field_copy_def
  by (auto simp: assms(2,3) split: prod.splits)

text \<open>What a first copy leaves for a second one, and what the second leaves of the first.\<close>

lemma copy_then_copy:
  assumes "deep_copier c r v" and "deep_copier d q u"
    and "c x m = (x', m1)" and "d y m1 = (y', m2)"
    and "r x m \<subseteq> {..<lim m}" and "q y m \<subseteq> {..<lim m}"
  shows "r x' m2 \<subseteq> {lim m..<lim m2}" "q y' m2 \<subseteq> {lim m..<lim m2}"
    "v x' m2 = v x m" "u y' m2 = u y m"
proof -
  note grow1 = deep_copier.copy_grows [OF assms(1,3)] and grow2 = deep_copier.copy_grows [OF assms(2,4)]
  have x': "r x' m1 \<subseteq> {lim m..<lim m1}" "v x' m1 = v x m"
    using deep_copier.copy_fresh [OF assms(1,3,5)] deep_copier.copy_same [OF assms(1,3,5)] .
  then have "agree (r x' m1) m1 m2"
    by (intro grows_agree [OF grow2]) auto
  then show "r x' m2 \<subseteq> {lim m..<lim m2}" "v x' m2 = v x m"
    using x' deep_copier.refs_local [OF assms(1)] deep_copier.val_local [OF assms(1)] grow2
    by (fastforce simp: grows_def)+
  have "agree (q y m) m m1" by (rule grows_agree [OF grow1 assms(6)])
  then have y: "q y m1 = q y m" "u y m1 = u y m"
    using deep_copier.refs_local [OF assms(2)] deep_copier.val_local [OF assms(2)] by blast+
  then have "q y m1 \<subseteq> {..<lim m1}" using grows_lim [OF grow1 assms(6)] by simp
  then show "q y' m2 \<subseteq> {lim m..<lim m2}" "u y' m2 = u y m"
    using deep_copier.copy_fresh [OF assms(2,4)] deep_copier.copy_same [OF assms(2,4)] y grow1
    by (fastforce simp: grows_def)+
qed

lemma pair_deep:
  assumes "deep_copier c r v" and "deep_copier d q u"
  shows "deep_copier (pair_copy c d) (\<lambda>p m. r (fst p) m \<union> q (snd p) m)
    (\<lambda>p m. (v (fst p) m, u (snd p) m))"
proof (unfold_locales, goal_cases)
  case (1 p m p' m')
  then show ?case
    using deep_copier.copy_grows [OF assms(1)] deep_copier.copy_grows [OF assms(2)]
    by (auto simp: pair_copy_def split: prod.splits) (meson grows_trans)
next
  case (2 p m p' m')
  then show ?case
    using copy_then_copy(1,2) [OF assms] by (fastforce simp: pair_copy_def split: prod.splits)
next
  case (3 p m p' m')
  then show ?case
    using copy_then_copy(3,4) [OF assms] by (auto simp: pair_copy_def split: prod.splits)
next
  case (4 p m m')
  then show ?case
    using agree_mono [OF 4 Un_upper1] agree_mono [OF 4 Un_upper2]
      deep_copier.val_local [OF assms(1)] deep_copier.val_local [OF assms(2)] by blast
next
  case (5 p m m')
  then show ?case
    using agree_mono [OF 5 Un_upper1] agree_mono [OF 5 Un_upper2]
      deep_copier.refs_local [OF assms(1)] deep_copier.refs_local [OF assms(2)] by blast
qed

definition items_refs ::
    "('a \<Rightarrow> ('m, 'l, 'x) memory \<Rightarrow> address set) \<Rightarrow> 'a list \<Rightarrow> ('m, 'l, 'x) memory \<Rightarrow> address set" where
  "items_refs r xs m = (\<Union>x\<in>set xs. r x m)"

lemma copy_items_grows:
  assumes "deep_copier c r v"
  shows "copy_items c xs m = (ys, m') \<Longrightarrow> grows m m'"
proof (induction xs arbitrary: m ys)
  case (Cons x xs)
  then show ?case
    using deep_copier.copy_grows [OF assms] by (auto split: prod.splits) (meson grows_trans)
qed simp

lemma copy_items_fresh:
  assumes "deep_copier c r v"
  shows "copy_items c xs m = (ys, m') \<Longrightarrow> items_refs r xs m \<subseteq> {..<lim m} \<Longrightarrow>
      items_refs r ys m' \<subseteq> {lim m..<lim m'} \<and> map (\<lambda>y. v y m') ys = map (\<lambda>x. v x m) xs"
proof (induction xs arbitrary: m ys)
  case (Cons x xs)
  obtain y m1 zs where step: "c x m = (y, m1)" "copy_items c xs m1 = (zs, m')" "ys = y # zs"
    using Cons.prems(1) by (auto split: prod.splits)
  note grow1 = deep_copier.copy_grows [OF assms step(1)]
    and grow2 = copy_items_grows [OF assms step(2)]
  have kept: "r z m1 = r z m \<and> v z m1 = v z m" if "z \<in> set xs" for z
  proof -
    have "r z m \<subseteq> {..<lim m}" using that Cons.prems(2) by (auto simp: items_refs_def)
    then have "agree (r z m) m m1" by (rule grows_agree [OF grow1])
    then show ?thesis
      using deep_copier.refs_local [OF assms] deep_copier.val_local [OF assms] by blast
  qed
  have rest: "items_refs r xs m1 = items_refs r xs m" "map (\<lambda>x. v x m1) xs = map (\<lambda>x. v x m) xs"
    using kept by (auto simp: items_refs_def)
  have "items_refs r xs m \<subseteq> {..<lim m}" using Cons.prems(2) by (auto simp: items_refs_def)
  then have "items_refs r xs m1 \<subseteq> {..<lim m1}" using grows_lim [OF grow1] rest(1) by metis
  note tail = Cons.IH [OF step(2) this]
  have x: "r x m \<subseteq> {..<lim m}" using Cons.prems(2) by (auto simp: items_refs_def)
  have y: "r y m1 \<subseteq> {lim m..<lim m1}" "v y m1 = v x m"
    using deep_copier.copy_fresh [OF assms step(1) x] deep_copier.copy_same [OF assms step(1) x] .
  have "agree (r y m1) m1 m'" using y(1) by (intro grows_agree [OF grow2]) auto
  then have "r y m' = r y m1" "v y m' = v y m1"
    using deep_copier.refs_local [OF assms] deep_copier.val_local [OF assms] by blast+
  then show ?case
    using tail y rest grow1 grow2 step(3) by (fastforce simp: items_refs_def grows_def)
qed (auto simp: items_refs_def)

lemma items_local:
  assumes "deep_copier c r v" and "agree (items_refs r xs m) m m'"
  shows "map (\<lambda>x. v x m') xs = map (\<lambda>x. v x m) xs" "items_refs r xs m' = items_refs r xs m"
proof -
  have "agree (r x m) m m'" if "x \<in> set xs" for x
    using that by (intro agree_mono [OF assms(2)]) (auto simp: items_refs_def)
  then have "v x m' = v x m \<and> r x m' = r x m" if "x \<in> set xs" for x
    using that deep_copier.val_local [OF assms(1)] deep_copier.refs_local [OF assms(1)] by blast
  then show "map (\<lambda>x. v x m') xs = map (\<lambda>x. v x m) xs" "items_refs r xs m' = items_refs r xs m"
    by (auto simp: items_refs_def)
qed

lemma items_deep:
  assumes "deep_copier c r v"
  shows "deep_copier (copy_items c) (items_refs r) (\<lambda>xs m. map (\<lambda>x. v x m) xs)"
proof (unfold_locales, goal_cases)
  case (1 xs m ys m')
  then show ?case by (rule copy_items_grows [OF assms])
next
  case (2 xs m ys m')
  then show ?case using copy_items_fresh [OF assms] by blast
next
  case (3 xs m ys m')
  then show ?case using copy_items_fresh [OF assms] by blast
next
  case (4 xs m m')
  then show ?case by (rule items_local [OF assms])
next
  case (5 xs m m')
  then show ?case by (rule items_local [OF assms])
qed

section \<open>Variables of a type\<close>

definition pointer_refs ::
    "(('m, 'l, 'x) memory \<Rightarrow> address \<Rightarrow> 'a) \<Rightarrow> ('a \<Rightarrow> ('m, 'l, 'x) memory \<Rightarrow> address set) \<Rightarrow>
       address option \<Rightarrow> ('m, 'l, 'x) memory \<Rightarrow> address set" where
  "pointer_refs get r p m = (case p of None \<Rightarrow> {} | Some a \<Rightarrow> insert a (r (get m a) m))"

definition pointer_val ::
    "(('m, 'l, 'x) memory \<Rightarrow> address \<Rightarrow> 'a) \<Rightarrow> ('a \<Rightarrow> ('m, 'l, 'x) memory \<Rightarrow> 'v) \<Rightarrow>
       address option \<Rightarrow> ('m, 'l, 'x) memory \<Rightarrow> 'v option" where
  "pointer_val get v p m = (case p of None \<Rightarrow> None | Some a \<Rightarrow> Some (v (get m a) m))"

text \<open>
  An independent copy at \<open>b\<close> of the variable at \<open>a\<close>: the same value, the original as it was,
  no address that both can reach, and a value that nothing outside its memory can change.
\<close>

definition independent_copy ::
    "(('m, 'l, 'x) memory \<Rightarrow> address \<Rightarrow> 'a) \<Rightarrow> ('a \<Rightarrow> ('m, 'l, 'x) memory \<Rightarrow> address set) \<Rightarrow>
       ('a \<Rightarrow> ('m, 'l, 'x) memory \<Rightarrow> 'v) \<Rightarrow> address \<Rightarrow> ('m, 'l, 'x) memory \<Rightarrow>
       address \<Rightarrow> ('m, 'l, 'x) memory \<Rightarrow> bool" where
  "independent_copy get r v a m b m' =
     (v (get m' b) m' = v (get m a) m \<and>
      get m' a = get m a \<and> v (get m' a) m' = v (get m a) m \<and>
      pointer_refs get r (Some a) m' \<inter> pointer_refs get r (Some b) m' = {} \<and>
      (\<forall>m''. agree (pointer_refs get r (Some b) m') m' m'' \<longrightarrow> v (get m'' b) m'' = v (get m a) m))"

text \<open>A type of variables: reading what was written, and writing nothing else.\<close>

locale variables =
  fixes get :: "('m, 'l, 'x) memory \<Rightarrow> address \<Rightarrow> 'a"
    and put :: "address \<Rightarrow> 'a \<Rightarrow> ('m, 'l, 'x) memory \<Rightarrow> ('m, 'l, 'x) memory"
  assumes get_put: "get (put a x m) a = x"
    and lim_put: "lim (put a x m) = lim m"
    and agree_put: "a \<notin> A \<Longrightarrow> agree A m (put a x m)"
    and agree_get: "agree A m m' \<Longrightarrow> a \<in> A \<Longrightarrow> get m' a = get m a"
begin

lemma new_copy:
  assumes "deep_copier c r v" and "c (get m a) (m\<lparr>lim := Suc (lim m)\<rparr>) = (y, m1)"
  shows "grows m (put (lim m) y m1)"
    and "insert a (r (get m a) m) \<subseteq> {..<lim m} \<Longrightarrow>
      insert (lim m) (r y (put (lim m) y m1)) \<subseteq> {lim m..<lim m1} \<and>
      v y (put (lim m) y m1) = v (get m a) m"
proof -
  have grow: "grows (m\<lparr>lim := Suc (lim m)\<rparr>) m1"
    by (rule deep_copier.copy_grows [OF assms])
  then have "agree {..<lim m} m m1"
    by (auto simp: grows_def intro: agree_mono)
  moreover have "agree {..<lim m} m1 (put (lim m) y m1)" by (rule agree_put) simp
  ultimately show "grows m (put (lim m) y m1)"
    using grow by (auto simp: grows_def lim_put intro: agree_trans)
  assume "insert a (r (get m a) m) \<subseteq> {..<lim m}"
  moreover have "r (get m a) (m\<lparr>lim := Suc (lim m)\<rparr>) = r (get m a) m"
    "v (get m a) (m\<lparr>lim := Suc (lim m)\<rparr>) = v (get m a) m"
    using deep_copier.refs_local [OF assms(1)] deep_copier.val_local [OF assms(1)] by simp_all
  ultimately have x: "r (get m a) (m\<lparr>lim := Suc (lim m)\<rparr>) \<subseteq> {..<lim (m\<lparr>lim := Suc (lim m)\<rparr>)}"
    and v: "v (get m a) (m\<lparr>lim := Suc (lim m)\<rparr>) = v (get m a) m"
    by auto
  have y: "r y m1 \<subseteq> {Suc (lim m)..<lim m1}"
    using deep_copier.copy_fresh [OF assms x] by simp
  then have "agree (r y m1) m1 (put (lim m) y m1)" by (intro agree_put) auto
  then have "r y (put (lim m) y m1) = r y m1" "v y (put (lim m) y m1) = v y m1"
    using deep_copier.refs_local [OF assms(1)] deep_copier.val_local [OF assms(1)] by blast+
  then show "insert (lim m) (r y (put (lim m) y m1)) \<subseteq> {lim m..<lim m1} \<and>
      v y (put (lim m) y m1) = v (get m a) m"
    using deep_copier.copy_same [OF assms x] v y grow by (auto simp: grows_def)
qed

lemma pointer_deep:
  assumes "deep_copier c r v"
  shows "deep_copier (copy_pointer get put c) (pointer_refs get r) (pointer_val get v)"
proof (unfold_locales, goal_cases)
  case (1 p m q m')
  then show ?case
    using new_copy(1) [OF assms]
    by (auto simp: copy_pointer_def Let_def split: option.splits prod.splits)
next
  case (2 p m q m')
  then show ?case
    using new_copy(2) [OF assms]
    by (fastforce simp: copy_pointer_def pointer_refs_def Let_def get_put lim_put
        split: option.splits prod.splits)
next
  case (3 p m q m')
  then show ?case
    using new_copy(2) [OF assms]
    by (auto simp: copy_pointer_def pointer_refs_def pointer_val_def Let_def get_put
        split: option.splits prod.splits)
next
  case (4 p m m')
  show ?case
  proof (cases p)
    case (Some a)
    with 4 have "get m' a = get m a" "agree (r (get m a) m) m m'"
      by (auto simp: pointer_refs_def intro: agree_get agree_mono)
    then show ?thesis
      using deep_copier.val_local [OF assms] by (simp add: pointer_val_def Some)
  qed (simp add: pointer_val_def)
next
  case (5 p m m')
  show ?case
  proof (cases p)
    case (Some a)
    with 5 have "get m' a = get m a" "agree (r (get m a) m) m m'"
      by (auto simp: pointer_refs_def intro: agree_get agree_mono)
    then show ?thesis
      using deep_copier.refs_local [OF assms] by (simp add: pointer_refs_def Some)
  qed (simp add: pointer_refs_def)
qed

lemma copy_independent:
  assumes "deep_copier c r v" and "copy_pointer get put c (Some a) m = (q, m')"
    and "pointer_refs get r (Some a) m \<subseteq> {..<lim m}"
  shows "\<exists>b. q = Some b \<and> independent_copy get r v a m b m'"
proof -
  note deep = pointer_deep [OF assms(1)]
  obtain b where q: "q = Some b"
    using assms(2) by (auto simp: copy_pointer_def Let_def split: prod.splits)
  note copy = assms(2) [unfolded q]
  have "agree (pointer_refs get r (Some a) m) m m'"
    by (rule grows_agree [OF deep_copier.copy_grows [OF deep copy] assms(3)])
  then have "get m' a = get m a"
    by (rule agree_get) (simp add: pointer_refs_def)
  then show ?thesis
    using q deep_copier.copy_same [OF deep copy assms(3)] deep_copier.original_kept(1) [OF deep copy assms(3)]
      deep_copier.copy_separate [OF deep copy assms(3)] deep_copier.copy_stays [OF deep copy assms(3)]
    by (simp add: independent_copy_def pointer_val_def)
qed

end

interpretation bucket_variables: variables mem_Bucket put_Bucket
  by unfold_locales (auto simp: put_defs agree_def)
interpretation status_variables: variables mem_Status put_Status
  by unfold_locales (auto simp: put_defs agree_def)
interpretation spec_variables: variables mem_Spec put_Spec
  by unfold_locales (auto simp: put_defs agree_def)
interpretation install_variables: variables mem_Install put_Install
  by unfold_locales (auto simp: put_defs agree_def)
interpretation list_variables: variables mem_List put_List
  by unfold_locales (auto simp: put_defs agree_def)
interpretation items_variables: variables mem_Items put_Items
  by unfold_locales (auto simp: put_defs agree_def)
interpretation library_variables: variables mem_Library put_Library
  by unfold_locales (auto simp: put_defs agree_def)

section \<open>The copiers of the library\<close>

text \<open>
  The memory and the meaning of the library's values, and the documented behaviour of its
  copiers: they are deep copiers for these.
\<close>

record ('m, 'l, 'x) views =
  vw_TimeRefs :: "address \<Rightarrow> ('m, 'l, 'x) memory \<Rightarrow> address set"
  vw_Time :: "address \<Rightarrow> ('m, 'l, 'x) memory \<Rightarrow> go_time"
  vw_MetaRefs :: "'m \<Rightarrow> ('m, 'l, 'x) memory \<Rightarrow> address set"
  vw_Meta :: "'m \<Rightarrow> ('m, 'l, 'x) memory \<Rightarrow> ObjectMeta"
  vw_ListMetaRefs :: "'l \<Rightarrow> ('m, 'l, 'x) memory \<Rightarrow> address set"
  vw_ListMeta :: "'l \<Rightarrow> ('m, 'l, 'x) memory \<Rightarrow> string"

definition time_refs :: "('m, 'l, 'x) views \<Rightarrow> address option \<Rightarrow> ('m, 'l, 'x) memory \<Rightarrow> address set" where
  "time_refs V p m = (case p of None \<Rightarrow> {} | Some a \<Rightarrow> vw_TimeRefs V a m)"

definition time_value :: "('m, 'l, 'x) views \<Rightarrow> address option \<Rightarrow> ('m, 'l, 'x) memory \<Rightarrow> go_time option" where
  "time_value V p m = (case p of None \<Rightarrow> None | Some a \<Rightarrow> Some (vw_Time V a m))"

definition library_copiers :: "('m, 'l, 'x) copiers \<Rightarrow> ('m, 'l, 'x) views \<Rightarrow> bool" where
  "library_copiers C V =
     (deep_copier (co_Time C) (time_refs V) (time_value V) \<and>
      deep_copier (co_ObjectMeta C) (vw_MetaRefs V) (vw_Meta V) \<and>
      deep_copier (co_ListMeta C) (vw_ListMetaRefs V) (vw_ListMeta V))"

section \<open>The generated copiers\<close>

text \<open>The memory of a struct, and the value of the other theories that it stands for.\<close>

definition bucket_refs :: "('m, 'l, 'x) views \<Rightarrow> bucket_rep \<Rightarrow> ('m, 'l, 'x) memory \<Rightarrow> address set" where
  "bucket_refs V x = time_refs V (br_LastSyncTimestamp x)"

definition bucket_value :: "('m, 'l, 'x) views \<Rightarrow> bucket_rep \<Rightarrow> ('m, 'l, 'x) memory \<Rightarrow> StorageBucket" where
  "bucket_value V x m = \<lparr>sb_Name = br_Name x, sb_Provisioned = br_Provisioned x,
     sb_LastSyncTimestamp = time_value V (br_LastSyncTimestamp x) m\<rparr>"

definition status_refs :: "('m, 'l, 'x) views \<Rightarrow> status_rep \<Rightarrow> ('m, 'l, 'x) memory \<Rightarrow> address set" where
  "status_refs V x = bucket_refs V (sr_StorageBucket x)"

definition status_value :: "('m, 'l, 'x) views \<Rightarrow> status_rep \<Rightarrow> ('m, 'l, 'x) memory \<Rightarrow> VeleroInstallStatus" where
  "status_value V x m = \<lparr>vs_StorageBucket = bucket_value V (sr_StorageBucket x) m\<rparr>"

definition install_refs :: "('m, 'l, 'x) views \<Rightarrow> 'm install_rep \<Rightarrow> ('m, 'l, 'x) memory \<Rightarrow> address set" where
  "install_refs V x m = vw_MetaRefs V (ir_ObjectMeta x) m \<union> status_refs V (ir_Status x) m"

definition install_value :: "('m, 'l, 'x) views \<Rightarrow> 'm install_rep \<Rightarrow> ('m, 'l, 'x) memory \<Rightarrow> VeleroInstall" where
  "install_value V x m = \<lparr>vi_TypeMeta = ir_TypeMeta x, vi_ObjectMeta = vw_Meta V (ir_ObjectMeta x) m,
     vi_Status = status_value V (ir_Status x) m\<rparr>"

text \<open>The items of a list: a nil slice stands for no items, as an empty one does.\<close>

definition slice_value :: "('m, 'l, 'x) views \<Rightarrow> address option \<Rightarrow> ('m, 'l, 'x) memory \<Rightarrow> VeleroInstall list option" where
  "slice_value V = pointer_val mem_Items (\<lambda>xs m. map (\<lambda>x. install_value V x m) xs)"

definition list_refs :: "('m, 'l, 'x) views \<Rightarrow> 'l list_rep \<Rightarrow> ('m, 'l, 'x) memory \<Rightarrow> address set" where
  "list_refs V x m = vw_ListMetaRefs V (lr_ListMeta x) m \<union>
     pointer_refs mem_Items (items_refs (install_refs V)) (lr_Items x) m"

definition list_value :: "('m, 'l, 'x) views \<Rightarrow> 'l list_rep \<Rightarrow> ('m, 'l, 'x) memory \<Rightarrow> VeleroInstallList" where
  "list_value V x m = \<lparr>vl_TypeMeta = lr_TypeMeta x, vl_ListMeta = vw_ListMeta V (lr_ListMeta x) m,
     vl_Items = (case slice_value V (lr_Items x) m of None \<Rightarrow> [] | Some xs \<Rightarrow> xs)\<rparr>"

lemma bucket_deep:
  assumes "library_copiers C V"
  shows "deep_copier (StorageBucket_DeepCopyInto C) (bucket_refs V) (bucket_value V)"
proof -
  have time: "deep_copier (co_Time C) (time_refs V) (time_value V)"
    using assms by (simp add: library_copiers_def)
  show ?thesis
  proof (unfold_locales, goal_cases)
    case (1 x m y m')
    then show ?case using deep_copier.copy_grows [OF time]
      by (auto simp: StorageBucket_DeepCopyInto_def split: if_splits prod.splits)
  next
    case (2 x m y m')
    then show ?case using deep_copier.copy_fresh [OF time]
      by (cases "br_LastSyncTimestamp x")
        (fastforce simp: StorageBucket_DeepCopyInto_def bucket_refs_def time_refs_def [of V None]
          split: prod.splits)+
  next
    case (3 x m y m')
    then show ?case using deep_copier.copy_same [OF time]
      by (auto simp: StorageBucket_DeepCopyInto_def bucket_refs_def bucket_value_def time_value_def [of V None]
          split: if_splits prod.splits)
  qed (use deep_copier.val_local [OF time] deep_copier.refs_local [OF time]
      in \<open>auto simp: bucket_refs_def bucket_value_def\<close>)
qed

lemma status_deep:
  assumes "library_copiers C V"
  shows "deep_copier (VeleroInstallStatus_DeepCopyInto C) (status_refs V) (status_value V)"
proof -
  have "VeleroInstallStatus_DeepCopyInto C =
      field_copy sr_StorageBucket (\<lambda>b x. x\<lparr>sr_StorageBucket := b\<rparr>) (StorageBucket_DeepCopyInto C)"
    by (intro ext) (simp add: VeleroInstallStatus_DeepCopyInto_def field_copy_def)
  moreover have "status_refs V = (\<lambda>x. bucket_refs V (sr_StorageBucket x))"
    "status_value V = (\<lambda>x m. \<lparr>vs_StorageBucket = bucket_value V (sr_StorageBucket x) m\<rparr>)"
    by (intro ext, simp add: status_refs_def status_value_def)+
  ultimately show ?thesis
    using field_deep [OF bucket_deep [OF assms], of sr_StorageBucket "\<lambda>b x. x\<lparr>sr_StorageBucket := b\<rparr>"
        "\<lambda>x b. \<lparr>vs_StorageBucket = b\<rparr>"] by simp
qed

lemma install_deep:
  assumes "library_copiers C V"
  shows "deep_copier (VeleroInstall_DeepCopyInto C) (install_refs V) (install_value V)"
proof -
  let ?get = "\<lambda>x. (ir_ObjectMeta x, ir_Status x)"
  let ?put = "\<lambda>p x. x\<lparr>ir_ObjectMeta := fst p, ir_Status := snd p\<rparr>"
  let ?F = "\<lambda>x p. \<lparr>vi_TypeMeta = ir_TypeMeta x, vi_ObjectMeta = fst p, vi_Status = snd p\<rparr>"
  have meta: "deep_copier (co_ObjectMeta C) (vw_MetaRefs V) (vw_Meta V)"
    using assms by (simp add: library_copiers_def)
  have "VeleroInstall_DeepCopyInto C =
      field_copy ?get ?put (pair_copy (co_ObjectMeta C) (VeleroInstallStatus_DeepCopyInto C))"
    by (intro ext) (simp add: VeleroInstall_DeepCopyInto_def field_copy_def pair_copy_def split: prod.split)
  moreover have "install_refs V = (\<lambda>x m. vw_MetaRefs V (ir_ObjectMeta x) m \<union> status_refs V (ir_Status x) m)"
    "install_value V = (\<lambda>x m. \<lparr>vi_TypeMeta = ir_TypeMeta x, vi_ObjectMeta = vw_Meta V (ir_ObjectMeta x) m,
       vi_Status = status_value V (ir_Status x) m\<rparr>)"
    by (intro ext, simp add: install_refs_def install_value_def)+
  ultimately show ?thesis
    using field_deep [OF pair_deep [OF meta status_deep [OF assms]], of ?get ?put ?F] by simp
qed

lemma list_deep:
  assumes "library_copiers C V"
  shows "deep_copier (VeleroInstallList_DeepCopyInto C) (list_refs V) (list_value V)"
proof -
  let ?get = "\<lambda>x. (lr_ListMeta x, lr_Items x)"
  let ?put = "\<lambda>p x. x\<lparr>lr_ListMeta := fst p, lr_Items := snd p\<rparr>"
  let ?F = "\<lambda>x p. \<lparr>vl_TypeMeta = lr_TypeMeta x, vl_ListMeta = fst p,
    vl_Items = (case snd p of None \<Rightarrow> [] | Some xs \<Rightarrow> xs)\<rparr>"
  let ?items = "copy_pointer mem_Items put_Items (copy_items (VeleroInstall_DeepCopyInto C))"
  have meta: "deep_copier (co_ListMeta C) (vw_ListMetaRefs V) (vw_ListMeta V)"
    using assms by (simp add: library_copiers_def)
  have items: "deep_copier ?items (pointer_refs mem_Items (items_refs (install_refs V))) (slice_value V)"
    unfolding slice_value_def by (intro items_variables.pointer_deep items_deep install_deep assms)
  have "VeleroInstallList_DeepCopyInto C = field_copy ?get ?put (pair_copy (co_ListMeta C) ?items)"
    by (intro ext) (simp add: VeleroInstallList_DeepCopyInto_def field_copy_def pair_copy_def split: prod.split)
  moreover have "list_refs V = (\<lambda>x m. vw_ListMetaRefs V (lr_ListMeta x) m \<union>
       pointer_refs mem_Items (items_refs (install_refs V)) (lr_Items x) m)"
    "list_value V = (\<lambda>x m. \<lparr>vl_TypeMeta = lr_TypeMeta x, vl_ListMeta = vw_ListMeta V (lr_ListMeta x) m,
       vl_Items = (case slice_value V (lr_Items x) m of None \<Rightarrow> [] | Some xs \<Rightarrow> xs)\<rparr>)"
    by (intro ext, simp add: list_refs_def list_value_def)+
  ultimately show ?thesis
    using field_deep [OF pair_deep [OF meta items], of ?get ?put ?F] by simp
qed

interpretation spec_copier: deep_copier VeleroInstallSpec_DeepCopyInto "\<lambda>x m. {}" "\<lambda>x m. x"
  by unfold_locales (simp_all add: VeleroInstallSpec_DeepCopyInto_def)

interpretation spec_pointer: deep_copier VeleroInstallSpec_DeepCopy
  "pointer_refs mem_Spec (\<lambda>x m. {})" "pointer_val mem_Spec (\<lambda>x m. x)"
  unfolding VeleroInstallSpec_DeepCopy_def
  by (rule spec_variables.pointer_deep [OF spec_copier.deep_copier_axioms])

section \<open>Copies of resources\<close>

text \<open>A memory with a list of one synchronised resource, and copiers for its library types.\<close>

definition sample_copiers :: "(ObjectMeta, string, go_time) copiers" where
  "sample_copiers = \<lparr>co_Time = copy_pointer mem_Library put_Library Pair, co_ObjectMeta = Pair,
     co_ListMeta = Pair\<rparr>"

definition sample_views :: "(ObjectMeta, string, go_time) views" where
  "sample_views = \<lparr>vw_TimeRefs = (\<lambda>a m. {a}), vw_Time = (\<lambda>a m. mem_Library m a), vw_MetaRefs = (\<lambda>x m. {}),
     vw_Meta = (\<lambda>x m. x), vw_ListMetaRefs = (\<lambda>x m. {}), vw_ListMeta = (\<lambda>x m. x)\<rparr>"

definition sample_install_rep :: "ObjectMeta install_rep" where
  "sample_install_rep = \<lparr>ir_TypeMeta = \<lparr>tm_Kind = ''VeleroInstall'', tm_APIVersion = ''v1alpha2''\<rparr>,
     ir_ObjectMeta = object_meta ''cluster'' ''openshift-velero'', ir_Spec = (),
     ir_Status = \<lparr>sr_StorageBucket = \<lparr>br_Name = ''bucket'', br_Provisioned = True,
       br_LastSyncTimestamp = Some 0\<rparr>\<rparr>\<rparr>"

definition sample_memory :: "(ObjectMeta, string, go_time) memory" where
  "sample_memory = \<lparr>lim = 4, mem_Bucket = (\<lambda>a. sr_StorageBucket (ir_Status sample_install_rep)),
     mem_Status = (\<lambda>a. ir_Status sample_install_rep), mem_Spec = (\<lambda>a. ()),
     mem_Install = (\<lambda>a. sample_install_rep),
     mem_List = (\<lambda>a. \<lparr>lr_TypeMeta = \<lparr>tm_Kind = ''VeleroInstallList'', tm_APIVersion = ''v1alpha2''\<rparr>,
       lr_ListMeta = ''1'', lr_Items = Some 2\<rparr>),
     mem_Items = (\<lambda>a. [sample_install_rep]), mem_Library = (\<lambda>a. 1000000000)\<rparr>"

lemma Pair_deep: "deep_copier Pair (\<lambda>x m. {}) (\<lambda>x m. x)"
  by unfold_locales simp_all

lemma sample_library_copiers: "library_copiers sample_copiers sample_views"
proof -
  have views: "time_refs sample_views = pointer_refs mem_Library (\<lambda>x m. {})"
    "time_value sample_views = pointer_val mem_Library (\<lambda>x m. x)"
    by (intro ext, simp add: time_refs_def time_value_def pointer_refs_def pointer_val_def sample_views_def
        split: option.split)+
  show ?thesis
    unfolding library_copiers_def views
    by (simp add: sample_copiers_def sample_views_def Pair_deep library_variables.pointer_deep)
qed

lemma sample_refs:
  "pointer_refs mem_Install (install_refs sample_views) (Some 1) sample_memory \<subseteq> {..<lim sample_memory}"
  "pointer_refs mem_List (list_refs sample_views) (Some 3) sample_memory \<subseteq> {..<lim sample_memory}"
  by (simp_all add: pointer_refs_def install_refs_def list_refs_def items_refs_def status_refs_def
      bucket_refs_def time_refs_def sample_views_def sample_memory_def sample_install_rep_def)

text \<open>
  C24: DeepCopyObject of a VeleroInstall is nil for nil and changes nothing then. Otherwise
  it returns a new resource, whose value is that of the original, field by field and with
  the time behind its pointer; the original is as it was; and the two share no memory, so
  that no change made through one, as a controller makes to an object from the cache, is
  ever seen through the other.
\<close>

theorem VeleroInstall_copy_independent:
  assumes "library_copiers C V" and "VeleroInstall_DeepCopyObject C p m = (q, m')"
    and "pointer_refs mem_Install (install_refs V) p m \<subseteq> {..<lim m}"
  shows "case p of
      None \<Rightarrow> q = None \<and> m' = m
    | Some a \<Rightarrow> \<exists>b. q = Some (InstallObject b) \<and>
        independent_copy mem_Install (install_refs V) (install_value V) a m b m'"
proof (cases p)
  case None
  then show ?thesis
    using assms(2) by (simp add: VeleroInstall_DeepCopyObject_def VeleroInstall_DeepCopy_def copy_pointer_def)
next
  case (Some a)
  obtain c m1 where copy: "copy_pointer mem_Install put_Install (VeleroInstall_DeepCopyInto C) (Some a) m = (c, m1)"
    by fastforce
  then show ?thesis
    using install_variables.copy_independent [OF install_deep [OF assms(1)] copy] assms(2,3) Some
    by (auto simp: VeleroInstall_DeepCopyObject_def VeleroInstall_DeepCopy_def)
qed

theorem VeleroInstall_copy_independent_witness:
  "\<exists>b. fst (VeleroInstall_DeepCopyObject sample_copiers (Some 1) sample_memory) = Some (InstallObject b) \<and>
     independent_copy mem_Install (install_refs sample_views) (install_value sample_views) 1 sample_memory b
       (snd (VeleroInstall_DeepCopyObject sample_copiers (Some 1) sample_memory))"
  using VeleroInstall_copy_independent [OF sample_library_copiers _ sample_refs(1)]
  by (simp add: surjective_pairing)

text \<open>
  C23: DeepCopyObject of a VeleroInstallList copies every resource of the list too: the copy
  has the same resources in the same order, the original is as it was, and the two share no
  array, no resource and no time; nil stays nil.
\<close>

theorem VeleroInstallList_copy_independent:
  assumes "library_copiers C V" and "VeleroInstallList_DeepCopyObject C p m = (q, m')"
    and "pointer_refs mem_List (list_refs V) p m \<subseteq> {..<lim m}"
  shows "case p of
      None \<Rightarrow> q = None \<and> m' = m
    | Some a \<Rightarrow> \<exists>b. q = Some (ListObject b) \<and>
        independent_copy mem_List (list_refs V) (list_value V) a m b m'"
proof (cases p)
  case None
  then show ?thesis
    using assms(2)
    by (simp add: VeleroInstallList_DeepCopyObject_def VeleroInstallList_DeepCopy_def copy_pointer_def)
next
  case (Some a)
  obtain c m1 where copy: "copy_pointer mem_List put_List (VeleroInstallList_DeepCopyInto C) (Some a) m = (c, m1)"
    by fastforce
  then show ?thesis
    using list_variables.copy_independent [OF list_deep [OF assms(1)] copy] assms(2,3) Some
    by (auto simp: VeleroInstallList_DeepCopyObject_def VeleroInstallList_DeepCopy_def)
qed

theorem VeleroInstallList_copy_independent_witness:
  "\<exists>b. fst (VeleroInstallList_DeepCopyObject sample_copiers (Some 3) sample_memory) = Some (ListObject b) \<and>
     independent_copy mem_List (list_refs sample_views) (list_value sample_views) 3 sample_memory b
       (snd (VeleroInstallList_DeepCopyObject sample_copiers (Some 3) sample_memory))"
  using VeleroInstallList_copy_independent [OF sample_library_copiers _ sample_refs(2)]
  by (simp add: surjective_pairing)

text \<open>The same for the parts of a resource, which have a DeepCopy of their own.\<close>

lemma StorageBucket_copy_independent:
  assumes "library_copiers C V" and "StorageBucket_DeepCopy C (Some a) m = (q, m')"
    and "pointer_refs mem_Bucket (bucket_refs V) (Some a) m \<subseteq> {..<lim m}"
  shows "\<exists>b. q = Some b \<and> independent_copy mem_Bucket (bucket_refs V) (bucket_value V) a m b m'"
  using bucket_variables.copy_independent [OF bucket_deep [OF assms(1)]] assms(2,3)
  by (simp add: StorageBucket_DeepCopy_def)

lemma VeleroInstallStatus_copy_independent:
  assumes "library_copiers C V" and "VeleroInstallStatus_DeepCopy C (Some a) m = (q, m')"
    and "pointer_refs mem_Status (status_refs V) (Some a) m \<subseteq> {..<lim m}"
  shows "\<exists>b. q = Some b \<and> independent_copy mem_Status (status_refs V) (status_value V) a m b m'"
  using status_variables.copy_independent [OF status_deep [OF assms(1)]] assms(2,3)
  by (simp add: VeleroInstallStatus_DeepCopy_def)

end
