(* ===== verification/Storage_Progress.thy ===== *)
theory Storage_Progress
  imports Storage_Spec
begin

text \<open>
  What a run of a storage driver achieves where the services work: the API server stores what
  it is sent, the cloud serves the account's buckets, and nobody else acts. Every run then
  either records a synchronisation or brings the status strictly closer to one. The claim is
  the locale converging_storage; S3_Progress and GCS_Progress prove it for the two drivers.
\<close>

section \<open>A view of the world\<close>

text \<open>
  The objects of the cluster, by kind, name and namespace, the names of the account's buckets
  and those that other accounts have taken. A view maps each world to what it holds of these.
\<close>

record snapshot =
  sn_objs :: "kkind \<times> string \<times> string \<Rightarrow> kobj option"
  sn_own :: "string set"
  sn_taken :: "string set"

type_synonym 'w view = "'w \<Rightarrow> snapshot"

definition install_key :: "VeleroInstall \<Rightarrow> kkind \<times> string \<times> string" where
  "install_key i = (KindVeleroInstall, om_Name (vi_ObjectMeta i), om_Namespace (vi_ObjectMeta i))"

text \<open>The world after a status update: the resource is stored with the status of \<open>j\<close>.\<close>

definition stores :: "VeleroInstall \<Rightarrow> VeleroInstall \<Rightarrow> snapshot \<Rightarrow> snapshot \<Rightarrow> bool" where
  "stores i j s s' =
     (install_key j = install_key i \<and> sn_objs s' = (sn_objs s)(install_key i \<mapsto> ObjVeleroInstall j))"

definition stored_as :: "VeleroInstall \<Rightarrow> VeleroInstall \<Rightarrow> snapshot \<Rightarrow> snapshot \<Rightarrow> bool" where
  "stored_as i j s s' =
     (stores i j s s' \<and> vi_Bucket j = to_second (vi_Bucket i) \<and>
      sn_own s' = sn_own s \<and> sn_taken s' = sn_taken s)"

lemma install_key_status [simp]:
  "install_key (with_bucket f i) = install_key i"
  "install_key (synced t i) = install_key i" "install_key (unprovisioned i) = install_key i"
  "install_key (nameless i) = install_key i" "install_key (adopted n i) = install_key i"
  "install_key (proposed n i) = install_key i"
  by (simp_all add: install_key_def synced_def unprovisioned_def nameless_def adopted_def proposed_def)

lemma stores_status [simp]:
  "stores (synced t i) = stores i" "stores (unprovisioned i) = stores i"
  "stores (nameless i) = stores i" "stores (adopted n i) = stores i" "stores (proposed n i) = stores i"
  by (intro ext, simp add: stores_def)+

lemma status_fields [simp]:
  "sb_Name (vi_Bucket (synced t i)) = sb_Name (vi_Bucket i)" "sb_Provisioned (vi_Bucket (synced t i))"
  "sb_Name (vi_Bucket (unprovisioned i)) = sb_Name (vi_Bucket i)" "\<not> sb_Provisioned (vi_Bucket (unprovisioned i))"
  "sb_Name (vi_Bucket (nameless i)) = ''''" "sb_Provisioned (vi_Bucket (nameless i)) = sb_Provisioned (vi_Bucket i)"
  "sb_Name (vi_Bucket (adopted n i)) = n" "sb_Provisioned (vi_Bucket (adopted n i))"
  "sb_Name (vi_Bucket (proposed n i)) = n" "\<not> sb_Provisioned (vi_Bucket (proposed n i))"
  by (simp_all add: synced_def unprovisioned_def nameless_def adopted_def proposed_def)

text \<open>The changes that are not a synchronisation leave the time of the last one.\<close>

lemma status_times [simp]:
  "sb_LastSyncTimestamp (to_second (vi_Bucket (unprovisioned i))) = sb_LastSyncTimestamp (to_second (vi_Bucket i))"
  "sb_LastSyncTimestamp (to_second (vi_Bucket (nameless i))) = sb_LastSyncTimestamp (to_second (vi_Bucket i))"
  "sb_LastSyncTimestamp (to_second (vi_Bucket (adopted n i))) = sb_LastSyncTimestamp (to_second (vi_Bucket i))"
  "sb_LastSyncTimestamp (to_second (vi_Bucket (proposed n i))) = sb_LastSyncTimestamp (to_second (vi_Bucket i))"
  by (simp_all add: to_second_def unprovisioned_def nameless_def adopted_def proposed_def)

lemma to_second_time:
  "sb_LastSyncTimestamp b = sb_LastSyncTimestamp (to_second c) \<Longrightarrow>
     sb_LastSyncTimestamp (to_second b) = sb_LastSyncTimestamp (to_second c)"
  by (cases "sb_LastSyncTimestamp c") (simp_all add: to_second_def mod_diff_eq)

lemma stored_asD:
  assumes "stored_as i j s s'"
  shows "sb_Name (vi_Bucket j) = sb_Name (vi_Bucket i)" "sb_Provisioned (vi_Bucket j) = sb_Provisioned (vi_Bucket i)"
    and "sb_LastSyncTimestamp (vi_Bucket j) = sb_LastSyncTimestamp (to_second (vi_Bucket i))"
    and "stores i j s s'" "sn_own s' = sn_own s" "sn_taken s' = sn_taken s"
  using assms by (simp_all add: stored_as_def)

lemma stores_there: "stores i j s s' \<Longrightarrow> sn_objs s' (install_key j) \<noteq> None"
  by (simp add: stores_def)

lemma stores_trans: "stores i j s s' \<Longrightarrow> stores j k s' s'' \<Longrightarrow> stores i k s s''"
  by (simp add: stores_def)

text \<open>
  A server that stores the status of a resource it knows, with its time to the second, and
  answers with the stored resource; neither it nor the runtime touches the clouds, a new
  identifier gives a name that nobody has, and a bucket has one owner.
\<close>

definition stores_status :: "'w env \<Rightarrow> 'w view \<Rightarrow> bool" where
  "stores_status E V =
     (\<forall>i w. sn_objs (V w) (install_key i) \<noteq> None \<longrightarrow>
        (\<exists>j w'. k_StatusUpdate (e_kube E) i w = (Inr j, w') \<and> stored_as i j (V w) (V w')))"

lemma stores_statusD:
  assumes "stores_status E V" and "k_StatusUpdate (e_kube E) i w = (r, w')"
    and "sn_objs (V w) (install_key i) \<noteq> None"
  shows "\<exists>j. r = Inr j \<and> stored_as i j (V w) (V w')"
  using assms unfolding stores_status_def by fastforce

definition runtime_works :: "'w env \<Rightarrow> 'w view \<Rightarrow> bool" where
  "runtime_works E V =
     ((\<forall>w. V (snd (rt_Now (e_rt E) w)) = V w) \<and>
      (\<forall>w. V (snd (rt_NewUUID (e_rt E) w)) = V w \<and>
         StorageBucketPrefix @ fst (rt_NewUUID (e_rt E) w) \<notin> sn_own (V w) \<union> sn_taken (V w)) \<and>
      (\<forall>w. sn_own (V w) \<inter> sn_taken (V w) = {}))"

lemma one_owner: "runtime_works E V \<Longrightarrow> sn_own (V w) \<inter> sn_taken (V w) = {}"
  unfolding runtime_works_def by blast

lemma works_Now: "runtime_works E V \<Longrightarrow> rt_Now (e_rt E) w = (t, w') \<Longrightarrow> V w' = V w"
  unfolding runtime_works_def by (metis snd_conv)

lemma works_NewUUID:
  "runtime_works E V \<Longrightarrow> rt_NewUUID (e_rt E) w = (u, w') \<Longrightarrow>
     V w' = V w \<and> StorageBucketPrefix @ u \<notin> sn_own (V w) \<and> StorageBucketPrefix @ u \<notin> sn_taken (V w)"
  unfolding runtime_works_def by (metis Un_iff fst_conv snd_conv)

lemma works_status:
  assumes "stores_status E V" and "sn_objs (V w) (install_key i) \<noteq> None"
  shows "wp (StatusUpdate E i) (\<lambda>r es w'. \<exists>j. r = Returned (None, j) \<and> stored_as i j (V w) (V w')) w"
  using assms(2) by (auto simp: wp_simps split: prod.split sum.split dest!: stores_statusD [OF assms(1)])

lemma works_recorded:
  assumes "stores_status E V" and "sn_objs (V w) (install_key i) \<noteq> None"
  shows "wp (exec (StatusUpdate E i) (\<lambda>(err, inst'). ret err))
    (\<lambda>r es w'. r = Returned None \<and> (\<exists>j. stored_as i j (V w) (V w'))) w"
  by (rule wp_bindI [OF works_status [OF assms]]) (auto simp: wp_simps)

text \<open>
  A call that leaves what the view shows, and answers as expected where the view allows it.
\<close>

definition yields ::
    "'w view \<Rightarrow> ('w \<Rightarrow> 'a \<times> 'w) \<Rightarrow> (snapshot \<Rightarrow> bool) \<Rightarrow> (snapshot \<Rightarrow> 'a \<Rightarrow> bool) \<Rightarrow> bool" where
  "yields V f pre P = (\<forall>w. pre (V w) \<longrightarrow> P (V w) (fst (f w)) \<and> V (snd (f w)) = V w)"

lemma yieldsD: "yields V f pre P \<Longrightarrow> f w = (x, w') \<Longrightarrow> pre (V w) \<Longrightarrow> P (V w) x \<and> V w' = V w"
  by (auto simp: yields_def dest: spec [of _ w])

abbreviation accepts :: "'w view \<Rightarrow> string \<Rightarrow> ('w \<Rightarrow> (goerror + unit) \<times> 'w) \<Rightarrow> bool" where
  "accepts V n f \<equiv> yields V f (\<lambda>s. n \<in> sn_own s) (\<lambda>s r. r = Inr ())"

section \<open>The status of a resource\<close>

text \<open>How many runs a status is away from a synchronisation, at most.\<close>

definition runs_left :: "StorageBucket \<Rightarrow> snapshot \<Rightarrow> nat" where
  "runs_left b s =
     (if sb_Name b = '''' then 2
      else if \<not> sb_Provisioned b then (if sb_Name b \<in> sn_taken s then 3 else 1)
      else if sb_Name b \<in> sn_own s then 1 else 2)"

lemma runs_left_pos [simp]: "runs_left b s \<noteq> 0"
  by (simp add: runs_left_def)

lemma runs_left_le: "runs_left b s \<le> 3"
  by (simp add: runs_left_def)

text \<open>A run that synchronised has the time of one of its own readings of the clock.\<close>

definition synced_by :: "event list \<Rightarrow> StorageBucket \<Rightarrow> snapshot \<Rightarrow> bool" where
  "synced_by es b s =
     (sb_Name b \<noteq> '''' \<and> sb_Name b \<in> sn_own s \<and> sb_Provisioned b \<and>
      (\<exists>t. Now t \<in> set es \<and> sb_LastSyncTimestamp b = Some (t - t mod 1000000000)))"

lemma synced_by_append: "synced_by es' b s \<Longrightarrow> synced_by (es @ es') b s"
  by (auto simp: synced_by_def)

lemma synced_stored:
  "sb_Name (vi_Bucket i) \<noteq> '''' \<Longrightarrow> sb_Name (vi_Bucket i) \<in> sn_own s \<Longrightarrow> Now t \<in> set es \<Longrightarrow>
     synced_by es (to_second (vi_Bucket (synced t i))) s"
  by (auto simp: synced_by_def synced_def to_second_def)

text \<open>How the check and the settings of a bucket end: synchronised if it is there.\<close>

definition enforced :: "VeleroInstall \<Rightarrow> snapshot \<Rightarrow> event list \<Rightarrow> snapshot \<Rightarrow> bool" where
  "enforced i s es s' =
     (if sb_Name (vi_Bucket i) \<in> sn_own s
      then \<exists>j t. Now t \<in> set es \<and> stored_as (synced t i) j s s'
      else \<exists>j. stored_as (unprovisioned i) j s s')"

lemma enforcedI:
  "sb_Name (vi_Bucket i) \<in> sn_own s \<Longrightarrow> stored_as (synced t i) j s s' \<Longrightarrow> Now t \<in> set es \<Longrightarrow> enforced i s es s'"
  "sb_Name (vi_Bucket i) \<notin> sn_own s \<Longrightarrow> stored_as (unprovisioned i) j s s' \<Longrightarrow> enforced i s es s'"
  unfolding enforced_def by auto

lemma enforced_status:
  assumes "enforced i s es s'" and "sb_Name (vi_Bucket i) \<noteq> ''''" and "sb_Name (vi_Bucket i) \<notin> sn_taken s"
  obtains j where "stores i j s s'" "sb_Name (vi_Bucket j) = sb_Name (vi_Bucket i)"
    "sn_own s' = sn_own s" "sn_taken s' = sn_taken s"
    "if sb_Name (vi_Bucket i) \<in> sn_own s then sb_Provisioned (vi_Bucket j) \<and> synced_by es (vi_Bucket j) s'
     else \<not> sb_Provisioned (vi_Bucket j) \<and> runs_left (vi_Bucket j) s' = 1 \<and>
       sb_LastSyncTimestamp (vi_Bucket j) = sb_LastSyncTimestamp (to_second (vi_Bucket i))"
proof (cases "sb_Name (vi_Bucket i) \<in> sn_own s")
  case True
  with assms(1) obtain j t where j: "Now t \<in> set es" "stored_as (synced t i) j s s'"
    unfolding enforced_def by auto
  have "synced_by es (vi_Bucket j) s'"
    using synced_stored [OF assms(2) True j(1)] j(2) by (simp add: stored_as_def synced_by_def)
  then show ?thesis using that True stored_asD [OF j(2)] by simp
next
  case False
  with assms(1) obtain j where "stored_as (unprovisioned i) j s s'" unfolding enforced_def by auto
  note j = stored_asD [OF this]
  then show ?thesis using that False assms(2,3) by (simp add: runs_left_def)
qed

text \<open>Naming: the status names a recovered bucket, or one that nobody has.\<close>

definition named_as :: "VeleroInstall \<Rightarrow> VeleroInstall \<Rightarrow> snapshot \<Rightarrow> snapshot \<Rightarrow> bool" where
  "named_as i j s s' =
     ((\<exists>n. n \<noteq> '''' \<and> n \<in> sn_own s \<and> stored_as (adopted n i) j s s') \<or>
      (\<exists>n. n \<noteq> '''' \<and> n \<notin> sn_own s \<and> n \<notin> sn_taken s \<and> stored_as (proposed n i) j s s'))"

lemma named_asI:
  "stored_as (adopted n i) j s s' \<Longrightarrow> n \<noteq> [] \<Longrightarrow> n \<in> sn_own s \<Longrightarrow> named_as i j s s'"
  "stored_as (proposed n i) j s s' \<Longrightarrow> n \<noteq> [] \<Longrightarrow> n \<notin> sn_own s \<Longrightarrow> n \<notin> sn_taken s \<Longrightarrow> named_as i j s s'"
  unfolding named_as_def by auto

lemma named_later:
  "stored_as (adopted n i) j s s' \<Longrightarrow> n \<noteq> [] \<Longrightarrow> n \<in> sn_own s \<Longrightarrow> \<exists>j. named_as i j s s'"
  "stored_as (proposed n i) j s s' \<Longrightarrow> n \<noteq> [] \<Longrightarrow> n \<notin> sn_own s \<Longrightarrow> n \<notin> sn_taken s \<Longrightarrow>
     \<exists>j. named_as i j s s'"
  using named_asI by blast+

lemma named_status:
  assumes "named_as i j s s'" and "sn_own s \<inter> sn_taken s = {}"
  shows "stores i j s s'" and "sb_Name (vi_Bucket j) \<noteq> ''''" and "sb_Name (vi_Bucket j) \<notin> sn_taken s'"
    and "sb_Provisioned (vi_Bucket j) \<longleftrightarrow> sb_Name (vi_Bucket j) \<in> sn_own s'"
    and "sn_own s' = sn_own s" and "sn_taken s' = sn_taken s"
    and "sb_LastSyncTimestamp (vi_Bucket j) = sb_LastSyncTimestamp (to_second (vi_Bucket i))"
    and "runs_left (vi_Bucket j) s' = 1"
proof -
  obtain n k where n: "n \<noteq> []" "n \<notin> sn_taken s" "stored_as k j s s'"
    and k: "(k = adopted n i \<and> n \<in> sn_own s) \<or> (k = proposed n i \<and> n \<notin> sn_own s)"
    using assms unfolding named_as_def by blast
  note j = stored_asD [OF n(3)]
  show "stores i j s s'" and "sb_Name (vi_Bucket j) \<noteq> []" and "sb_Name (vi_Bucket j) \<notin> sn_taken s'"
    and "sb_Provisioned (vi_Bucket j) \<longleftrightarrow> sb_Name (vi_Bucket j) \<in> sn_own s'"
    and "sn_own s' = sn_own s" and "sn_taken s' = sn_taken s"
    and "sb_LastSyncTimestamp (vi_Bucket j) = sb_LastSyncTimestamp (to_second (vi_Bucket i))"
    and "runs_left (vi_Bucket j) s' = 1"
    using k j n(1,2) by (auto simp: runs_left_def)
qed

text \<open>A run that did not synchronise is closer to it, and left the time of the last one.\<close>

definition progress :: "StorageBucket \<Rightarrow> snapshot \<Rightarrow> event list \<Rightarrow> StorageBucket \<Rightarrow> snapshot \<Rightarrow> bool" where
  "progress b s es b' s' =
     (synced_by es b' s' \<or>
      (runs_left b' s' < runs_left b s \<and>
       sb_LastSyncTimestamp b' = sb_LastSyncTimestamp (to_second b)))"

definition pass ::
    "'w view \<Rightarrow> (StorageBucket \<Rightarrow> snapshot \<Rightarrow> bool) \<Rightarrow> VeleroInstall \<Rightarrow> 'w \<Rightarrow> goerror option outcome \<Rightarrow>
       event list \<Rightarrow> 'w \<Rightarrow> bool" where
  "pass V fit i w r es w' =
     (r = Returned None \<and>
      (\<exists>j. stores i j (V w) (V w') \<and> fit (vi_Bucket j) (V w') \<and>
         progress (vi_Bucket i) (V w) es (vi_Bucket j) (V w')))"

lemma pass_append: "pass V fit i w r es' w' \<Longrightarrow> pass V fit i w r (es @ es') w'"
  by (auto simp: pass_def progress_def synced_by_append)

lemma pass_Cons: "pass V fit i w r es w' \<Longrightarrow> pass V fit i w r (e # es) w'"
  using pass_append [of V fit i w r es w' "[e]"] by simp

section \<open>Drivers that converge\<close>

text \<open>
  The laws for services that work, of a driver \<open>d\<close>. Not every status can be recovered from:
  fit says from which, and a run leaves a fit one.
\<close>

locale converging_storage =
  fixes create_storage :: "'w env \<Rightarrow> 'd \<Rightarrow> VeleroInstall \<Rightarrow> ('w, goerror option) prog"
    and works :: "'d \<Rightarrow> 'w env \<Rightarrow> 'w view \<Rightarrow> bool"
    and fit :: "'d \<Rightarrow> StorageBucket \<Rightarrow> snapshot \<Rightarrow> bool"
  assumes run_passes: "works d E V \<Longrightarrow> stores_status E V \<Longrightarrow> runtime_works E V \<Longrightarrow> valid_runtime E \<Longrightarrow>
      sn_objs (V w) (install_key i) \<noteq> None \<Longrightarrow> fit d (vi_Bucket i) (V w) \<Longrightarrow>
      wp (create_storage E d i) (pass V (fit d) i w) w"
begin

text \<open>A status that is one run away is synchronised by that run.\<close>

lemma last_run_syncs:
  assumes "works d E V" and "stores_status E V" and "runtime_works E V" and "valid_runtime E"
    and "sn_objs (V w) (install_key i) \<noteq> None" and "fit d (vi_Bucket i) (V w)"
    and "runs_left (vi_Bucket i) (V w) = 1"
  shows "wp (create_storage E d i)
    (\<lambda>r es w'. r = Returned None \<and>
       (\<exists>j. stores i j (V w) (V w') \<and> synced_by es (vi_Bucket j) (V w'))) w"
  by (rule wp_mono [OF run_passes [OF assms(1-6)]])
    (use assms(7) in \<open>auto simp: pass_def progress_def\<close>)

end

end
