(* ===== verification/S3_Progress.thy ===== *)
theory S3_Progress
  imports S3_Driver Storage_Progress
begin

text \<open>
  The S3 driver on an S3 service that works: every run makes progress, whatever the account
  holds and whatever the status says, unless the bucket of a provisioned status has become
  another account's.
\<close>

section \<open>A working S3 service\<close>

text \<open>
  The service lists the account's own buckets and answers for them; a name that nobody has is
  not found; a bucket is created under a name that nobody has, refused with the two codes of
  the SDK otherwise, and its settings can be put. The credentials are in the cluster.
\<close>

definition own_names :: "snapshot \<Rightarrow> Bucket list \<Rightarrow> bool" where
  "own_names s bs = (\<forall>b\<in>set bs. \<exists>n\<in>sn_own s. b_Name b = Some n)"

lemma own_names_simps [simp]:
  "own_names s []" "own_names s (b # bs) = ((\<exists>n\<in>sn_own s. b_Name b = Some n) \<and> own_names s bs)"
  "own_names s (bs @ bs') = (own_names s bs \<and> own_names s bs')"
  by (auto simp: own_names_def)

definition s3_reads_work :: "'w env \<Rightarrow> 'w view \<Rightarrow> bool" where
  "s3_reads_work E V =
     (yields V (r_Get (k_Secret (e_kube E)) awsCredsSecretName OperatorNamespace) (\<lambda>s. True)
        (\<lambda>s r. \<exists>secret a b. r = Inr secret \<and> gomap_get (sec_Data secret) awsCredsSecretIDKey = Some a \<and>
          gomap_get (sec_Data secret) awsCredsSecretAccessKey = Some b) \<and>
      (\<forall>c. yields V (aws_NewSession (e_aws E) c) (\<lambda>s. True) (\<lambda>s r. r = None)) \<and>
      (\<forall>c. yields V (s3_ListBuckets (e_aws E) c) (\<lambda>s. True)
         (\<lambda>s r. \<exists>l. r = Inr l \<and> own_names s (lbo_Buckets l))) \<and>
      (\<forall>c n. yields V (s3_GetBucketLocation (e_aws E) c (Some n)) (\<lambda>s. n \<in> sn_own s) (\<lambda>s r. \<exists>l. r = Inr l)) \<and>
      (\<forall>c n. yields V (s3_GetBucketTagging (e_aws E) c n) (\<lambda>s. n \<in> sn_own s)
         (\<lambda>s r. case r of Inl err \<Rightarrow> untagged err | Inr ts \<Rightarrow> complete_tags ts)) \<and>
      (\<forall>c n. yields V (s3_HeadBucket (e_aws E) c n) (\<lambda>s. n \<notin> sn_taken s)
         (\<lambda>s r. if n \<in> sn_own s then r = Inr () else (\<exists>err. r = Inl err \<and> gone (RespError err)))))"

text \<open>What a request for a new bucket changes, by who has the name.\<close>

definition creates :: "string \<Rightarrow> snapshot \<Rightarrow> goerror + unit \<Rightarrow> snapshot \<Rightarrow> bool" where
  "creates n s r s' =
     (if n \<in> sn_taken s then s' = s \<and> (\<exists>t. r = Inl (AwsError ErrCodeBucketAlreadyExists t))
      else s' = s\<lparr>sn_own := insert n (sn_own s)\<rparr> \<and>
        (r = Inr () \<or> (n \<in> sn_own s \<and> (\<exists>t. r = Inl (AwsError ErrCodeBucketAlreadyOwnedByYou t)))))"

definition s3_writes_work :: "'w env \<Rightarrow> 'w view \<Rightarrow> bool" where
  "s3_writes_work E V =
     ((\<forall>q. lib_Validate (e_lib E) q = None) \<and>
      (\<forall>c q w. creates (cb_Bucket q) (V w) (fst (s3_CreateBucket (e_aws E) c q w))
         (V (snd (s3_CreateBucket (e_aws E) c q w)))) \<and>
      (\<forall>c n. accepts V n (s3_DeleteBucketTagging (e_aws E) c n)) \<and>
      (\<forall>c n ts. accepts V n (s3_PutBucketTagging (e_aws E) c n ts)) \<and>
      (\<forall>c q. accepts V (pbe_Bucket q) (s3_PutBucketEncryption (e_aws E) c q)) \<and>
      (\<forall>c n p. accepts V n (s3_PutPublicAccessBlock (e_aws E) c n p)) \<and>
      (\<forall>c n rs. accepts V n (s3_PutBucketLifecycleConfiguration (e_aws E) c n rs)))"

definition s3_works :: "'w env \<Rightarrow> 'w view \<Rightarrow> bool" where
  "s3_works E V = (s3_reads_work E V \<and> s3_writes_work E V)"

lemma s3_works_yields:
  assumes "s3_works E V"
  shows "yields V (r_Get (k_Secret (e_kube E)) awsCredsSecretName OperatorNamespace) (\<lambda>s. True)
        (\<lambda>s r. \<exists>secret a b. r = Inr secret \<and> gomap_get (sec_Data secret) awsCredsSecretIDKey = Some a \<and>
          gomap_get (sec_Data secret) awsCredsSecretAccessKey = Some b)"
    and "yields V (aws_NewSession (e_aws E) c) (\<lambda>s. True) (\<lambda>s r. r = None)"
    and "yields V (s3_ListBuckets (e_aws E) c) (\<lambda>s. True)
         (\<lambda>s r. \<exists>l. r = Inr l \<and> own_names s (lbo_Buckets l))"
    and "yields V (s3_GetBucketLocation (e_aws E) c (Some n)) (\<lambda>s. n \<in> sn_own s) (\<lambda>s r. \<exists>l. r = Inr l)"
    and "yields V (s3_GetBucketTagging (e_aws E) c n) (\<lambda>s. n \<in> sn_own s)
         (\<lambda>s r. case r of Inl err \<Rightarrow> untagged err | Inr ts \<Rightarrow> complete_tags ts)"
    and "yields V (s3_HeadBucket (e_aws E) c n) (\<lambda>s. n \<notin> sn_taken s)
         (\<lambda>s r. if n \<in> sn_own s then r = Inr () else (\<exists>err. r = Inl err \<and> gone (RespError err)))"
    and "accepts V n (s3_DeleteBucketTagging (e_aws E) c n)"
    and "accepts V n (s3_PutBucketTagging (e_aws E) c n ts)"
    and "accepts V (pbe_Bucket q) (s3_PutBucketEncryption (e_aws E) c q)"
    and "accepts V n (s3_PutPublicAccessBlock (e_aws E) c n p)"
    and "accepts V n (s3_PutBucketLifecycleConfiguration (e_aws E) c n rs)"
  using assms by (simp_all only: s3_works_def s3_reads_work_def s3_writes_work_def)

lemmas s3_answers = s3_works_yields [THEN yieldsD]

lemma s3_validates: "s3_works E V \<Longrightarrow> lib_Validate (e_lib E) q = None"
  by (simp add: s3_works_def s3_writes_work_def)

lemma s3_creates:
  "s3_works E V \<Longrightarrow> s3_CreateBucket (e_aws E) c q w = (r, w') \<Longrightarrow> creates (cb_Bucket q) (V w) r (V w')"
  unfolding s3_works_def s3_writes_work_def by (metis fst_conv snd_conv)

section \<open>The parts of a run\<close>

lemma works_client:
  assumes "s3_works E V"
  shows "wp (NewS3Client E region) (\<lambda>r es w'. V w' = V w \<and> (\<exists>c. r = Returned (Inr c))) w"
  by (auto simp: NewS3Client_def NewSession_def env_calls wp_simps Let_def
      split: prod.split option.split sum.split dest!: s3_answers(1,2) [OF assms])

lemma works_exists:
  assumes "s3_works E V" and "b \<notin> sn_taken (V w)"
  shows "wp (s3_StorageExists E d b)
    (\<lambda>r es w'. V w' = V w \<and> r = Returned (Inr (b \<in> sn_own (V w)))) w"
  unfolding s3_StorageExists_def
  by (rule wp_bindI [OF works_client [OF assms(1)]])
    (use assms(2) in \<open>auto simp: api_HeadBucket_def wp_simps gone_def no_such_bucket_def
      split: prod.split if_splits dest!: s3_answers(6) [OF assms(1)]\<close>)

lemma works_settings:
  assumes "s3_works E V" and "stores_status E V" and "runtime_works E V"
    and "b \<in> sn_own (V w)" and "sn_objs (V w) (install_key i) \<noteq> None"
  shows "wp (or_fail (EncryptBucket E c b) ''encrypting'' b
            (or_fail (BlockBucketPublicAccess E c b) ''blocking public access to'' b
            (or_fail (SetBucketLifecycle E c b) ''configuring lifecycle rules on'' b
            (or_fail (TagBucket E c b DefaultVeleroBackupStorageLocation (s3_InfraName d)) ''tagging'' b
             (exec (time_Now E) (\<lambda>now.
              exec (StatusUpdate E (synced now i)) (\<lambda>(err, inst'). ret err)))))))
     (\<lambda>r es w'. r = Returned None \<and> (\<exists>j t. Now t \<in> set es \<and> stored_as (synced t i) j (V w) (V w'))) w"
  using assms(4,5)
  by (auto simp: wp_simps s3_settings_wp env_calls Let_def s3_validates [OF assms(1)] encryption_request_def
      split: prod.split sum.split option.split
      dest!: s3_answers(7-11) [OF assms(1)] works_Now [OF assms(3)] stores_statusD [OF assms(2)])

lemma works_enforced:
  assumes "s3_works E V" and "stores_status E V" and "runtime_works E V"
    and "sb_Name (vi_Bucket i) \<notin> sn_taken (V w)" and "sn_objs (V w) (install_key i) \<noteq> None"
  shows "wp (s3_enforce_bucket E d c i)
     (\<lambda>r es w'. r = Returned None \<and> enforced i (V w) es (V w')) w"
  unfolding enforced_def s3_enforce_bucket_def Let_def synced_def [symmetric] unprovisioned_def [symmetric]
proof (rule wp_bindI [OF works_exists [OF assms(1,4)]], goal_cases)
  case (1 es w')
  then show ?case by simp
next
  case (2 x es w')
  then have same: "V w' = V w" and x: "x = Inr (sb_Name (vi_Bucket i) \<in> sn_own (V w))" by simp_all
  show ?case
  proof (cases "sb_Name (vi_Bucket i) \<in> sn_own (V w)")
    case True
    then show ?thesis
      unfolding x sum.case
      by (simp del: or_fail_def)
        (rule wp_mono [OF works_settings [OF assms(1-3)]], use assms(5) same in auto)
  next
    case False
    then show ?thesis
      unfolding x using assms(5) same
      by (auto simp: wp_simps split: prod.split sum.split dest!: stores_statusD [OF assms(2)])
  qed
qed

lemma works_locations:
  assumes "s3_works E V"
  shows "own_names (V w) bs \<Longrightarrow> own_names (V w) acc \<Longrightarrow>
    wp (locate_buckets E c region bs acc)
      (\<lambda>r es w'. V w' = V w \<and> (\<exists>bs'. r = Returned (Inr bs') \<and> own_names (V w) bs')) w"
proof (induction bs arbitrary: acc w region)
  case (Cons b bs)
  have go: "wp (locate_buckets E c region bs acc')
      (\<lambda>r es w''. V w'' = V w \<and> (\<exists>bs'. r = Returned (Inr bs') \<and> own_names (V w) bs')) w'"
    if "V w' = V w" and "own_names (V w) acc'" for acc' w' region
    using Cons.IH [of w' acc' region] Cons.prems(1) that by simp
  show ?case
    using Cons.prems
    by (auto simp: api_GetBucketLocation_def wp_simps Let_def
        intro!: go split: prod.split sum.split dest!: s3_answers(4) [OF assms])
qed (simp add: wp_simps)

definition own_tags :: "snapshot \<Rightarrow> (string, Tag list) fmap \<Rightarrow> bool" where
  "own_tags s m = (\<forall>n ts. fmlookup m n = Some ts \<longrightarrow> n \<in> sn_own s \<and> complete_tags ts)"

lemma works_tags:
  assumes "s3_works E V"
  shows "own_names (V w) bs \<Longrightarrow> own_tags (V w) acc \<Longrightarrow>
    wp (collect_tags E c bs acc)
      (\<lambda>r es w'. V w' = V w \<and> (\<exists>m. r = Returned (Inr m) \<and> own_tags (V w) m)) w"
proof (induction bs arbitrary: acc w)
  case (Cons b bs)
  from Cons.prems(1) obtain n where n: "b_Name b = Some n" "n \<in> sn_own (V w)" by auto
  have go: "wp (collect_tags E c bs acc')
      (\<lambda>r es w''. V w'' = V w \<and> (\<exists>m. r = Returned (Inr m) \<and> own_tags (V w) m)) w'"
    if "V w' = V w" and "own_tags (V w) acc'" for acc' w'
    using Cons.IH [of w' acc'] Cons.prems(1) that by simp
  have more: "own_tags (V w) (fmupd n ts acc)" if "complete_tags ts" for ts
    using Cons.prems(2) n(2) that by (simp add: own_tags_def)
  show ?case
    using Cons.prems n
    by (auto simp: api_GetBucketTagging_def wp_simps untagged_def intro!: go more
        split: prod.split sum.split option.split dest!: s3_answers(5) [OF assms])
qed (simp add: wp_simps)

text \<open>Whatever bucket is recovered, it is one of the account's own.\<close>

lemma last_relevant_listed: "last_relevant bs infraName = '''' \<or> last_relevant bs infraName \<in> fst ` set bs"
proof (cases "filter (relevant infraName) bs = []")
  case True
  then show ?thesis by (auto simp: last_relevant_def filter_empty_conv relevant_def)
next
  case False
  then have "last (filter (relevant infraName) bs) \<in> set bs"
    using last_in_set [OF False] by auto
  then show ?thesis by (auto simp: last_relevant_def)
qed

lemma found_own:
  assumes "valid_order ord" and "own_tags s m"
  shows "\<exists>n. FindMatchingTags (range_over ord m) infraName = Returned n \<and> (n = '''' \<or> n \<in> sn_own s)"
proof -
  have "\<forall>b\<in>set (range_over ord m). fst b \<in> sn_own s \<and> complete_tags (snd b)"
    using assms(2) by (auto simp: set_range_over [OF assms(1)] own_tags_def)
  then show ?thesis
    using last_relevant_listed [of "range_over ord m" infraName]
    by (auto simp: FindMatchingTags_last_relevant)
qed

lemma works_doesnt_exist:
  assumes "s3_works E V" and "n \<notin> sn_own (V w)" and "n \<notin> sn_taken (V w)"
  shows "wp (DoesBucketExist E c n) (\<lambda>r es w'. V w' = V w \<and> r = Returned (Inr False)) w"
  using assms(2,3)
  by (auto simp: DoesBucketExist_def api_HeadBucket_def wp_simps gone_def
      split: prod.split dest!: s3_answers(6) [OF assms(1)])

lemma works_proposed:
  assumes "s3_works E V" and "stores_status E V" and "sn_objs (V w) (install_key i) \<noteq> None"
    and "n \<notin> sn_own (V w)" and "n \<notin> sn_taken (V w)" and "n \<noteq> ''''"
  shows "wp (exec (DoesBucketExist E c n) (\<lambda>r. case r of
        Inl err \<Rightarrow> ret (Some err, i)
      | Inr proposedBucketExists \<Rightarrow>
          if proposedBucketExists then
            ret (Some (Errorf [''proposed bucket '', n, '' already exists, retrying'']), i)
          else StatusUpdate E (proposed n i)))
      (\<lambda>r es w'. \<exists>j. r = Returned (None, j) \<and> named_as i j (V w) (V w')) w"
  by (rule wp_bindI [OF works_doesnt_exist [OF assms(1,4,5)]])
    (use assms(3-6) in \<open>auto simp: named_as_def intro!: wp_mono [OF works_status [OF assms(2)]]\<close>)

lemma works_listed:
  assumes "s3_works E V"
  shows "wp (ListBucketsInRegion E c region)
    (\<lambda>r es w'. V w' = V w \<and> (\<exists>l. r = Returned (Inr l) \<and> own_names (V w) (lbo_Buckets l))) w"
proof -
  have go: "wp (locate_buckets E c region (lbo_Buckets l) [])
      (\<lambda>r es w''. V w'' = V w \<and> (\<exists>bs. r = Returned (Inr bs) \<and> own_names (V w) bs)) w'"
    if "V w' = V w" and "own_names (V w) (lbo_Buckets l)" for l w'
    using works_locations [OF assms, of w' "lbo_Buckets l" "[]" c region] that by simp
  show ?thesis
    unfolding ListBucketsInRegion_def ListBuckets_def api_ListBuckets_def
    by (auto simp: wp_simps split: prod.split sum.split dest!: s3_answers(3) [OF assms] intro!: wp_mono [OF go])
qed

lemma works_named:
  assumes "s3_works E V" and "stores_status E V" and "runtime_works E V" and "valid_runtime E"
    and "sn_objs (V w) (install_key i) \<noteq> None"
  shows "wp (setInstanceBucketName E d c i)
    (\<lambda>r es w'. \<exists>j. r = Returned (None, j) \<and> named_as i j (V w) (V w')) w"
  unfolding setInstanceBucketName_def adopted_def [symmetric] proposed_def [symmetric]
proof (rule wp_bindI [OF works_listed [OF assms(1)]], goal_cases)
  case (1 es w')
  then show ?case by simp
next
  case (2 x es w')
  then obtain l where x: "x = Inr l" and l: "V w' = V w" "own_names (V w) (lbo_Buckets l)" by auto
  have tags: "wp (ListBucketTags E c (lbo_Buckets l))
      (\<lambda>r es w''. V w'' = V w \<and> (\<exists>m. r = Returned (Inr m) \<and> own_tags (V w) m)) w'"
    unfolding ListBucketTags_def
    using works_tags [OF assms(1), of w' "lbo_Buckets l" fmempty c] l by (simp add: own_tags_def)
  show ?case
    unfolding x sum.case
  proof (rule wp_bindI [OF tags], goal_cases)
    case (1 es' w'')
    then show ?case by simp
  next
    case (2 y es' w'')
    then obtain m where y: "y = Inr m" and m: "V w'' = V w" "own_tags (V w) m" by auto
    have "valid_order (rt_Order (e_rt E) w'')" using assms(4) by (simp add: valid_runtime_def)
    then obtain n where n: "FindMatchingTags (range_over (rt_Order (e_rt E) w'') m) (s3_InfraName d) = Returned n"
      "n = '''' \<or> n \<in> sn_own (V w)"
      using found_own [OF _ m(2)] by blast
    show ?case
    proof (cases "n = ''''")
      case True
      then show ?thesis
        unfolding y using n(1) assms(5) m(1)
        by (auto simp: wp_exec [of "asks f" for f] current_order_def wp_asks wp_lift_outcome
            wp_exec [of "lift_outcome q" for q] wp_exec [of "s3_generateBucketName E p" for p] s3_generateBucketName_wp
            StorageBucketPrefix_def
          split: prod.split dest!: works_NewUUID [OF assms(3)]
          intro!: wp_mono [OF works_proposed [OF assms(1,2)]])
    next
      case False
      then show ?thesis
        unfolding y using n assms(5) m(1)
        by (auto simp: wp_exec [of "asks f" for f] current_order_def wp_asks wp_lift_outcome
            wp_exec [of "lift_outcome q" for q] named_as_def intro!: wp_mono [OF works_status [OF assms(2)]])
    qed
  qed
qed

text \<open>The switch on a status that is not provisioned.\<close>

lemma works_tag:
  assumes "s3_works E V" and "b \<in> sn_own (V w)"
  shows "wp (TagBucket E c b l n) (\<lambda>r es w'. r = Returned None \<and> V w' = V w) w"
  using assms(2)
  by (auto simp: wp_TagBucket Let_def split: prod.split sum.split dest!: s3_answers(7,8) [OF assms(1)])

lemma works_CreateBucket:
  assumes "s3_works E V"
  shows "wp (CreateBucket E c b) (\<lambda>r es w'. if b \<in> sn_taken (V w)
     then V w' = V w \<and> (\<exists>t. r = Returned (Some (AwsError ErrCodeBucketAlreadyExists t)))
     else V w' = (V w)\<lparr>sn_own := insert b (sn_own (V w))\<rparr> \<and>
       (r = Returned None \<or> (\<exists>t. r = Returned (Some (AwsError ErrCodeBucketAlreadyOwnedByYou t))))) w"
  by (auto simp: create_bucket.wp_op s3_validates [OF assms] creates_def create_request_def
      split: prod.split sum.split if_splits dest!: s3_creates [OF assms])

lemma works_create:
  assumes "s3_works E V" and "stores_status E V" and "sn_objs (V w) (install_key i) \<noteq> None"
    and "sb_Name (vi_Bucket i) \<noteq> ''''" and "\<not> sb_Provisioned (vi_Bucket i)"
  shows "wp (s3_select_bucket E d c i)
    (\<lambda>r es w'. if sb_Name (vi_Bucket i) \<in> sn_taken (V w)
       then r = Returned (Inl None) \<and> (\<exists>j. stored_as (nameless i) j (V w) (V w'))
       else r = Returned (Inr i) \<and>
         V w' = (V w)\<lparr>sn_own := insert (sb_Name (vi_Bucket i)) (sn_own (V w))\<rparr>) w"
proof -
  let ?b = "sb_Name (vi_Bucket i)"
  have other: "ErrCodeBucketAlreadyOwnedByYou \<noteq> ErrCodeBucketAlreadyExists"
    by (simp add: ErrCodeBucketAlreadyExists_def ErrCodeBucketAlreadyOwnedByYou_def)
  have tag: "wp (TagBucket E c ?b l n) (\<lambda>r es w'. r = Returned None \<and> V w' = V w1) w1"
    if "V w1 = (V w)\<lparr>sn_own := insert ?b (sn_own (V w))\<rparr>" for l n w1
    using works_tag [OF assms(1), of ?b w1] that by simp
  have drop: "wp (StatusUpdate E (nameless i))
      (\<lambda>r es w'. \<exists>j. r = Returned (None, j) \<and> stored_as (nameless i) j (V w) (V w')) w1"
    if "V w1 = V w" for w1
    using works_status [OF assms(2), of w1 "nameless i"] that assms(3) by simp
  show ?thesis
    unfolding s3_select_bucket_def Let_def nameless_def [symmetric]
    using assms(4,5) other
    by (auto simp: wp_ret wp_exec intro!: wp_mono [OF tag] wp_mono [OF drop] wp_mono [OF works_CreateBucket [OF assms(1)]]
        split: if_splits) blast
qed

section \<open>The driver converges\<close>

definition s3_fit :: "StorageBucket \<Rightarrow> snapshot \<Rightarrow> bool" where
  "s3_fit b s = (sb_Provisioned b \<longrightarrow> sb_Name b \<notin> sn_taken s)"

text \<open>Enforcement makes progress from every status whose bucket is there, or is not provisioned.\<close>

lemma enforced_pass:
  assumes "s3_works E V" and "stores_status E V" and "runtime_works E V"
    and "sb_Name (vi_Bucket i) \<noteq> ''''" and "sb_Name (vi_Bucket i) \<notin> sn_taken (V w)"
    and "sn_objs (V w) (install_key i) \<noteq> None"
  shows "wp (s3_enforce_bucket E d c i)
    (\<lambda>r es w'. r = Returned None \<and> (\<exists>j. stores i j (V w) (V w') \<and> s3_fit (vi_Bucket j) (V w') \<and>
       (if sb_Name (vi_Bucket i) \<in> sn_own (V w) then synced_by es (vi_Bucket j) (V w')
        else runs_left (vi_Bucket j) (V w') = 1 \<and>
          sb_LastSyncTimestamp (vi_Bucket j) = sb_LastSyncTimestamp (to_second (vi_Bucket i))))) w"
proof (rule wp_mono [OF works_enforced [OF assms(1-3,5,6)]], elim conjE, goal_cases)
  case (1 r es w')
  obtain j where "stores i j (V w) (V w')" "sb_Name (vi_Bucket j) = sb_Name (vi_Bucket i)"
    "sn_taken (V w') = sn_taken (V w)"
    "if sb_Name (vi_Bucket i) \<in> sn_own (V w) then sb_Provisioned (vi_Bucket j) \<and> synced_by es (vi_Bucket j) (V w')
     else \<not> sb_Provisioned (vi_Bucket j) \<and> runs_left (vi_Bucket j) (V w') = 1 \<and>
       sb_LastSyncTimestamp (vi_Bucket j) = sb_LastSyncTimestamp (to_second (vi_Bucket i))"
    by (rule enforced_status [OF 1(2) assms(4,5)])
  then show ?case using 1(1) assms(5) by (auto simp: s3_fit_def split: if_splits)
qed

text \<open>A run that named a bucket goes on with the name it stored.\<close>

lemma named_enforced:
  assumes "s3_works E V" and "stores_status E V" and "runtime_works E V"
    and "sb_Name (vi_Bucket i) = ''''" and "named_as i j s (V w)" and "sn_own s \<inter> sn_taken s = {}"
  shows "wp (s3_enforce_bucket E d c j)
    (\<lambda>r es w'. r = Returned None \<and> (\<exists>k. stores i k s (V w') \<and> s3_fit (vi_Bucket k) (V w') \<and>
       progress (vi_Bucket i) s es (vi_Bucket k) (V w'))) w"
proof -
  note j = named_status [OF assms(5,6)]
  show ?thesis
  proof (rule wp_mono [OF enforced_pass [OF assms(1-3) j(2,3) stores_there [OF j(1)]]], elim conjE exE, goal_cases)
    case (1 r es w' k)
    then show ?case
      using stores_trans [OF j(1)] to_second_time [OF j(7)] assms(4)
      by (auto simp: progress_def runs_left_def split: if_splits intro!: exI [of _ k])
  qed
qed

lemma s3_run_passes:
  assumes "s3_works E V" and "stores_status E V" and "runtime_works E V" and "valid_runtime E"
    and "sn_objs (V w) (install_key i) \<noteq> None" and "s3_fit (vi_Bucket i) (V w)"
  shows "wp (s3_CreateStorage E d i) (pass V s3_fit i w) w"
  unfolding s3_CreateStorage_def
proof (rule wp_bindI [OF works_client [OF assms(1)]], goal_cases)
  case (1 es w')
  then show ?case by simp
next
  case (2 x es w')
  then obtain c where x: "x = Inr c" and same: "V w' = V w" by auto
  have there: "sn_objs (V w') (install_key i) \<noteq> None" using assms(5) same by simp
  note enforced = enforced_pass [OF assms(1-3)]
  consider (nameless) "sb_Name (vi_Bucket i) = ''''"
    | (create) "sb_Name (vi_Bucket i) \<noteq> ''''" "\<not> sb_Provisioned (vi_Bucket i)"
    | (check) "sb_Name (vi_Bucket i) \<noteq> ''''" "sb_Provisioned (vi_Bucket i)"
    by blast
  then show ?case
  proof cases
    case nameless
    show ?thesis
      unfolding x sum.case s3_nameless_branch [OF nameless] exec_assoc
    proof (rule wp_bindI [OF works_named [OF assms(1-4) there]], goal_cases)
      case (1 es' w'')
      then show ?case by simp
    next
      case (2 y es' w'')
      then obtain j where y: "y = (None, j)" and named: "named_as i j (V w) (V w'')" using same by auto
      show ?case
        unfolding y prod.case option.case exec_ret_left sum.case
        by (rule wp_mono [OF named_enforced [OF assms(1-3) nameless named one_owner [OF assms(3)]]]) (auto simp: pass_def progress_def same synced_by_append)
    qed
  next
    case create
    show ?thesis
      unfolding x sum.case
    proof (rule wp_bindI [OF works_create [OF assms(1,2) there create]], goal_cases)
      case (1 es' w'')
      then show ?case by (simp split: if_splits)
    next
      case (2 y es' w'')
      show ?case
      proof (cases "sb_Name (vi_Bucket i) \<in> sn_taken (V w)")
        case True
        with 2 same obtain j where y: "y = Inl None" and "stored_as (nameless i) j (V w) (V w'')" by auto
        note j = stored_asD [OF this(2)]
        then show ?thesis
          using True create
          by (auto simp: y wp_ret pass_def progress_def s3_fit_def runs_left_def intro!: exI [of _ j])
      next
        case False
        with 2 same have y: "y = Inr i"
          and v: "V w'' = (V w)\<lparr>sn_own := insert (sb_Name (vi_Bucket i)) (sn_own (V w))\<rparr>" by auto
        show ?thesis
          unfolding y sum.case
          by (rule wp_mono [OF enforced [OF create(1)]])
            (use v False assms(5) in \<open>auto simp: pass_def progress_def stores_def synced_by_append\<close>)
      qed
    qed
  next
    case check
    then have free: "sb_Name (vi_Bucket i) \<notin> sn_taken (V w')" using assms(6) same by (simp add: s3_fit_def)
    show ?thesis
      unfolding x sum.case s3_provisioned_branch [OF check] exec_ret_left
    proof (rule wp_mono [OF enforced [OF check(1) free there]], elim conjE exE, goal_cases)
      case (1 r es' w'' j)
      moreover have "sb_Name (vi_Bucket i) \<notin> sn_own (V w) \<Longrightarrow> runs_left (vi_Bucket i) (V w) = 2"
        using check by (simp add: runs_left_def)
      ultimately show ?case
        using same
        by (cases "sb_Name (vi_Bucket i) \<in> sn_own (V w)")
          (auto simp: pass_def progress_def synced_by_append intro!: exI [of _ j])
    qed
  qed
qed

interpretation s3_conv: converging_storage s3_CreateStorage "\<lambda>d. s3_works" "\<lambda>d. s3_fit"
  by unfold_locales (rule s3_run_passes)

end
