(* ===== verification/GCS_Progress.thy ===== *)
theory GCS_Progress
  imports GCS_Driver Storage_Progress
begin

text \<open>
  The GCS driver on a GCS service that works. It converges from every status but one that
  names a bucket without calling it provisioned although somebody has it: GCS refuses to
  create that bucket, and the driver has no case for the refusal.
\<close>

section \<open>A working GCS service\<close>

definition gcs_reads_work :: "'w env \<Rightarrow> 'w view \<Rightarrow> bool" where
  "gcs_reads_work E V =
     (yields V (r_Get (k_Secret (e_kube E)) storageCredsSecretName OperatorNamespace) (\<lambda>s. True)
        (\<lambda>s r. \<exists>secret key. r = Inr secret \<and> gomap_get (sec_Data secret) ''service_account.json'' = Some key) \<and>
      (\<forall>key. yields V (gcs_CredentialsFromJSON (e_gcs E) key) (\<lambda>s. True) (\<lambda>s r. \<exists>creds. r = Inr creds)) \<and>
      (\<forall>creds. yields V (gcs_NewClient (e_gcs E) creds) (\<lambda>s. True) (\<lambda>s r. \<exists>c. r = Inr c)) \<and>
      (\<forall>c p. yields V (gcs_Buckets (e_gcs E) c p) (\<lambda>s. True)
         (\<lambda>s it. \<exists>bs. iterator_buckets it = Inr bs \<and> list_all (\<lambda>b. ba_Name b \<in> sn_own s) bs)) \<and>
      (\<forall>c n. yields V (gcs_Attrs (e_gcs E) c n) (\<lambda>s. n \<notin> sn_taken s)
         (\<lambda>s r. if n \<in> sn_own s then \<exists>attrs. r = Inr attrs else \<exists>t. r = Inl (ErrBucketNotExist t))))"

definition gcs_writes_work :: "'w env \<Rightarrow> 'w view \<Rightarrow> bool" where
  "gcs_writes_work E V =
     ((\<forall>c n p attrs w. n \<notin> sn_own (V w) \<longrightarrow> n \<notin> sn_taken (V w) \<longrightarrow>
         (\<exists>w'. gcs_Create (e_gcs E) c n p attrs w = (None, w') \<and>
            V w' = (V w)\<lparr>sn_own := insert n (sn_own (V w))\<rparr>)) \<and>
      (\<forall>c n labels. yields V (gcs_Update (e_gcs E) c n labels) (\<lambda>s. n \<in> sn_own s) (\<lambda>s r. \<exists>attrs. r = Inr attrs)))"

definition gcs_works :: "'w env \<Rightarrow> 'w view \<Rightarrow> bool" where
  "gcs_works E V = (gcs_reads_work E V \<and> gcs_writes_work E V)"

lemma gcs_works_yields:
  assumes "gcs_works E V"
  shows "yields V (r_Get (k_Secret (e_kube E)) storageCredsSecretName OperatorNamespace) (\<lambda>s. True)
        (\<lambda>s r. \<exists>secret key. r = Inr secret \<and> gomap_get (sec_Data secret) ''service_account.json'' = Some key)"
    and "yields V (gcs_CredentialsFromJSON (e_gcs E) key) (\<lambda>s. True) (\<lambda>s r. \<exists>creds. r = Inr creds)"
    and "yields V (gcs_NewClient (e_gcs E) creds) (\<lambda>s. True) (\<lambda>s r. \<exists>c. r = Inr c)"
    and "yields V (gcs_Buckets (e_gcs E) c p) (\<lambda>s. True)
         (\<lambda>s it. \<exists>bs. iterator_buckets it = Inr bs \<and> list_all (\<lambda>b. ba_Name b \<in> sn_own s) bs)"
    and "yields V (gcs_Attrs (e_gcs E) c n) (\<lambda>s. n \<notin> sn_taken s)
         (\<lambda>s r. if n \<in> sn_own s then \<exists>attrs. r = Inr attrs else \<exists>t. r = Inl (ErrBucketNotExist t))"
    and "yields V (gcs_Update (e_gcs E) c n labels) (\<lambda>s. n \<in> sn_own s) (\<lambda>s r. \<exists>attrs. r = Inr attrs)"
  using assms by (simp_all only: gcs_works_def gcs_reads_work_def gcs_writes_work_def)

lemmas gcs_answers = gcs_works_yields [THEN yieldsD]

lemma gcs_creates:
  assumes "gcs_works E V" and "gcs_Create (e_gcs E) c n p attrs w = (r, w')"
    and "n \<notin> sn_own (V w)" and "n \<notin> sn_taken (V w)"
  shows "r = None \<and> V w' = (V w)\<lparr>sn_own := insert n (sn_own (V w))\<rparr>"
proof -
  have "\<exists>w'. gcs_Create (e_gcs E) c n p attrs w = (None, w') \<and>
      V w' = (V w)\<lparr>sn_own := insert n (sn_own (V w))\<rparr>"
    using assms(1,3,4) unfolding gcs_works_def gcs_writes_work_def by blast
  then show ?thesis using assms(2) by auto
qed

section \<open>The parts of a run\<close>

lemma works_gcs_client:
  assumes "gcs_works E V"
  shows "wp (NewGcsClient E) (\<lambda>r es w'. V w' = V w \<and> (\<exists>c. r = Returned (Inr c))) w"
  by (auto simp: NewGcsClient_def gcs_calls env_calls wp_simps
      split: prod.split option.split sum.split dest!: gcs_answers(1-3) [OF assms])

lemma works_gcs_exists:
  assumes "gcs_works E V" and "b \<notin> sn_taken (V w)"
  shows "wp (gcs_StorageExists E d b)
    (\<lambda>r es w'. V w' = V w \<and> r = Returned (Inr (b \<in> sn_own (V w)))) w"
  unfolding gcs_StorageExists_def
  by (rule wp_bindI [OF works_gcs_client [OF assms(1)]])
    (use assms(2) in \<open>auto simp: gcs_calls wp_simps
      split: prod.split sum.split if_splits dest!: gcs_answers(5) [OF assms(1)]\<close>)

lemma works_gcs_enforced:
  assumes "gcs_works E V" and "stores_status E V" and "runtime_works E V" and "valid_runtime E"
    and "sb_Name (vi_Bucket i) \<notin> sn_taken (V w)" and "sn_objs (V w) (install_key i) \<noteq> None"
  shows "wp (gcs_enforce_bucket E d c i) (\<lambda>r es w'. r = Returned None \<and> enforced i (V w) es (V w')) w"
  unfolding gcs_enforce_bucket_def Let_def synced_def [symmetric] unprovisioned_def [symmetric]
proof (rule wp_bindI [OF works_gcs_exists [OF assms(1,5)]], goal_cases)
  case (1 es w')
  then show ?case by simp
next
  case (2 x es w')
  then have same: "V w' = V w" and x: "x = Inr (sb_Name (vi_Bucket i) \<in> sn_own (V w))" by simp_all
  have missing: "wp (exec (StatusUpdate E (unprovisioned i)) (\<lambda>(err, inst'). ret err))
      (\<lambda>r es' w''. r = Returned None \<and> enforced i (V w) (es @ es') (V w'')) w'"
    if "sb_Name (vi_Bucket i) \<notin> sn_own (V w)"
    by (rule wp_mono [OF works_recorded [OF assms(2)]]) (use assms(6) same enforcedI(2) that in auto)
  have there: "wp (exec (time_Now E) (\<lambda>t. exec (StatusUpdate E (synced t i)) (\<lambda>(err, inst'). ret err)))
      (\<lambda>r es' w''. r = Returned None \<and> enforced i (V w) (pre @ es') (V w'')) w1"
    if "sb_Name (vi_Bucket i) \<in> sn_own (V w)" and "V w1 = V w" for w1 pre
  proof -
    obtain t w2 where now: "rt_Now (e_rt E) w1 = (t, w2)" by fastforce
    then have "V w2 = V w" using works_Now [OF assms(3)] that(2) by simp
    then have "wp (exec (StatusUpdate E (synced t i)) (\<lambda>(err, inst'). ret err))
        (\<lambda>r es' w''. r = Returned None \<and> enforced i (V w) (pre @ Now t # es') (V w'')) w2"
      by (intro wp_mono [OF works_recorded [OF assms(2)]]) (use assms(6) same enforcedI(1) that in auto)
    then show ?thesis
      by (simp add: time_Now_def wp_exec [of "call f g" for f g] wp_call now)
  qed
  show ?case
  proof (cases "sb_Name (vi_Bucket i) \<in> sn_own (V w)")
    case True
    show ?thesis
      unfolding x using True same there [OF True, where pre = "es @ [e]" for e]
      by (auto simp: wp_exec [of "enforceBucketLabels E d c b" for b] wp_enforceBucketLabels [OF assms(4)]
          dest!: gcs_answers(6) [OF assms(1)] split: prod.split)
  next
    case False
    then show ?thesis unfolding x using missing by simp
  qed
qed

text \<open>A bucket that the labels single out is one of the listing.\<close>

lemma labelled_own:
  assumes "valid_order ord" and "list_all (\<lambda>b. ba_Name b \<in> mine) bs"
  shows "findVeleroBucket ord d bs = '''' \<or> findVeleroBucket ord d bs \<in> mine"
  using assms(2) find_Some_iff [of "labelled d" bs]
  by (auto simp: findVeleroBucket_find [OF assms(1)] list_all_length split: option.split)

lemma works_gcs_proposed:
  assumes "gcs_works E V" and "stores_status E V" and "sn_objs (V w) (install_key i) \<noteq> None"
    and "n \<notin> sn_own (V w)" and "n \<notin> sn_taken (V w)" and "n \<noteq> ''''"
  shows "wp (exec (gcs_StorageExists E d n) (\<lambda>r. case r of
        Inl err \<Rightarrow> ret (Some err)
      | Inr proposedBucketExists \<Rightarrow>
          if proposedBucketExists then
            ret (Some (Errorf [''proposed bucket '', n, '' already exists, retrying'']))
          else exec (StatusUpdate E (proposed n i)) (\<lambda>(err, inst'). ret err)))
      (\<lambda>r es w'. r = Returned None \<and> (\<exists>j. named_as i j (V w) (V w'))) w"
proof (rule wp_bindI [OF works_gcs_exists [OF assms(1,5)]], goal_cases)
  case (1 es w')
  then show ?case by simp
next
  case (2 x es w')
  have there: "sn_objs (V w') (install_key (proposed n i)) \<noteq> None" using 2 assms(3) by simp
  have "wp (exec (StatusUpdate E (proposed n i)) (\<lambda>(err, inst'). ret err))
      (\<lambda>r es' w''. r = Returned None \<and> (\<exists>j. stored_as (proposed n i) j (V w') (V w''))) w'"
    by (rule works_recorded [OF assms(2) there])
  then show ?case
    using 2 assms(4-6) by (auto elim!: wp_mono intro: named_later(2))
qed

lemma works_gcs_named:
  assumes "gcs_works E V" and "stores_status E V" and "runtime_works E V" and "valid_runtime E"
    and "sn_objs (V w) (install_key i) \<noteq> None"
  shows "wp (gcs_name_bucket E d c i)
    (\<lambda>r es w'. r = Returned None \<and> (\<exists>j. named_as i j (V w) (V w'))) w"
proof -
  have adopt: "wp (exec (StatusUpdate E (adopted n i)) (\<lambda>(err, inst'). ret err))
      (\<lambda>r es w'. r = Returned None \<and> (\<exists>j. named_as i j (V w) (V w'))) w1"
    if "V w1 = V w" and "n \<noteq> ''''" and "n \<in> sn_own (V w)" for n w1
    using that assms(5)
    by (intro wp_mono [OF works_recorded [OF assms(2)]]) (auto intro: named_later(1))
  have propose: "wp (exec (gcs_generateBucketName E StorageBucketPrefix) (\<lambda>n.
        exec (gcs_StorageExists E d n) (\<lambda>r. case r of
          Inl err \<Rightarrow> ret (Some err)
        | Inr proposedBucketExists \<Rightarrow>
            if proposedBucketExists then
              ret (Some (Errorf [''proposed bucket '', n, '' already exists, retrying'']))
            else exec (StatusUpdate E (proposed n i)) (\<lambda>(err, inst'). ret err))))
      (\<lambda>r es w'. r = Returned None \<and> (\<exists>j. named_as i j (V w) (V w'))) w1" if "V w1 = V w" for w1
    unfolding wp_exec [of "gcs_generateBucketName E p" for p] gcs_generateBucketName_wp
    using that assms(5)
    by (auto simp: StorageBucketPrefix_def split: prod.split dest!: works_NewUUID [OF assms(3)]
        intro!: wp_mono [OF works_gcs_proposed [OF assms(1,2)]])
  have found: "findVeleroBucket (rt_Order (e_rt E) w1) d bs \<in> sn_own (V w)"
    if "findVeleroBucket (rt_Order (e_rt E) w1) d bs \<noteq> ''''" and "list_all (\<lambda>b. ba_Name b \<in> sn_own (V w)) bs" for w1 bs
    using labelled_own [OF _ that(2)] that(1) assms(4) unfolding valid_runtime_def by blast
  show ?thesis
    unfolding gcs_name_bucket_def adopted_def [symmetric] proposed_def [symmetric]
      wp_exec [of "listBuckets E d c"] wp_listBuckets
    by (auto simp: current_order_def wp_asks wp_exec [of "asks f" for f] Let_def
        split: prod.split sum.split dest!: gcs_answers(4) [OF assms(1)]
        intro!: wp_mono [OF adopt] wp_mono [OF propose] found)
qed

section \<open>The driver converges\<close>

definition gcs_fit :: "StorageBucket \<Rightarrow> snapshot \<Rightarrow> bool" where
  "gcs_fit b s = (sb_Name b \<noteq> '''' \<longrightarrow>
     sb_Name b \<notin> sn_taken s \<and> (sb_Provisioned b \<or> sb_Name b \<notin> sn_own s))"

lemma gcs_enforced_pass:
  assumes "gcs_works E V" and "stores_status E V" and "runtime_works E V" and "valid_runtime E"
    and "sb_Name (vi_Bucket i) \<noteq> ''''" and "sb_Name (vi_Bucket i) \<notin> sn_taken (V w)"
    and "sn_objs (V w) (install_key i) \<noteq> None"
  shows "wp (gcs_enforce_bucket E d c i)
    (\<lambda>r es w'. r = Returned None \<and> (\<exists>j. stores i j (V w) (V w') \<and> gcs_fit (vi_Bucket j) (V w') \<and>
       (if sb_Name (vi_Bucket i) \<in> sn_own (V w) then synced_by es (vi_Bucket j) (V w')
        else runs_left (vi_Bucket j) (V w') = 1 \<and>
          sb_LastSyncTimestamp (vi_Bucket j) = sb_LastSyncTimestamp (to_second (vi_Bucket i))))) w"
proof (rule wp_mono [OF works_gcs_enforced [OF assms(1-4,6,7)]], elim conjE, goal_cases)
  case (1 r es w')
  obtain j where "stores i j (V w) (V w')" "sb_Name (vi_Bucket j) = sb_Name (vi_Bucket i)"
    "sn_own (V w') = sn_own (V w)" "sn_taken (V w') = sn_taken (V w)"
    "if sb_Name (vi_Bucket i) \<in> sn_own (V w) then sb_Provisioned (vi_Bucket j) \<and> synced_by es (vi_Bucket j) (V w')
     else \<not> sb_Provisioned (vi_Bucket j) \<and> runs_left (vi_Bucket j) (V w') = 1 \<and>
       sb_LastSyncTimestamp (vi_Bucket j) = sb_LastSyncTimestamp (to_second (vi_Bucket i))"
    by (rule enforced_status [OF 1(2) assms(5,6)])
  then show ?case using 1(1) assms(6) by (auto simp: gcs_fit_def split: if_splits)
qed

lemma provisioned_branch: "sb_Provisioned b \<Longrightarrow> \<not> (sb_Name b \<noteq> x \<and> \<not> sb_Provisioned b)"
  by simp

lemma gcs_run_passes:
  assumes "gcs_works E V" and "stores_status E V" and "runtime_works E V" and "valid_runtime E"
    and "sn_objs (V w) (install_key i) \<noteq> None" and "gcs_fit (vi_Bucket i) (V w)"
  shows "wp (gcs_CreateStorage E d i) (pass V gcs_fit i w) w"
  unfolding gcs_CreateStorage_def Let_def
proof (rule wp_bindI [OF works_gcs_client [OF assms(1)]], goal_cases)
  case (1 es w')
  then show ?case by simp
next
  case (2 x es w')
  then obtain c where x: "x = Inr c" and same: "V w' = V w" by auto
  have there: "sn_objs (V w') (install_key i) \<noteq> None" using assms(5) same by simp
  let ?b = "sb_Name (vi_Bucket i)"
  note enforced = gcs_enforced_pass [OF assms(1-4)]
  consider (nameless) "?b = ''''" | (create) "?b \<noteq> ''''" "\<not> sb_Provisioned (vi_Bucket i)"
    | (check) "?b \<noteq> ''''" "sb_Provisioned (vi_Bucket i)"
    by blast
  then show ?case
  proof cases
    case nameless
    show ?thesis
      unfolding x sum.case if_P [OF nameless]
    proof (rule wp_mono [OF works_gcs_named [OF assms(1-4) there]], elim conjE exE, goal_cases)
      case (1 r es' w'' j)
      note j = named_status [OF 1(2) one_owner [OF assms(3)]]
      have "runs_left (vi_Bucket i) (V w) = 2" using nameless by (simp add: runs_left_def)
      then show ?case
        using 1(1) j same by (auto simp: pass_def progress_def gcs_fit_def intro!: exI [of _ j])
    qed
  next
    case create
    then have free: "?b \<notin> sn_own (V w')" "?b \<notin> sn_taken (V w')"
      using assms(6) same by (auto simp: gcs_fit_def)
    have enforce: "wp (gcs_enforce_bucket E d c i) (pass V gcs_fit i w) w1"
      if "V w1 = (V w)\<lparr>sn_own := insert ?b (sn_own (V w))\<rparr>" for w1
      by (rule wp_mono [OF enforced [OF create(1)]])
        (use that free same assms(5) in \<open>auto simp: pass_def progress_def stores_def synced_by_append\<close>)
    show ?thesis
      unfolding x sum.case if_not_P [OF create(1)]
      using create free same
      by (auto simp: wp_exec wp_createBucket Let_def wp_ret split: prod.split option.split
          dest!: gcs_creates [OF assms(1)] intro!: wp_mono [OF enforce] intro: pass_append pass_Cons)
  next
    case check
    then have free: "?b \<notin> sn_taken (V w')" using assms(6) same by (simp add: gcs_fit_def)
    show ?thesis
      unfolding x sum.case if_not_P [OF check(1)] if_not_P [OF check(2) [THEN provisioned_branch]]
    proof (rule wp_mono [OF enforced [OF check(1) free there]], elim conjE exE, goal_cases)
      case (1 r es' w'' j)
      moreover have "?b \<notin> sn_own (V w) \<Longrightarrow> runs_left (vi_Bucket i) (V w) = 2"
        using check by (simp add: runs_left_def)
      ultimately show ?case
        using same
        by (cases "?b \<in> sn_own (V w)")
          (auto simp: pass_def progress_def synced_by_append intro!: exI [of _ j])
    qed
  qed
qed

interpretation gcs_conv: converging_storage gcs_CreateStorage "\<lambda>d. gcs_works" "\<lambda>d. gcs_fit"
  by unfold_locales (rule gcs_run_passes)

end
