(* ===== verification/Storage_Converges.thy ===== *)
theory Storage_Converges
  imports Storage S3_Progress GCS_Progress
begin

text \<open>The dispatch between the drivers converges where the services of its platform work.\<close>

fun driver_works :: "Driver \<Rightarrow> 'w env \<Rightarrow> 'w view \<Rightarrow> bool" where
  "driver_works (S3Driver d) E V = s3_works E V"
| "driver_works (GCSDriver d) E V = gcs_works E V"

fun driver_fit :: "Driver \<Rightarrow> StorageBucket \<Rightarrow> snapshot \<Rightarrow> bool" where
  "driver_fit (S3Driver d) b s = s3_fit b s"
| "driver_fit (GCSDriver d) b s = gcs_fit b s"

lemma driver_fit_eq: "driver_fit d = (case d of S3Driver x \<Rightarrow> s3_fit | GCSDriver x \<Rightarrow> gcs_fit)"
  by (cases d) (simp_all add: fun_eq_iff)

interpretation driver_conv: converging_storage CreateStorage driver_works driver_fit
proof (unfold_locales, goal_cases)
  case (1 d E V w i)
  then show ?case
    by (cases d) (simp_all add: driver_fit_eq s3_conv.run_passes gcs_conv.run_passes)
qed

end
