(* ===== verification/Operator_Converges.thy ===== *)
theory Operator_Converges
  imports Storage_Converges Operator_History Reconcile_Converges
begin

text \<open>
  The operator from any state to an installed Velero: on services that work, the calls of
  Reconcile for a resource first bring its storage closer to a synchronisation, call by call,
  and then install Velero. Five calls are enough, whatever the status, the cloud and the
  cluster were before.
\<close>

section \<open>A world that works\<close>

abbreviation (input) view_objs :: "'w view \<Rightarrow> 'w store" where
  "view_objs V \<equiv> \<lambda>w. sn_objs (V w)"

text \<open>The objects of the installation are kept apart from the buckets.\<close>

definition apart :: "'w env \<Rightarrow> ('w \<Rightarrow> 'x) \<Rightarrow> bool" where
  "apart E f =
     (resource_leaves f (k_BackupStorageLocation (e_kube E)) \<and>
      resource_leaves f (k_VolumeSnapshotLocation (e_kube E)) \<and>
      resource_leaves f (k_CredentialsRequest (e_kube E)) \<and> resource_leaves f (k_Deployment (e_kube E)) \<and>
      resource_leaves f (k_Service (e_kube E)) \<and> resource_leaves f (k_ServiceMonitor (e_kube E)))"

lemma leaves_or_return:
  "leaves f m \<Longrightarrow> (\<And>x. leaves f (k x)) \<Longrightarrow> leaves f (or_return m k)"
  unfolding or_return_def by (intro leaves_exec) (auto split: sum.split)

lemma provisionVelero_leaves:
  assumes "apart E f"
  shows "leaves f (provisionVelero E d namespace ps i)"
proof -
  have blocks: "leaves f (ensure_BackupStorageLocation E i x1)" "leaves f (ensure_VolumeSnapshotLocation E i x2)"
    "leaves f (ensure_CredentialsRequest E i x3)" "leaves f (ensure_Deployment E i x4)"
    "leaves f (ensure_metrics_Service E i x5)" "leaves f (ensure_ServiceMonitor E x6)" for x1 x2 x3 x4 x5 x6
    using assms unfolding apart_def
    by (auto intro!: bsl.op_leaves vsl.op_leaves cr.op_leaves deployment.op_leaves metrics.op_leaves monitor.op_leaves)
  show ?thesis
    unfolding provisionVelero_def current_order_def
    by (intro leaves_or_return leaves_exec blocks leaves_simps)
      (auto intro!: leaves_or_return leaves_exec blocks split: option.split)
qed

text \<open>
  Everything a call needs of its surroundings: the cluster, the platform, the services of the
  driver, the runtime, and libraries that can build what is wanted for every resource.
\<close>

definition operator_works ::
    "'w env \<Rightarrow> 'w view \<Rightarrow> Driver \<Rightarrow> string \<Rightarrow> InfrastructureStatus \<Rightarrow> bool" where
  "operator_works E V d namespace infra =
     (working_cluster E (view_objs V) \<and> (\<forall>i. can_own (e_lib E) i) \<and> valid_runtime E \<and>
      working_platform E (view_objs V) infra \<and> driver_works d E V \<and> stores_status E V \<and>
      runtime_works E V \<and> apart E (\<lambda>w. sn_own (V w)) \<and>
      (\<forall>i. \<exists>lc cr dep. wants E (GetPlatformType d) namespace (is_PlatformStatus infra) i lc cr dep))"

text \<open>The credentials requests of the cluster can be compared with any wanted one.\<close>

definition comparable_all ::
    "'w env \<Rightarrow> 'w view \<Rightarrow> Driver \<Rightarrow> string \<Rightarrow> InfrastructureStatus \<Rightarrow> 'w \<Rightarrow> bool" where
  "comparable_all E V d namespace infra w =
     (\<forall>i lc cr dep. wants E (GetPlatformType d) namespace (is_PlatformStatus infra) i lc cr dep \<longrightarrow>
        comparable (e_lib E) (view_objs V) cr w)"

section \<open>The time the calls take\<close>

text \<open>The readings of the clock from \<open>T\<close> on, for one second less than the period.\<close>

definition within :: "go_time \<Rightarrow> event list \<Rightarrow> bool" where
  "within T es = list_all (\<lambda>t. T \<le> t \<and> t \<le> T + (s3ReconcilePeriod - 1000000000)) (times es)"

lemma within_append [simp]: "within T (es @ es') = (within T es \<and> within T es')"
  by (simp add: within_def)

lemma withinD: "within T es \<Longrightarrow> Now t \<in> set es \<Longrightarrow> T \<le> t \<and> t \<le> T + (s3ReconcilePeriod - 1000000000)"
  by (auto simp: within_def list_all_iff in_times_iff)

text \<open>The last synchronisation was more than the period before \<open>T\<close>, or there was none.\<close>

definition long_ago :: "go_time \<Rightarrow> go_time option \<Rightarrow> bool" where
  "long_ago T t = (case t of None \<Rightarrow> True | Some x \<Rightarrow> x = 0 \<or> s3ReconcilePeriod < T - x)"

lemma long_ago_stale:
  "long_ago T (sb_LastSyncTimestamp b) \<Longrightarrow> T \<le> t \<Longrightarrow> bucket_stale t s3ReconcilePeriod b"
  by (auto simp: long_ago_def bucket_stale_def split: option.splits)

lemma long_ago_stored:
  assumes "long_ago T (sb_LastSyncTimestamp b)" and "sb_LastSyncTimestamp b' = sb_LastSyncTimestamp (to_second b)"
  shows "long_ago T (sb_LastSyncTimestamp b')"
proof (cases "sb_LastSyncTimestamp b")
  case None
  then show ?thesis using assms(2) by (simp add: long_ago_def to_second_def)
next
  case (Some t)
  have "t - t mod 1000000000 \<le> t" by simp
  then show ?thesis using assms Some by (auto simp: long_ago_def to_second_def)
qed

text \<open>A bucket that stays fresh for as long as the calls take.\<close>

definition stays_fresh :: "go_time \<Rightarrow> StorageBucket \<Rightarrow> bool" where
  "stays_fresh T b = (\<not> bucket_stale (T + (s3ReconcilePeriod - 1000000000)) s3ReconcilePeriod b)"

lemma stays_freshD:
  assumes "stays_fresh T b" and "t \<le> T + (s3ReconcilePeriod - 1000000000)"
  shows "\<not> bucket_stale t s3ReconcilePeriod b" and "\<not> unsynced b"
  using assms bucket_stale_mono unsynced_stale unfolding stays_fresh_def by blast+

lemma synced_stays_fresh:
  assumes "synced_by es b s" and "within T es" and "1000000000 \<le> T"
  shows "stays_fresh T b"
proof -
  obtain t where t: "Now t \<in> set es" "sb_LastSyncTimestamp b = Some (t - t mod 1000000000)"
    "sb_Name b \<noteq> ''''" "sb_Provisioned b"
    using assms(1) by (auto simp: synced_by_def)
  have "T \<le> t" using withinD [OF assms(2) t(1)] by simp
  moreover have "0 \<le> t mod 1000000000 \<and> t mod 1000000000 < 1000000000" by simp
  ultimately have "t \<noteq> t mod 1000000000 \<and> \<not> 0 < T + (t mod 1000000000 - t - 1000000000)"
    using assms(3) by linarith
  then show ?thesis using t(2-4) unfolding stays_fresh_def bucket_stale_def by simp
qed

section \<open>Calls of Reconcile\<close>

text \<open>What the calls return, one after the other, each with the driver of the one before.\<close>

fun calls ::
    "'w env \<Rightarrow> Request \<Rightarrow> nat \<Rightarrow> Driver option \<Rightarrow> ('w, (Result \<times> goerror option) list) prog" where
  "calls E rq 0 driver = ret []"
| "calls E rq (Suc n) driver =
     exec (Reconcile E driver rq) (\<lambda>(res, driver').
       exec (calls E rq n driver') (\<lambda>rest. ret (res # rest)))"

definition request_key :: "Request \<Rightarrow> kkind \<times> string \<times> string" where
  "request_key rq = (KindVeleroInstall, rq_Name rq, rq_Namespace rq)"

text \<open>The resource in the cluster, and Velero in place for it on a bucket of the account.\<close>

definition holds :: "'w view \<Rightarrow> Request \<Rightarrow> VeleroInstall \<Rightarrow> 'w \<Rightarrow> bool" where
  "holds V rq i w =
     (sn_objs (V w) (request_key rq) = Some (ObjVeleroInstall i) \<and> install_key i = request_key rq)"

definition velero_runs :: "'w env \<Rightarrow> 'w view \<Rightarrow> Driver \<Rightarrow> Request \<Rightarrow> InfrastructureStatus \<Rightarrow> 'w \<Rightarrow> bool" where
  "velero_runs E V d rq infra w =
     (\<exists>i. holds V rq i w \<and> sb_Name (vi_Bucket i) \<in> sn_own (V w) \<and>
        settled E (GetPlatformType d) (rq_Namespace rq) (is_PlatformStatus infra) i w)"

definition succeeded :: "(Result \<times> goerror option) list \<Rightarrow> bool" where
  "succeeded rs = (list_all (\<lambda>res. snd res = None) rs \<and> last rs = (no_requeue, None))"

lemma fresh_call_own:
  assumes "working_platform E (view_objs V) infra" and "reconciler_driver driver infra = Returned (Inr d)"
    and "runtime_works E V" and "apart E (\<lambda>w. sn_own (V w))"
    and "view_objs V w (KindVeleroInstall, rq_Name rq, rq_Namespace rq) = Some (ObjVeleroInstall i)"
    and "\<not> unsynced (vi_Bucket i)" and "Reconcile E driver rq w = (r, es, w')"
    and "\<forall>t. Now t \<in> set es \<longrightarrow> \<not> bucket_stale t s3ReconcilePeriod (vi_Bucket i)"
  shows "sn_own (V w') = sn_own (V w)"
proof -
  obtain t w0 where clock: "rt_Now (e_rt E) w = (t, w0)" by fastforce
  note call = Reconcile_call [OF assms(1,2,5,6) clock, unfolded assms(7)]
  then have "Now t \<in> set es" by (auto simp: call_prefix_def split: prod.splits)
  then have "\<not> bucket_stale t s3ReconcilePeriod (vi_Bucket i)" using assms(8) by blast
  then obtain es0 where
    "exec (provisionVelero E d (rq_Namespace rq) (is_PlatformStatus infra) i) (\<lambda>res. ret (res, Some d)) w0 = (r, es0, w')"
    using call by (auto split: prod.splits)
  then have "sn_own (V w') = sn_own (V w0)"
    by (rule leavesD [OF leaves_exec [OF provisionVelero_leaves [OF assms(4)] leaves_simps(1)]])
  then show ?thesis using works_Now [OF assms(3) clock] by simp
qed

text \<open>A call for a bucket that stays fresh is a run of provisionVelero.\<close>

lemma fresh_call:
  assumes "operator_works E V d (rq_Namespace rq) infra" and "reconciler_driver driver infra = Returned (Inr d)"
    and "wants E (GetPlatformType d) (rq_Namespace rq) (is_PlatformStatus infra) i lc cr dep"
    and "comparable (e_lib E) (view_objs V) cr w"
    and "holds V rq i w" and "stays_fresh T (vi_Bucket i)"
  shows "wp (Reconcile E driver rq) (\<lambda>r es w'. within T es \<longrightarrow>
    comparable (e_lib E) (view_objs V) cr w' \<and> sn_objs (V w') (service_key dep) \<noteq> None \<and>
    holds V rq i w' \<and> sn_own (V w') = sn_own (V w) \<and>
    r = Returned ((if sn_objs (V w) (service_key dep) = None then requeue else no_requeue, None), Some d) \<and>
    (sn_objs (V w) (service_key dep) \<noteq> None \<longrightarrow>
       settled E (GetPlatformType d) (rq_Namespace rq) (is_PlatformStatus infra) i w')) w"
proof (rule wpI, rule impI)
  fix r es w'
  assume run: "Reconcile E driver rq w = (r, es, w')" and time: "within T es"
  have not_due: "\<not> unsynced (vi_Bucket i)"
    by (rule stays_freshD(2) [OF assms(6)]) (rule order_refl)
  have fresh: "\<forall>t. Now t \<in> set es \<longrightarrow> \<not> bucket_stale t s3ReconcilePeriod (vi_Bucket i)"
    using stays_freshD(1) [OF assms(6)] withinD [OF time] by blast
  note works = assms(1) [unfolded operator_works_def]
  have stored: "view_objs V w (KindVeleroInstall, rq_Name rq, rq_Namespace rq) = Some (ObjVeleroInstall i)"
    and key: "install_key i = request_key rq"
    using assms(5) by (simp_all add: holds_def request_key_def)
  have "comparable (e_lib E) (view_objs V) cr w' \<and> view_objs V w' (service_key dep) \<noteq> None \<and>
    view_objs V w' (KindVeleroInstall, rq_Name rq, rq_Namespace rq) = Some (ObjVeleroInstall i) \<and>
    r = Returned ((if view_objs V w (service_key dep) = None then requeue else no_requeue, None), Some d) \<and>
    (view_objs V w (service_key dep) \<noteq> None \<longrightarrow>
       settled E (GetPlatformType d) (rq_Namespace rq) (is_PlatformStatus infra) i w')"
    by (rule Reconcile_pass [where w = w, OF _ _ _ _ assms(2,3,4) stored not_due run fresh]) (use works in blast)+
  moreover have "sn_own (V w') = sn_own (V w)"
    by (rule fresh_call_own [where V = V and w = w, OF _ assms(2) _ _ stored not_due run fresh]) (use works in blast)+
  ultimately show "comparable (e_lib E) (view_objs V) cr w' \<and> sn_objs (V w') (service_key dep) \<noteq> None \<and>
    holds V rq i w' \<and> sn_own (V w') = sn_own (V w) \<and>
    r = Returned ((if sn_objs (V w) (service_key dep) = None then requeue else no_requeue, None), Some d) \<and>
    (sn_objs (V w) (service_key dep) \<noteq> None \<longrightarrow>
       settled E (GetPlatformType d) (rq_Namespace rq) (is_PlatformStatus infra) i w')"
    using key by (auto simp: holds_def request_key_def)
qed

lemma calls_length: "wp (calls E rq n driver) (\<lambda>r es w'. \<forall>rs. r = Returned rs \<longrightarrow> length rs = n) w"
proof (induction n arbitrary: driver w)
  case 0
  then show ?case by (simp add: wp_ret)
next
  case (Suc n)
  have "wp (exec (calls E rq n driver') (\<lambda>rest. ret (res # rest)))
      (\<lambda>r es w'. \<forall>rs. r = Returned rs \<longrightarrow> length rs = Suc n) w'" for driver' res w'
    by (rule wp_bindI [OF Suc.IH]) (simp_all add: wp_ret)
  then show ?case
    by (auto simp: wp_exec [of "Reconcile E driver rq"] wp_iff [of "Reconcile E driver rq"]
        split: outcome.split elim!: wp_mono)
qed

text \<open>Calls for a fresh bucket: two, or one where the service is there already.\<close>

lemma fresh_calls:
  assumes "operator_works E V d (rq_Namespace rq) infra"
    and "wants E (GetPlatformType d) (rq_Namespace rq) (is_PlatformStatus infra) i lc cr dep"
    and "stays_fresh T (vi_Bucket i)"
  shows "reconciler_driver driver infra = Returned (Inr d) \<Longrightarrow> comparable (e_lib E) (view_objs V) cr w \<Longrightarrow>
    holds V rq i w \<Longrightarrow> sb_Name (vi_Bucket i) \<in> sn_own (V w) \<Longrightarrow>
    (if sn_objs (V w) (service_key dep) = None then 2 else 1) \<le> n \<Longrightarrow>
    wp (calls E rq n driver) (\<lambda>r es w'. within T es \<longrightarrow>
      (\<exists>rs. r = Returned rs \<and> succeeded rs) \<and> velero_runs E V d rq infra w') w"
proof (induction n arbitrary: w driver)
  case 0
  then show ?case by (simp split: if_splits)
next
  case (Suc n)
  show ?case
    unfolding calls.simps
  proof (rule wp_bindI [OF fresh_call [OF assms(1) Suc.prems(1) assms(2) Suc.prems(2,3) assms(3)]], goal_cases)
    case (1 es w')
    then show ?case by simp
  next
    case (2 x es w')
    show ?case
    proof (cases "within T es")
      case True
      with 2 have x: "x = ((if sn_objs (V w) (service_key dep) = None then requeue else no_requeue, None), Some d)"
        and w': "comparable (e_lib E) (view_objs V) cr w'" "sn_objs (V w') (service_key dep) \<noteq> None"
          "holds V rq i w'" "sn_own (V w') = sn_own (V w)"
          "sn_objs (V w) (service_key dep) \<noteq> None \<Longrightarrow>
             settled E (GetPlatformType d) (rq_Namespace rq) (is_PlatformStatus infra) i w'"
        by simp_all
      show ?thesis
      proof (cases n)
        case 0
        then have there: "sn_objs (V w) (service_key dep) \<noteq> None" using Suc.prems(5) by (auto split: if_splits)
        then show ?thesis
          using 0 w' Suc.prems(4) by (auto simp: x wp_simps succeeded_def velero_runs_def)
      next
        case (Suc m)
        have driver: "reconciler_driver (Some d) infra = Returned (Inr d)" by (simp add: reconciler_driver_def)
        have rest: "wp (calls E rq n (Some d)) (\<lambda>r es w'. within T es \<longrightarrow>
            (\<exists>rs. r = Returned rs \<and> succeeded rs) \<and> velero_runs E V d rq infra w') w'"
          using Suc.IH [OF driver w'(1,3)] w'(2,4) Suc.prems(4) Suc by simp
        have len: "wp (calls E rq n (Some d)) (\<lambda>r es w'. \<forall>rs. r = Returned rs \<longrightarrow> length rs = n) w'"
          by (rule calls_length)
        show ?thesis
          unfolding x prod.case
          by (rule wp_bindI [OF wp_conj [OF rest len]])
            (use Suc in \<open>auto simp: wp_ret succeeded_def\<close>)
      qed
    next
      case False
      then show ?thesis by (simp add: wp_def split: prod.split)
    qed
  qed
qed

section \<open>Calls for a bucket that is due\<close>

text \<open>What a call for a due bucket leaves.\<close>

definition moved :: "'w env \<Rightarrow> 'w view \<Rightarrow> Driver \<Rightarrow> Request \<Rightarrow> VeleroInstall \<Rightarrow> 'w \<Rightarrow>
    ((Result \<times> goerror option) \<times> Driver option) outcome \<Rightarrow> event list \<Rightarrow> 'w \<Rightarrow> bool" where
  "moved E V d rq i w r es w' =
     (r = Returned ((no_requeue, None), Some d) \<and>
      (\<exists>j. stores i j (V w) (V w') \<and> driver_fit d (vi_Bucket j) (V w') \<and>
         progress (vi_Bucket i) (V w) es (vi_Bucket j) (V w')))"

lemma storage_moves:
  assumes "operator_works E V d namespace infra" and "holds V rq i w" and "driver_fit d (vi_Bucket i) (V w)"
    and "V w0 = V w"
  shows "wp (exec (CreateStorage E d i) (\<lambda>err. ret ((no_requeue, err), Some d)))
    (\<lambda>r es w'. moved E V d rq i w r (pre @ es) w') w0"
proof -
  have there: "sn_objs (V w0) (install_key i) \<noteq> None" using assms(2,4) by (simp add: holds_def)
  have fit: "driver_fit d (vi_Bucket i) (V w0)" using assms(3,4) by simp
  have "wp (CreateStorage E d i) (pass V (driver_fit d) i w0) w0"
    by (rule driver_conv.run_passes [where V = V and w = w0, OF _ _ _ _ there fit]) (use assms(1) in \<open>simp_all add: operator_works_def\<close>)
  then show ?thesis
    by (rule wp_bindI)
      (use assms(4) in \<open>auto simp: pass_def moved_def wp_ret progress_def synced_by_append\<close>)
qed

lemma due_call:
  assumes "operator_works E V d (rq_Namespace rq) infra" and "reconciler_driver driver infra = Returned (Inr d)"
    and "holds V rq i w" and "driver_fit d (vi_Bucket i) (V w)" and "long_ago T (sb_LastSyncTimestamp (vi_Bucket i))"
  shows "wp (Reconcile E driver rq) (\<lambda>r es w'. within T es \<longrightarrow> moved E V d rq i w r es w') w"
proof -
  have platform: "working_platform E (view_objs V) infra" and clock_works: "runtime_works E V"
    using assms(1) by (simp_all add: operator_works_def)
  have stored: "view_objs V w (KindVeleroInstall, rq_Name rq, rq_Namespace rq) = Some (ObjVeleroInstall i)"
    using assms(3) by (simp add: holds_def request_key_def)
  show ?thesis
  proof (cases "unsynced (vi_Bucket i)")
    case True
    show ?thesis
      unfolding wp_def Reconcile_unsynced [OF platform assms(2) stored True]
      using storage_moves [OF assms(1,3,4) refl, unfolded wp_def] by (auto split: prod.splits)
  next
    case False
    obtain t w0 where clock: "rt_Now (e_rt E) w = (t, w0)" by fastforce
    have same: "V w0 = V w" by (rule works_Now [OF clock_works clock])
    show ?thesis
    proof (cases "T \<le> t")
      case True
      have "bucket_stale t s3ReconcilePeriod (vi_Bucket i)" by (rule long_ago_stale [OF assms(5) True])
      then show ?thesis
        unfolding wp_def Reconcile_call [OF platform assms(2) stored False clock]
        using storage_moves [OF assms(1,3,4) same, unfolded wp_def] by (auto split: prod.splits)
    next
      case late: False
      then have "\<not> within T (call_prefix rq i infra t @ es)" for es
        using withinD [of T "call_prefix rq i infra t @ es" t] by (auto simp: call_prefix_def)
      then show ?thesis
        unfolding wp_def Reconcile_call [OF platform assms(2) stored False clock]
        by (auto split: prod.splits)
    qed
  qed
qed

section \<open>From any state to an installed Velero\<close>

text \<open>Storing a status changes none of the objects that an installation compares.\<close>

lemma stores_comparable:
  assumes "stores i j (V w) (V w')" and "comparable_all E V d namespace infra w"
  shows "comparable_all E V d namespace infra w'"
  using assms by (simp add: comparable_all_def comparable_def stores_def install_key_def)

lemma due_calls:
  assumes "operator_works E V d (rq_Namespace rq) infra" and "1000000000 \<le> T"
  shows "reconciler_driver driver infra = Returned (Inr d) \<Longrightarrow>
    comparable_all E V d (rq_Namespace rq) infra w \<Longrightarrow> holds V rq i w \<Longrightarrow>
    driver_fit d (vi_Bucket i) (V w) \<Longrightarrow> long_ago T (sb_LastSyncTimestamp (vi_Bucket i)) \<Longrightarrow>
    runs_left (vi_Bucket i) (V w) + 2 \<le> n \<Longrightarrow>
    wp (calls E rq n driver) (\<lambda>r es w'. within T es \<longrightarrow>
      (\<exists>rs. r = Returned rs \<and> succeeded rs) \<and> velero_runs E V d rq infra w') w"
proof (induction n arbitrary: w i driver)
  case 0
  then show ?case by simp
next
  case (Suc n)
  have driver: "reconciler_driver (Some d) infra = Returned (Inr d)" by (simp add: reconciler_driver_def)
  have n: "2 \<le> n" using Suc.prems(6) runs_left_pos [of "vi_Bucket i" "V w"] by linarith
  have rest: "wp (calls E rq n (Some d)) (\<lambda>r es w'. within T es \<longrightarrow>
      (\<exists>rs. r = Returned rs \<and> succeeded rs) \<and> velero_runs E V d rq infra w') w'"
    if "moved E V d rq i w r es w'" and "within T es" for r es w'
  proof -
    from that(1) obtain j where j: "stores i j (V w) (V w')" "driver_fit d (vi_Bucket j) (V w')"
      "progress (vi_Bucket i) (V w) es (vi_Bucket j) (V w')"
      by (auto simp: moved_def)
    have held: "holds V rq j w'" using j(1) Suc.prems(3) by (simp add: holds_def stores_def)
    have readable: "comparable_all E V d (rq_Namespace rq) infra w'"
      by (rule stores_comparable [where V = V, OF j(1) Suc.prems(2)])
    show ?thesis
    proof (cases "synced_by es (vi_Bucket j) (V w')")
      case True
      obtain lc cr dep where wants: "wants E (GetPlatformType d) (rq_Namespace rq) (is_PlatformStatus infra) j lc cr dep"
        using assms(1) unfolding operator_works_def by blast
      have "comparable (e_lib E) (view_objs V) cr w'" using readable wants unfolding comparable_all_def by blast
      moreover have "sb_Name (vi_Bucket j) \<in> sn_own (V w')" using True by (simp add: synced_by_def)
      ultimately show ?thesis
        using fresh_calls [OF assms(1) wants synced_stays_fresh [OF True that(2) assms(2)] driver _ held] n by simp
    next
      case False
      then have less: "runs_left (vi_Bucket j) (V w') < runs_left (vi_Bucket i) (V w)"
        and time: "sb_LastSyncTimestamp (vi_Bucket j) = sb_LastSyncTimestamp (to_second (vi_Bucket i))"
        using j(3) by (simp_all add: progress_def)
      show ?thesis
        using Suc.IH [OF driver readable held j(2) long_ago_stored [OF Suc.prems(5) time]] less Suc.prems(6) by simp
    qed
  qed
  show ?case
    unfolding calls.simps
  proof (rule wp_bindI [OF due_call [OF assms(1) Suc.prems(1,3-5)]], goal_cases)
    case (1 es w')
    then show ?case by (simp add: moved_def)
  next
    case (2 x es w')
    show ?case
    proof (cases "within T es")
      case True
      with 2 have moved: "moved E V d rq i w (Returned x) es w'" by simp
      then have x: "x = ((no_requeue, None), Some d)" by (simp add: moved_def)
      show ?thesis
        unfolding x prod.case
        by (rule wp_bindI [OF wp_conj [OF rest [OF moved True] calls_length]])
          (use n in \<open>auto simp: wp_ret succeeded_def\<close>)
    next
      case False
      then show ?thesis by (simp add: wp_def split: prod.split)
    qed
  qed
qed

text \<open>
  Where the calls may start: from a status the driver can recover from whose last
  synchronisation is long ago, or from a fresh bucket of the account.
\<close>

definition startable :: "go_time \<Rightarrow> Driver \<Rightarrow> StorageBucket \<Rightarrow> snapshot \<Rightarrow> bool" where
  "startable T d b s =
     ((driver_fit d b s \<and> long_ago T (sb_LastSyncTimestamp b)) \<or>
      (stays_fresh T b \<and> sb_Name b \<in> sn_own s))"

lemma five_calls:
  assumes "operator_works E V d (rq_Namespace rq) infra" and "reconciler_driver driver infra = Returned (Inr d)"
    and "comparable_all E V d (rq_Namespace rq) infra w" and "holds V rq i w"
    and "startable T d (vi_Bucket i) (V w)" and "1000000000 \<le> T"
    and "calls E rq 5 driver w = (r, es, w')" and "within T es"
  shows "\<exists>rs. r = Returned rs \<and> succeeded rs \<and> velero_runs E V d rq infra w'"
proof -
  have "wp (calls E rq 5 driver) (\<lambda>r es w'. within T es \<longrightarrow>
      (\<exists>rs. r = Returned rs \<and> succeeded rs) \<and> velero_runs E V d rq infra w') w"
  proof (cases "stays_fresh T (vi_Bucket i) \<and> sb_Name (vi_Bucket i) \<in> sn_own (V w)")
    case True
    obtain lc cr dep where wants: "wants E (GetPlatformType d) (rq_Namespace rq) (is_PlatformStatus infra) i lc cr dep"
      using assms(1) unfolding operator_works_def by blast
    then have "comparable (e_lib E) (view_objs V) cr w" using assms(3) unfolding comparable_all_def by blast
    then show ?thesis
      using True by (intro fresh_calls [OF assms(1) wants _ assms(2) _ assms(4)]) simp_all
  next
    case False
    then have "driver_fit d (vi_Bucket i) (V w)" and "long_ago T (sb_LastSyncTimestamp (vi_Bucket i))"
      using assms(5) by (auto simp: startable_def)
    then show ?thesis
      using runs_left_le [of "vi_Bucket i" "V w"]
      by (intro due_calls [OF assms(1,6,2,3,4)]) simp_all
  qed
  from wpD [OF this assms(7)] show ?thesis using assms(8) by auto
qed

end
