(* ===== verification/Typed_Status.thy ===== *)
theory Typed_Status
  imports Controller
begin

text \<open>
  A typing discipline for programs: which calls they make and what they return; and the
  types of the operator's programs by the resources they send to the server in a status
  update, for any predicate that the drivers' changes and the server's answers keep.
\<close>

section \<open>Typed programs\<close>

text \<open>\<open>typed G m R\<close>: every call of \<open>m\<close> is in \<open>G\<close>, and \<open>m\<close> returns a value in \<open>R\<close>.\<close>

definition typed :: "('e \<Rightarrow> bool) \<Rightarrow> ('w, 'e, 'a) go \<Rightarrow> ('a \<Rightarrow> bool) \<Rightarrow> bool" where
  "typed G m R = (\<forall>w. wp m (\<lambda>r es w'. list_all G es \<and> (\<forall>x. r = Returned x \<longrightarrow> R x)) w)"

lemma typed_wp: "typed G m R \<Longrightarrow> wp m (\<lambda>r es w'. list_all G es \<and> (\<forall>x. r = Returned x \<longrightarrow> R x)) w"
  by (simp add: typed_def)

lemma typed_ret [simp]: "typed G (ret x) R = R x"
  by (simp add: typed_def wp_simps)

lemma typed_panic [simp]: "typed G panic R"
  by (simp add: typed_def wp_simps)

lemma typed_call:
  "(\<And>x w w'. f w = (x, w') \<Longrightarrow> G (ev x) \<and> R x) \<Longrightarrow> typed G (call f ev) R"
  by (simp add: typed_def wp_call split: prod.split)

lemma typed_exec:
  assumes "typed G m R" and "\<And>x. R x \<Longrightarrow> typed G (f x) R'"
  shows "typed G (exec m f) R'"
  unfolding typed_def
proof (intro allI, rule wp_bindI [OF typed_wp [OF assms(1)]], goal_cases)
  case (2 w x es w')
  then show ?case by (intro wp_mono [OF typed_wp [OF assms(2)]]) simp_all
qed simp

lemma typed_calls: "only_calls G m \<Longrightarrow> typed G m (\<lambda>x. True)"
  by (simp add: typed_def only_calls_def)

lemma typed_only_calls: "typed G m R \<Longrightarrow> only_calls G m"
  unfolding typed_def only_calls_def by (blast intro: wp_mono)

lemma typed_lift: "(\<And>x. q = Returned x \<Longrightarrow> R x) \<Longrightarrow> typed G (lift_outcome q) R"
  by (simp add: typed_def wp_simps split: outcome.split)

lemma typed_order:
  "valid_runtime E \<Longrightarrow> (\<And>ord. valid_order ord \<Longrightarrow> typed G (f ord) R) \<Longrightarrow>
     typed G (exec (current_order E) f) R"
  by (rule typed_exec [where R = valid_order])
    (auto simp: current_order_def typed_def wp_simps valid_runtime_def)

section \<open>The statuses a program sends\<close>

definition sends :: "(VeleroInstall \<Rightarrow> bool) \<Rightarrow> event \<Rightarrow> bool" where
  "sends P e = (case e of KStatusUpdate j r \<Rightarrow> P j | _ \<Rightarrow> True)"

lemma sends_simps [simp]:
  "sends P (KStatusUpdate j r) = P j"
  "\<not> is_status_update e \<Longrightarrow> sends P e"
  by (auto simp: sends_def split: event.split)

lemma typed_quiet: "only_calls (\<lambda>e. \<not> is_status_update e) m \<Longrightarrow> typed (sends P) m (\<lambda>x. True)"
  by (rule typed_calls, erule only_calls_mono) simp

text \<open>What only reads sends no status.\<close>

lemma reads_no_status: "reads e \<Longrightarrow> \<not> is_status_update e"
  by (cases e) (auto simp: reads_def)

lemmas typed_reads = typed_quiet [OF only_calls_mono [OF _ reads_no_status]]

section \<open>The types of a driver's statuses\<close>

text \<open>The names the outside gives: identifiers behind the prefix, and listed buckets.\<close>

definition names_given :: "(string \<Rightarrow> bool) \<Rightarrow> 'w env \<Rightarrow> bool" where
  "names_given N E =
     (N '''' \<and> (\<forall>w. N (StorageBucketPrefix @ fst (rt_NewUUID (e_rt E) w))) \<and>
      (\<forall>c w l w'. s3_ListBuckets (e_aws E) c w = (Inr l, w') \<longrightarrow>
         (\<forall>b\<in>set (lbo_Buckets l). \<forall>n. b_Name b = Some n \<longrightarrow> N n)) \<and>
      (\<forall>c p w bs. iterator_buckets (fst (gcs_Buckets (e_gcs E) c p w)) = Inr bs \<longrightarrow>
         (\<forall>b\<in>set bs. N (ba_Name b))))"

lemma uuid_typed: "names_given N E \<Longrightarrow> typed (sends P) (uuid_New E) (\<lambda>u. N (StorageBucketPrefix @ u))"
  unfolding uuid_New_def names_given_def by (rule typed_call) (simp, metis fst_conv)

text \<open>
  A driver has a resource in \<open>Q\<close>. It sends the resource with another status, whose name is
  the old one or in \<open>N\<close>, and that is in \<open>P\<close>; and after it named the bucket it goes on with
  the answer of the server, which is in \<open>Q\<close> again.
\<close>

definition status_type ::
    "(VeleroInstall \<Rightarrow> bool) \<Rightarrow> (VeleroInstall \<Rightarrow> bool) \<Rightarrow> (string \<Rightarrow> bool) \<Rightarrow> 'w env \<Rightarrow> bool" where
  "status_type P Q N E =
     (names_given N E \<and>
      (\<forall>i j. Q i \<longrightarrow> vi_ObjectMeta j = vi_ObjectMeta i \<longrightarrow>
         sb_Name (vi_Bucket j) = sb_Name (vi_Bucket i) \<or> N (sb_Name (vi_Bucket j)) \<longrightarrow> P j) \<and>
      (\<forall>i n q w i' w'. Q i \<longrightarrow> N n \<longrightarrow>
         k_StatusUpdate (e_kube E) (with_bucket (\<lambda>b. b\<lparr>sb_Name := n, sb_Provisioned := q\<rparr>) i) w = (Inr i', w') \<longrightarrow>
         Q i'))"

lemma status_typeD:
  assumes "status_type P Q N E"
  shows "names_given N E"
    and "Q i \<Longrightarrow> vi_ObjectMeta j = vi_ObjectMeta i \<Longrightarrow> sb_Name (vi_Bucket j) = sb_Name (vi_Bucket i) \<Longrightarrow> P j"
    and "Q i \<Longrightarrow> vi_ObjectMeta j = vi_ObjectMeta i \<Longrightarrow> N (sb_Name (vi_Bucket j)) \<Longrightarrow> P j"
    and "N ''''"
  using assms unfolding status_type_def names_given_def by blast+

lemma StatusUpdate_sent: "P j \<Longrightarrow> typed (sends P) (StatusUpdate E j) (\<lambda>x. True)"
  by (auto simp: typed_def wp_simps split: prod.split sum.split)

lemma renaming_typed:
  assumes "status_type P Q N E" and "Q i" and "N n"
  shows "typed (sends P) (StatusUpdate E (with_bucket (\<lambda>b. b\<lparr>sb_Name := n, sb_Provisioned := q\<rparr>) i))
    (\<lambda>(err, i'). err = None \<longrightarrow> Q i')"
proof -
  let ?j = "with_bucket (\<lambda>b. b\<lparr>sb_Name := n, sb_Provisioned := q\<rparr>) i"
  have "P ?j" by (rule status_typeD(3) [OF assms(1,2)]) (simp_all add: assms(3))
  moreover have "Q i'" if "k_StatusUpdate (e_kube E) ?j w = (Inr i', w')" for w i' w'
    using assms that unfolding status_type_def by blast
  ultimately show ?thesis
    by (auto simp: typed_def wp_simps split: prod.split sum.split)
qed

lemma recorded_typed:
  "P j \<Longrightarrow> typed (sends P) (exec (StatusUpdate E j) (\<lambda>(err, i'). ret (f err))) (\<lambda>x. True)"
  by (rule typed_exec [OF StatusUpdate_sent]) (auto split: prod.split)

section \<open>The S3 driver\<close>

lemma locate_typed:
  assumes "\<forall>b\<in>set (bs @ acc). Q b"
  shows "typed (sends P) (locate_buckets E c region bs acc) (\<lambda>r. \<forall>bs'. r = Inr bs' \<longrightarrow> (\<forall>b\<in>set bs'. Q b))"
  using assms
proof (induction bs arbitrary: acc region)
  case (Cons b bs)
  have loc: "typed (sends P) (api_GetBucketLocation E c n) (\<lambda>x. True)" for n
    unfolding api_GetBucketLocation_def by (rule typed_call) simp
  show ?case
    using Cons.prems
    by (auto intro!: typed_exec [OF loc] Cons.IH simp: Let_def split: sum.split option.split)
qed simp

abbreviation all_named :: "(string \<Rightarrow> bool) \<Rightarrow> goerror + ListBucketsOutput \<Rightarrow> bool" where
  "all_named N r \<equiv> (\<forall>l. r = Inr l \<longrightarrow> (\<forall>b\<in>set (lbo_Buckets l). \<forall>n. b_Name b = Some n \<longrightarrow> N n))"

lemma listing_typed:
  assumes "names_given N E"
  shows "typed (sends P) (ListBucketsInRegion E c region) (all_named N)"
proof -
  have call: "typed (sends P) (api_ListBuckets E c) (all_named N)"
    unfolding api_ListBuckets_def
    by (rule typed_call) (use assms in \<open>simp add: names_given_def, blast\<close>)
  have list: "typed (sends P) (ListBuckets E c) (all_named N)"
    unfolding ListBuckets_def by (rule typed_exec [OF call]) (auto split: sum.split)
  show ?thesis
    unfolding ListBucketsInRegion_def
    by (rule typed_exec [OF list])
      (auto intro!: typed_exec [OF locate_typed [where Q = "\<lambda>b. \<forall>n. b_Name b = Some n \<longrightarrow> N n"]]
        split: sum.split)
qed

lemma tags_typed:
  assumes "\<forall>b\<in>set bs. \<forall>n. b_Name b = Some n \<longrightarrow> N n" and "\<forall>n. n |\<in>| fmdom acc \<longrightarrow> N n"
  shows "typed (sends P) (collect_tags E c bs acc) (\<lambda>r. \<forall>m. r = Inr m \<longrightarrow> (\<forall>n. n |\<in>| fmdom m \<longrightarrow> N n))"
  using assms
proof (induction bs arbitrary: acc)
  case (Cons b bs)
  have tag: "typed (sends P) (api_GetBucketTagging E c n) (\<lambda>x. True)" for n
    unfolding api_GetBucketTagging_def by (rule typed_call) simp
  show ?case
    using Cons.prems
    by (auto intro!: typed_exec [OF tag] Cons.IH split: sum.split option.split)
qed simp

text \<open>FindMatchingTags returns the name of a bucket it was given, or none.\<close>

lemma fold_outcome_invariant:
  assumes "fold_outcome f xs s = Returned s'" and "I s"
    and "\<And>x s s'. x \<in> set xs \<Longrightarrow> I s \<Longrightarrow> f x s = Returned s' \<Longrightarrow> I s'"
  shows "I s'"
  using assms
proof (induction xs arbitrary: s)
  case (Cons x xs)
  from Cons.prems(1) obtain s1 where s1: "f x s = Returned s1" "fold_outcome f xs s1 = Returned s'"
    by (auto split: outcome.splits)
  have "I s1" using Cons.prems(2,3) s1(1) by (meson list.set_intros(1))
  then show ?case using Cons.IH [OF s1(2)] Cons.prems(3) by (meson list.set_intros(2))
qed simp

lemma FindMatchingTags_name:
  assumes "FindMatchingTags bs infraName = Returned n" and "n \<noteq> ''''"
  shows "n \<in> fst ` set bs"
proof -
  define I where "I s = (possiblematch s \<in> insert '''' (fst ` set bs))" for s :: match_vars
  have tag: "I s'" if "match_tag infraName b t s = Returned s'" "I s" "(b, ts) \<in> set bs" for b t ts s s'
    using that by (force simp: match_tag_def I_def Let_def split: option.splits outcome.splits if_splits)
  have bucket: "I s'" if "(b, ts) \<in> set bs" "I s" "fold_outcome (match_tag infraName b) ts s = Returned s'"
    for b ts s s'
    using that(3,2) by (rule fold_outcome_invariant) (blast intro: tag that(1))
  have init: "I \<lparr>tagMatchesCluster = False, tagMatchesVelero = False, possiblematch = ''''\<rparr>"
    by (simp add: I_def)
  have "I s" if "fold_outcome (\<lambda>(bucket, tagset) s. fold_outcome (match_tag infraName bucket) tagset s) bs
      \<lparr>tagMatchesCluster = False, tagMatchesVelero = False, possiblematch = ''''\<rparr> = Returned s" for s
    using that init by (rule fold_outcome_invariant) (auto intro: bucket)
  then show ?thesis
    using assms by (auto simp: FindMatchingTags_def I_def split: outcome.splits if_splits)
qed

lemma DoesBucketExist_typed: "typed (sends P) (DoesBucketExist E c b) (\<lambda>x. True)"
  by (rule typed_reads [OF DoesBucketExist_reads])

lemma setInstanceBucketName_typed:
  assumes "status_type P Q N E" and "valid_runtime E" and "Q i"
  shows "typed (sends P) (setInstanceBucketName E d c i) (\<lambda>(err, i'). err = None \<longrightarrow> Q i')"
proof -
  note names = status_typeD(1) [OF assms(1)]
  have fresh: "typed (sends P) (s3_generateBucketName E StorageBucketPrefix) N"
    unfolding s3_generateBucketName_def by (rule typed_exec [OF uuid_typed [OF names]]) simp
  have match: "typed (sends P) (lift_outcome (FindMatchingTags (range_over ord m) infra)) (\<lambda>n. n \<noteq> '''' \<longrightarrow> N n)"
    if "\<forall>n. n |\<in>| fmdom m \<longrightarrow> N n" "valid_order ord" for ord m infra
    using that by (intro typed_lift) (auto dest!: FindMatchingTags_name simp: in_range_over_iff fmlookup_dom_iff)
  have tags: "typed (sends P) (ListBucketTags E c bs) (\<lambda>r. \<forall>m. r = Inr m \<longrightarrow> (\<forall>n. n |\<in>| fmdom m \<longrightarrow> N n))"
    if "\<forall>b\<in>set bs. \<forall>n. b_Name b = Some n \<longrightarrow> N n" for bs
    unfolding ListBucketTags_def by (rule tags_typed [OF that]) simp
  show ?thesis
    unfolding setInstanceBucketName_def
    by (rule typed_exec [OF listing_typed [OF names]])
      (auto intro!: typed_exec [OF tags] typed_order [OF assms(2)] typed_exec [OF match] typed_exec [OF fresh]
         typed_exec [OF DoesBucketExist_typed] renaming_typed [OF assms(1,3)] split: sum.split)
qed

lemma tag_quiet: "typed (sends P) (TagBucket E c b l n) (\<lambda>x. True)"
  by (auto simp: typed_def wp_TagBucket Let_def split: prod.split sum.split)

lemma setting_quiet:
  assumes "only_calls (\<lambda>e. \<exists>r. e = S3Call k q r) m"
  shows "typed (sends P) m (\<lambda>x. True)"
  by (rule typed_quiet, rule only_calls_mono [OF assms]) auto

lemma or_fail_typed:
  "typed (sends P) m (\<lambda>x. True) \<Longrightarrow> typed (sends P) k (\<lambda>x. True) \<Longrightarrow> typed (sends P) (or_fail m what n k) (\<lambda>x. True)"
  unfolding or_fail_def by (rule typed_exec) (auto split: option.split)

lemma s3_enforce_typed:
  assumes "status_type P Q N E" and "Q i"
  shows "typed (sends P) (s3_enforce_bucket E d c i) (\<lambda>x. True)"
proof -
  have now: "typed (sends P) (time_Now E) (\<lambda>x. True)"
    unfolding time_Now_def by (rule typed_call) simp
  show ?thesis
    unfolding s3_enforce_bucket_def Let_def
    by (rule typed_exec [OF typed_reads [OF s3_StorageExists_reads]])
      (auto intro!: or_fail_typed setting_quiet [OF encrypt_bucket.op_only_request]
         setting_quiet [OF block_public.op_only_request] setting_quiet [OF set_lifecycle.op_only_request]
         tag_quiet typed_exec [OF now] recorded_typed status_typeD(2) [OF assms(1,2)] split: sum.split)
qed

lemma s3_select_typed:
  assumes "status_type P Q N E" and "valid_runtime E" and "Q i"
  shows "typed (sends P) (s3_select_bucket E d c i) (\<lambda>r. \<forall>i'. r = Inr i' \<longrightarrow> Q i')"
proof -
  have dropped: "typed (sends P) (exec (StatusUpdate E (with_bucket (\<lambda>b. b\<lparr>sb_Name := ''''\<rparr>) i))
      (\<lambda>(err, inst'). ret (Inl err))) (\<lambda>r. \<forall>i'. r = Inr i' \<longrightarrow> Q i')"
    by (rule typed_exec [OF StatusUpdate_sent]) (auto intro!: status_typeD(3) [OF assms(1,3)] status_typeD(4) [OF assms(1)])
  show ?thesis
    unfolding s3_select_bucket_def Let_def
    by (auto intro!: typed_exec [OF setInstanceBucketName_typed [OF assms]] dropped
        typed_exec [OF setting_quiet [OF create_bucket.op_only_request]] typed_exec [OF tag_quiet]
        simp: assms(3) split: option.split)
qed

lemma s3_CreateStorage_typed:
  assumes "status_type P Q N E" and "valid_runtime E" and "Q i"
  shows "typed (sends P) (s3_CreateStorage E d i) (\<lambda>x. True)"
  unfolding s3_CreateStorage_def
  by (rule typed_exec [OF typed_reads [OF NewS3Client_reads]])
    (auto intro!: typed_exec [OF s3_select_typed [OF assms]] s3_enforce_typed [OF assms(1)] split: sum.split)

section \<open>The GCS driver\<close>

lemma gcs_exists_typed: "typed (sends P) (gcs_StorageExists E d b) (\<lambda>x. True)"
  by (rule typed_reads [OF gcs_StorageExists_reads])

lemma gcs_enforce_typed:
  assumes "status_type P Q N E" and "Q i"
  shows "typed (sends P) (gcs_enforce_bucket E d c i) (\<lambda>x. True)"
proof -
  have now: "typed (sends P) (time_Now E) (\<lambda>x. True)"
    unfolding time_Now_def by (rule typed_call) simp
  have labels: "typed (sends P) (enforceBucketLabels E d c b) (\<lambda>x. True)" for b
    unfolding enforceBucketLabels_def current_order_def gcs_calls Let_def
    by (auto simp: typed_def wp_simps split: prod.split sum.split)
  show ?thesis
    unfolding gcs_enforce_bucket_def Let_def
    by (rule typed_exec [OF gcs_exists_typed])
      (auto intro!: typed_exec [OF labels] typed_exec [OF now] recorded_typed status_typeD(2) [OF assms(1,2)] split: sum.split option.split)
qed

lemma gcs_name_typed:
  assumes "status_type P Q N E" and "valid_runtime E" and "Q i"
  shows "typed (sends P) (gcs_name_bucket E d c i) (\<lambda>x. True)"
proof -
  note names = status_typeD(1) [OF assms(1)]
  have list: "typed (sends P) (listBuckets E d c) (\<lambda>r. \<forall>bs. r = Inr bs \<longrightarrow> (\<forall>b\<in>set bs. N (ba_Name b)))"
    using names by (auto simp: typed_def wp_listBuckets names_given_def split: prod.split) (metis fst_conv)
  have found: "N (findVeleroBucket ord d bs)" if "valid_order ord" "\<forall>b\<in>set bs. N (ba_Name b)" for ord bs
    using that(2) names
    by (auto simp: findVeleroBucket_find [OF that(1)] names_given_def find_Some_iff split: option.split)
  have fresh: "typed (sends P) (gcs_generateBucketName E StorageBucketPrefix) N"
    unfolding gcs_generateBucketName_def by (rule typed_exec [OF uuid_typed [OF names]]) simp
  show ?thesis
    unfolding gcs_name_bucket_def Let_def
    by (rule typed_exec [OF list])
      (auto intro!: typed_order [OF assms(2)] typed_exec [OF fresh] typed_exec [OF gcs_exists_typed]
         recorded_typed status_typeD(3) [OF assms(1,3)] found split: sum.split)
qed

lemma gcs_CreateStorage_typed:
  assumes "status_type P Q N E" and "valid_runtime E" and "Q i"
  shows "typed (sends P) (gcs_CreateStorage E d i) (\<lambda>x. True)"
proof -
  have create: "typed (sends P) (createBucket E d c b) (\<lambda>x. True)" for c b
    unfolding createBucket_def gcs_calls by (rule typed_call) simp
  show ?thesis
    unfolding gcs_CreateStorage_def Let_def
    by (rule typed_exec [OF typed_reads [OF NewGcsClient_reads]])
      (auto intro!: gcs_name_typed assms typed_exec [OF create] gcs_enforce_typed [OF assms(1)] split: sum.split option.split)
qed

section \<open>A call of Reconcile\<close>

lemma CreateStorage_typed:
  assumes "status_type P Q N E" and "valid_runtime E" and "Q i"
  shows "typed (sends P) (CreateStorage E d i) (\<lambda>x. True)"
  using assms by (cases d) (auto intro: s3_CreateStorage_typed gcs_CreateStorage_typed)

lemma provisionVelero_typed: "typed (sends P) (provisionVelero E d ns ps i) (\<lambda>x. True)"
proof (rule typed_quiet, rule only_calls_mono [OF provisionVelero_writes])
  fix e show "velero_writes (e_lib E) (GetPlatformType d) ns ps i e \<Longrightarrow> \<not> is_status_update e"
    by (cases e) (auto simp: velero_writes_def)
qed

text \<open>The resources that the API server has are in \<open>Q\<close>.\<close>

definition stored_in :: "(VeleroInstall \<Rightarrow> bool) \<Rightarrow> 'w env \<Rightarrow> bool" where
  "stored_in Q E = (\<forall>n ns w i w'. r_Get (k_VeleroInstall (e_kube E)) n ns w = (Inr i, w') \<longrightarrow> Q i)"

lemma Reconcile_typed:
  assumes "status_type P Q N E" and "valid_runtime E" and "stored_in Q E"
  shows "typed (sends P) (Reconcile E driver rq) (\<lambda>x. True)"
proof -
  have get: "typed (sends P) (Get VeleroInstalls E n ns) (\<lambda>r. \<forall>i. r = Inr i \<longrightarrow> Q i)" for n ns
    using assms(3) unfolding Get_def stored_in_def by (intro typed_call) (auto, blast+)
  have infra: "typed (sends P) (platformutils_NewClient E) (\<lambda>x. True)" "typed (sends P) (GetInfrastructureStatus E) (\<lambda>x. True)"
    unfolding platformutils_NewClient_def GetInfrastructureStatus_def by (rule typed_call, simp)+
  have required: "typed (sends P) (StorageBucketReconcileRequired E i p) (\<lambda>x. True)" for i p
    by (auto simp: typed_def StorageBucketReconcileRequired_def env_calls wp_simps split: option.split prod.split)
  have driver: "typed (sends P) (lift_outcome q) (\<lambda>x. True)" for q :: "'x outcome"
    by (rule typed_lift) simp
  show ?thesis
    unfolding Reconcile_def
    by (rule typed_exec [OF get])
      (auto intro!: typed_exec [OF infra(1)] typed_exec [OF infra(2)] typed_exec [OF driver]
        typed_exec [OF required] typed_exec [OF CreateStorage_typed [OF assms(1,2)]]
        typed_exec [OF provisionVelero_typed] split: sum.split option.split)
qed

end
