(* ===== verification/Status_Schema.thy ===== *)
theory Status_Schema
  imports Typed_Status
begin

text \<open>
  The schema of VeleroInstall's status: veleroinstall_types.go bounds the bucket's name by a
  marker from which the definition of the resource is generated, and the API server refuses
  a status beyond it. Every status a call of Reconcile sends keeps the schema.
\<close>

section \<open>The schema\<close>

text \<open>The marker MaxLength on the field Name of StorageBucket.\<close>

definition bucket_name_MaxLength :: nat where
  "bucket_name_MaxLength = 63"

definition short :: "string \<Rightarrow> bool" where
  "short n = (length n \<le> bucket_name_MaxLength)"

definition schema_accepts :: "VeleroInstall \<Rightarrow> bool" where
  "schema_accepts i = short (sb_Name (vi_Bucket i))"

section \<open>It is the type of the statuses\<close>

text \<open>The buckets of the account have names within the bound.\<close>

definition short_listings :: "'w env \<Rightarrow> bool" where
  "short_listings E =
     ((\<forall>c w l w'. s3_ListBuckets (e_aws E) c w = (Inr l, w') \<longrightarrow>
         (\<forall>b\<in>set (lbo_Buckets l). \<forall>n. b_Name b = Some n \<longrightarrow> short n)) \<and>
      (\<forall>c p w bs. iterator_buckets (fst (gcs_Buckets (e_gcs E) c p w)) = Inr bs \<longrightarrow>
         (\<forall>b\<in>set bs. short (ba_Name b))))"

text \<open>An identifier has 36 characters, which leaves room for the prefix.\<close>

lemma names_given_short:
  assumes "\<And>w. length (fst (rt_NewUUID (e_rt E) w)) = 36" and "short_listings E"
  shows "names_given short E"
  using assms by (simp add: names_given_def short_listings_def short_def bucket_name_MaxLength_def
      StorageBucketPrefix_def)

text \<open>What the server stores keeps its schema, with times in whole seconds.\<close>

definition well_stored :: "VeleroInstall \<Rightarrow> bool" where
  "well_stored i = (schema_accepts i \<and> whole_seconds (sb_LastSyncTimestamp (vi_Bucket i)))"

lemma schema_status_type:
  assumes "\<And>w. length (fst (rt_NewUUID (e_rt E) w)) = 36" and "short_listings E" and "echoes_status E"
  shows "status_type schema_accepts well_stored short E"
proof -
  have answers: "well_stored i'" if "well_stored i" "short n"
      "k_StatusUpdate (e_kube E) (with_bucket (\<lambda>b. b\<lparr>sb_Name := n, sb_Provisioned := q\<rparr>) i) w = (Inr i', w')"
    for i n q w i' w'
  proof -
    let ?j = "with_bucket (\<lambda>b. b\<lparr>sb_Name := n, sb_Provisioned := q\<rparr>) i"
    have "whole_seconds (sb_LastSyncTimestamp (vi_Bucket ?j))"
      using that(1) by (simp add: well_stored_def)
    then have "vi_Status i' = vi_Status ?j"
      using assms(3) that(3) unfolding echoes_status_def by blast
    then have "vi_Bucket i' = vi_Bucket ?j" by (rule arg_cong)
    then show ?thesis using that(1,2) by (simp add: well_stored_def schema_accepts_def)
  qed
  have sent: "schema_accepts j"
    if "well_stored i" "sb_Name (vi_Bucket j) = sb_Name (vi_Bucket i) \<or> short (sb_Name (vi_Bucket j))" for i j
    using that by (auto simp: well_stored_def schema_accepts_def)
  show ?thesis
    unfolding status_type_def
    by (intro conjI allI impI names_given_short [OF assms(1,2)]) (rule sent; assumption | rule answers; assumption)+
qed

lemmas Reconcile_schema = Reconcile_typed [OF schema_status_type]

end
