(* ===== verification/Permissions.thy ===== *)
theory Permissions
  imports Typed_Status Operator_Main
begin

text \<open>
  What the operator is allowed to do: the rules of deploy/role.yaml and
  deploy/cluster_role.yaml for the API server and the actions of
  deploy-extras/credential_request_aws.yaml for S3, what each call asks for, and that
  every call of the process is granted. A missing rule would make the call fail with an
  error no other part of the development sees.
\<close>

section \<open>The roles\<close>

record PolicyRule =
  pr_APIGroups :: "string list"
  pr_Resources :: "string list"
  pr_ResourceNames :: "string list"
  pr_Verbs :: "string list"

definition all_verbs :: "string list" where
  "all_verbs = [''create'', ''delete'', ''get'', ''list'', ''patch'', ''update'', ''watch'']"

definition operator_role :: "PolicyRule list" where
  "operator_role =
     [\<lparr>pr_APIGroups = [''''], pr_Resources = [''pods'', ''services'', ''services/finalizers'', ''endpoints'',
         ''persistentvolumeclaims'', ''events'', ''configmaps'', ''secrets''],
       pr_ResourceNames = [], pr_Verbs = all_verbs\<rparr>,
      \<lparr>pr_APIGroups = [''apps''], pr_Resources = [''deployments'', ''daemonsets'', ''replicasets'', ''statefulsets''],
       pr_ResourceNames = [], pr_Verbs = all_verbs\<rparr>,
      \<lparr>pr_APIGroups = [''monitoring.coreos.com''], pr_Resources = [''servicemonitors''],
       pr_ResourceNames = [], pr_Verbs = all_verbs\<rparr>,
      \<lparr>pr_APIGroups = [''apps''], pr_Resources = [''deployments/finalizers''],
       pr_ResourceNames = [''managed-velero-operator''], pr_Verbs = [''update'']\<rparr>,
      \<lparr>pr_APIGroups = [''''], pr_Resources = [''pods''], pr_ResourceNames = [], pr_Verbs = [''get'']\<rparr>,
      \<lparr>pr_APIGroups = [''apps''], pr_Resources = [''replicasets''], pr_ResourceNames = [], pr_Verbs = [''get'']\<rparr>,
      \<lparr>pr_APIGroups = [''managed.openshift.io''],
       pr_Resources = [''veleroinstalls'', ''veleroinstalls/status'', ''veleroinstalls/finalizers''],
       pr_ResourceNames = [], pr_Verbs = all_verbs\<rparr>,
      \<lparr>pr_APIGroups = [''velero.io''], pr_Resources = [''*''], pr_ResourceNames = [], pr_Verbs = all_verbs\<rparr>,
      \<lparr>pr_APIGroups = [''cloudcredential.openshift.io''], pr_Resources = [''credentialsrequests''],
       pr_ResourceNames = [], pr_Verbs = all_verbs\<rparr>]"

definition operator_cluster_role :: "PolicyRule list" where
  "operator_cluster_role =
     [\<lparr>pr_APIGroups = [''apiextensions.k8s.io''], pr_Resources = [''customresourcedefinitions''],
       pr_ResourceNames = [], pr_Verbs = all_verbs\<rparr>,
      \<lparr>pr_APIGroups = [''config.openshift.io''], pr_Resources = [''infrastructures''],
       pr_ResourceNames = [], pr_Verbs = [''get'', ''list'', ''watch'']\<rparr>]"

text \<open>The role is bound in one namespace, the cluster role everywhere.\<close>

record api_request =
  ar_Verb :: string
  ar_Group :: string
  ar_Resource :: string
  ar_Namespace :: string
  ar_Name :: string

definition rule_allows :: "api_request \<Rightarrow> PolicyRule \<Rightarrow> bool" where
  "rule_allows q r =
     (ar_Verb q \<in> set (pr_Verbs r) \<and> ar_Group q \<in> set (pr_APIGroups r) \<and>
      (ar_Resource q \<in> set (pr_Resources r) \<or> ''*'' \<in> set (pr_Resources r)) \<and>
      (pr_ResourceNames r = [] \<or> ar_Name q \<in> set (pr_ResourceNames r)))"

definition granted :: "api_request \<Rightarrow> bool" where
  "granted q =
     (list_ex (rule_allows q) operator_cluster_role \<or>
      (ar_Namespace q = ManagedVeleroOperatorNamespace \<and> list_ex (rule_allows q) operator_role))"

text \<open>The actions the operator's credentials for AWS allow, on every bucket.\<close>

definition operator_s3_actions :: "string list" where
  "operator_s3_actions =
     [''s3:CreateBucket'', ''s3:DeleteObjectTagging'', ''s3:GetBucketLocation'', ''s3:GetBucketTagging'',
      ''s3:ListAllMyBuckets'', ''s3:ListBucket'', ''s3:PutBucketAcl'', ''s3:PutBucketPublicAccessBlock'',
      ''s3:PutBucketTagging'', ''s3:PutEncryptionConfiguration'', ''s3:PutLifecycleConfiguration'']"

section \<open>What a call asks for\<close>

fun resource_of :: "kkind \<Rightarrow> string \<times> string" where
  "resource_of KindVeleroInstall = (''managed.openshift.io'', ''veleroinstalls'')"
| "resource_of KindSecret = ('''', ''secrets'')"
| "resource_of KindBackupStorageLocation = (''velero.io'', ''backupstoragelocations'')"
| "resource_of KindVolumeSnapshotLocation = (''velero.io'', ''volumesnapshotlocations'')"
| "resource_of KindCredentialsRequest = (''cloudcredential.openshift.io'', ''credentialsrequests'')"
| "resource_of KindDeployment = (''apps'', ''deployments'')"
| "resource_of KindService = ('''', ''services'')"
| "resource_of KindServiceMonitor = (''monitoring.coreos.com'', ''servicemonitors'')"
| "resource_of KindCustomResourceDefinition = (''apiextensions.k8s.io'', ''customresourcedefinitions'')"

definition asks_for :: "string \<Rightarrow> kkind \<Rightarrow> string \<Rightarrow> string \<Rightarrow> api_request" where
  "asks_for verb k namespace name =
     (case resource_of k of (g, res) \<Rightarrow>
        \<lparr>ar_Verb = verb, ar_Group = g, ar_Resource = res, ar_Namespace = namespace, ar_Name = name\<rparr>)"

text \<open>
  A reference that blocks the deletion of an owner asks for an update of the owner's
  finalizers. Owners are named by their kind.
\<close>

definition owner_kind :: "string \<Rightarrow> kkind option" where
  "owner_kind k =
     (if k = ''VeleroInstall'' then Some KindVeleroInstall
      else if k = ''Service'' then Some KindService else None)"

definition may_own :: "string \<Rightarrow> OwnerReference \<Rightarrow> bool" where
  "may_own namespace r =
     (or_BlockOwnerDeletion r = Some True \<longrightarrow>
        (case owner_kind (or_Kind r) of
           None \<Rightarrow> False
         | Some k \<Rightarrow>
             let q = asks_for ''update'' k namespace (or_Name r)
             in granted (q\<lparr>ar_Resource := ar_Resource q @ ''/finalizers''\<rparr>)))"

fun s3_action :: "s3_request \<Rightarrow> string list" where
  "s3_action (ReqCreateBucket i) = [''s3:CreateBucket'', ''s3:PutBucketAcl'']"
| "s3_action (ReqDeleteBucketTagging b) = [''s3:PutBucketTagging'']"
| "s3_action (ReqHeadBucket b) = [''s3:ListBucket'']"
| "s3_action (ReqGetBucketLocation b) = [''s3:GetBucketLocation'']"
| "s3_action (ReqGetBucketTagging b) = [''s3:GetBucketTagging'']"
| "s3_action (ReqGetPublicAccessBlock b) = [''s3:GetBucketPublicAccessBlock'']"
| "s3_action ReqListBuckets = [''s3:ListAllMyBuckets'']"
| "s3_action (ReqPutBucketEncryption i) = [''s3:PutEncryptionConfiguration'']"
| "s3_action (ReqPutBucketLifecycleConfiguration b rs) = [''s3:PutLifecycleConfiguration'']"
| "s3_action (ReqPutBucketTagging b ts) = [''s3:PutBucketTagging'']"
| "s3_action (ReqPutPublicAccessBlock b c) = [''s3:PutBucketPublicAccessBlock'']"

text \<open>
  The client of the manager answers a read from a cache that it fills by listing and
  watching, so a read asks for all three verbs. The infrastructure status is read from an
  object of the cluster.
\<close>

fun permitted :: "event \<Rightarrow> bool" where
  "permitted (KGet k n ns r) = list_all (\<lambda>v. granted (asks_for v k ns n)) [''get'', ''list'', ''watch'']"
| "permitted (KCreate ob r) =
     (granted (asks_for ''create'' (kind_of ob) (om_Namespace (obj_meta ob)) (om_Name (obj_meta ob))) \<and>
      list_all (may_own (om_Namespace (obj_meta ob))) (om_OwnerReferences (obj_meta ob)))"
| "permitted (KUpdate ob r) =
     granted (asks_for ''update'' (kind_of ob) (om_Namespace (obj_meta ob)) (om_Name (obj_meta ob)))"
| "permitted (KStatusUpdate i r) =
     (let q = asks_for ''update'' KindVeleroInstall (om_Namespace (vi_ObjectMeta i)) (om_Name (vi_ObjectMeta i))
      in granted (q\<lparr>ar_Resource := ar_Resource q @ ''/status''\<rparr>))"
| "permitted (S3Call c q r) = list_all (\<lambda>a. a \<in> set operator_s3_actions) (s3_action q)"
| "permitted (PlatformStatusRead r) =
     granted \<lparr>ar_Verb = ''get'', ar_Group = ''config.openshift.io'', ar_Resource = ''infrastructures'',
       ar_Namespace = '''', ar_Name = ''cluster''\<rparr>"
| "permitted e = True"

section \<open>Calls inside the namespace are permitted\<close>

definition known_owners :: "ObjectMeta \<Rightarrow> bool" where
  "known_owners m = list_all (\<lambda>r. or_Kind r = ''VeleroInstall'' \<or> or_Kind r = ''Service'') (om_OwnerReferences m)"

fun local_call :: "string \<Rightarrow> event \<Rightarrow> bool" where
  "local_call ns (KGet k n ns' r) = (k = KindCustomResourceDefinition \<or> ns' = ns)"
| "local_call ns (KCreate ob r) =
     ((if kind_of ob = KindCustomResourceDefinition then om_OwnerReferences (obj_meta ob) = []
       else known_owners (obj_meta ob) \<and> om_Namespace (obj_meta ob) = ns))"
| "local_call ns (KUpdate ob r) =
     (kind_of ob = KindCustomResourceDefinition \<or> om_Namespace (obj_meta ob) = ns)"
| "local_call ns (KStatusUpdate i r) = (om_Namespace (vi_ObjectMeta i) = ns)"
| "local_call ns (S3Call c q r) = driver_request q"
| "local_call ns e = True"

lemma granted_kinds:
  "k = KindCustomResourceDefinition \<or> ns = ManagedVeleroOperatorNamespace \<Longrightarrow> v \<in> set all_verbs \<Longrightarrow>
     granted (asks_for v k ns n)"
  by (cases k)
    (auto simp: granted_def asks_for_def rule_allows_def operator_role_def operator_cluster_role_def)

lemma granted_subresources:
  "granted \<lparr>ar_Verb = ''update'', ar_Group = ''managed.openshift.io'', ar_Resource = ''veleroinstalls/status'',
     ar_Namespace = ManagedVeleroOperatorNamespace, ar_Name = n\<rparr>"
  "granted \<lparr>ar_Verb = ''update'', ar_Group = ''managed.openshift.io'', ar_Resource = ''veleroinstalls/finalizers'',
     ar_Namespace = ManagedVeleroOperatorNamespace, ar_Name = n\<rparr>"
  "granted \<lparr>ar_Verb = ''update'', ar_Group = '''', ar_Resource = ''services/finalizers'',
     ar_Namespace = ManagedVeleroOperatorNamespace, ar_Name = n\<rparr>"
  "granted \<lparr>ar_Verb = ''get'', ar_Group = ''config.openshift.io'', ar_Resource = ''infrastructures'',
     ar_Namespace = '''', ar_Name = n\<rparr>"
  by (simp_all add: granted_def rule_allows_def operator_role_def operator_cluster_role_def all_verbs_def)

lemma local_permitted:
  assumes "local_call ManagedVeleroOperatorNamespace e"
  shows "permitted e"
proof (cases e)
  case (KGet k n ns r)
  then show ?thesis using assms by (auto intro!: granted_kinds simp: all_verbs_def)
next
  case (KCreate ob r)
  show ?thesis
  proof (cases "kind_of ob = KindCustomResourceDefinition")
    case True
    then show ?thesis using assms KCreate by (auto intro!: granted_kinds simp: all_verbs_def)
  next
    case False
    have "may_own ManagedVeleroOperatorNamespace r" if "or_Kind r = ''VeleroInstall'' \<or> or_Kind r = ''Service''" for r
      using that granted_subresources(2,3) by (auto simp: may_own_def owner_kind_def asks_for_def)
    then show ?thesis
      using assms KCreate False
      by (auto intro!: granted_kinds simp: all_verbs_def known_owners_def list_all_iff)
  qed
next
  case (KUpdate ob r)
  then show ?thesis using assms by (auto intro!: granted_kinds simp: all_verbs_def)
next
  case (KStatusUpdate i r)
  then show ?thesis using assms granted_subresources(1) by (simp add: asks_for_def)
next
  case (S3Call c q r)
  then show ?thesis using assms by (cases q) (simp_all add: operator_s3_actions_def)
qed (simp_all add: granted_subresources)

section \<open>The server and the libraries keep to a namespace\<close>

text \<open>The namespace of an object, and a server that answers with objects in the one asked for.\<close>

definition ns_of :: "('w, 'o) handle \<Rightarrow> 'o \<Rightarrow> string" where
  "ns_of h x = om_Namespace (obj_meta (h_obj h x))"

definition keyed :: "('w, 'o) handle \<Rightarrow> 'w env \<Rightarrow> bool" where
  "keyed h E =
     ((\<forall>n ns w x w'. r_Get (h_resource h (e_kube E)) n ns w = (Inr x, w') \<longrightarrow> ns_of h x = ns) \<and>
      (\<forall>x w y w'. r_Create (h_resource h (e_kube E)) x w = (Inr y, w') \<longrightarrow> ns_of h y = ns_of h x) \<and>
      (\<forall>x w y w'. r_Update (h_resource h (e_kube E)) x w = (Inr y, w') \<longrightarrow> ns_of h y = ns_of h x))"

definition keyed_server :: "'w env \<Rightarrow> bool" where
  "keyed_server E =
     (keyed VeleroInstalls E \<and> keyed BSLs E \<and> keyed VSLs E \<and> keyed CRs E \<and> keyed Deployments E \<and>
      keyed Services E \<and> keyed ServiceMonitors E \<and>
      (\<forall>i w j w'. k_StatusUpdate (e_kube E) i w = (Inr j, w') \<longrightarrow>
         om_Namespace (vi_ObjectMeta j) = om_Namespace (vi_ObjectMeta i)))"

text \<open>A constructor puts its object in the namespace it is given and sets no owner.\<close>

definition unowned :: "string \<Rightarrow> ObjectMeta \<Rightarrow> bool" where
  "unowned ns m = (om_Namespace m = ns \<and> om_OwnerReferences m = [])"

definition owned_in :: "string \<Rightarrow> ObjectMeta \<Rightarrow> bool" where
  "owned_in ns m = (om_Namespace m = ns \<and> known_owners m)"

definition constructors_local :: "libraries \<Rightarrow> bool" where
  "constructors_local L =
     ((\<forall>ns p b pfx lc ca. unowned ns (bsl_ObjectMeta (lib_BackupStorageLocation L ns p b pfx lc ca))) \<and>
      (\<forall>ns p lc. unowned ns (vsl_ObjectMeta (lib_VolumeSnapshotLocation L ns p lc))) \<and>
      (\<forall>ns opts. unowned ns (d_ObjectMeta (lib_Deployment L ns opts))) \<and>
      (\<forall>i m m'. lib_SetControllerReference L i m = Inr m' \<longrightarrow> om_OwnerReferences m = [] \<longrightarrow>
         owned_in (om_Namespace m) m') \<and>
      (\<forall>u crd. lib_FromUnstructured L u = Inr crd \<longrightarrow> om_OwnerReferences (crd_ObjectMeta crd) = []) \<and>
      (\<forall>p pn s ns l svc. fst (lib_opmetrics_GenerateService L p pn s ns l) = Some svc \<longrightarrow>
         unowned ns (svc_ObjectMeta svc)) \<and>
      (\<forall>s. owned_in (om_Namespace (svc_ObjectMeta s)) (sm_ObjectMeta (lib_opmetrics_GenerateServiceMonitor L s))))"

section \<open>The blocks\<close>

lemma typed_mono: "typed G m R \<Longrightarrow> (\<And>x. R x \<Longrightarrow> R' x) \<Longrightarrow> typed G m R'"
  unfolding typed_def by (blast intro: wp_mono)

context ensured_object
begin

text \<open>The value of a block, and its calls, from what the server answers.\<close>

lemma op_typed:
  assumes "\<And>r. G (KGet (h_kind h) (fst (key x)) (snd (key x)) r)"
    and "\<And>y r. attach E i x = Inr y \<Longrightarrow> G (KCreate (h_obj h y) r)"
    and "\<And>found w w' r. r_Get (h_resource h (e_kube E)) (fst (key x)) (snd (key x)) w = (Inr found, w') \<Longrightarrow>
      G (KUpdate (h_obj h (corrected found x)) r) \<and> R (kept found x)"
    and "\<And>y z w w'. attach E i x = Inr y \<Longrightarrow>
      r_Create (h_resource h (e_kube E)) y w = (Inr z, w') \<Longrightarrow> R (created z)"
    and "\<And>found z w w' v v'. r_Get (h_resource h (e_kube E)) (fst (key x)) (snd (key x)) v = (Inr found, v') \<Longrightarrow>
      r_Update (h_resource h (e_kube E)) (corrected found x) w = (Inr z, w') \<Longrightarrow> R (updated z found x)"
  shows "typed G (op E i x) (\<lambda>r. \<forall>v. r = Inr v \<longrightarrow> R v)"
proof -
  have get: "typed G (Get h E (fst (key x)) (snd (key x))) (\<lambda>r. \<forall>found. r = Inr found \<longrightarrow>
      (\<exists>v v'. r_Get (h_resource h (e_kube E)) (fst (key x)) (snd (key x)) v = (Inr found, v')))"
    unfolding Get_def by (rule typed_call) (use assms(1) in auto)
  have create: "typed G (Create h E y) (\<lambda>r. \<forall>z. r = Inr z \<longrightarrow> R (created z))" if "attach E i x = Inr y" for y
    unfolding Create_def by (rule typed_call) (use assms(2,4) that in auto)
  have update: "typed G (Update h E (corrected found x)) (\<lambda>r. \<forall>z. r = Inr z \<longrightarrow> R (updated z found x))"
    if "r_Get (h_resource h (e_kube E)) (fst (key x)) (snd (key x)) v = (Inr found, v')" for found v v'
    unfolding Update_def by (rule typed_call) (use assms(3,5) that in blast)
  have compared: "typed G (lift_outcome q) (\<lambda>x. True)" for q :: "(goerror + bool) outcome"
    by (rule typed_lift) simp
  have found: "typed G (exec (lift_outcome (differs E found x)) (\<lambda>r. case r of
        Inl err \<Rightarrow> ret (Inl err)
      | Inr d \<Rightarrow> if d then exec (Update h E (corrected found x)) (\<lambda>r. ret (map_sum id (\<lambda>y. updated y found x) r))
          else ret (Inr (kept found x)))) (\<lambda>r. \<forall>v. r = Inr v \<longrightarrow> R v)"
    if got: "\<exists>v v'. r_Get (h_resource h (e_kube E)) (fst (key x)) (snd (key x)) v = (Inr found, v')" for found
  proof -
    from got obtain v v' where got: "r_Get (h_resource h (e_kube E)) (fst (key x)) (snd (key x)) v = (Inr found, v')"
      by blast
    show ?thesis
      by (rule typed_exec [OF compared])
        (use assms(3) [OF got] in \<open>auto intro!: typed_exec [OF update [OF got]] split: sum.split\<close>)
  qed
  show ?thesis
    unfolding op_eq
    by (rule typed_exec [OF get]) (auto intro!: typed_exec [OF create] found split: sum.split)
qed

text \<open>A block for an object of the namespace stays in it.\<close>

lemma op_local:
  assumes "keyed h E" and "snd (key x) = ns" and "h_kind h \<noteq> KindCustomResourceDefinition"
    and "\<And>y. attach E i x = Inr y \<Longrightarrow> owned_in ns (obj_meta (h_obj h y))"
    and "\<And>found. obj_meta (h_obj h (corrected found x)) = obj_meta (h_obj h found)"
    and "\<And>z. ns_of h z = ns \<Longrightarrow> R (created z)" and "\<And>found. ns_of h found = ns \<Longrightarrow> R (kept found x)"
    and "\<And>found z. ns_of h found = ns \<Longrightarrow> ns_of h z = ns \<Longrightarrow> R (updated z found x)"
  shows "typed (local_call ns) (op E i x) (\<lambda>r. \<forall>v. r = Inr v \<longrightarrow> R v)"
proof -
  have got: "ns_of h found = ns"
    if "r_Get (h_resource h (e_kube E)) (fst (key x)) (snd (key x)) w = (Inr found, w')" for found w w'
    using assms(1,2) that unfolding keyed_def by blast
  have same: "ns_of h (corrected found x) = ns_of h found" for found
    unfolding ns_of_def by (simp add: assms(5))
  show ?thesis
  proof (rule op_typed, goal_cases)
    case (1 r)
    then show ?case by (simp add: assms(2))
  next
    case (2 y r)
    then show ?case using assms(3) assms(4) [OF 2] by (simp add: owned_in_def handle_kind)
  next
    case (3 found w w' r)
    then show ?case using got [OF 3] same [of found] assms(7) by (simp add: ns_of_def)
  next
    case (4 y z w w')
    have "ns_of h y = ns" using assms(4) [OF 4(1)] by (simp add: owned_in_def ns_of_def)
    then show ?case using assms(1,6) 4(2) unfolding keyed_def by metis
  next
    case (5 found z w w' v v')
    have "ns_of h (corrected found x) = ns" using got [OF 5(1)] same by simp
    then show ?case using assms(1) 5(2) got [OF 5(1)] unfolding keyed_def by (metis assms(8))
  qed
qed

end

section \<open>provisionVelero\<close>

lemma own_local:
  assumes "constructors_local (e_lib E)" and "unowned ns (meta x)" and "own meta set_meta E i x = Inr y"
    and "\<And>m. meta (set_meta m x) = m"
  shows "owned_in ns (meta y)"
  using assms by (auto simp: own_def unowned_def constructors_local_def)

lemma typed_or_return:
  assumes "typed G m (\<lambda>r. \<forall>v. r = Inr v \<longrightarrow> R v)" and "\<And>x. R x \<Longrightarrow> typed G (f x) (\<lambda>x. True)"
  shows "typed G (or_return m f) (\<lambda>x. True)"
  unfolding or_return_def by (rule typed_exec [OF assms(1)]) (auto intro: assms(2) split: sum.split)

lemma keyed_serverD:
  assumes "keyed_server E"
  shows "keyed VeleroInstalls E" "keyed BSLs E" "keyed VSLs E" "keyed CRs E" "keyed Deployments E"
    "keyed Services E" "keyed ServiceMonitors E"
  using assms by (simp_all only: keyed_server_def)

lemma bsl_local:
  assumes "keyed_server E" and "constructors_local (e_lib E)" and "unowned ns (bsl_ObjectMeta x)"
  shows "typed (local_call ns) (ensure_BackupStorageLocation E i x) (\<lambda>r. \<forall>v. r = Inr v \<longrightarrow> True)"
  by (rule bsl.op_local [OF keyed_serverD(2) [OF assms(1)]])
    (use assms(3) own_local [where meta = bsl_ObjectMeta, OF assms(2,3)] in \<open>auto simp: unowned_def meta_key_def\<close>)

lemma vsl_local:
  assumes "keyed_server E" and "constructors_local (e_lib E)" and "unowned ns (vsl_ObjectMeta x)"
  shows "typed (local_call ns) (ensure_VolumeSnapshotLocation E i x) (\<lambda>r. \<forall>v. r = Inr v \<longrightarrow> True)"
  by (rule vsl.op_local [OF keyed_serverD(3) [OF assms(1)]])
    (use assms(3) own_local [where meta = vsl_ObjectMeta, OF assms(2,3)] in \<open>auto simp: unowned_def meta_key_def\<close>)

lemma cr_local:
  assumes "keyed_server E" and "constructors_local (e_lib E)" and "unowned ns (cr_ObjectMeta x)"
  shows "typed (local_call ns) (ensure_CredentialsRequest E i x) (\<lambda>r. \<forall>v. r = Inr v \<longrightarrow> True)"
  by (rule cr.op_local [OF keyed_serverD(4) [OF assms(1)]])
    (use assms(3) own_local [where meta = cr_ObjectMeta, OF assms(2,3)] in \<open>auto simp: unowned_def meta_key_def\<close>)

lemma deployment_local:
  assumes "keyed_server E" and "constructors_local (e_lib E)" and "unowned ns (d_ObjectMeta x)"
  shows "typed (local_call ns) (ensure_Deployment E i x)
    (\<lambda>r. \<forall>v. r = Inr v \<longrightarrow> om_Namespace (d_ObjectMeta v) = ns)"
  by (rule deployment.op_local [OF keyed_serverD(5) [OF assms(1)]])
    (use assms(3) own_local [where meta = d_ObjectMeta, OF assms(2,3)] in \<open>auto simp: unowned_def meta_key_def ns_of_def\<close>)

lemma metrics_local:
  assumes "keyed_server E" and "constructors_local (e_lib E)" and "unowned ns (svc_ObjectMeta x)"
  shows "typed (local_call ns) (ensure_metrics_Service E i x)
    (\<lambda>r. \<forall>v. r = Inr v \<longrightarrow> (\<forall>s. v = Some s \<longrightarrow> om_Namespace (svc_ObjectMeta s) = ns))"
  by (rule metrics.op_local [OF keyed_serverD(6) [OF assms(1)]])
    (use assms(3) own_local [where meta = svc_ObjectMeta, OF assms(2,3)] in \<open>auto simp: unowned_def meta_key_def ns_of_def\<close>)

lemma monitor_local:
  assumes "keyed_server E" and "om_Namespace (svc_ObjectMeta s) = ns"
  shows "typed (local_call ns) (ensure_ServiceMonitor E (generateServiceMonitor ord s))
    (\<lambda>r. \<forall>v. r = Inr v \<longrightarrow> True)"
  by (rule monitor.op_local [OF keyed_serverD(7) [OF assms(1)]])
    (auto simp: meta_key_def generateServiceMonitor_def Let_def object_meta_def assms(2) owned_in_def known_owners_def)

lemma location_pure: "typed G (lift_outcome q) (\<lambda>r. \<forall>v. r = Inr v \<longrightarrow> True)"
  by (rule typed_lift) simp

lemma veleroDeployment_local:
  assumes "constructors_local L" and "veleroDeployment L ns p reg = Returned dep"
  shows "unowned ns (d_ObjectMeta dep)"
  using assms
  by (auto simp: veleroDeployment_def aws_deployment_def gcp_deployment_def finish_deployment_def
      update_pod_def and_then_def constructors_local_def Let_def split: outcome.splits if_splits)

lemma provisionVelero_local:
  assumes "keyed_server E" and "constructors_local (e_lib E)" and "valid_runtime E"
  shows "typed (local_call ns) (provisionVelero E d ns ps i) (\<lambda>x. True)"
proof -
  note local = assms(1,2)
  have given: "unowned ns (bsl_ObjectMeta (lib_BackupStorageLocation (e_lib E) ns p b pfx lc ca))"
      "unowned ns (vsl_ObjectMeta (lib_VolumeSnapshotLocation (e_lib E) ns p lc))" for p b pfx lc ca
    using assms(2) by (simp_all add: constructors_local_def)
  have credentials: "typed (local_call ns) (ret (velero_credentials (e_lib E) ns p lc b))
      (\<lambda>r. \<forall>cr. r = Inr cr \<longrightarrow> unowned ns (cr_ObjectMeta cr))" for p lc b
    by (auto simp: velero_credentials_def awsCredentialsRequest_def gcpCredentialsRequest_def
        credentials_request_def object_meta_def unowned_def split: if_splits option.splits)
  have monitor: "typed (local_call n) (or_return (ensure_ServiceMonitor E (generateServiceMonitor ord s))
      (\<lambda>m. ret (no_requeue, None))) (\<lambda>x. True)" if "om_Namespace (svc_ObjectMeta s) = n" for ord s n
    by (rule typed_or_return [OF monitor_local [OF assms(1) that]]) simp
  have service: "typed (local_call ns) (or_return (ensure_metrics_Service E i
        (metricsServiceFromDeployment (e_lib E) ord dep)) (\<lambda>s. case s of
        None \<Rightarrow> ret (requeue, None)
      | Some s \<Rightarrow> exec (current_order E) (\<lambda>ord. or_return (ensure_ServiceMonitor E (generateServiceMonitor ord s))
          (\<lambda>m. ret (no_requeue, None))))) (\<lambda>x. True)" if "om_Namespace (d_ObjectMeta dep) = ns" for ord dep
    by (rule typed_or_return [OF metrics_local [OF local]])
      (use that in \<open>auto simp: unowned_def metricsServiceFromDeployment_def object_meta_def
         intro!: typed_order [OF assms(3)] monitor split: option.split\<close>)
  have deployed: "typed (local_call ns) (lift_outcome (veleroDeployment (e_lib E) ns p reg))
      (\<lambda>dep. unowned ns (d_ObjectMeta dep))" for p reg
    by (rule typed_lift) (rule veleroDeployment_local [OF assms(2)])
  show ?thesis
    unfolding provisionVelero_def
    by (intro typed_or_return [OF location_pure] typed_or_return [OF bsl_local [OF local given(1)]]
        typed_or_return [OF vsl_local [OF local given(2)]] typed_or_return [OF credentials]
        typed_or_return [OF cr_local [OF local]] typed_exec [OF deployed]
        typed_or_return [OF deployment_local [OF local]] typed_order [OF assms(3)] service) simp_all
qed

section \<open>A call of Reconcile\<close>

lemma only_calls_conj: "only_calls A m \<Longrightarrow> only_calls B m \<Longrightarrow> only_calls (\<lambda>e. A e \<and> B e) m"
  unfolding only_calls_def by (fastforce intro: wp_mono [OF wp_conj] simp: list_all_iff)

definition lives_in :: "string \<Rightarrow> VeleroInstall \<Rightarrow> bool" where
  "lives_in ns i = (om_Namespace (vi_ObjectMeta i) = ns)"

lemma any_names: "names_given (\<lambda>n. True) E"
  by (simp add: names_given_def)

lemma namespace_status_type:
  assumes "keyed_server E"
  shows "status_type (lives_in ns) (lives_in ns) (\<lambda>n. True) E"
proof -
  have answers: "lives_in ns i'" if "lives_in ns i"
      "k_StatusUpdate (e_kube E) (with_bucket f i) w = (Inr i', w')" for i f w i' w'
  proof -
    have "om_Namespace (vi_ObjectMeta i') = om_Namespace (vi_ObjectMeta (with_bucket f i))"
      using assms that(2) unfolding keyed_server_def by blast
    then show ?thesis using that(1) by (simp add: lives_in_def)
  qed
  show ?thesis
    unfolding status_type_def
    by (intro conjI allI impI any_names; (rule answers; assumption)?) (simp add: lives_in_def)
qed

text \<open>The calls of a driver, beside the statuses it sends.\<close>

lemma CreateStorage_local:
  assumes "keyed_server E" and "valid_runtime E" and "lives_in OperatorNamespace i"
  shows "typed (local_call OperatorNamespace) (CreateStorage E d i) (\<lambda>x. True)"
proof (rule typed_calls, rule only_calls_mono [OF only_calls_conj
    [OF driver.only_driver_calls typed_only_calls
       [OF CreateStorage_typed [OF namespace_status_type [OF assms(1)] assms(2,3)]]]])
  fix e show "driver_call e \<and> sends (lives_in OperatorNamespace) e \<Longrightarrow> local_call OperatorNamespace e"
    by (cases e) (auto simp: lives_in_def)
qed

lemma Reconcile_local:
  assumes "keyed_server E" and "constructors_local (e_lib E)" and "valid_runtime E"
    and "rq_Namespace rq = OperatorNamespace"
  shows "typed (local_call OperatorNamespace) (Reconcile E driver rq) (\<lambda>x. True)"
proof -
  have get: "typed (local_call OperatorNamespace) (Get VeleroInstalls E n OperatorNamespace)
      (\<lambda>r. \<forall>i. r = Inr i \<longrightarrow> lives_in OperatorNamespace i)" for n
    using keyed_serverD(1) [OF assms(1)] unfolding Get_def
    by (intro typed_call) (auto simp: keyed_def lives_in_def ns_of_def, blast)
  have infra: "typed (local_call OperatorNamespace) (platformutils_NewClient E) (\<lambda>x. True)"
      "typed (local_call OperatorNamespace) (GetInfrastructureStatus E) (\<lambda>x. True)"
    unfolding platformutils_NewClient_def GetInfrastructureStatus_def by (rule typed_call, simp)+
  have required: "typed (local_call OperatorNamespace) (StorageBucketReconcileRequired E i p) (\<lambda>x. True)" for i p
    by (auto simp: typed_def StorageBucketReconcileRequired_def env_calls wp_simps split: option.split prod.split)
  have driver: "typed (local_call OperatorNamespace) (lift_outcome q) (\<lambda>x. True)" for q :: "(goerror + Driver) outcome"
    by (rule typed_lift) simp
  show ?thesis
    unfolding Reconcile_def assms(4)
    by (rule typed_exec [OF get])
      (auto intro!: typed_exec [OF infra(1)] typed_exec [OF infra(2)] typed_exec [OF driver]
        typed_exec [OF required] typed_exec [OF CreateStorage_local [OF assms(1,3)]]
        typed_exec [OF provisionVelero_local [OF assms(1,2,3)]] split: sum.split option.split)
qed

section \<open>The process\<close>

abbreviation main_ns :: string where "main_ns \<equiv> ManagedVeleroOperatorNamespace"

lemma install_crds_local:
  assumes "constructors_local (e_lib E)"
  shows "typed (local_call ns) (install_crds E us) (\<lambda>x. True)"
proof (induction us)
  case (Cons u us)
  have crd: "typed (local_call ns) (ensure_CRD E x) (\<lambda>r. \<forall>v. r = Inr v \<longrightarrow> True)"
    if "wanted_crd (e_lib E) u = Inr x" for x
  proof (rule crd.op_typed)
    have "om_OwnerReferences (crd_ObjectMeta x) = []"
      using that assms by (auto simp: wanted_crd_def constructors_local_def split: sum.splits)
    then show "local_call ns (KCreate (h_obj CRDs y) r)" if "Inr x = Inr y" for y :: CustomResourceDefinition and r
      using that by simp
  qed simp_all
  show ?case
    by (auto intro!: typed_exec [OF crd] Cons.IH split: sum.split)
qed simp

lemma operator_service_local:
  assumes "keyed_server E" and "unowned ns (svc_ObjectMeta x)"
  shows "typed (local_call ns) (ensure_operator_Service E x)
    (\<lambda>r. \<forall>v. r = Inr v \<longrightarrow> om_Namespace (svc_ObjectMeta v) = ns)"
  by (rule operator_service.op_local [OF keyed_serverD(6) [OF assms(1)]])
    (use assms(2) in \<open>auto simp: unowned_def meta_key_def ns_of_def owned_in_def known_owners_def keep_cluster_fields_def\<close>)

lemma operator_monitor_local:
  assumes "keyed_server E" and "owned_in ns (sm_ObjectMeta x)"
  shows "typed (local_call ns) (ensure_operator_ServiceMonitor E x) (\<lambda>r. \<forall>v. r = Inr v \<longrightarrow> True)"
  by (rule operator_monitor.op_local [OF keyed_serverD(7) [OF assms(1)]])
    (use assms(2) in \<open>auto simp: meta_key_def owned_in_def\<close>)

lemma addMetrics_local:
  assumes "keyed_server E" and "constructors_local (e_lib E)"
  shows "typed (local_call main_ns) (addMetrics E) (\<lambda>x. True)"
proof -
  have generated: "typed (local_call main_ns) (lift_outcome (generated_service (e_lib E)))
      (\<lambda>r. \<forall>s. r = Inr s \<longrightarrow> unowned main_ns (svc_ObjectMeta s))"
  proof (rule typed_lift, intro allI impI)
    fix r s
    assume "generated_service (e_lib E) = Returned r" "r = Inr s"
    then obtain s' where s': "s = s'\<lparr>svc_Spec := (svc_Spec s')\<lparr>ss_SessionAffinity := ''None'', ss_Type := ''ClusterIP''\<rparr>\<rparr>"
      "fst (lib_opmetrics_GenerateService (e_lib E) metricsPort ''http-metrics'' (MainOperatorName @ ''-metrics'')
         main_ns (Some (fmupd ''name'' MainOperatorName fmempty))) = Some s'"
      by (auto simp: generated_service_def split: prod.splits option.splits)
    then have "unowned main_ns (svc_ObjectMeta s')"
      using assms(2) unfolding constructors_local_def by blast
    then show "unowned main_ns (svc_ObjectMeta s)" by (simp add: s'(1))
  qed
  have monitor: "typed (local_call main_ns)
      (exec (ensure_operator_ServiceMonitor E (lib_opmetrics_GenerateServiceMonitor (e_lib E) s)) (\<lambda>r. ret (err_of r)))
      (\<lambda>x. True)" if "om_Namespace (svc_ObjectMeta s) = main_ns" for s
    by (rule typed_exec [OF operator_monitor_local [OF assms(1)]])
      (use assms(2) that in \<open>auto simp: constructors_local_def dest: spec [of _ s]\<close>)
  show ?thesis
    unfolding addMetrics_def
    by (rule typed_exec [OF generated])
      (auto intro!: typed_exec [OF operator_service_local [OF assms(1)]] monitor split: sum.split)
qed

lemma typed_or_exit:
  "typed G m (\<lambda>x. True) \<Longrightarrow> typed G k (\<lambda>x. True) \<Longrightarrow> typed G (or_exit m k) (\<lambda>x. True)"
  unfolding or_exit_def by (rule typed_exec) (auto split: option.split)

lemma run_operator_local:
  assumes "keyed_server E" and "constructors_local (e_lib E)"
  shows "typed (local_call main_ns) (run_operator E) (\<lambda>x. True)"
proof -
  have step: "typed (local_call main_ns) (startup E s) (\<lambda>x. True)" for s
    unfolding startup_def by (rule typed_call) simp
  have infra: "typed (local_call main_ns) (platformutils_NewClient E) (\<lambda>x. True)"
      "typed (local_call main_ns) (GetInfrastructureStatus E) (\<lambda>x. True)"
    unfolding platformutils_NewClient_def GetInfrastructureStatus_def by (rule typed_call, simp)+
  have pure: "typed (local_call main_ns) (lift_outcome q) (\<lambda>x. True)" for q :: "'x outcome"
    by (rule typed_lift) simp
  have reads: "typed (local_call main_ns) (os_Args E) (\<lambda>x. True)" "typed (local_call main_ns) (getWatchNamespace E) (\<lambda>x. True)"
    by (auto simp: typed_def os_Args_def getWatchNamespace_def LookupEnv_def wp_simps split: option.split)
  have phases: "typed (local_call main_ns) (InstallVeleroCRDs E) (\<lambda>x. True)"
      "typed (local_call main_ns) (SetupWithManager E) (\<lambda>x. True)"
    unfolding InstallVeleroCRDs_def SetupWithManager_def by (rule install_crds_local [OF assms(2)], rule step)
  show ?thesis
    unfolding run_operator_def main_def
    by (rule typed_exec [OF pure])
      (auto intro!: typed_exec [OF reads(1)] typed_exec [OF reads(2)] typed_exec [OF infra(2)] typed_or_exit
        step infra phases addMetrics_local [OF assms] typed_exec [where R = "\<lambda>x. True"] typed_lift
        split: sum.split option.split)
qed

text \<open>What stays in the operator's namespace is granted.\<close>

lemma granted_calls: "typed (local_call main_ns) m R \<Longrightarrow> only_calls permitted m"
  by (rule only_calls_mono [OF typed_only_calls local_permitted])

end
