(* ===== verification/Working_Sample.thy ===== *)
theory Working_Sample
  imports Sample Operator_Converges Status_Schema Permissions
begin

text \<open>
  A sample world on which everything works: the cluster of Sample, an S3 account that keeps
  its buckets and answers with complete tags, a supply of names that nobody has, and a server
  that keeps times to the second.
\<close>

section \<open>The environment\<close>

definition sample_view :: "sample_world view" where
  "sample_view w = \<lparr>sn_objs = sample_objs w, sn_own = fst ` set (sw_Buckets w), sn_taken = {}\<rparr>"

definition working_env :: "sample_world env" where
  "working_env = sample_env
     \<lparr>e_kube := sample_kube
        \<lparr>k_Secret := (k_Secret sample_kube)\<lparr>r_Get := (\<lambda>n ns w. (Inr sample_secret, w))\<rparr>,
         k_StatusUpdate := (\<lambda>i w.
           (Inr (with_bucket to_second i), store_obj (ObjVeleroInstall (with_bucket to_second i)) w))\<rparr>,
      e_aws := sample_aws
        \<lparr>s3_GetBucketTagging := (\<lambda>c n. read_bucket n
           (\<lambda>b. filter (\<lambda>t. t_Key t \<noteq> None \<and> t_Value t \<noteq> None) (smb_Tags b)))\<rparr>,
      e_rt := sample_rt
        \<lparr>rt_NewUUID := (\<lambda>w. (''u'' @ concat (map fst (sw_Buckets w)), w))\<rparr>\<rparr>"

section \<open>It works\<close>

lemma working_resources [simp]:
  "k_VeleroInstall (e_kube working_env) = k_VeleroInstall (e_kube sample_env)"
  "k_BackupStorageLocation (e_kube working_env) = k_BackupStorageLocation (e_kube sample_env)"
  "k_VolumeSnapshotLocation (e_kube working_env) = k_VolumeSnapshotLocation (e_kube sample_env)"
  "k_CredentialsRequest (e_kube working_env) = k_CredentialsRequest (e_kube sample_env)"
  "k_Deployment (e_kube working_env) = k_Deployment (e_kube sample_env)"
  "k_Service (e_kube working_env) = k_Service (e_kube sample_env)"
  "k_ServiceMonitor (e_kube working_env) = k_ServiceMonitor (e_kube sample_env)"
  "e_lib working_env = sample_lib"
  by (simp_all add: working_env_def sample_env_def)

lemma view_objs_sample [simp]: "(\<lambda>w. sn_objs (sample_view w)) = sample_objs"
  by (simp add: sample_view_def fun_eq_iff)

lemma serves_same:
  "h_resource h (e_kube E) = h_resource h (e_kube E') \<Longrightarrow> serves h E objs key like = serves h E' objs key like"
  by (simp only: serves_def answers_def finds_def)

lemma working_cluster_sample: "working_cluster working_env sample_objs"
  using sample_working unfolding working_cluster_def
  by (simp add: serves_same [of _ working_env sample_env])

lemma bucket_there: "map_of bs n = Some b \<Longrightarrow> n \<in> fst ` set bs"
  by (metis domI dom_map_of_conv_image_fst)

lemma bucket_not_there: "map_of bs n = None \<longleftrightarrow> n \<notin> fst ` set bs"
  by (simp add: map_of_eq_None_iff)

lemma sample_view_simps [simp]:
  "sn_own (sample_view w) = fst ` set (sw_Buckets w)" "sn_taken (sample_view w) = {}"
  "sn_objs (sample_view w) = sample_objs w"
  by (simp_all add: sample_view_def)

lemma sample_objs_buckets [simp]: "sample_objs (w\<lparr>sw_Buckets := bs\<rparr>) = sample_objs w"
  "sample_objs (w\<lparr>sw_Clock := c\<rparr>) = sample_objs w"
  by (simp_all add: sample_objs_def fun_eq_iff)

lemma on_bucket_yields: "accepts sample_view n (on_bucket n f)"
  by (auto simp: yields_def on_bucket_def bucket_not_there sample_view_def dom_update bucket_there insert_absorb
      split: option.split)

lemma read_bucket_yields:
  "yields sample_view (read_bucket n f) (\<lambda>s. n \<in> sn_own s) (\<lambda>s r. \<exists>b. r = Inr (f b))"
  by (auto simp: yields_def read_bucket_def bucket_not_there split: option.split)

lemma working_s3: "s3_works working_env sample_view"
proof -
  have "s3_reads_work working_env sample_view"
    unfolding s3_reads_work_def
  proof (intro conjI allI)
    show "yields sample_view (r_Get (k_Secret (e_kube working_env)) awsCredsSecretName OperatorNamespace) (\<lambda>s. True)
        (\<lambda>s r. \<exists>secret a b. r = Inr secret \<and> gomap_get (sec_Data secret) awsCredsSecretIDKey = Some a \<and>
          gomap_get (sec_Data secret) awsCredsSecretAccessKey = Some b)"
      by (simp add: yields_def working_env_def sample_secret_def awsCredsSecretIDKey_def awsCredsSecretAccessKey_def
          fmlookup_of_list)
    show "yields sample_view (aws_NewSession (e_aws working_env) c) (\<lambda>s. True) (\<lambda>s r. r = None)" for c
      by (simp add: yields_def working_env_def sample_aws_def)
    show "yields sample_view (s3_ListBuckets (e_aws working_env) c) (\<lambda>s. True)
        (\<lambda>s r. \<exists>l. r = Inr l \<and> own_names s (lbo_Buckets l))" for c
      by (force simp: yields_def working_env_def sample_aws_def own_names_def)
    show "yields sample_view (s3_GetBucketLocation (e_aws working_env) c (Some n)) (\<lambda>s. n \<in> sn_own s)
        (\<lambda>s r. \<exists>l. r = Inr l)" for c n
      using read_bucket_yields [of n smb_Region] by (auto simp: yields_def working_env_def sample_aws_def)
    show "yields sample_view (s3_GetBucketTagging (e_aws working_env) c n) (\<lambda>s. n \<in> sn_own s)
        (\<lambda>s r. case r of Inl err \<Rightarrow> untagged err | Inr ts \<Rightarrow> complete_tags ts)" for c n
      using read_bucket_yields [of n "\<lambda>b. filter (\<lambda>t. t_Key t \<noteq> None \<and> t_Value t \<noteq> None) (smb_Tags b)"]
      by (fastforce simp: yields_def working_env_def complete_tags_def)
    show "yields sample_view (s3_HeadBucket (e_aws working_env) c n) (\<lambda>s. n \<notin> sn_taken s)
        (\<lambda>s r. if n \<in> sn_own s then r = Inr () else (\<exists>err. r = Inl err \<and> gone (RespError err)))" for c n
      by (auto simp: yields_def working_env_def sample_aws_def read_bucket_def bucket_there bucket_not_there
          no_such_bucket_def split: option.split)
  qed
  moreover have "s3_writes_work working_env sample_view"
    unfolding s3_writes_work_def
  proof (intro conjI allI)
    show "creates (cb_Bucket q) (sample_view w) (fst (s3_CreateBucket (e_aws working_env) c q w))
        (sample_view (snd (s3_CreateBucket (e_aws working_env) c q w)))" for c q w
      by (auto simp: creates_def working_env_def sample_aws_def sample_view_def ErrCodeBucketAlreadyOwnedByYou_def
          dom_update bucket_there insert_absorb split: option.split)
  qed (auto simp: working_env_def sample_aws_def sample_lib_def sample_env_def on_bucket_yields)
  ultimately show ?thesis by (simp add: s3_works_def)
qed

lemma working_status: "stores_status working_env sample_view"
  unfolding stores_status_def
proof (intro allI impI)
  fix i and w :: sample_world
  let ?j = "with_bucket to_second i"
  have "vi_Bucket ?j = to_second (vi_Bucket i)" by simp
  moreover have "obj_key (ObjVeleroInstall ?j) = install_key i"
    by (simp add: obj_key_def install_key_def)
  ultimately have "stored_as i ?j (sample_view w) (sample_view (store_obj (ObjVeleroInstall ?j) w))"
    by (simp add: stored_as_def stores_def sample_objs_store sample_view_def) (simp add: store_obj_def)
  then show "\<exists>j w'. k_StatusUpdate (e_kube working_env) i w = (Inr j, w') \<and>
      stored_as i j (sample_view w) (sample_view w')"
    by (simp add: working_env_def)
qed

lemma length_concat_member: "n \<in> set ns \<Longrightarrow> length n \<le> length (concat ns)"
  by (induction ns) auto

lemma working_runtime: "runtime_works working_env sample_view"
proof -
  have "StorageBucketPrefix @ ''u'' @ concat ns \<notin> set ns" for ns
    using length_concat_member [of "StorageBucketPrefix @ ''u'' @ concat ns" ns] by auto
  then have "StorageBucketPrefix @ ''u'' @ concat (map fst bs) \<notin> fst ` set bs" for bs :: "(string \<times> sample_bucket) list"
    by (metis set_map)
  then show ?thesis
    by (simp add: runtime_works_def working_env_def sample_view_def) (simp add: sample_env_def sample_rt_def)
qed

lemma working_platform_sample: "working_platform working_env sample_objs sample_infra"
  using sample_platform
  by (auto simp: working_platform_def finds_def) (auto simp: working_env_def sample_env_def sample_rt_def)

lemma working_apart: "apart working_env (\<lambda>w. sn_own (sample_view w))"
  by (simp add: apart_def resource_leaves_def sample_env_def sample_kube_def sample_resource_def
      store_obj_def split: option.split)

lemma working_wants:
  "\<exists>lc cr dep. wants working_env (GetPlatformType (S3Driver sample_driver)) ''openshift-velero''
     (is_PlatformStatus sample_infra) i lc cr dep"
proof -
  let ?cr = "awsCredentialsRequest sample_lib ''openshift-velero'' credentialsRequestName ''aws'' (sb_Name (vi_Bucket i))"
  have "velero_credentials sample_lib ''openshift-velero'' AWSPlatformType sample_location
     (sb_Name (vi_Bucket i)) = Inr ?cr"
    by (simp add: velero_credentials_def sample_lib_def)
  moreover have "credentialsRequestSpecEqual sample_lib (cr_Spec ?cr) (cr_Spec ?cr) = Returned (Inr True)"
    by (simp add: credentialsRequestSpecEqual_def awsCredentialsRequest_def credentials_request_def EncodeProviderSpec_def sample_lib_def)
  ultimately show ?thesis
    using settled_objects(1,3) by (auto simp: wants_def s3_GetPlatformType_def intro!: exI)
qed

lemma sample_works: "operator_works working_env sample_view (S3Driver sample_driver) ''openshift-velero'' sample_infra"
proof -
  have "valid_runtime working_env"
    using sample_valid_runtime by (simp add: valid_runtime_def working_env_def sample_env_def)
  moreover have "\<forall>i. can_own (e_lib working_env) i"
    using sample_can_own by (simp add: sample_env_def)
  moreover have "driver_works (S3Driver sample_driver) working_env sample_view" by (simp add: working_s3)
  ultimately show ?thesis
    unfolding operator_works_def view_objs_sample
    by (intro conjI allI working_cluster_sample working_platform_sample working_status working_runtime
        working_apart working_wants) simp_all
qed

section \<open>The same on GCS\<close>

definition gcs_secret :: Secret where
  "gcs_secret =
     \<lparr>sec_ObjectMeta = object_meta storageCredsSecretName OperatorNamespace,
      sec_Data = Some (fmap_of_list [(''service_account.json'', ''key'')]), sec_rest = ''''\<rparr>"

definition gcs_attrs :: "string \<Rightarrow> BucketAttrs" where
  "gcs_attrs n = \<lparr>ba_Name = n, ba_Location = ''US-EAST1'', ba_UniformBucketLevelAccess = True,
     ba_Labels = None, ba_rest = ''''\<rparr>"

lemma gcs_attrs_name [simp]: "ba_Name (gcs_attrs n) = n"
  by (simp add: gcs_attrs_def)

definition gcs_env :: "sample_world env" where
  "gcs_env = working_env
     \<lparr>e_kube := (e_kube working_env)
        \<lparr>k_Secret := (k_Secret sample_kube)\<lparr>r_Get := (\<lambda>n ns w. (Inr gcs_secret, w))\<rparr>\<rparr>,
      e_gcs := sample_gcs
        \<lparr>gcs_Create := (\<lambda>client n project attrs w.
           (case map_of (sw_Buckets w) n of
              Some b \<Rightarrow> (Some (PlainError ''409 conflict''), w)
            | None \<Rightarrow> (None, w\<lparr>sw_Buckets := AList.update n
                \<lparr>smb_Region = None, smb_Tags = [], smb_Encryption = [], smb_Blocked = None, smb_Lifecycle = []\<rparr>
                (sw_Buckets w)\<rparr>))),
         gcs_Attrs := (\<lambda>client n w.
           (if n \<in> set (map fst (sw_Buckets w)) then Inr (gcs_attrs n) else Inl (ErrBucketNotExist ''no such bucket''), w)),
         gcs_Update := (\<lambda>client n labels w.
           (if n \<in> set (map fst (sw_Buckets w)) then Inr (gcs_attrs n) else Inl (ErrBucketNotExist ''no such bucket''), w)),
         gcs_Buckets := (\<lambda>client project w.
           (foldr (\<lambda>b. IterBucket (gcs_attrs (fst b))) (sw_Buckets w) IterDone, w))\<rparr>\<rparr>"

lemma listed_gcs:
  "iterator_buckets (foldr (\<lambda>b. IterBucket (gcs_attrs (fst b))) bs IterDone) = Inr (map (\<lambda>b. gcs_attrs (fst b)) bs)"
  by (induction bs) simp_all

lemma working_gcs: "gcs_works gcs_env sample_view"
proof -
  have "gcs_reads_work gcs_env sample_view"
    by (auto simp: gcs_reads_work_def yields_def gcs_env_def working_env_def sample_env_def sample_gcs_def gcs_secret_def
        fmlookup_of_list listed_gcs list_all_iff)
  moreover have "gcs_writes_work gcs_env sample_view"
    by (auto simp: gcs_writes_work_def yields_def gcs_env_def sample_view_def bucket_not_there dom_update
        split: option.split dest: bucket_there)
  ultimately show ?thesis by (simp add: gcs_works_def)
qed

lemma gcs_status_runtime:
  "stores_status gcs_env sample_view" "runtime_works gcs_env sample_view" "valid_runtime gcs_env"
proof -
  have same: "k_StatusUpdate (e_kube gcs_env) = k_StatusUpdate (e_kube working_env)" "e_rt gcs_env = e_rt working_env"
    by (simp_all add: gcs_env_def)
  show "stores_status gcs_env sample_view" using working_status by (simp add: stores_status_def same)
  show "runtime_works gcs_env sample_view" using working_runtime by (simp add: runtime_works_def same)
  show "valid_runtime gcs_env"
    using sample_valid_runtime by (simp add: valid_runtime_def same) (simp add: working_env_def sample_env_def)
qed

section \<open>A server that enforces the schema\<close>

text \<open>
  The server refuses a status that the schema does not accept and stores no other; the
  identifiers have 36 characters, and S3 lists the buckets with names within the bound.
\<close>

definition schema_env :: "sample_world env" where
  "schema_env = working_env
     \<lparr>e_kube := (e_kube working_env)
        \<lparr>k_VeleroInstall := (k_VeleroInstall sample_kube)\<lparr>r_Get := (\<lambda>n ns w.
           (case r_Get (k_VeleroInstall sample_kube) n ns w of
              (Inr i, w') \<Rightarrow>
                if well_stored i then (Inr i, w')
                else (Inl (StatusError ''Invalid'' ''invalid''), w')
            | r \<Rightarrow> r))\<rparr>,
         k_StatusUpdate := (\<lambda>i w.
           if schema_accepts i then k_StatusUpdate (e_kube working_env) i w
           else (Inl (StatusError ''Invalid'' ''invalid''), w))\<rparr>,
      e_aws := (e_aws working_env)
        \<lparr>s3_ListBuckets := (\<lambda>c w. (Inr \<lparr>lbo_Buckets = map (\<lambda>(n, b). \<lparr>b_Name = Some n, b_rest = ''''\<rparr>)
           (filter (\<lambda>b. short (fst b)) (sw_Buckets w)), lbo_Owner = ''owner''\<rparr>, w))\<rparr>,
      e_rt := sample_rt\<lparr>rt_NewUUID := (\<lambda>w. (replicate 36 CHR ''0'', w))\<rparr>\<rparr>"

lemma schema_env_fits:
  "valid_runtime schema_env" "echoes_status schema_env" "short_listings schema_env" "stored_in well_stored schema_env"
  "length (fst (rt_NewUUID (e_rt schema_env) w)) = 36"
proof -
  show "valid_runtime schema_env"
    using sample_valid_runtime by (simp add: valid_runtime_def schema_env_def sample_env_def)
  show "echoes_status schema_env"
    by (auto simp: echoes_status_def schema_env_def working_env_def to_second_id split: if_splits)
  show "short_listings schema_env"
    by (auto simp: short_listings_def schema_env_def working_env_def sample_env_def sample_gcs_def)
  show "stored_in well_stored schema_env"
    by (auto simp: stored_in_def schema_env_def split: prod.splits sum.splits if_splits)
  show "length (fst (rt_NewUUID (e_rt schema_env) w)) = 36"
    by (simp add: schema_env_def)
qed

section \<open>A server and libraries that keep to a namespace\<close>

lemma sample_keyed: "keyed_server sample_env"
  unfolding keyed_server_def
  by (intro conjI)
    (auto simp: keyed_def ns_of_def sample_env_def sample_kube_def sample_resource_def obj_key_def
      split: option.splits if_splits kobj.splits)

lemma sample_constructors: "constructors_local (e_lib sample_env)"
  by (auto simp: constructors_local_def sample_env_def sample_lib_def unowned_def owned_in_def known_owners_def
      object_meta_def sample_deployment_def)

end
