(* ===== verification/Request_Bounds.thy ===== *)
theory Request_Bounds
  imports Controller
begin

text \<open>
  How many requests a call of Reconcile makes: a constant, and two for each bucket that a
  listing of S3 returned. Nothing in a call waits or tries again, so a call ends.
\<close>

section \<open>Counting requests\<close>

text \<open>The buckets in the answers to the listings of S3 buckets.\<close>

fun listed :: "event list \<Rightarrow> nat" where
  "listed [] = 0"
| "listed (S3Call c ReqListBuckets (RespBuckets l) # es) = length (lbo_Buckets l) + listed es"
| "listed (e # es) = listed es"

lemma listed_append [simp]: "listed (xs @ ys) = listed xs + listed ys"
  by (induction xs rule: listed.induct) auto

definition costs :: "nat \<Rightarrow> ('w, event, 'a) go \<Rightarrow> bool" where
  "costs n m = (\<forall>w. wp m (\<lambda>r es w'. length es \<le> n + 2 * listed es) w)"

lemma costs_wp: "costs n m \<Longrightarrow> wp m (\<lambda>r es w'. length es \<le> n + 2 * listed es) w"
  by (simp add: costs_def)

lemma costs_simps [simp]: "costs n (ret x)" "costs n panic" "costs n (asks f)" "costs n (lift_outcome q)"
  by (simp_all add: costs_def wp_simps)

lemma costs_le: "costs a m \<Longrightarrow> a \<le> b \<Longrightarrow> costs b m"
  unfolding costs_def by (blast intro: wp_mono add_le_mono1 order_trans)

lemma costs_call: "1 \<le> n \<Longrightarrow> costs n (call f ev)"
  by (simp add: costs_def wp_call split: prod.split)

lemma costs_exec:
  assumes "costs a m" and "\<And>x. costs b (f x)" and "a + b \<le> n"
  shows "costs n (exec m f)"
  unfolding costs_def
proof (intro allI, rule wp_bindI [OF costs_wp [OF assms(1)]], goal_cases)
  case (1 w es w')
  then show ?case using assms(3) by simp
next
  case (2 w x es w')
  then show ?case
    using assms(3) by (intro wp_mono [OF costs_wp [OF assms(2)]]) simp
qed

text \<open>A call first, then the rest.\<close>

lemma costs_call_exec: "(\<And>x. costs n (f x)) \<Longrightarrow> costs (Suc n) (exec (call g ev) f)"
  by (rule costs_exec [OF costs_call [OF order_refl]]) auto

lemma costs_call_only: "(\<And>x. costs 0 (f x)) \<Longrightarrow> costs (Suc 0) (exec (call g ev) f)"
  by (rule costs_call_exec)

section \<open>The drivers\<close>

lemma NewS3Client_costs: "costs 2 (NewS3Client E region)"
  by (auto simp: costs_def NewS3Client_def NewSession_def env_calls wp_simps Let_def
      split: prod.split sum.split option.split)

lemma s3_StorageExists_costs: "costs 3 (s3_StorageExists E d b)"
  unfolding s3_StorageExists_def api_HeadBucket_def
  by (rule costs_exec [OF NewS3Client_costs, where b = 1])
    (auto intro!: costs_call_only split: sum.split option.split)

lemma StatusUpdate_costs: "costs 1 (StatusUpdate E i)"
  by (auto simp: costs_def wp_simps split: prod.split sum.split)

lemma settings_costs:
  "costs 7 (or_fail (EncryptBucket E c b) ''encrypting'' b
            (or_fail (BlockBucketPublicAccess E c b) ''blocking public access to'' b
            (or_fail (SetBucketLifecycle E c b) ''configuring lifecycle rules on'' b
            (or_fail (TagBucket E c b l n) ''tagging'' b
             (exec (time_Now E) (\<lambda>now.
              exec (StatusUpdate E (with_bucket (\<lambda>b. b\<lparr>sb_Provisioned := True,
                      sb_LastSyncTimestamp := Some now\<rparr>) i))
                (\<lambda>(err, inst'). ret err)))))))"
  unfolding costs_def
  by (intro allI) (simp add: wp_simps s3_settings_wp env_calls Let_def split: option.split prod.split sum.split)

lemma status_costs: "costs 1 (exec (StatusUpdate E i) (\<lambda>(err, inst'). ret (g err)))"
  by (rule costs_exec [OF StatusUpdate_costs, where b = 0]) auto

lemma s3_enforce_costs: "costs 10 (s3_enforce_bucket E d c i)"
  unfolding s3_enforce_bucket_def Let_def
  by (rule costs_exec [OF s3_StorageExists_costs, where b = 7])
    (auto intro: settings_costs costs_le [OF status_costs] split: sum.split)

lemma locate_costs: "wp (locate_buckets E c region bs acc)
    (\<lambda>r es w'. length es \<le> length bs \<and> listed es = 0 \<and>
       (\<forall>bs'. r = Returned (Inr bs') \<longrightarrow> length bs' \<le> length acc + length bs)) w"
proof (induction bs arbitrary: acc w region)
  case (Cons b bs)
  have go: "wp (locate_buckets E c region bs acc')
      (\<lambda>r es w'. length es \<le> length bs \<and> listed es = 0 \<and>
         (\<forall>bs'. r = Returned (Inr bs') \<longrightarrow> length bs' \<le> Suc (length acc + length bs))) w'"
    if "length acc' \<le> Suc (length acc)" for acc' w' region
    using that by (intro wp_mono [OF Cons.IH]) auto
  show ?case
    by (auto simp: api_GetBucketLocation_def wp_simps Let_def intro!: go split: prod.split sum.split option.split)
qed (simp add: wp_simps)

lemma tags_costs: "wp (collect_tags E c bs acc) (\<lambda>r es w'. length es \<le> length bs \<and> listed es = 0) w"
proof (induction bs arbitrary: acc w)
  case (Cons b bs)
  show ?case
    by (auto simp: api_GetBucketTagging_def wp_simps intro!: Cons.IH split: prod.split sum.split option.split)
qed (simp add: wp_simps)

lemma listing_costs:
  "wp (ListBucketsInRegion E c region)
     (\<lambda>r es w'. length es \<le> 1 + listed es \<and>
        (\<forall>l. r = Returned (Inr l) \<longrightarrow> length (lbo_Buckets l) \<le> listed es)) w"
  unfolding ListBucketsInRegion_def ListBuckets_def api_ListBuckets_def
  by (auto simp: wp_simps split: prod.split sum.split outcome.split intro!: wp_mono [OF locate_costs])

lemma setInstanceBucketName_costs: "costs 4 (setInstanceBucketName E d c i)"
proof -
  have update: "costs 3 (StatusUpdate E j)" for j
    by (rule costs_le [OF StatusUpdate_costs]) simp
  have new_update: "costs 1 (StatusUpdate E j)" for j by (rule StatusUpdate_costs)
  have exists: "costs 1 (DoesBucketExist E c n)" for n
    unfolding DoesBucketExist_def api_HeadBucket_def by (auto intro!: costs_call_only split: sum.split option.split)
  have name: "costs 1 (s3_generateBucketName E pfx)" for pfx
    unfolding s3_generateBucketName_def uuid_New_def by (auto intro: costs_call_only)
  have checked: "costs 2 (exec (DoesBucketExist E c n) (\<lambda>r. case r of
      Inl err \<Rightarrow> ret (Some err, i) | Inr b \<Rightarrow> if b then ret (f n) else StatusUpdate E (g n)))" for n f g
    by (rule costs_exec [OF exists, where b = 1]) (auto intro: new_update [simplified] split: sum.split)
  have new: "costs 3 (exec (s3_generateBucketName E pfx) (\<lambda>n. exec (DoesBucketExist E c n) (\<lambda>r. case r of
      Inl err \<Rightarrow> ret (Some err, i) | Inr b \<Rightarrow> if b then ret (f n) else StatusUpdate E (g n))))" for pfx f g
    by (rule costs_exec [OF name checked]) simp
  have tags: "costs (length bs) (ListBucketTags E c bs)" for bs
    unfolding costs_def ListBucketTags_def by (intro allI wp_mono [OF tags_costs]) simp
  have chosen: "costs 3 (exec (current_order E) (\<lambda>ord. exec (lift_outcome (q ord)) (\<lambda>b.
      if b \<noteq> '''' then StatusUpdate E (h b) else exec (s3_generateBucketName E pfx) (\<lambda>n.
        exec (DoesBucketExist E c n) (\<lambda>r. case r of
          Inl err \<Rightarrow> ret (Some err, i) | Inr b \<Rightarrow> if b then ret (f n) else StatusUpdate E (g n))))))" for q h pfx f g
    unfolding current_order_def
    by (auto intro!: costs_exec [where a = 0 and b = 3] update new)
  show ?thesis
    unfolding setInstanceBucketName_def costs_def
  proof (intro allI, rule wp_bindI [OF listing_costs], goal_cases)
    case (1 w es w')
    then show ?case by simp
  next
    case (2 w x es w')
    have rest: "costs (length bs + 3) (exec (ListBucketTags E c bs) (\<lambda>r. case r of
        Inl err \<Rightarrow> ret (Some err, i)
      | Inr m \<Rightarrow> exec (current_order E) (\<lambda>ord. exec (lift_outcome (q m ord)) (\<lambda>b.
          if b \<noteq> '''' then StatusUpdate E (h b) else exec (s3_generateBucketName E pfx) (\<lambda>n.
            exec (DoesBucketExist E c n) (\<lambda>r. case r of
              Inl err \<Rightarrow> ret (Some err, i) | Inr b \<Rightarrow> if b then ret (f n) else StatusUpdate E (g n)))))))"
      for bs q h pfx f g
      by (rule costs_exec [OF tags, where b = 3]) (auto intro: chosen [simplified] split: sum.split)
    show ?case
    proof (cases x)
      case (Inl err)
      then show ?thesis using 2 by (simp add: wp_ret)
    next
      case (Inr l)
      then show ?thesis
        using 2 unfolding Inr sum.case
        by (intro wp_mono [OF costs_wp [OF rest]]) auto
    qed
  qed
qed

lemma s3_select_costs: "costs 4 (s3_select_bucket E d c i)"
proof -
  have tag: "costs 2 (TagBucket E c b l n)" for b l n
    by (auto simp: costs_def wp_TagBucket Let_def split: prod.split sum.split)
  have create: "costs 1 (CreateBucket E c b)" for b
    unfolding costs_def by (intro allI wp_mono [OF create_bucket.op_result]) auto
  have tagged: "costs 2 (exec (TagBucket E c b l n) (\<lambda>err. case err of
      Some err \<Rightarrow> ret (f err) | None \<Rightarrow> ret x))" for b l n f and x :: "goerror option + VeleroInstall"
    by (rule costs_exec [OF tag, where b = 0]) (auto split: option.split)
  have dropped: "costs 2 (exec (StatusUpdate E j) (\<lambda>(err, inst'). ret (Inl err :: goerror option + VeleroInstall)))" for j
    by (rule costs_le [OF status_costs]) simp
  have named: "costs 4 (exec (setInstanceBucketName E d c i) (\<lambda>(err, inst'). case err of
      Some err \<Rightarrow> ret (Inl (Some err)) | None \<Rightarrow> ret (Inr inst')))"
    by (rule costs_exec [OF setInstanceBucketName_costs, where b = 0]) (auto split: option.split)
  have created: "costs 4 (exec (CreateBucket E c b) f)"
    if "\<And>x. costs 2 (f x)" for b and f :: "goerror option \<Rightarrow> ('a, goerror option + VeleroInstall) prog"
    by (rule costs_exec [OF create that]) simp
  show ?thesis
    unfolding s3_select_bucket_def Let_def
    by (auto intro!: named created dropped tagged split: option.split)
qed

lemma s3_CreateStorage_costs: "costs 16 (s3_CreateStorage E d i)"
  unfolding s3_CreateStorage_def
proof (rule costs_exec [OF NewS3Client_costs, where b = 14])
  fix x :: "goerror + awsClient"
  have "costs 14 (exec (s3_select_bucket E d c i) (\<lambda>r. case r of
      Inl result \<Rightarrow> ret result | Inr inst' \<Rightarrow> s3_enforce_bucket E d c inst'))" for c
    by (rule costs_exec [OF s3_select_costs, where b = 10]) (auto intro: s3_enforce_costs split: sum.split)
  then show "costs 14 (case x of Inl err \<Rightarrow> ret (Some err)
    | Inr c \<Rightarrow> exec (s3_select_bucket E d c i) (\<lambda>r. case r of
        Inl result \<Rightarrow> ret result | Inr inst' \<Rightarrow> s3_enforce_bucket E d c inst'))"
    by (simp split: sum.split)
qed simp

lemma NewGcsClient_costs: "costs 3 (NewGcsClient E)"
  by (auto simp: costs_def NewGcsClient_def gcs_calls env_calls wp_simps
      split: prod.split sum.split option.split)

lemma gcs_StorageExists_costs: "costs 4 (gcs_StorageExists E d b)"
  unfolding gcs_StorageExists_def gcs_calls
  by (rule costs_exec [OF NewGcsClient_costs, where b = 1])
    (auto intro!: costs_call_only split: sum.split option.split)

lemma gcs_enforce_costs: "costs 7 (gcs_enforce_bucket E d c i)"
proof -
  have "costs 3 (exec (enforceBucketLabels E d c b) (\<lambda>err. case err of
      Some err \<Rightarrow> ret (f err)
    | None \<Rightarrow> exec (time_Now E) (\<lambda>now. exec (StatusUpdate E (g now)) (\<lambda>(err, inst'). ret err))))" for b f g
  proof (rule costs_exec [where a = 1 and b = 2])
    show "costs 1 (enforceBucketLabels E d c b)"
      unfolding enforceBucketLabels_def current_order_def Let_def gcs_calls
      by (rule costs_exec [where a = 0 and b = 1]) (auto intro!: costs_call_only)
    show "costs 2 (case x of Some err \<Rightarrow> ret (f err)
      | None \<Rightarrow> exec (time_Now E) (\<lambda>now. exec (StatusUpdate E (g now)) (\<lambda>(err, inst'). ret err)))" for x
      unfolding time_Now_def
      by (auto intro!: costs_exec [OF costs_call, where b = 1] status_costs [simplified] split: option.split)
  qed simp
  then show ?thesis
    unfolding gcs_enforce_bucket_def Let_def
    by (intro costs_exec [OF gcs_StorageExists_costs, where b = 3])
      (auto intro: costs_le [OF status_costs] split: sum.split)
qed

lemma gcs_name_costs: "costs 7 (gcs_name_bucket E d c i)"
proof -
  have update: "costs 6 (exec (StatusUpdate E j) (\<lambda>(err, inst'). ret err))" for j
    by (rule costs_le [OF status_costs]) simp
  have checked: "costs 5 (exec (gcs_StorageExists E d n) (\<lambda>r. case r of
      Inl err \<Rightarrow> ret (Some err)
    | Inr b \<Rightarrow> if b then ret (f n) else exec (StatusUpdate E (g n)) (\<lambda>(err, inst'). ret err)))" for n f g
    by (rule costs_exec [OF gcs_StorageExists_costs, where b = 1])
      (auto intro: status_costs [simplified] split: sum.split)
  have name: "costs 1 (gcs_generateBucketName E pfx)" for pfx
    unfolding gcs_generateBucketName_def uuid_New_def by (auto intro: costs_call_only)
  have list: "costs 1 (listBuckets E d c)"
    unfolding listBuckets_def gcs_calls by (auto intro: costs_call_only)
  have new: "costs 6 (exec (gcs_generateBucketName E pfx) (\<lambda>n. exec (gcs_StorageExists E d n) (\<lambda>r. case r of
      Inl err \<Rightarrow> ret (Some err)
    | Inr b \<Rightarrow> if b then ret (f n) else exec (StatusUpdate E (g n)) (\<lambda>(err, inst'). ret err))))" for pfx f g
    by (rule costs_exec [OF name checked]) simp
  show ?thesis
    unfolding gcs_name_bucket_def current_order_def Let_def
    by (rule costs_exec [OF list, where b = 6])
      (auto intro!: costs_exec [where a = 0 and b = 6] update new split: sum.split)
qed

lemma gcs_CreateStorage_costs: "costs 11 (gcs_CreateStorage E d i)"
proof -
  have create: "costs 1 (createBucket E d c b)" for c b
    unfolding createBucket_def gcs_calls by (rule costs_call) simp
  have created: "costs 8 (exec (createBucket E d c b) (\<lambda>err. case err of
      Some err \<Rightarrow> ret (f err) | None \<Rightarrow> gcs_enforce_bucket E d c i))" for c b f
    by (rule costs_exec [OF create, where b = 7]) (auto intro: gcs_enforce_costs split: option.split)
  show ?thesis
    unfolding gcs_CreateStorage_def Let_def
    by (rule costs_exec [OF NewGcsClient_costs, where b = 8])
      (auto intro: created costs_le [OF gcs_enforce_costs] costs_le [OF gcs_name_costs] split: sum.split)
qed

lemma CreateStorage_costs: "costs 16 (CreateStorage E d i)"
  by (cases d) (auto intro: s3_CreateStorage_costs costs_le [OF gcs_CreateStorage_costs])

section \<open>A whole call\<close>

context ensured_object
begin

lemma op_costs: "costs 2 (op E i x)"
  unfolding costs_def by (intro allI wp_mono [OF op_run]) (auto elim!: block_runE)

end

text \<open>What makes no request adds nothing.\<close>

lemma costs_lift: "(\<And>x. costs n (f x)) \<Longrightarrow> costs n (exec (lift_outcome q) f)"
  by (rule costs_exec [where a = 0 and b = n]; simp)

lemma costs_order: "(\<And>x. costs n (f x)) \<Longrightarrow> costs n (exec (current_order E) f)"
  unfolding current_order_def by (rule costs_exec [where a = 0 and b = n]; simp)

lemmas costs_pure = costs_lift costs_order

lemma costs_or_return:
  "costs a m \<Longrightarrow> (\<And>x. costs b (k x)) \<Longrightarrow> a + b \<le> n \<Longrightarrow> costs n (or_return m k)"
  unfolding or_return_def by (rule costs_exec [where a = a and b = b]) (auto split: sum.split)

lemma costs_or_return_pure:
  "(\<And>x. costs n (k x)) \<Longrightarrow> costs n (or_return (lift_outcome q) k)"
  "(\<And>x. costs n (k x)) \<Longrightarrow> costs n (or_return (ret r) k)"
  by (rule costs_or_return [where a = 0 and b = n]; simp)+

text \<open>The six blocks of provisionVelero, two requests each.\<close>

lemma provisionVelero_costs: "costs 12 (provisionVelero E d namespace ps i)"
proof -
  have monitor: "costs 2 (or_return (ensure_ServiceMonitor E x) (\<lambda>y. ret q))"
    for x and q :: "Result \<times> goerror option"
    by (rule costs_or_return [OF monitor.op_costs, where b = 0]) auto
  have service: "costs 4 (or_return (ensure_metrics_Service E i x) (\<lambda>s. case s of
      None \<Rightarrow> ret (requeue, None)
    | Some service \<Rightarrow> exec (current_order E) (\<lambda>ord.
        or_return (ensure_ServiceMonitor E (generateServiceMonitor ord service)) (\<lambda>y. ret q))))"
    for x q
    by (rule costs_or_return [OF metrics.op_costs, where b = 2])
      (auto intro: costs_pure monitor split: option.split)
  show ?thesis
    unfolding provisionVelero_def
    by (intro costs_or_return_pure costs_pure service monitor
        costs_or_return [OF bsl.op_costs, where b = 10] costs_or_return [OF vsl.op_costs, where b = 8]
        costs_or_return [OF cr.op_costs, where b = 6] costs_or_return [OF deployment.op_costs, where b = 4])
      simp_all
qed

lemma Reconcile_costs: "costs 20 (Reconcile E driver request)"
proof -
  have get: "costs 1 (Get h E n ns)" for h :: "('a, 'o) handle" and n ns
    unfolding env_calls by (rule costs_call) simp
  have required: "costs 1 (StorageBucketReconcileRequired E i p)" for i p
    by (auto simp: costs_def StorageBucketReconcileRequired_def env_calls wp_simps
        split: option.split prod.split)
  have driven: "costs 17 (exec (StorageBucketReconcileRequired E i p) (\<lambda>b.
      if b then exec (CreateStorage E d i) (\<lambda>err. ret ((no_requeue, err), Some d))
      else exec (provisionVelero E d ns ps i) (\<lambda>res. ret (res, Some d))))" for i p d ns ps
    by (rule costs_exec [OF required, where b = 16])
      (auto intro: costs_exec [OF CreateStorage_costs, where b = 0]
        costs_exec [OF provisionVelero_costs, where b = 0])
  have status: "costs 18 (exec (GetInfrastructureStatus E) f)" if "\<And>x. costs 17 (f x)" for f
    unfolding GetInfrastructureStatus_def
    by (rule costs_exec [OF costs_call [OF order_refl] that]) simp
  have client: "costs 19 (exec (platformutils_NewClient E) f)" if "\<And>x. costs 18 (f x)" for f
    unfolding platformutils_NewClient_def
    by (rule costs_exec [OF costs_call [OF order_refl] that]) simp
  show ?thesis
    unfolding Reconcile_def
    by (rule costs_exec [OF get, where b = 19])
      (auto intro!: client status costs_pure driven split: sum.split option.split)
qed

end
