(* ===== verification/Spec2Isabelle.thy ===== *)
theory Spec2Isabelle
  imports S3_Properties GCS_Properties Velero_Properties Deep_Copy Working_Sample Request_Bounds
begin

text \<open>
  Managed Velero Operator: a verification development.

  The program. managed-velero-operator is a Kubernetes operator that keeps one installation
  of Velero on an OpenShift cluster, with an object storage bucket for its backups. Its
  process starts in main.go, which registers the types it handles, reads its command line,
  checks its namespace and platform, installs the custom
  resource definitions of Velero (pkg/velero/crds.go) and its own metrics service, and runs
  the controller. The controller (controllers/velero) is called with the name of a
  VeleroInstall. It picks a storage driver for the platform (pkg/storage) and either has the
  driver bring the bucket up to date, which it records in the status of the resource
  (api/v1alpha2), or, once the bucket is there and was synchronised within the hour, puts the
  objects of Velero in place. The parts share no memory but the driver: they meet in the
  status of the resource, which one call writes and the next one reads.

  How it is modelled. A Go function that talks to a service is a function of the world
  (Go_Prelude, type go): it returns a value or panics, leaves a list of the calls it made with
  their results, and a new world. The Kubernetes API server, S3, GCS, the clock, the
  identifiers, the iteration order of Go maps and the imported libraries are one parameter,
  the record E of type env in Env, as are the arguments of the process and the flags that
  imported packages register; no behaviour of theirs is assumed except where a property
  names it. Errors are values of type goerror, by the ways the source inspects them; a
  result (T, error) is a sum. A nil dereference or an index out of range is the outcome
  Panicked. A Go map is a finite map, and a range loop takes an order of its keys from the
  runtime: valid_runtime says that this order has each key once. echoes_status says that the
  server answers a status update with the status it was sent, for times in whole seconds.
  There is no fuel: every loop of the source runs over a list or an iterator that ends, and
  the recursive definitions are total; the command line gets shorter with each flag. Only
  Deep_Copy has pointers, in an explicit memory; everywhere else a struct is its value.

  The theories, with the files they model.
  Go_Prelude: the effect type, its weakest preconditions (wp, the collection wp_simps, the
  rules wp_bindI and wp_mono), errors, maps, strings.
  Kube_Types, Cloud_Types: the data, from veleroinstall_types.go and the imported APIs. Env:
  events, the services, the hypotheses about them. Constants: config/config.go,
  version/version.go, pkg/storage/constants. Api_Registration: groupversion_info.go, the init
  function of veleroinstall_types.go, zz_generated.openapi.go.
  Install_Api: api/v1alpha2/reconcile.go, when the bucket is due and the status update.
  Storage_Spec: the contract of the interface Driver. The bucket of the status is a state
  machine (bucket_step), a run's status updates are a path in it (status_path), and the
  locale storage_driver has the laws of CreateStorage and StorageExists.
  S3_Client, S3_Bucket, S3_Driver: pkg/storage/s3, and GCS_Bucket, GCS_Driver: pkg/storage/gcs.
  Each driver is an interpretation of storage_driver (s3, gcs), and so is the dispatch
  between them in Storage (driver), which models storage.go and base.go. The operations of
  S3_Bucket that send one validated request are interpretations of validated_request.
  Secured_Bucket: what each driver has done to a bucket that it calls synchronised, as the
  locale securing_driver, which extends storage_driver, with an interpretation per driver.
  Velero_Objects: the objects velero.go builds. Ensure_Spec: the contract of a block that
  puts one object in place (block_run, the locale ensured_object). Provision: provisionVelero
  and its six blocks, each an interpretation. Provision_Converges: a cluster that stores
  what it is sent, and what two runs of provisionVelero leave in it. Velero_CRDs: crds.go.
  Controller: Reconcile, and SetupWithManager with the changes it watches.
  Reconcile_Converges: calls of Reconcile on such a cluster.
  Storage_Progress: services that work, seen through a snapshot of the world (view), and the
  locale converging_storage: a run of a driver on them stores a status that is synchronised or
  strictly fewer runs away from it (runs_left, at most three). S3_Progress and GCS_Progress
  have its interpretations by the drivers (s3_conv, gcs_conv), Storage_Converges the one by
  the dispatch (driver_conv). Operator_Converges: five calls of Reconcile from any state.
  Request_Bounds: how many calls of the outside an operation makes (costs).
  Typed_Status: programs typed by the calls they make and the values they return (typed), and
  the statuses that a call of Reconcile sends. Status_Schema: the bound of the resource's
  schema on the name of the bucket. Permissions: the roles and actions of deploy and
  deploy-extras, what each call asks for, and that nothing leaves the namespace.
  Command_Line: the flags of main.go and the parser of the package flag that reads them.
  Operator_Main: init, main and addMetrics. Operator_History: any number of calls of
  Reconcile and restarts of the process, in any worlds (history).
  Deep_Copy: zz_generated.deepcopy.go, over a memory with one map per type of variable. The
  locale deep_copier is the contract of a copier and the locale variables that of a type of
  variable; the copiers of metav1 are parameters that keep the contract (library_copiers).
  Sample, Working_Sample: environments that run, for the instances of the properties with
  hypotheses; in the second every service works, and the server keeps times to the second.
  S3_Properties, GCS_Properties, Velero_Properties and this theory state the properties.

  What the lemmas show. Per operation: which requests it sends, in which order, and what it
  returns on every branch (the wp lemmas of S3_Bucket, GCS_Bucket and the drivers). Per driver:
  a status says synchronised only after the settings were accepted; every change in S3 is one
  of the operator's own requests on one bucket; a service that accepts them leads to the
  synchronisation; a GCS bucket that cannot be created blocks the driver. For the objects:
  they are what the library made plus exactly what the source sets, and the iteration order
  does not show. For the blocks: one lookup, at most one write, and a write that its own
  comparison accepts, hence a run on a settled cluster only reads; and on a cluster that
  stores what it is sent, two runs, and so two calls, put every object in place. For the
  controller: a call either records storage or installs Velero, never both, and over any
  history Velero is only installed on a bucket that was secured before; what it creates leads
  back to it, but for the metrics objects. It returns after a bounded number of calls, sends
  only statuses within the schema, and is granted every request by its roles. From any state,
  on services that work, five calls end with Velero installed: three at most for the bucket,
  two for the objects. For main: every spelling of its flags reaches the manager, its phases
  run in order, and exit code 0 needs the manager's run or a request for help. For the deep
  copies: a copy has the value of its original, field by field, and shares no memory with it.

  What is not modelled. Log calls, contexts, printVersion and the set-up of the logger have
  no effect the source reads. The steps that set up the manager are single calls that
  succeed or fail, with the options they are given; what controller-runtime does with a
  watch is a parameter, and so is what its builder does with the registered types. Of the
  comments that generate files, only the bound on the name and the roles as deployed are
  used. The FIPS build tag and the build tooling are left out: they have no behaviour of their
  own, and neither has the empty map of OpenAPI definitions beyond its value. What a
  predefined role of GCP allows is Google's, so Permissions covers the API server and S3.
  Where a function returns a partial result beside an error that no caller reads, the model
  returns the error alone. A nil slice and an empty one are not told apart outside Deep_Copy,
  where a slice has an array of its own. An object that Create or Update decodes the
  server's answer into is replaced by that answer.
\<close>

section \<open>Choosing a driver\<close>

text \<open>
  NewDriver panics without a platform status. Otherwise it makes a driver exactly when
  the status names AWS with a region, or GCP with a region and a project, and then the
  driver is that platform's, with that region, project and the cluster's name, and says
  so when asked for its platform type; in every other case it returns an error.
\<close>

theorem NewDriver_branches:
  "case is_PlatformStatus cfg of
     None \<Rightarrow> NewDriver cfg = Panicked
   | Some ps \<Rightarrow>
      if usable_platform ps
      then (\<exists>d. NewDriver cfg = Returned (Inr d) \<and> driver_for cfg ps d \<and> GetPlatformType d = pl_Type ps)
      else (\<exists>err. NewDriver cfg = Returned (Inl err))"
proof (cases "is_PlatformStatus cfg")
  case None
  then show ?thesis by (simp add: NewDriver_def)
next
  case (Some ps)
  then show ?thesis using NewDriver_result [OF Some] by auto
qed

section \<open>The storage of a VeleroInstall\<close>

text \<open>
  C10: With either driver, every status update of CreateStorage is a step of the bucket's
  state machine from the status stored before it: a name is set only where there is none,
  dropped only while the bucket is not provisioned, and nothing is marked as provisioned or
  synchronised without a name. So a well-formed bucket stays well formed.
\<close>

theorem CreateStorage_status_path:
  assumes "valid_runtime E" and "echoes_status E" and "whole_seconds (sb_LastSyncTimestamp (vi_Bucket i))"
    and "bucket_wf (vi_Bucket i)"
  shows "wp (CreateStorage E d i)
    (\<lambda>r es w'. status_path (vi_Bucket i) es \<and> bucket_wf (status_after (vi_Bucket i) es)) w"
  by (rule wp_conj [OF driver.status_steps [OF assms(1,2,3)] driver.stored_status_wf [OF assms]])

theorem CreateStorage_status_path_witness:
  "wp (CreateStorage sample_env (S3Driver sample_driver) sample_install)
    (\<lambda>r es w'. status_path (vi_Bucket sample_install) es \<and>
       bucket_wf (status_after (vi_Bucket sample_install) es)) sample_start"
  by (rule CreateStorage_status_path [OF sample_valid_runtime sample_echoes_status])
    (simp_all add: bucket_wf_def sample_install_def whole_seconds_def)

text \<open>
  With either driver, CreateStorage changes nothing in the cluster but the status, and
  when it returns no error its last call is a status update that the server stored.
\<close>

theorem CreateStorage_recorded:
  assumes "valid_runtime E"
  shows "wp (CreateStorage E d i) (\<lambda>r es w'. recorded r es \<and> list_all status_writes_only es) w"
  by (rule wp_conj [OF driver.nil_recorded [OF assms] only_calls_wp [OF driver.only_status]])

theorem CreateStorage_recorded_witness:
  "wp (CreateStorage sample_env (GCSDriver sample_gcs_driver) sample_install)
    (\<lambda>r es w'. recorded r es \<and> list_all status_writes_only es) sample_start"
  by (rule CreateStorage_recorded [OF sample_valid_runtime])

section \<open>Reconcile\<close>

text \<open>
  C39: With the controller's period, StorageBucketReconcileRequired is true exactly when the
  bucket has no name, is not provisioned, was never synchronised, or was last synchronised
  more than an hour before the time the clock shows; it reads the clock at most once, and
  not at all when the answer is clear without it. The saturation of time.Since at 2^63 - 1
  nanoseconds does not change the answer.
\<close>

theorem reconcile_required_hourly:
  "wp (StorageBucketReconcileRequired E i s3ReconcilePeriod)
     (\<lambda>r es w'. \<exists>b now. r = Returned b \<and> b = bucket_stale now 3600000000000 (vi_Bucket i) \<and>
        ((es = [] \<and> w' = w \<and> unsynced (vi_Bucket i)) \<or>
         (es = [Now now] \<and> rt_Now (e_rt E) w = (now, w') \<and> \<not> unsynced (vi_Bucket i)))) w"
  using required [of E i w] by (simp add: s3ReconcilePeriod_def)

text \<open>
  A call of Reconcile stops while it reads what it needs, without a requeue; or it does
  the storage of the resource it read, whose bucket is stale, with the driver it has or has
  made from the infrastructure status; or it provisions Velero, and then the bucket was
  fresh by the clock it read. The result is that of the work, and the driver is kept.
\<close>

theorem Reconcile_phases:
  "wp (Reconcile E driver rq) (\<lambda>r es w'. \<exists>wk. reconcile_run E driver rq r es w' wk) w"
  by (rule Reconcile_run)

text \<open>
  C8: No call of Reconcile both records storage and installs Velero: either its only writes
  to the cluster are status updates, or it sends nothing to a cloud and writes no status,
  its bucket was fresh, and what it writes is what provisionVelero may write.
\<close>

theorem Reconcile_separates:
  "wp (Reconcile E driver rq)
     (\<lambda>r es w'. list_all status_writes_only es \<or> installs_velero E rq es) w"
  by (rule wp_mono [OF Reconcile_run]) (auto dest: reconcile_run_changes)

text \<open>What a call owes the status when it did the storage.\<close>

definition storage_recorded ::
    "work \<Rightarrow> ((Result \<times> goerror option) \<times> Driver option) outcome \<Rightarrow> event list \<Rightarrow> bool" where
  "storage_recorded wk r es =
     (case wk of
        StorageWork d inst \<Rightarrow>
          (whole_seconds (sb_LastSyncTimestamp (vi_Bucket inst)) \<longrightarrow> status_path (vi_Bucket inst) es) \<and>
          (case r of
             Returned ((res, None), d') \<Rightarrow> (\<exists>es' j. es = es' @ [KStatusUpdate j None])
           | _ \<Rightarrow> True)
      | _ \<Rightarrow> True)"

text \<open>
  C16: When a call of Reconcile does the storage, its status updates follow the bucket's
  state machine from the status it read, and if it reports success the last of them was
  stored, which is what triggers the next call: the controller does not stall silently.
\<close>

theorem Reconcile_records_storage:
  assumes "valid_runtime E" and "echoes_status E"
  shows "wp (Reconcile E driver rq)
     (\<lambda>r es w'. \<exists>wk. reconcile_run E driver rq r es w' wk \<and> storage_recorded wk r es) w"
proof (rule wp_mono [OF Reconcile_run], elim exE, goal_cases)
  case (1 r es w' wk)
  have "storage_recorded wk r es"
  proof (cases wk)
    case (StorageWork d inst)
    note run = 1 [unfolded StorageWork]
    have "case r of Returned ((res, None), d') \<Rightarrow> (\<exists>es' j. es = es' @ [KStatusUpdate j None]) | _ \<Rightarrow> True"
      using reconcile_run_recorded [OF _ assms(1)] run by (auto split: outcome.split option.split)
    then show ?thesis
      using reconcile_run_path [OF run assms] by (simp add: storage_recorded_def StorageWork)
  qed (simp_all add: storage_recorded_def)
  with 1 show ?case by blast
qed

theorem Reconcile_records_storage_witness:
  "wp (Reconcile sample_env None sample_request)
     (\<lambda>r es w'. \<exists>wk. reconcile_run sample_env None sample_request r es w' wk \<and> storage_recorded wk r es)
     sample_start"
  by (rule Reconcile_records_storage [OF sample_valid_runtime sample_echoes_status])

text \<open>
  C4: Every status that a call of Reconcile sends keeps the schema of the resource, which
  bounds the name of the bucket by 63 characters, so that the API server never refuses one
  for its name: a new name is the prefix and an identifier of 36 characters, and a recovered
  one is the name of a bucket of the account. This holds with either driver, on every path.
  The account is assumed to have no bucket with a longer name.
\<close>

theorem Reconcile_keeps_schema:
  assumes "valid_runtime E" and "echoes_status E"
    and "\<And>w. length (fst (rt_NewUUID (e_rt E) w)) = 36"
    and "short_listings E" and "stored_in well_stored E"
  shows "only_calls (\<lambda>e. \<forall>j r. e = KStatusUpdate j r \<longrightarrow> schema_accepts j) (Reconcile E driver rq)"
  by (rule only_calls_mono [OF typed_only_calls [OF Reconcile_schema [OF assms(3,4,2,1,5)]]]) auto

theorem Reconcile_keeps_schema_witness:
  "only_calls (\<lambda>e. \<forall>j r. e = KStatusUpdate j r \<longrightarrow> schema_accepts j)
     (Reconcile schema_env None sample_request)"
  by (rule Reconcile_keeps_schema [OF schema_env_fits(1,2,5,3,4)])


text \<open>
  C18: Every object of Velero that the operator creates for a resource is seen again by the
  controller when it changes or disappears, and leads to a call for that resource, except
  for the metrics service and its service monitor: no watch covers these two, so a change to
  them stays until something else triggers a call.
\<close>

theorem created_objects_enqueue:
  assumes "requests_owner (e_lib E) i"
  shows "wp (provisionVelero E d namespace ps i) (\<lambda>r es w'. \<forall>ob err. KCreate ob err \<in> set es \<longrightarrow>
     enqueued (e_lib E) VeleroInstall_watches ob =
       (if kind_of ob \<in> {KindService, KindServiceMonitor} then []
        else [\<lparr>rq_Namespace = om_Namespace (obj_meta ob), rq_Name = om_Name (vi_ObjectMeta i)\<rparr>])) w"
  by (rule wp_mono [OF only_calls_wp [OF provisionVelero_writes]])
    (fastforce simp: list_all_iff dest: velero_writes_seen [OF assms])

theorem created_objects_enqueue_witness:
  "wp (provisionVelero sample_env (S3Driver sample_driver) ''openshift-velero'' None sample_install)
     (\<lambda>r es w'. \<forall>ob err. KCreate ob err \<in> set es \<longrightarrow>
     enqueued (e_lib sample_env) VeleroInstall_watches ob =
       (if kind_of ob \<in> {KindService, KindServiceMonitor} then []
        else [\<lparr>rq_Namespace = om_Namespace (obj_meta ob), rq_Name = om_Name (vi_ObjectMeta sample_install)\<rparr>]))
     sample_start"
  by (rule created_objects_enqueue)
    (auto simp: requests_owner_def sample_env_def sample_lib_def sample_install_def)

text \<open>
  On a cluster whose API server stores what it is sent, two calls of Reconcile put the
  whole installation in place for a resource whose bucket is synchronised, whatever the
  cluster held before, as long as neither call reads the clock more than an hour after the
  synchronisation. The first asks for the second exactly when the metrics service was
  missing, and the second asks for no other.
\<close>

theorem Reconcile_installs:
  assumes "working_cluster E objs" and "can_own (e_lib E) i" and "valid_runtime E"
    and "working_platform E objs infra" and "reconciler_driver driver infra = Returned (Inr d)"
    and "wants E (GetPlatformType d) (rq_Namespace rq) (is_PlatformStatus infra) i lc cr dep"
    and "comparable (e_lib E) objs cr w"
    and "objs w (KindVeleroInstall, rq_Name rq, rq_Namespace rq) = Some (ObjVeleroInstall i)"
    and "\<not> unsynced (vi_Bucket i)"
    and "Reconcile E driver rq w = (r, es, w')" and "Reconcile E (Some d) rq w' = (r', es', w'')"
    and "\<forall>t. Now t \<in> set (es @ es') \<longrightarrow> \<not> bucket_stale t s3ReconcilePeriod (vi_Bucket i)"
  shows "r = Returned ((if objs w (service_key dep) = None then requeue else no_requeue, None), Some d) \<and>
    r' = Returned ((no_requeue, None), Some d) \<and>
    settled E (GetPlatformType d) (rq_Namespace rq) (is_PlatformStatus infra) i w''"
  using assms by (rule Reconcile_two_calls)

text \<open>The two calls on the sample, from a cluster with nothing but a synchronised resource.\<close>

definition installing_calls where
  "installing_calls =
     (case Reconcile sample_env None sample_request synced_world of
        (r, es, w) \<Rightarrow> (r, es, Reconcile sample_env (Some (S3Driver sample_driver)) sample_request w))"

lemma installing_calls_fresh:
  "case installing_calls of (r, es, r', es', w'') \<Rightarrow>
     list_all (\<lambda>t. \<not> bucket_stale t s3ReconcilePeriod (vi_Bucket synced_install)) (times (es @ es'))"
  by code_simp

theorem Reconcile_installs_witness:
  "case installing_calls of (r, es, r', es', w'') \<Rightarrow>
     r = Returned ((requeue, None), Some (S3Driver sample_driver)) \<and>
     r' = Returned ((no_requeue, None), Some (S3Driver sample_driver)) \<and>
     settled sample_env AWSPlatformType ''openshift-velero'' (is_PlatformStatus sample_infra) synced_install w''"
proof -
  let ?d = "S3Driver sample_driver"
  obtain r es w' where one: "Reconcile sample_env None sample_request synced_world = (r, es, w')"
    by (metis prod_cases3)
  obtain r' es' w'' where two: "Reconcile sample_env (Some ?d) sample_request w' = (r', es', w'')"
    by (metis prod_cases3)
  have calls: "installing_calls = (r, es, r', es', w'')"
    by (simp add: installing_calls_def one two)
  have driver: "reconciler_driver None sample_infra = Returned (Inr ?d)" by code_simp
  have platform: "GetPlatformType ?d = AWSPlatformType" by (simp add: s3_GetPlatformType_def)
  have request: "rq_Namespace sample_request = ''openshift-velero''" by (simp add: sample_request_def)
  have none: "sample_objs synced_world (KindCredentialsRequest, meta_key cr_ObjectMeta sample_cr) = None"
    "sample_objs synced_world (service_key sample_dep) = None"
    by code_simp+
  have there: "sample_objs synced_world (KindVeleroInstall, rq_Name sample_request, rq_Namespace sample_request) =
      Some (ObjVeleroInstall synced_install)"
    by code_simp
  have fresh: "\<forall>t. Now t \<in> set (es @ es') \<longrightarrow> \<not> bucket_stale t s3ReconcilePeriod (vi_Bucket synced_install)"
    using installing_calls_fresh unfolding calls by (simp add: list_all_iff in_times_iff)
  have "comparable (e_lib sample_env) sample_objs sample_cr synced_world" and "\<not> unsynced (vi_Bucket synced_install)"
    using none(1) by (simp add: comparable_def) code_simp
  then show ?thesis
    using Reconcile_installs [OF sample_working sample_can_own sample_valid_runtime sample_platform driver _ _ there
        _ one two fresh, unfolded platform request, OF sample_wants] none(2)
    unfolding calls by simp
qed

section \<open>From any state to an installed Velero\<close>



lemma start_holds: "holds sample_view sample_request sample_install sample_start"
  unfolding holds_def sample_view_simps by code_simp


text \<open>
  C3: On services that work, every run of CreateStorage from a status the driver can recover
  from ends without an error and stores one that it can recover from again. The stored
  status either says synchronised, at a time the run read from the clock, for a bucket that
  the account has, or is strictly fewer runs away from that, at most three at the start, and
  keeps the time of the last synchronisation.
\<close>

theorem CreateStorage_progress:
  assumes "driver_works d E V" and "stores_status E V" and "runtime_works E V" and "valid_runtime E"
    and "sn_objs (V w) (install_key i) \<noteq> None" and "driver_fit d (vi_Bucket i) (V w)"
  shows "wp (CreateStorage E d i) (\<lambda>r es w'. r = Returned None \<and>
    (\<exists>j. stores i j (V w) (V w') \<and> driver_fit d (vi_Bucket j) (V w') \<and>
       (synced_by es (vi_Bucket j) (V w') \<or>
        (runs_left (vi_Bucket j) (V w') < runs_left (vi_Bucket i) (V w) \<and>
         sb_LastSyncTimestamp (vi_Bucket j) = sb_LastSyncTimestamp (to_second (vi_Bucket i)))))) w"
  using driver_conv.run_passes [OF assms] by (rule wp_mono) (simp add: pass_def progress_def)

text \<open>A run of the GCS driver on a resource without a status proposes a name.\<close>

theorem CreateStorage_progress_witness:
  "wp (CreateStorage gcs_env (GCSDriver sample_gcs_driver) sample_install) (\<lambda>r es w'. r = Returned None \<and>
    (\<exists>j. stores sample_install j (sample_view sample_start) (sample_view w') \<and>
       driver_fit (GCSDriver sample_gcs_driver) (vi_Bucket j) (sample_view w') \<and>
       (synced_by es (vi_Bucket j) (sample_view w') \<or>
        (runs_left (vi_Bucket j) (sample_view w') < runs_left (vi_Bucket sample_install) (sample_view sample_start) \<and>
         sb_LastSyncTimestamp (vi_Bucket j) = sb_LastSyncTimestamp (to_second (vi_Bucket sample_install)))))) sample_start"
proof -
  have there: "sn_objs (sample_view sample_start) (install_key sample_install) \<noteq> None"
    using start_holds by (simp add: holds_def)
  have fit: "driver_fit (GCSDriver sample_gcs_driver) (vi_Bucket sample_install) (sample_view sample_start)"
    by (simp add: gcs_fit_def sample_install_def)
  have works: "driver_works (GCSDriver sample_gcs_driver) gcs_env sample_view" by (simp add: working_gcs)
  show ?thesis
    by (rule CreateStorage_progress [where V = sample_view and w = sample_start, OF works gcs_status_runtime there fit])
qed

section \<open>The operator over time\<close>

text \<open>
  C1: Over any number of calls and restarts, with the world changing in any way in between,
  the operator writes an object of Velero only for a resource whose bucket it secured in an
  earlier call, under the name the resource has now: on S3, encryption, public access block,
  lifecycle rules and tags were accepted in order; on GCS, the bucket was seen and labelled.
  This needs no more than that a synchronised status that is read was sent before, possibly
  long before, and that the clock does not run backwards.
\<close>

theorem velero_on_secured_bucket:
  assumes "valid_runtime E" and "echoes_status E" and "history E driver tr"
    and "Reconcile E driver rq w = (r, es, w')"
    and "reads_sent [] (tr @ es)" and "sorted (times (tr @ es))"
    and "e \<in> set es" and "is_kube_write e" and "\<not> is_status_update e"
  shows "\<exists>d inst. secured d (sb_Name (vi_Bucket inst)) tr \<and>
    KGet KindVeleroInstall (rq_Name rq) (rq_Namespace rq) (Inr (ObjVeleroInstall inst)) \<in> set es \<and>
    (\<exists>platform ps. velero_writes (e_lib E) platform (rq_Namespace rq) ps inst e)"
  using assms by (rule install_secured)

text \<open>Two calls on the sample: the first creates and synchronises the bucket, the second installs.\<close>

definition two_calls :: "(Driver option \<times> event list) \<times> event list" where
  "two_calls =
     (case Reconcile sample_env None sample_request named_world of
        (r, es, w) \<Rightarrow>
          ((driver_kept r, es), fst (snd (Reconcile sample_env (driver_kept r) sample_request w))))"

lemma two_calls_checked:
  "case two_calls of ((driver, tr), es) \<Rightarrow>
     driver = Some (S3Driver sample_driver) \<and> reads_sent [] (tr @ es) \<and> sorted (times (tr @ es)) \<and>
     list_ex (\<lambda>e. is_kube_write e \<and> \<not> is_status_update e) es"
  by code_simp

lemma two_calls_history:
  obtains r tr w1 r2 es w2 where "Reconcile sample_env None sample_request named_world = (r, tr, w1)"
    and "Reconcile sample_env (driver_kept r) sample_request w1 = (r2, es, w2)"
    and "two_calls = ((driver_kept r, tr), es)" and "history sample_env (driver_kept r) tr"
proof -
  obtain r tr w1 where one: "Reconcile sample_env None sample_request named_world = (r, tr, w1)"
    by (metis prod_cases3)
  moreover obtain r2 es w2 where two: "Reconcile sample_env (driver_kept r) sample_request w1 = (r2, es, w2)"
    by (metis prod_cases3)
  moreover have "history sample_env (driver_kept r) tr"
    using history.reconcile [OF history.nothing one] by simp
  ultimately show ?thesis by (intro that) (simp_all add: two_calls_def)
qed

theorem velero_on_secured_bucket_witness:
  "case two_calls of ((driver, tr), es) \<Rightarrow> \<exists>d inst. secured d (sb_Name (vi_Bucket inst)) tr"
proof (rule two_calls_history, goal_cases)
  case (1 r tr w1 r2 es w2)
  from two_calls_checked have "reads_sent [] (tr @ es)" "sorted (times (tr @ es))"
    "\<exists>e\<in>set es. is_kube_write e \<and> \<not> is_status_update e"
    unfolding 1(3) by (simp_all add: list_ex_iff)
  then show ?case
    using velero_on_secured_bucket [OF sample_valid_runtime sample_echoes_status 1(4,2)]
    unfolding 1(3) by fastforce
qed

text \<open>
  C17: The driver in use was made by NewDriver from an infrastructure status that this
  operator read, however many calls and restarts ago: it is never made from anything else.
\<close>

theorem driver_from_status:
  assumes "history E (Some d) tr"
  shows "\<exists>infra. PlatformStatusRead (Inr infra) \<in> set tr \<and> NewDriver infra = Returned (Inr d)"
  using history_driver [OF assms] by (simp add: made_from_status_def)

theorem driver_from_status_witness:
  "case two_calls of ((driver, tr), es) \<Rightarrow>
     \<exists>infra. PlatformStatusRead (Inr infra) \<in> set tr \<and> NewDriver infra = Returned (Inr (S3Driver sample_driver))"
proof (rule two_calls_history, goal_cases)
  case (1 r tr w1 r2 es w2)
  from two_calls_checked have "driver_kept r = Some (S3Driver sample_driver)"
    unfolding 1(3) by simp
  then show ?case
    using driver_from_status [of sample_env "S3Driver sample_driver" tr] 1(4)
    unfolding 1(3) by simp
qed

section \<open>What the operator is allowed to do\<close>



section \<open>Startup\<close>

text \<open>
  C20: The operator first registers its types and its flags, which panics when one of them
  cannot be registered, and reads its command line, which can end it with its code. Outside
  its namespace it ends with code 1 before any call. Inside it runs its phases in order: the
  manager, the leader lock, the clients, the infrastructure status of a supported platform,
  the definitions of Velero, the controller and its checks, the metrics, and the manager's
  run. The first that fails ends the process with code 1 or a panic.
\<close>

theorem main_order:
  "wp (run_operator E) (\<lambda>r es w'.
     if list_all (\<lambda>g. group_AddToScheme (e_lib E) g = None) scheme_groups \<and>
        list_all (\<lambda>n. lib_Flag (e_lib E) n = None) own_flags
     then
       (case parse_flags (e_lib E) (rt_Args (e_rt E) w) flag_defaults of
          Inl code \<Rightarrow> r = Returned code \<and> es = []
        | Inr v \<Rightarrow>
            if in_namespace E w then main_run (e_lib E) (startup_phases scheme_groups v) r es
            else r = Returned 1 \<and> es = [])
     else r = Panicked \<and> es = []) w"
  by (rule wp_mono [OF operator_cases])
    (auto simp: operator_result_def main_result_def parsed_flags_def register_flags_def
      split: if_splits sum.splits)

text \<open>The manager runs last, after every other phase has succeeded.\<close>

definition manager_last :: "libraries \<Rightarrow> event list \<Rightarrow> bool" where
  "manager_last L es =
     (\<forall>err. Startup StartManager err \<in> set es \<longrightarrow>
        (\<exists>ess. es = concat ess @ [Startup StartManager err] \<and>
           (\<exists>v. list_all2 (\<lambda>p es. phase_run L p (Returned None) es)
              (butlast (startup_phases scheme_groups v)) ess)))"

text \<open>
  C19: The manager is started only after every other phase has succeeded, in order, and
  nothing is called after it; and the process ends with code 0 exactly when it was started
  and returned no error, or when its types and flags were registered and the command line
  asked for help.
\<close>

theorem main_manager_last:
  "wp (run_operator E) (\<lambda>r es w'. manager_last (e_lib E) es \<and>
     (r = Returned 0) = (Startup StartManager None \<in> set es \<or>
        init_scheme (e_lib E) = Returned scheme_groups \<and> parsed_flags E w = Returned (Inl 0))) w"
proof (rule wp_mono [OF operator_cases], goal_cases)
  case (1 r es w')
  show ?case
  proof (cases "\<exists>v. main_run (e_lib E) (startup_phases scheme_groups v) r es \<and>
      parsed_flags E w = Returned (Inr v)")
    case True
    then obtain v where v: "main_run (e_lib E) (startup_phases scheme_groups v) r es"
      "parsed_flags E w = Returned (Inr v)" by blast
    have run: "main_run (e_lib E) (butlast (startup_phases scheme_groups v) @ [Step StartManager]) r es"
      unfolding startup_phases_last(1) [symmetric] by (rule v(1))
    have "manager_last (e_lib E) es"
      unfolding manager_last_def using main_run_ready [OF run startup_phases_last(2)] by blast
    then show ?thesis
      using main_run_exit [OF run startup_phases_last(2)] v(2) by simp
  next
    case False
    with 1 show ?thesis
      by (auto simp: operator_result_def main_result_def manager_last_def init_scheme_result
          split: if_splits outcome.splits sum.splits)
  qed
qed

text \<open>
  C22: However the operator's own flags are spelled on the command line (one or two dashes,
  the value after an equals sign or as the next argument, any spelling of a boolean), in any
  order and with repetitions, parsing them up to the first argument that is no flag sets
  each variable to the last value given, and no other variable.
\<close>

theorem parse_flags_reads_spelling:
  assumes "list_all well_spelled ss" and "flags_end rest"
  shows "parse_flags L (concat (map spell ss) @ rest) v = Inr (fold assign ss v)"
  by (simp only: parse_settings [OF assms(1)] parse_end [OF assms(2)])

theorem parse_flags_reads_spelling_witness:
  "parse_flags (e_lib sample_env) [''-leader-elect'', ''--metrics-bind-address'', '':9090'', ''-leader-elect=F'',
      ''--'', ''-x''] flag_defaults =
     Inr (flag_defaults\<lparr>metricsAddr := '':9090'', enableLeaderElection := False\<rparr>)"
  using parse_flags_reads_spelling
    [of "[LeaderElection False, MetricsAddress True False '':9090'', LeaderElectionValue False ''F'' False]"
        "[''--'', ''-x'']" "e_lib sample_env" flag_defaults]
  by (simp add: spell_value_def dashed_def flags_end_def read_arg_def ParseBool_def flag_defaults_def)



text \<open>
  addMetrics puts the operator's metrics service in place before its service monitor,
  each with one lookup and at most one write, and stops at the first error, which it
  returns; it panics exactly in the case of a constructor that returns no service.
\<close>

theorem addMetrics_order:
  "wp (addMetrics E) (\<lambda>r es w'. metrics_run (e_lib E) r es) w"
  by (rule addMetrics_run)




end
